(* ===== verification/Nitro_Prelude.thy ===== *)
theory Nitro_Prelude
  imports Main "HOL-Library.Word" "HOL-Library.AList" "HOL-Library.List_Lexorder"
    "HOL-Library.Code_Target_Nat"
begin

text \<open>
  Shared vocabulary of the development: the machine types of the Go sources, Go's maps as
  association lists with distinct keys, and the generic facts on them that the component
  theories use.

  A Go map is a list of key/value pairs without repeated keys. The order of the list stands for
  the order in which a \<^verbatim>\<open>range\<close> loop would meet the entries, which Go leaves open: nothing proved
  about a map depends on where an entry sits.
\<close>

type_synonym byte = "8 word"
type_synonym bytes = "byte list"
type_synonym uint64 = "64 word"
type_synonym ('k, 'v) gomap = "('k \<times> 'v) list"

text \<open>
  Facts about lookups after updates (\<open>gomap\<close>), unfolding rules of state queries (\<open>vm_defs\<close>) and
  the facts that carry an invariant across an operation (\<open>preserves\<close>).
\<close>

named_theorems gomap
named_theorems vm_defs
named_theorems preserves

subsection \<open>Go maps\<close>

abbreviation gm_get :: "('k, 'v) gomap \<Rightarrow> 'k \<Rightarrow> 'v option" where
  "gm_get m k \<equiv> map_of m k"

abbreviation gm_put :: "'k \<Rightarrow> 'v \<Rightarrow> ('k, 'v) gomap \<Rightarrow> ('k, 'v) gomap" where
  "gm_put k v m \<equiv> AList.update k v m"

abbreviation gm_del :: "'k \<Rightarrow> ('k, 'v) gomap \<Rightarrow> ('k, 'v) gomap" where
  "gm_del k m \<equiv> AList.delete k m"

abbreviation gm_keys :: "('k, 'v) gomap \<Rightarrow> 'k list" where
  "gm_keys m \<equiv> map fst m"

abbreviation gm_wf :: "('k, 'v) gomap \<Rightarrow> bool" where
  "gm_wf m \<equiv> distinct (map fst m)"

lemma gm_get_put [gomap, simp]: "gm_get (gm_put k v m) k' = (if k' = k then Some v else gm_get m k')"
  by (simp add: update_conv')

lemma gm_get_del [gomap, simp]: "gm_get (gm_del k m) k' = (if k' = k then None else gm_get m k')"
  by (simp add: delete_conv')

lemma gm_wf_put [preserves, intro]: "gm_wf m \<Longrightarrow> gm_wf (gm_put k v m)"
  by (rule distinct_update)

lemma gm_wf_del [preserves, intro]: "gm_wf m \<Longrightarrow> gm_wf (gm_del k m)"
  by (rule distinct_delete)

lemma set_keys_put [gomap]: "fst ` set (gm_put k v m) = insert k (fst ` set m)"
  by (simp add: dom_update)

lemma set_gm_put_subset: "set (gm_put k v m) \<subseteq> insert (k, v) (set m)"
  by (induction m) auto

lemma gm_get_in_keys: "gm_get m k = Some v \<Longrightarrow> k \<in> fst ` set m"
  by (force dest: map_of_SomeD)

lemma gm_get_None_keys: "gm_get m k = None \<longleftrightarrow> k \<notin> fst ` set m"
  by (rule map_of_eq_None_iff)

lemma gm_put_same: "gm_get m k = Some v \<Longrightarrow> gm_put k v m = m"
  by (induction m) (auto split: if_splits)

lemma gm_put_snoc: "gm_get m k = None \<Longrightarrow> gm_put k v m = m @ [(k, v)]"
  by (induction m) (auto split: if_splits)

lemma gm_put_append: "gm_get m k = Some w \<Longrightarrow> gm_put k v (m @ m') = gm_put k v m @ m'"
  by (induction m) (auto split: if_splits)

lemma gm_del_put_new: "gm_get m k = None \<Longrightarrow> gm_del k (gm_put k v m) = m"
  by (induction m) (auto split: if_splits)

text \<open>A well-formed map all of whose entries satisfy a predicate.\<close>

definition gm_all :: "('k \<Rightarrow> 'v \<Rightarrow> bool) \<Rightarrow> ('k, 'v) gomap \<Rightarrow> bool" where
  "gm_all P m \<longleftrightarrow> gm_wf m \<and> list_all (\<lambda>(k, v). P k v) m"

lemma gm_all_get: "gm_all P m \<Longrightarrow> gm_get m k = Some v \<Longrightarrow> P k v"
  by (auto simp: gm_all_def list_all_iff)

lemma gm_all_iff: "gm_all P m \<longleftrightarrow> gm_wf m \<and> (\<forall>k v. gm_get m k = Some v \<longrightarrow> P k v)"
  by (fastforce simp: gm_all_def list_all_iff)

lemma gm_all_Nil [simp]: "gm_all P []"
  by (simp add: gm_all_def)

lemma gm_all_put [preserves]: "gm_all P m \<Longrightarrow> P k v \<Longrightarrow> gm_all P (gm_put k v m)"
  using set_gm_put_subset [of k v m] by (fastforce simp: gm_all_def list_all_iff distinct_update)

lemma gm_all_del [preserves]: "gm_all P m \<Longrightarrow> gm_all P (gm_del k m)"
  unfolding gm_all_iff by (simp add: distinct_delete)

lemma gm_all_mono: "gm_all P m \<Longrightarrow> (\<And>k v. gm_get m k = Some v \<Longrightarrow> P k v \<Longrightarrow> Q k v) \<Longrightarrow> gm_all Q m"
  unfolding gm_all_iff by blast

text \<open>The total of a measure over the values of a map, and its change under one update.\<close>

definition gm_sum :: "('v \<Rightarrow> int) \<Rightarrow> ('k, 'v) gomap \<Rightarrow> int" where
  "gm_sum f m = sum_list (map (\<lambda>kv. f (snd kv)) m)"

lemma gm_sum_Nil [simp]: "gm_sum f [] = 0"
  by (simp add: gm_sum_def)

lemma gm_sum_Cons [simp]: "gm_sum f (kv # m) = f (snd kv) + gm_sum f m"
  by (simp add: gm_sum_def)

lemma gm_sum_put:
  "gm_sum f (gm_put k v m) = gm_sum f m - (case gm_get m k of None \<Rightarrow> 0 | Some w \<Rightarrow> f w) + f v"
  by (induction m) auto

subsection \<open>Unsigned 64-bit arithmetic\<close>

lemma unat_add_no_wrap:
  fixes a b :: uint64
  assumes "unat a + unat b < 2 ^ 64"
  shows "unat (a + b) = unat a + unat b"
  using assms by (simp add: unat_word_ariths)

lemma uint64_bound [simp]: "unat (a :: uint64) < 2 ^ 64"
  using unsigned_less [of a] by simp

end
