(* ===== verification/Go_Std.thy ===== *)
theory Go_Std
  imports Nitro_Prelude
begin

text \<open>
  The parts of Go's standard library the sources compute with: \<^verbatim>\<open>encoding/hex\<close>, decimal text of
  \<^verbatim>\<open>math/big\<close> and \<^verbatim>\<open>strconv\<close>, \<^verbatim>\<open>encoding/binary\<close>'s big-endian integers and the quoting of
  \<^verbatim>\<open>fmt\<close>'s \<^verbatim>\<open>%q\<close>. A Go string is a sequence of bytes, here a HOL \<^typ>\<open>string\<close>.
\<close>

subsection \<open>Bytes and characters\<close>

definition char_of_byte :: "byte \<Rightarrow> char" where
  "char_of_byte b = char_of (unat b)"

definition byte_of_char :: "char \<Rightarrow> byte" where
  "byte_of_char c = of_nat (of_char c)"

lemma byte_of_char_of_byte [simp]: "byte_of_char (char_of_byte b) = b"
proof -
  have "unat b < 256" using unsigned_less [of b] by simp
  then show ?thesis by (simp add: byte_of_char_def char_of_byte_def)
qed

lemma char_of_byte_of_char [simp]: "char_of_byte (byte_of_char c) = c"
proof -
  have "(of_char c :: nat) < 256" by simp
  then show ?thesis
    by (simp add: byte_of_char_def char_of_byte_def unat_of_nat)
qed

subsection \<open>\<^verbatim>\<open>encoding/hex\<close>\<close>

datatype hex_error = InvalidByteError char | ErrLength

definition hex_digit :: "nat \<Rightarrow> char" where
  "hex_digit n = (if n < 10 then char_of (48 + n) else char_of (87 + n))"

definition fromHexChar :: "char \<Rightarrow> nat option" where
  "fromHexChar ch = (let c = (of_char ch :: nat) in
     if 48 \<le> c \<and> c \<le> 57 then Some (c - 48)
     else if 97 \<le> c \<and> c \<le> 102 then Some (c - 87)
     else if 65 \<le> c \<and> c \<le> 70 then Some (c - 55)
     else None)"

primrec hex_EncodeToString :: "bytes \<Rightarrow> string" where
  "hex_EncodeToString [] = []"
| "hex_EncodeToString (b # bs) =
     hex_digit (unat b div 16) # hex_digit (unat b mod 16) # hex_EncodeToString bs"

fun hex_DecodeString :: "string \<Rightarrow> hex_error + bytes" where
  "hex_DecodeString [] = Inr []"
| "hex_DecodeString [c] =
     (case fromHexChar c of None \<Rightarrow> Inl (InvalidByteError c) | Some _ \<Rightarrow> Inl ErrLength)"
| "hex_DecodeString (c # d # cs) =
     (case fromHexChar c of None \<Rightarrow> Inl (InvalidByteError c)
      | Some h \<Rightarrow> (case fromHexChar d of None \<Rightarrow> Inl (InvalidByteError d)
        | Some l \<Rightarrow> (case hex_DecodeString cs of Inl e \<Rightarrow> Inl e
          | Inr bs \<Rightarrow> Inr (of_nat (16 * h + l) # bs))))"

lemma fromHexChar_hex_digit [simp]: "n < 16 \<Longrightarrow> fromHexChar (hex_digit n) = Some n"
  by (auto simp: fromHexChar_def hex_digit_def Let_def)

lemma length_hex_Encode [simp]: "length (hex_EncodeToString bs) = 2 * length bs"
  by (induction bs) auto

lemma hex_Decode_Encode [simp]: "hex_DecodeString (hex_EncodeToString bs) = Inr bs"
proof (induction bs)
  case Nil
  then show ?case by simp
next
  case (Cons b bs)
  have "unat b div 16 < 16" using unsigned_less [of b] by (simp add: div_less_iff_less_mult)
  moreover have "16 * (unat b div 16) + unat b mod 16 = unat b" by simp
  ultimately show ?case using Cons.IH by (simp del: of_nat_add of_nat_mult)
qed

lemma hex_Encode_inject [simp]: "hex_EncodeToString a = hex_EncodeToString b \<longleftrightarrow> a = b"
  by (metis hex_Decode_Encode sum.inject(2))

lemma length_hex_Decode: "hex_DecodeString s = Inr bs \<Longrightarrow> length s = 2 * length bs"
  by (induction s arbitrary: bs rule: hex_DecodeString.induct)
    (auto split: option.splits sum.splits)

lemma hex_Decode_even: "even (length s) \<Longrightarrow> hex_DecodeString s \<noteq> Inl ErrLength"
  by (induction s rule: hex_DecodeString.induct) (auto split: option.splits sum.splits)

lemma hex_Decode_ok_iff:
  "(\<exists>bs. hex_DecodeString s = Inr bs) \<longleftrightarrow>
     even (length s) \<and> (\<forall>c\<in>set s. fromHexChar c \<noteq> None)"
  by (induction s rule: hex_DecodeString.induct) (auto split: option.splits sum.splits)

lemma hex_digit_not_x: "n < 16 \<Longrightarrow> hex_digit n \<noteq> CHR ''x'' \<and> hex_digit n \<noteq> CHR ''X''"
  by (auto simp: hex_digit_def dest!: arg_cong [where f = "of_char :: char \<Rightarrow> nat"])

subsection \<open>Decimal text\<close>

definition dec_digit :: "nat \<Rightarrow> char" where
  "dec_digit n = char_of (48 + n)"

definition digit_val :: "char \<Rightarrow> nat option" where
  "digit_val ch = (let c = (of_char ch :: nat) in if 48 \<le> c \<and> c \<le> 57 then Some (c - 48) else None)"

fun dec_nat :: "nat \<Rightarrow> string" where
  "dec_nat n = (if n < 10 then [dec_digit n] else dec_nat (n div 10) @ [dec_digit (n mod 10)])"

declare dec_nat.simps [simp del]

fun scan_digits :: "nat \<Rightarrow> string \<Rightarrow> nat option" where
  "scan_digits acc [] = Some acc"
| "scan_digits acc (c # cs) =
     (case digit_val c of None \<Rightarrow> None | Some d \<Rightarrow> scan_digits (10 * acc + d) cs)"

definition parse_nat :: "string \<Rightarrow> nat option" where
  "parse_nat s = (if s = [] then None else scan_digits 0 s)"

text \<open>\<^verbatim>\<open>(*big.Int).SetString(s, 10)\<close>: an optional sign and at least one digit, nothing after.\<close>

definition big_SetString :: "string \<Rightarrow> int option" where
  "big_SetString s = (case s of
       [] \<Rightarrow> None
     | c # cs \<Rightarrow>
         if c = CHR ''-'' then map_option (\<lambda>n. - int n) (parse_nat cs)
         else if c = CHR ''+'' then map_option int (parse_nat cs)
         else map_option int (parse_nat s))"

text \<open>\<^verbatim>\<open>(*big.Int).String()\<close> and \<^verbatim>\<open>%d\<close>.\<close>

definition big_String :: "int \<Rightarrow> string" where
  "big_String i = (if i < 0 then CHR ''-'' # dec_nat (nat (- i)) else dec_nat (nat i))"

text \<open>\<^verbatim>\<open>strconv.ParseUint(s, 10, 64)\<close>: digits only, within the range of the type.\<close>

definition ParseUint64 :: "string \<Rightarrow> uint64 option" where
  "ParseUint64 s = (case parse_nat s of None \<Rightarrow> None
     | Some n \<Rightarrow> if n < 2 ^ 64 then Some (of_nat n) else None)"

lemma digit_val_dec_digit [simp]: "n < 10 \<Longrightarrow> digit_val (dec_digit n) = Some n"
  by (simp add: digit_val_def dec_digit_def Let_def)

lemma dec_digit_range: "n < 10 \<Longrightarrow> dec_digit n \<noteq> CHR ''-'' \<and> dec_digit n \<noteq> CHR ''+''"
  by (auto simp: dec_digit_def dest!: arg_cong [where f = "of_char :: char \<Rightarrow> nat"])

lemma scan_digits_append:
  "scan_digits acc (s @ t) = Option.bind (scan_digits acc s) (\<lambda>a. scan_digits a t)"
  by (induction s arbitrary: acc) (auto split: option.splits)

lemma dec_nat_not_Nil [simp]: "dec_nat n \<noteq> []"
  by (subst dec_nat.simps) simp

lemma scan_digits_dec_nat: "scan_digits 0 (dec_nat n) = Some n"
proof (induction n rule: dec_nat.induct)
  case (1 n)
  show ?case
    using 1 by (cases "n < 10")
      (simp_all add: dec_nat.simps [of n] scan_digits_append)
qed

lemma parse_dec_nat [simp]: "parse_nat (dec_nat n) = Some n"
  by (simp add: parse_nat_def scan_digits_dec_nat)

lemma dec_nat_inject [simp]: "dec_nat m = dec_nat n \<longleftrightarrow> m = n"
  by (metis option.inject parse_dec_nat)

lemma set_dec_nat: "c \<in> set (dec_nat n) \<Longrightarrow> \<exists>d < 10. c = dec_digit d"
proof (induction n rule: dec_nat.induct)
  case (1 n)
  have "n mod 10 < 10" by simp
  with 1 show ?case
    by (cases "n < 10") (auto simp: dec_nat.simps [of n] simp del: mod_less_divisor)
qed

lemma big_SetString_String [simp]: "big_SetString (big_String i) = Some i"
proof (cases "i < 0")
  case True
  then show ?thesis by (simp add: big_String_def big_SetString_def)
next
  case False
  obtain c cs where eq: "dec_nat (nat i) = c # cs"
    by (cases "dec_nat (nat i)") auto
  then have "\<exists>d < 10. c = dec_digit d"
    using set_dec_nat [of c "nat i"] by simp
  then have "c \<noteq> CHR ''-''" "c \<noteq> CHR ''+''"
    using dec_digit_range by auto
  then show ?thesis
    using False parse_dec_nat [of "nat i"] eq
    by (simp add: big_String_def big_SetString_def)
qed

lemma ParseUint64_dec [simp]: "ParseUint64 (dec_nat (unat (n :: uint64))) = Some n"
  using uint64_bound [of n] by (simp add: ParseUint64_def)

subsection \<open>Big-endian integers\<close>

primrec be_bytes :: "nat \<Rightarrow> nat \<Rightarrow> bytes" where
  "be_bytes 0 n = []"
| "be_bytes (Suc k) n = be_bytes k (n div 256) @ [of_nat (n mod 256)]"

definition be_PutUint64 :: "uint64 \<Rightarrow> bytes" where
  "be_PutUint64 n = be_bytes 8 (unat n)"

primrec be_nat :: "nat \<Rightarrow> bytes \<Rightarrow> nat" where
  "be_nat acc [] = acc"
| "be_nat acc (b # bs) = be_nat (256 * acc + unat b) bs"

lemma length_be_bytes [simp]: "length (be_bytes k n) = k"
  by (induction k arbitrary: n) auto

lemma length_be_PutUint64 [simp]: "length (be_PutUint64 n) = 8"
  by (simp add: be_PutUint64_def)

lemma be_nat_append: "be_nat acc (xs @ ys) = be_nat (be_nat acc xs) ys"
  by (induction xs arbitrary: acc) auto

lemma be_nat_be_bytes: "n < 256 ^ k \<Longrightarrow> be_nat 0 (be_bytes k n) = n"
proof (induction k arbitrary: n)
  case 0
  then show ?case by simp
next
  case (Suc k)
  then have "n div 256 < 256 ^ k"
    by (simp add: div_less_iff_less_mult mult.commute)
  then have "be_nat 0 (be_bytes k (n div 256)) = n div 256" by (rule Suc.IH)
  then show ?case by (simp add: be_nat_append unat_of_nat)
qed

lemma be_nat_PutUint64: "be_nat 0 (be_PutUint64 n) = unat n"
  using uint64_bound [of n] by (simp add: be_PutUint64_def be_nat_be_bytes)

lemma be_PutUint64_inject [simp]: "be_PutUint64 a = be_PutUint64 b \<longleftrightarrow> a = b"
  by (metis be_nat_PutUint64 word_unat_eq_iff)

subsection \<open>Quoting\<close>

text \<open>
  \<^verbatim>\<open>%q\<close> on the ASCII range. A byte of 128 or more is part of a UTF-8 sequence and is left as it is,
  which is what the quoting does to printable characters.
\<close>

definition quote_char :: "char \<Rightarrow> string" where
  "quote_char c = (let n = (of_char c :: nat) in
     if n = 34 then [CHR 0x5C, CHR 0x22]
     else if n = 92 then [CHR 0x5C, CHR 0x5C]
     else if n = 7 then [CHR 0x5C, CHR ''a'']
     else if n = 8 then [CHR 0x5C, CHR ''b'']
     else if n = 9 then [CHR 0x5C, CHR ''t'']
     else if n = 10 then [CHR 0x5C, CHR ''n'']
     else if n = 11 then [CHR 0x5C, CHR ''v'']
     else if n = 12 then [CHR 0x5C, CHR ''f'']
     else if n = 13 then [CHR 0x5C, CHR ''r'']
     else if n < 32 \<or> n = 127 then [CHR 0x5C, CHR ''x'', hex_digit (n div 16), hex_digit (n mod 16)]
     else [c])"

definition go_quote :: "string \<Rightarrow> string" where
  "go_quote s = CHR 0x22 # concat (map quote_char s) @ [CHR 0x22]"

end
