(* ===== verification/Core_Errors.thy ===== *)
theory Core_Errors
  imports Go_Std
begin

text \<open>
  \<^verbatim>\<open>core/errors.go\<close>: the sentinel errors, and Go's error values as the sources build them.
  \<open>CoreErr e\<close> is a sentinel itself, \<open>PlainErr s\<close> an error with text \<open>s\<close> that wraps nothing,
  \<open>WrapErr p e\<close> is \<^verbatim>\<open>fmt.Errorf("p: %w", e)\<close> and \<open>DetailErr e s\<close> is
  \<^verbatim>\<open>fmt.Errorf("%w: s", e)\<close>. \<open>Error\<close> is the text of an error, \<open>errors_Is\<close> walks the wrapping chain.
\<close>

datatype core_error =
    ErrOutOfGas | ErrCodeNotFound | ErrContractNotFound | ErrAccountNotFound
  | ErrInsufficientFunds | ErrInvalidAddress | ErrContractError | ErrMaxDispatchDepth
  | ErrUnsupportedMsg | ErrInvalidNonce | ErrInvalidSignature | ErrInvalidChainID
  | ErrInvalidTxType | ErrGasPriceTooLow | ErrReplyFailed | ErrUnsupportedDenom
  | ErrCodeTooLarge | ErrStorageError

primrec core_error_text :: "core_error \<Rightarrow> string" where
  "core_error_text ErrOutOfGas = ''out of gas''"
| "core_error_text ErrCodeNotFound = ''code not found''"
| "core_error_text ErrContractNotFound = ''contract not found''"
| "core_error_text ErrAccountNotFound = ''account not found''"
| "core_error_text ErrInsufficientFunds = ''insufficient funds''"
| "core_error_text ErrInvalidAddress = ''invalid address''"
| "core_error_text ErrContractError = ''contract error''"
| "core_error_text ErrMaxDispatchDepth = ''max sub-message dispatch depth exceeded''"
| "core_error_text ErrUnsupportedMsg = ''unsupported message type''"
| "core_error_text ErrInvalidNonce = ''invalid nonce''"
| "core_error_text ErrInvalidSignature = ''invalid signature''"
| "core_error_text ErrInvalidChainID = ''invalid chain ID''"
| "core_error_text ErrInvalidTxType = ''invalid transaction type''"
| "core_error_text ErrGasPriceTooLow = ''gas price below minimum''"
| "core_error_text ErrReplyFailed = ''reply handler failed''"
| "core_error_text ErrUnsupportedDenom = ''unsupported denomination''"
| "core_error_text ErrCodeTooLarge = ''code size exceeds maximum''"
| "core_error_text ErrStorageError = ''storage error''"

datatype go_error =
    CoreErr core_error
  | PlainErr string
  | WrapErr string go_error
  | DetailErr core_error string

primrec Error :: "go_error \<Rightarrow> string" where
  "Error (CoreErr e) = core_error_text e"
| "Error (PlainErr s) = s"
| "Error (WrapErr p e) = p @ '': '' @ Error e"
| "Error (DetailErr e s) = core_error_text e @ '': '' @ s"

primrec errors_Is :: "go_error \<Rightarrow> core_error \<Rightarrow> bool" where
  "errors_Is (CoreErr e) t = (e = t)"
| "errors_Is (PlainErr s) t = False"
| "errors_Is (WrapErr p e) t = errors_Is e t"
| "errors_Is (DetailErr e s) t = (e = t)"

text \<open>Texts of the errors of \<^verbatim>\<open>encoding/hex\<close>; \<^verbatim>\<open>%#U\<close> prints a code point and, if printable, itself.\<close>

definition upper_hex_digit :: "nat \<Rightarrow> char" where
  "upper_hex_digit n = (if n < 10 then char_of (48 + n) else char_of (55 + n))"

definition printable_char :: "char \<Rightarrow> bool" where
  "printable_char c = (let n = (of_char c :: nat) in 32 \<le> n \<and> n \<le> 126 \<or> 161 \<le> n \<and> n \<noteq> 173)"

definition utf8_char :: "char \<Rightarrow> string" where
  "utf8_char c = (let n = (of_char c :: nat) in
     if n < 128 then [c] else [char_of (192 + n div 64), char_of (128 + n mod 64)])"

primrec hex_error_text :: "hex_error \<Rightarrow> string" where
  "hex_error_text (InvalidByteError c) =
     ''encoding/hex: invalid byte: U+00''
       @ [upper_hex_digit (of_char c div 16), upper_hex_digit (of_char c mod 16)]
       @ (if printable_char c then '' '' @ [CHR 0x27] @ utf8_char c @ [CHR 0x27] else [])"
| "hex_error_text ErrLength = ''encoding/hex: odd length hex string''"

end
