(* ===== verification/Go_Sha256.thy ===== *)
theory Go_Sha256
  imports Go_Std
begin

text \<open>
  \<^verbatim>\<open>crypto/sha256\<close>, which \<^verbatim>\<open>core.CreateContractAddress\<close> hashes with, as FIPS 180-4 defines it:
  32-bit words, the message schedule, the 64 rounds and the padding, all executable.
\<close>

unbundle bit_operations_syntax

type_synonym word32 = "32 word"

definition rotr32 :: "nat \<Rightarrow> word32 \<Rightarrow> word32" where
  "rotr32 n w = drop_bit n w OR push_bit (32 - n) w"

definition sha_k :: "word32 list" where
  "sha_k =
    [0x428a2f98, 0x71374491, 0xb5c0fbcf, 0xe9b5dba5,
     0x3956c25b, 0x59f111f1, 0x923f82a4, 0xab1c5ed5,
     0xd807aa98, 0x12835b01, 0x243185be, 0x550c7dc3,
     0x72be5d74, 0x80deb1fe, 0x9bdc06a7, 0xc19bf174,
     0xe49b69c1, 0xefbe4786, 0x0fc19dc6, 0x240ca1cc,
     0x2de92c6f, 0x4a7484aa, 0x5cb0a9dc, 0x76f988da,
     0x983e5152, 0xa831c66d, 0xb00327c8, 0xbf597fc7,
     0xc6e00bf3, 0xd5a79147, 0x06ca6351, 0x14292967,
     0x27b70a85, 0x2e1b2138, 0x4d2c6dfc, 0x53380d13,
     0x650a7354, 0x766a0abb, 0x81c2c92e, 0x92722c85,
     0xa2bfe8a1, 0xa81a664b, 0xc24b8b70, 0xc76c51a3,
     0xd192e819, 0xd6990624, 0xf40e3585, 0x106aa070,
     0x19a4c116, 0x1e376c08, 0x2748774c, 0x34b0bcb5,
     0x391c0cb3, 0x4ed8aa4a, 0x5b9cca4f, 0x682e6ff3,
     0x748f82ee, 0x78a5636f, 0x84c87814, 0x8cc70208,
     0x90befffa, 0xa4506ceb, 0xbef9a3f7, 0xc67178f2]"

definition sha_h0 :: "word32 list" where
  "sha_h0 =
    [0x6a09e667, 0xbb67ae85, 0x3c6ef372, 0xa54ff53a,
     0x510e527f, 0x9b05688c, 0x1f83d9ab, 0x5be0cd19]"

definition small_sigma0 :: "word32 \<Rightarrow> word32" where
  "small_sigma0 x = rotr32 7 x XOR rotr32 18 x XOR drop_bit 3 x"

definition small_sigma1 :: "word32 \<Rightarrow> word32" where
  "small_sigma1 x = rotr32 17 x XOR rotr32 19 x XOR drop_bit 10 x"

definition big_sigma0 :: "word32 \<Rightarrow> word32" where
  "big_sigma0 x = rotr32 2 x XOR rotr32 13 x XOR rotr32 22 x"

definition big_sigma1 :: "word32 \<Rightarrow> word32" where
  "big_sigma1 x = rotr32 6 x XOR rotr32 11 x XOR rotr32 25 x"

definition sha_ch :: "word32 \<Rightarrow> word32 \<Rightarrow> word32 \<Rightarrow> word32" where
  "sha_ch x y z = (x AND y) XOR (NOT x AND z)"

definition sha_maj :: "word32 \<Rightarrow> word32 \<Rightarrow> word32 \<Rightarrow> word32" where
  "sha_maj x y z = (x AND y) XOR (x AND z) XOR (y AND z)"

text \<open>The schedule window holds the last sixteen words, oldest first; each round consumes one.\<close>

definition next_word :: "word32 list \<Rightarrow> word32" where
  "next_word ws = small_sigma1 (ws ! 14) + ws ! 9 + small_sigma0 (ws ! 1) + ws ! 0"

type_synonym sha_state = "word32 \<times> word32 \<times> word32 \<times> word32 \<times> word32 \<times> word32 \<times> word32 \<times> word32"

definition sha_shift :: "word32 \<Rightarrow> word32 \<Rightarrow> sha_state \<Rightarrow> sha_state" where
  "sha_shift t1 t2 st = (case st of (a, b, c, d, e, f, g, h) \<Rightarrow> (t1 + t2, a, b, c, d + t1, e, f, g))"

definition sha_round :: "word32 \<Rightarrow> word32 \<Rightarrow> sha_state \<Rightarrow> sha_state" where
  "sha_round k w st = (case st of (a, b, c, d, e, f, g, h) \<Rightarrow>
     sha_shift (h + big_sigma1 e + sha_ch e f g + k + w) (big_sigma0 a + sha_maj a b c) st)"

fun sha_rounds :: "word32 list \<Rightarrow> word32 list \<Rightarrow> sha_state \<Rightarrow> sha_state" where
  "sha_rounds [] ws st = st"
| "sha_rounds (k # ks) ws st =
     sha_rounds ks (tl ws @ [next_word ws]) (sha_round k (hd ws) st)"

definition sha_compress :: "sha_state \<Rightarrow> word32 list \<Rightarrow> sha_state" where
  "sha_compress st blk = (case st of (a, b, c, d, e, f, g, h) \<Rightarrow>
     (case sha_rounds sha_k blk st of (a', b', c', d', e', f', g', h') \<Rightarrow>
       (a + a', b + b', c + c', d + d', e + e', f + f', g + g', h + h')))"

fun words_of_bytes :: "bytes \<Rightarrow> word32 list" where
  "words_of_bytes (a # b # c # d # bs) =
     (push_bit 24 (ucast a) OR push_bit 16 (ucast b) OR push_bit 8 (ucast c) OR ucast d) # words_of_bytes bs"
| "words_of_bytes _ = []"

definition sha_pad :: "bytes \<Rightarrow> bytes" where
  "sha_pad m = m @ [0x80] @ replicate ((119 - length m mod 64) mod 64) 0
     @ be_PutUint64 (of_nat (8 * length m))"

fun sha_blocks :: "nat \<Rightarrow> sha_state \<Rightarrow> word32 list \<Rightarrow> sha_state" where
  "sha_blocks 0 st ws = st"
| "sha_blocks (Suc n) st ws = sha_blocks n (sha_compress st (take 16 ws)) (drop 16 ws)"

definition sha_init :: sha_state where
  "sha_init = (sha_h0 ! 0, sha_h0 ! 1, sha_h0 ! 2, sha_h0 ! 3, sha_h0 ! 4, sha_h0 ! 5, sha_h0 ! 6, sha_h0 ! 7)"

definition sha_sum :: "bytes \<Rightarrow> sha_state" where
  "sha_sum m = (let ws = words_of_bytes (sha_pad m) in sha_blocks (length ws div 16) sha_init ws)"

definition sha256_Sum :: "bytes \<Rightarrow> bytes" where
  "sha256_Sum m = (case sha_sum m of (a, b, c, d, e, f, g, h) \<Rightarrow>
     concat (map (\<lambda>w. [ucast (drop_bit 24 w), ucast (drop_bit 16 w), ucast (drop_bit 8 w), ucast w])
       [a, b, c, d, e, f, g, h]))"

lemma length_sha256_Sum [simp]: "length (sha256_Sum m) = 32"
  by (simp add: sha256_Sum_def split: prod.splits)

lemma length_sha_pad: "64 dvd length (sha_pad m)"
proof -
  define r where "r = length m mod 64"
  have r: "r < 64" by (simp add: r_def)
  have "(r + ((119 - r) mod 64 + 9)) mod 64 = 0"
  proof (cases "r \<le> 55")
    case True
    then have "(119 - r) mod 64 = 55 - r"
      by (subst mod_if) (simp add: mod_if)
    with True show ?thesis by simp
  next
    case False
    with r show ?thesis by simp
  qed
  then have "(length m + ((119 - r) mod 64 + 9)) mod 64 = 0"
    unfolding r_def by (metis mod_add_left_eq)
  moreover have "length (sha_pad m) = length m + ((119 - r) mod 64 + 9)"
    by (simp add: sha_pad_def r_def)
  ultimately show ?thesis by (simp only: dvd_eq_mod_eq_0)
qed

end
