(* ===== verification/Core_Address.thy ===== *)
theory Core_Address
  imports Core_Errors Go_Sha256
begin

text \<open>
  \<^verbatim>\<open>core/address.go\<close>: the 20-byte addresses, their hex form and the derivation of contract
  addresses. An \<^verbatim>\<open>Address\<close> is a byte list; Go's array type fixes its length to 20, which is the
  predicate \<open>is_address\<close> here, and every operation that makes an address is shown to establish it.
\<close>

type_synonym address = bytes

definition is_address :: "bytes \<Rightarrow> bool" where
  "is_address a \<longleftrightarrow> length a = 20"

definition ZeroAddress :: address where
  "ZeroAddress = replicate 20 0"

definition TrimHexPrefix :: "string \<Rightarrow> string" where
  "TrimHexPrefix s = (case s of
       a # b # rest \<Rightarrow>
         if a = CHR ''0'' \<and> (b = CHR ''x'' \<or> b = CHR ''X'') then rest else s
     | _ \<Rightarrow> s)"

definition HexToAddress :: "string \<Rightarrow> go_error + address" where
  "HexToAddress s0 = (let s = TrimHexPrefix s0 in
     if length s \<noteq> 40 then
       Inl (PlainErr (''invalid address length: got '' @ dec_nat (length s) @ '' hex chars, want 40''))
     else (case hex_DecodeString s of
       Inl e \<Rightarrow> Inl (WrapErr ''invalid hex'' (PlainErr (hex_error_text e)))
     | Inr b \<Rightarrow> Inr b))"

text \<open>\<^verbatim>\<open>copy(addr[20-len(b):], b)\<close> leaves zeros before the bytes of \<open>b\<close>.\<close>

definition BytesToAddress :: "bytes \<Rightarrow> address" where
  "BytesToAddress b0 = (let b = (if length b0 > 20 then drop (length b0 - 20) b0 else b0) in
     replicate (20 - length b) 0 @ b)"

definition Hex :: "address \<Rightarrow> string" where
  "Hex a = ''0x'' @ hex_EncodeToString a"

definition Address_String :: "address \<Rightarrow> string" where
  "Address_String a = Hex a"

definition Address_IsZero :: "address \<Rightarrow> bool" where
  "Address_IsZero a \<longleftrightarrow> a = ZeroAddress"

definition Address_Bytes :: "address \<Rightarrow> bytes" where
  "Address_Bytes a = a"

definition CreateContractAddress :: "address \<Rightarrow> bytes \<Rightarrow> uint64 \<Rightarrow> address" where
  "CreateContractAddress creator codeID instanceID =
     BytesToAddress (sha256_Sum (creator @ codeID @ be_PutUint64 instanceID))"

subsection \<open>Shape of addresses\<close>

lemma is_address_Zero [simp]: "is_address ZeroAddress"
  by (simp add: is_address_def ZeroAddress_def)

lemma is_address_BytesToAddress [preserves, simp]: "is_address (BytesToAddress b)"
  by (auto simp: is_address_def BytesToAddress_def Let_def)

lemma is_address_Create [preserves, simp]: "is_address (CreateContractAddress c i n)"
  by (simp add: CreateContractAddress_def)

lemma BytesToAddress_id: "is_address a \<Longrightarrow> BytesToAddress a = a"
  by (simp add: is_address_def BytesToAddress_def)

lemma HexToAddress_is_address [preserves]: "HexToAddress s = Inr a \<Longrightarrow> is_address a"
  by (auto simp: HexToAddress_def is_address_def Let_def dest: length_hex_Decode
      split: if_splits sum.splits)

lemma Hex_inject [simp]: "Hex a = Hex b \<longleftrightarrow> a = b"
  by (simp add: Hex_def)

lemma TrimHexPrefix_Hex [simp]: "TrimHexPrefix (Hex a) = hex_EncodeToString a"
  by (simp add: TrimHexPrefix_def Hex_def)

lemma HexToAddress_Hex [simp]: "is_address a \<Longrightarrow> HexToAddress (Hex a) = Inr a"
  by (simp add: HexToAddress_def is_address_def)

lemma TrimHexPrefix_digits: "TrimHexPrefix (hex_EncodeToString bs) = hex_EncodeToString bs"
proof (cases bs)
  case (Cons b bs')
  have "hex_digit (unat b mod 16) \<noteq> CHR ''x'' \<and> hex_digit (unat b mod 16) \<noteq> CHR ''X''"
    by (rule hex_digit_not_x) simp
  with Cons show ?thesis by (simp add: TrimHexPrefix_def)
qed (simp add: TrimHexPrefix_def)

lemma HexToAddress_ok_iff:
  "(\<exists>a. HexToAddress s = Inr a) \<longleftrightarrow>
     length (TrimHexPrefix s) = 40 \<and> (\<forall>c\<in>set (TrimHexPrefix s). fromHexChar c \<noteq> None)"
  using hex_Decode_ok_iff [of "TrimHexPrefix s"]
  by (auto simp: HexToAddress_def Let_def split: sum.splits)

text \<open>
  C34. Parsing the hex form of a 20-byte address gives the address back, with the prefix \<^verbatim>\<open>Hex\<close> prints,
  with the prefix \<^verbatim>\<open>0X\<close> and with none; different addresses print differently; and the parser accepts a
  string if and only if it is 40 hex digits after an optional prefix, its result then being 20 bytes.
\<close>

theorem address_hex_roundtrip:
  assumes "is_address a"
  shows "HexToAddress (Hex a) = Inr a
    \<and> HexToAddress (''0X'' @ hex_EncodeToString a) = Inr a
    \<and> HexToAddress (hex_EncodeToString a) = Inr a
    \<and> (Hex a = Hex b \<longleftrightarrow> a = b)
    \<and> ((\<exists>c. HexToAddress s = Inr c \<and> is_address c)
        \<longleftrightarrow> length (TrimHexPrefix s) = 40 \<and> (\<forall>x\<in>set (TrimHexPrefix s). fromHexChar x \<noteq> None))"
proof -
  have "TrimHexPrefix (''0X'' @ d) = d" for d by (simp add: TrimHexPrefix_def)
  moreover have "HexToAddress t = Inr a" if "TrimHexPrefix t = hex_EncodeToString a" for t
    using assms that HexToAddress_Hex [OF assms] by (simp add: HexToAddress_def)
  ultimately show ?thesis
    using HexToAddress_ok_iff [of s] by (auto simp: TrimHexPrefix_digits HexToAddress_is_address)
qed

theorem address_hex_roundtrip_witness:
  "is_address (replicate 20 171) \<and> HexToAddress (Hex (replicate 20 171)) = Inr (replicate 20 171)"
  using address_hex_roundtrip [of "replicate 20 171"] by (simp add: is_address_def)

end
