(* ===== verification/Core_Amount.thy ===== *)
theory Core_Amount
  imports Core_Errors
begin

text \<open>
  \<^verbatim>\<open>core/amount.go\<close>: token quantities over \<^verbatim>\<open>*big.Int\<close>, whose nil pointer counts as zero. The model
  keeps the pointer (\<open>None\<close> for nil), so that the zero value of the struct and an explicit zero are
  different values that every operation must treat alike.
\<close>

record Amount =
  amt_v :: "int option"

definition Amount_val :: "Amount \<Rightarrow> int" where
  "Amount_val a = (case amt_v a of Some i \<Rightarrow> i | None \<Rightarrow> 0)"

definition NewAmount :: "uint64 \<Rightarrow> Amount" where
  "NewAmount n = \<lparr>amt_v = Some (int (unat n))\<rparr>"

definition parseNonNegativeBigInt :: "string \<Rightarrow> go_error + int" where
  "parseNonNegativeBigInt s = (case big_SetString s of
       None \<Rightarrow> Inl (PlainErr (''invalid amount: '' @ go_quote s))
     | Some i \<Rightarrow> if i < 0 then Inl (PlainErr (''negative amount: '' @ go_quote s)) else Inr i)"

definition NewAmountFromString :: "string \<Rightarrow> go_error + Amount" where
  "NewAmountFromString s = (case parseNonNegativeBigInt s of
       Inl e \<Rightarrow> Inl e
     | Inr i \<Rightarrow> Inr \<lparr>amt_v = Some i\<rparr>)"

text \<open>\<^verbatim>\<open>MustNewAmount\<close> panics on a parse error; the panic is the value \<open>None\<close>.\<close>

definition MustNewAmount :: "string \<Rightarrow> Amount option" where
  "MustNewAmount s = (case NewAmountFromString s of Inl e \<Rightarrow> None | Inr a \<Rightarrow> Some a)"

definition Amount_Zero :: Amount where
  "Amount_Zero = \<lparr>amt_v = None\<rparr>"

definition Amount_Add :: "Amount \<Rightarrow> Amount \<Rightarrow> Amount" where
  "Amount_Add a b = \<lparr>amt_v = Some (Amount_val a + Amount_val b)\<rparr>"

definition Amount_Sub :: "Amount \<Rightarrow> Amount \<Rightarrow> go_error + Amount" where
  "Amount_Sub a b = (let result = Amount_val a - Amount_val b in
     if result < 0 then Inl (CoreErr ErrInsufficientFunds) else Inr \<lparr>amt_v = Some result\<rparr>)"

definition Amount_Mul :: "Amount \<Rightarrow> Amount \<Rightarrow> Amount" where
  "Amount_Mul a b = \<lparr>amt_v = Some (Amount_val a * Amount_val b)\<rparr>"

definition Amount_Cmp :: "Amount \<Rightarrow> Amount \<Rightarrow> int" where
  "Amount_Cmp a b =
     (if Amount_val a < Amount_val b then -1 else if Amount_val a = Amount_val b then 0 else 1)"

definition Amount_Equal :: "Amount \<Rightarrow> Amount \<Rightarrow> bool" where
  "Amount_Equal a b \<longleftrightarrow> Amount_Cmp a b = 0"

definition Amount_GT :: "Amount \<Rightarrow> Amount \<Rightarrow> bool" where
  "Amount_GT a b \<longleftrightarrow> Amount_Cmp a b > 0"

definition Amount_LT :: "Amount \<Rightarrow> Amount \<Rightarrow> bool" where
  "Amount_LT a b \<longleftrightarrow> Amount_Cmp a b < 0"

definition Amount_DeepCopy :: "Amount \<Rightarrow> Amount" where
  "Amount_DeepCopy a = (case amt_v a of None \<Rightarrow> \<lparr>amt_v = None\<rparr> | Some i \<Rightarrow> \<lparr>amt_v = Some i\<rparr>)"

definition Amount_IsZero :: "Amount \<Rightarrow> bool" where
  "Amount_IsZero a \<longleftrightarrow> amt_v a = None \<or> amt_v a = Some 0"

definition Amount_String :: "Amount \<Rightarrow> string" where
  "Amount_String a = big_String (Amount_val a)"

text \<open>
  A JSON document as \<^verbatim>\<open>encoding/json\<close> hands it to \<^verbatim>\<open>UnmarshalJSON\<close>: a string with its escapes
  resolved, a number by its literal, or something else. Decoding \<^verbatim>\<open>null\<close> into a string succeeds and
  leaves it empty.
\<close>

datatype json_text = JNull | JString string | JNumber string | JOther string

primrec json_raw :: "json_text \<Rightarrow> string" where
  "json_raw JNull = ''null''"
| "json_raw (JString s) = go_quote s"
| "json_raw (JNumber n) = n"
| "json_raw (JOther t) = t"

definition Amount_MarshalJSON :: "Amount \<Rightarrow> json_text" where
  "Amount_MarshalJSON a = JString (Amount_String a)"

definition Amount_UnmarshalJSON :: "json_text \<Rightarrow> go_error + Amount" where
  "Amount_UnmarshalJSON data = (case data of
       JString s \<Rightarrow> NewAmountFromString s
     | JNull \<Rightarrow> NewAmountFromString []
     | JNumber n \<Rightarrow> NewAmountFromString n
     | JOther t \<Rightarrow> Inl (PlainErr (''amount must be a string or number, got '' @ t)))"

lemmas amount_defs = Amount_val_def NewAmount_def Amount_Zero_def Amount_Add_def Amount_Sub_def
  Amount_Mul_def Amount_DeepCopy_def Amount_IsZero_def Amount_Cmp_def Amount_Equal_def
  Amount_GT_def Amount_LT_def

subsection \<open>Non-negative amounts\<close>

definition Amount_wf :: "Amount \<Rightarrow> bool" where
  "Amount_wf a \<longleftrightarrow> 0 \<le> Amount_val a"

lemma Amount_val_simps [simp]:
  "Amount_val (NewAmount n) = int (unat n)"
  "Amount_val Amount_Zero = 0"
  "Amount_val (Amount_Add a b) = Amount_val a + Amount_val b"
  "Amount_val (Amount_Mul a b) = Amount_val a * Amount_val b"
  "Amount_val (Amount_DeepCopy a) = Amount_val a"
  "Amount_val \<lparr>amt_v = Some i\<rparr> = i"
  by (auto simp: amount_defs split: option.splits)

lemma Amount_DeepCopy_id [simp]: "Amount_DeepCopy a = a"
  by (cases a) (simp add: Amount_DeepCopy_def split: option.splits)

lemma Amount_IsZero_val [simp]: "Amount_IsZero a \<longleftrightarrow> Amount_val a = 0"
  by (auto simp: amount_defs split: option.splits)

lemma Amount_Sub_Inr:
  "Amount_Sub a b = Inr c \<longleftrightarrow>
     Amount_val b \<le> Amount_val a \<and> c = \<lparr>amt_v = Some (Amount_val a - Amount_val b)\<rparr>"
  by (auto simp: Amount_Sub_def Let_def)

lemma Amount_Sub_Inl:
  "Amount_Sub a b = Inl e \<longleftrightarrow> Amount_val a < Amount_val b \<and> e = CoreErr ErrInsufficientFunds"
  by (auto simp: Amount_Sub_def Let_def)

lemma NewAmountFromString_Inr:
  "NewAmountFromString s = Inr a \<longleftrightarrow>
     (\<exists>i. big_SetString s = Some i \<and> 0 \<le> i \<and> a = \<lparr>amt_v = Some i\<rparr>)"
  by (auto simp: NewAmountFromString_def parseNonNegativeBigInt_def
      split: option.splits sum.splits if_splits)

lemma Amount_wf_intros [preserves, intro]:
  "Amount_wf (NewAmount n)"
  "Amount_wf Amount_Zero"
  "Amount_wf a \<Longrightarrow> Amount_wf b \<Longrightarrow> Amount_wf (Amount_Add a b)"
  "Amount_wf a \<Longrightarrow> Amount_wf b \<Longrightarrow> Amount_wf (Amount_Mul a b)"
  "Amount_Sub a b = Inr c \<Longrightarrow> Amount_wf c"
  "NewAmountFromString s = Inr a \<Longrightarrow> Amount_wf a"
  by (auto simp: Amount_wf_def Amount_Sub_Inr NewAmountFromString_Inr)

text \<open>
  C37. Amounts survive their text form: the decimal string of a non-negative amount parses back
  to an amount of the same value, directly and through the JSON encoding of \<^verbatim>\<open>MarshalJSON\<close>.
\<close>

theorem amount_text_roundtrip:
  assumes "Amount_wf a"
  shows "NewAmountFromString (Amount_String a) = Inr \<lparr>amt_v = Some (Amount_val a)\<rparr>
    \<and> (\<exists>b. Amount_UnmarshalJSON (Amount_MarshalJSON a) = Inr b \<and> Amount_Equal b a)"
  using assms
  by (auto simp: Amount_wf_def Amount_String_def Amount_MarshalJSON_def Amount_UnmarshalJSON_def
      NewAmountFromString_Inr Amount_Equal_def Amount_Cmp_def)

theorem amount_text_roundtrip_witness:
  "Amount_wf Amount_Zero \<and>
   NewAmountFromString (Amount_String Amount_Zero) = Inr \<lparr>amt_v = Some 0\<rparr>"
proof -
  have h: "Amount_wf Amount_Zero" by (simp add: Amount_wf_def)
  show ?thesis using h amount_text_roundtrip [OF h] by simp
qed


text \<open>
  C39. Subtraction is exact or refused: \<^verbatim>\<open>Sub\<close> fails with \<^verbatim>\<open>ErrInsufficientFunds\<close> exactly when the
  result would be negative, and otherwise adding the subtrahend back gives the original value, for
  nil amounts as well; \<^verbatim>\<open>LT\<close> decides which of the two happens.
\<close>

theorem amount_sub_spec:
  "(case Amount_Sub a b of
      Inl e \<Rightarrow> Amount_LT a b \<and> errors_Is e ErrInsufficientFunds
    | Inr c \<Rightarrow> \<not> Amount_LT a b \<and> Amount_wf c \<and> Amount_Equal (Amount_Add c b) a)"
  by (auto simp: Amount_Sub_def Amount_wf_def Let_def Amount_LT_def Amount_Equal_def Amount_Cmp_def)

end
