(* ===== verification/Core_Types.thy ===== *)
theory Core_Types
  imports Core_Address Core_Amount
begin

text \<open>
  \<^verbatim>\<open>core/account.go\<close>, \<^verbatim>\<open>core/config.go\<close> and \<^verbatim>\<open>core/result.go\<close>, and the message types of wasmvm that
  they and the runtime exchange. A Go struct is a record, a pointer or a slice that may be nil an
  option. A nil slice and an empty one are the same where the code only measures or ranges over it.
\<close>

subsection \<open>Messages, events and results of contracts\<close>

record coin =
  Denom :: string
  coin_amount :: string

record event_attribute =
  ea_key :: string
  ea_value :: string

record event =
  ev_type :: string
  ev_attributes :: "event_attribute list"

datatype ReplyOn = ReplyAlways | ReplyError | ReplySuccess | ReplyNever

record send_msg =
  send_to :: string
  send_amount :: "coin list"

record bank_msg =
  bank_Send :: "send_msg option"

record execute_msg =
  exec_contract :: string
  exec_msg :: bytes
  exec_funds :: "coin list"

record instantiate_msg =
  inst_codeID :: uint64
  inst_msg :: bytes
  inst_label :: string
  inst_funds :: "coin list"

record wasm_msg =
  wasm_Execute :: "execute_msg option"
  wasm_Instantiate :: "instantiate_msg option"

record cosmos_msg =
  msg_Bank :: "bank_msg option"
  msg_Wasm :: "wasm_msg option"

record sub_msg =
  sub_ID :: uint64
  sub_Msg :: cosmos_msg
  sub_Payload :: bytes
  sub_ReplyOn :: ReplyOn

record response =
  resp_Messages :: "sub_msg list"
  resp_Data :: "bytes option"
  resp_Attributes :: "event_attribute list"
  resp_Events :: "event list"

record contract_result =
  cr_Ok :: "response option"
  cr_Err :: string

record query_result =
  qr_Ok :: "bytes option"
  qr_Err :: string

datatype sub_msg_result =
    SubOk "event list" "bytes option"
  | SubErr string

record reply =
  rep_ID :: uint64
  rep_Payload :: bytes
  rep_Result :: sub_msg_result

record env =
  env_height :: uint64
  env_time :: uint64
  env_chainID :: string
  env_contract :: string

record message_info =
  info_sender :: string
  info_funds :: "coin list"

record balance_query =
  bq_address :: string
  bq_denom :: string

record bank_query =
  bankq_Balance :: "balance_query option"
  bankq_AllBalances :: "string option"

record smart_query =
  sq_contract :: string
  sq_msg :: bytes

record wasm_query =
  wasmq_Smart :: "smart_query option"

record query_request =
  req_Bank :: "bank_query option"
  req_Wasm :: "wasm_query option"

text \<open>What a chain query answers; the bank answers are marshalled to JSON by the code.\<close>

datatype query_response =
    BalanceResponse coin
  | AllBalancesResponse "coin list"
  | SmartResponse "bytes option"

subsection \<open>\<^verbatim>\<open>core\<close>\<close>

record Account =
  acct_Address :: address
  acct_Balance :: Amount
  acct_Nonce :: uint64
  acct_CodeHash :: "bytes option"

definition DefaultGasLimit :: uint64 where "DefaultGasLimit = 10000000"
definition DefaultMemoryLimit :: "32 word" where "DefaultMemoryLimit = 256"
definition DefaultCacheSize :: "32 word" where "DefaultCacheSize = 100"

record Config =
  DataDir :: string
  MemoryLimit :: "32 word"
  CacheSize :: "32 word"
  PrintDebug :: bool
  cfg_ChainID :: string

definition DefaultConfig :: Config where
  "DefaultConfig = \<lparr>DataDir = ''.'', MemoryLimit = DefaultMemoryLimit, CacheSize = DefaultCacheSize,
     PrintDebug = True, cfg_ChainID = ''nitrovm-1''\<rparr>"

record ExecuteResult =
  er_Data :: "bytes option"
  er_Attributes :: "event_attribute list"
  er_Events :: "event list"
  er_GasUsed :: uint64

record ContractInfo =
  ci_Address :: string
  ci_CodeID :: string
  ci_Label :: string
  ci_Creator :: string

record InstantiateResult =
  ir_ContractAddress :: address
  ir_Data :: "bytes option"
  ir_Attributes :: "event_attribute list"
  ir_Events :: "event list"
  ir_GasUsed :: uint64

end
