(* ===== verification/Storage_Iface.thy ===== *)
theory Storage_Iface
  imports Core_Address "HOL-Library.Sublist" "HOL-Library.Multiset"
begin

text \<open>
  \<^verbatim>\<open>storage/storage.go\<close>: the adapter interface of the per-contract key-value stores. A Go byte slice
  that may be nil is a \<^typ>\<open>bytes option\<close>. The contract of an adapter is the locale
  \<open>storage_adapter\<close>, stated over the abstract content of a store (per contract, a partial map from
  keys to values); \<open>snapshotable\<close> is the optional interface the VM looks for. The iterators of both
  backends pre-load their results; they are identical code and are modelled once here.
\<close>

datatype Order = Ascending | Descending

type_synonym kvPair = "bytes \<times> bytes option"
type_synonym kv_content = "address \<Rightarrow> bytes \<rightharpoonup> bytes"

definition nil_append :: "bytes \<Rightarrow> bytes option" where
  \<comment> \<open>\<^verbatim>\<open>append([]byte(nil), v...)\<close> of an empty slice is nil\<close>
  "nil_append v = (if v = [] then None else Some v)"

definition slice_bytes :: "bytes option \<Rightarrow> bytes" where
  "slice_bytes v = (case v of None \<Rightarrow> [] | Some b \<Rightarrow> b)"

definition in_range :: "bytes option \<Rightarrow> bytes option \<Rightarrow> bytes \<Rightarrow> bool" where
  \<comment> \<open>the bounds as the interface reads them: nil is unbounded, the start inclusive, the end exclusive\<close>
  "in_range start end k \<longleftrightarrow>
     (case start of None \<Rightarrow> True | Some s \<Rightarrow> s \<le> k) \<and> (case end of None \<Rightarrow> True | Some e \<Rightarrow> k < e)"

definition order_sorted :: "Order \<Rightarrow> bytes list \<Rightarrow> bool" where
  "order_sorted ord ks \<longleftrightarrow> (case ord of
       Ascending \<Rightarrow> sorted ks \<and> distinct ks
     | Descending \<Rightarrow> sorted (rev ks) \<and> distinct ks)"

subsection \<open>Iterators\<close>

record sliceIterator =
  it_pairs :: "kvPair list"
  it_pos :: nat

definition it_Valid :: "sliceIterator \<Rightarrow> bool" where
  "it_Valid it \<longleftrightarrow> it_pos it < length (it_pairs it)"

definition it_Next :: "sliceIterator \<Rightarrow> sliceIterator" where
  "it_Next it = it\<lparr>it_pos := it_pos it + 1\<rparr>"

definition it_Key :: "sliceIterator \<Rightarrow> bytes option" where
  "it_Key it = (if \<not> it_Valid it then None else Some (fst (it_pairs it ! it_pos it)))"

definition it_Value :: "sliceIterator \<Rightarrow> bytes option" where
  "it_Value it = (if \<not> it_Valid it then None else snd (it_pairs it ! it_pos it))"

text \<open>A client's loop \<^verbatim>\<open>for it.Valid() { use it.Key(), it.Value(); it.Next() }\<close>.\<close>

function it_drain :: "sliceIterator \<Rightarrow> kvPair list" where
  "it_drain it = (if it_Valid it
     then (case it_Key it of None \<Rightarrow> [] | Some k \<Rightarrow> [(k, it_Value it)]) @ it_drain (it_Next it)
     else [])"
  by pat_completeness auto
termination
  by (relation "measure (\<lambda>it. length (it_pairs it) - it_pos it)")
    (auto simp: it_Valid_def it_Next_def)

declare it_drain.simps [simp del]

lemma it_drain_drop: "it_drain it = drop (it_pos it) (it_pairs it)"
proof (induction it rule: it_drain.induct)
  case (1 it)
  show ?case
  proof (cases "it_Valid it")
    case True
    then have "it_drain (it_Next it) = drop (it_pos it + 1) (it_pairs it)"
      using 1 by (simp add: it_Next_def)
    with True show ?thesis
      by (simp add: it_drain.simps [of it] it_Key_def it_Value_def it_Valid_def Cons_nth_drop_Suc)
  next
    case False
    then show ?thesis by (simp add: it_drain.simps [of it] it_Valid_def)
  qed
qed

subsection \<open>The interfaces\<close>

locale storage_adapter =
  fixes invar :: "'s \<Rightarrow> bool"
    and content :: "'s \<Rightarrow> kv_content"
    and get :: "'s \<Rightarrow> address \<Rightarrow> bytes \<Rightarrow> (go_error + bytes option) \<times> 's"
    and set :: "'s \<Rightarrow> address \<Rightarrow> bytes \<Rightarrow> bytes option \<Rightarrow> go_error option \<times> 's"
    and del :: "'s \<Rightarrow> address \<Rightarrow> bytes \<Rightarrow> go_error option \<times> 's"
    and range :: "'s \<Rightarrow> address \<Rightarrow> bytes option \<Rightarrow> bytes option \<Rightarrow> Order \<Rightarrow> (go_error + sliceIterator) \<times> 's"
  assumes get_state: "invar s \<Longrightarrow> snd (get s a k) = s"
    and get_absent: "invar s \<Longrightarrow> content s a k = None \<Longrightarrow> fst (get s a k) = Inr None"
    and get_present: "invar s \<Longrightarrow> content s a k = Some v \<Longrightarrow> v \<noteq> [] \<Longrightarrow> fst (get s a k) = Inr (Some v)"
    and set_ok: "invar s \<Longrightarrow> fst (set s a k (Some v)) = None"
    and set_invar: "invar s \<Longrightarrow> invar (snd (set s a k (Some v)))"
    and set_content: "invar s \<Longrightarrow>
      content (snd (set s a k (Some v))) = (content s)(a := (content s a)(k \<mapsto> v))"
    and del_ok: "invar s \<Longrightarrow> fst (del s a k) = None"
    and del_invar: "invar s \<Longrightarrow> invar (snd (del s a k))"
    and del_content: "invar s \<Longrightarrow> content (snd (del s a k)) = (content s)(a := (content s a)(k := None))"
    and range_state: "invar s \<Longrightarrow> snd (range s a lo hi ord) = s"
    and range_ok: "invar s \<Longrightarrow> \<exists>it. fst (range s a lo hi ord) = Inr it \<and> it_pos it = 0
      \<and> order_sorted ord (map fst (it_pairs it))
      \<and> fst ` List.set (it_pairs it) = {k. content s a k \<noteq> None \<and> in_range lo hi k}
      \<and> (\<forall>(k, v) \<in> List.set (it_pairs it). content s a k = Some (slice_bytes v))"
begin

lemma get_after_set:
  assumes "invar s" "v \<noteq> []"
  shows "fst (get (snd (set s a k (Some v))) a k) = Inr (Some v)"
  using assms by (intro get_present) (simp_all add: set_invar set_content)

lemma get_after_del:
  assumes "invar s"
  shows "fst (get (snd (del s a k)) a k) = Inr None"
  using assms by (intro get_absent) (simp_all add: del_invar del_content)

lemma get_cases:
  assumes "invar s" "content s a k \<noteq> Some []"
  shows "fst (get s a k) = Inr (content s a k)"
  using assms by (cases "content s a k") (auto simp: get_absent get_present)

lemma get_set_other:
  assumes "invar s" "(a', k') \<noteq> (a, k)" "content s a' k' \<noteq> Some []"
  shows "fst (get (snd (set s a k (Some v))) a' k') = fst (get s a' k')"
proof -
  have "content (snd (set s a k (Some v))) a' k' = content s a' k'"
    using assms by (auto simp: set_content)
  then show ?thesis
    using assms by (simp add: get_cases set_invar)
qed

lemma get_del_other:
  assumes "invar s" "(a', k') \<noteq> (a, k)" "content s a' k' \<noteq> Some []"
  shows "fst (get (snd (del s a k)) a' k') = fst (get s a' k')"
proof -
  have "content (snd (del s a k)) a' k' = content s a' k'"
    using assms by (auto simp: del_content)
  then show ?thesis
    using assms by (simp add: get_cases del_invar)
qed

text \<open>Draining a range iterator lists exactly the entries within the bounds, in order.\<close>

lemma range_drain:
  assumes "invar s"
  obtains it where "fst (range s a lo hi ord) = Inr it"
    and "order_sorted ord (map fst (it_drain it))"
    and "fst ` List.set (it_drain it) = {k. content s a k \<noteq> None \<and> in_range lo hi k}"
    and "\<forall>(k, v) \<in> List.set (it_drain it). content s a k = Some (slice_bytes v)"
proof -
  obtain it where it: "fst (range s a lo hi ord) = Inr it" "it_pos it = 0"
    "order_sorted ord (map fst (it_pairs it))"
    "fst ` List.set (it_pairs it) = {k. content s a k \<noteq> None \<and> in_range lo hi k}"
    "\<forall>(k, v) \<in> List.set (it_pairs it). content s a k = Some (slice_bytes v)"
    using range_ok [OF assms, of a lo hi ord] by blast
  have d: "it_drain it = it_pairs it" by (simp add: it_drain_drop it(2))
  show thesis by (rule that [OF it(1)]; unfold d; rule it)
qed

end

text \<open>
  \<^verbatim>\<open>Snapshotable\<close>: a snapshot taken of \<open>s\<close> and restored into \<open>t\<close> gives back \<open>s\<close>, for every \<open>t\<close> that is a
  later state of the same object (\<open>same\<close>).
\<close>

locale snapshotable =
  fixes same :: "'s \<Rightarrow> 's \<Rightarrow> bool"
    and Snapshot :: "'s \<Rightarrow> 'snap"
    and Restore :: "'snap \<Rightarrow> 's \<Rightarrow> 's"
  assumes Restore_Snapshot: "same s t \<Longrightarrow> Restore (Snapshot s) t = s"
    and same_refl: "same s s"
    and same_sym: "same s t \<Longrightarrow> same t s"
begin

text \<open>Two branches tried from one snapshot start from the same state.\<close>

lemma retry: "same s t \<Longrightarrow> same s u \<Longrightarrow> Restore (Snapshot s) t = Restore (Snapshot s) u"
  by (simp add: Restore_Snapshot)

text \<open>A nested snapshot does not disturb the outer one.\<close>

lemma nested: "same s t \<Longrightarrow> same t u \<Longrightarrow> Restore (Snapshot s) (Restore (Snapshot t) u) = s"
  by (simp add: Restore_Snapshot)

lemma Snapshot_Restore: "same s t \<Longrightarrow> Snapshot (Restore (Snapshot s) t) = Snapshot s"
  by (simp add: Restore_Snapshot)

lemma Snapshot_inject: "same s t \<Longrightarrow> Snapshot s = Snapshot t \<Longrightarrow> s = t"
  by (metis Restore_Snapshot same_refl same_sym)

end

end
