(* ===== verification/Storage_Memory.thy ===== *)
theory Storage_Memory
  imports Storage_Iface
begin

text \<open>
  \<^verbatim>\<open>storage/memory/memory.go\<close>: the in-memory adapter, nested maps from contract addresses to keys to
  values. The lock is not part of the model: every operation holds it for its whole body, so the
  operations are atomic steps. A stored value is always \<^verbatim>\<open>append([]byte(nil), value...)\<close>, so an empty
  value is stored as nil; the model stores the byte list and \<open>[]\<close> is that nil.
\<close>

record mem_store =
  ms_data :: "(address, (bytes, bytes) gomap) gomap"

definition mem_New :: mem_store where
  "mem_New = \<lparr>ms_data = []\<rparr>"

definition mem_Get :: "mem_store \<Rightarrow> address \<Rightarrow> bytes \<Rightarrow> bytes option" where
  "mem_Get s contractAddr key = (case gm_get (ms_data s) contractAddr of
       Some m \<Rightarrow> (case gm_get m key of Some v \<Rightarrow> nil_append v | None \<Rightarrow> None)
     | None \<Rightarrow> None)"

definition mem_Set :: "mem_store \<Rightarrow> address \<Rightarrow> bytes \<Rightarrow> bytes option \<Rightarrow> mem_store" where
  "mem_Set s contractAddr key value =
     (let m = (case gm_get (ms_data s) contractAddr of Some m \<Rightarrow> m | None \<Rightarrow> []) in
      s\<lparr>ms_data := gm_put contractAddr (gm_put key (slice_bytes value) m) (ms_data s)\<rparr>)"

definition mem_Delete :: "mem_store \<Rightarrow> address \<Rightarrow> bytes \<Rightarrow> mem_store" where
  "mem_Delete s contractAddr key = (case gm_get (ms_data s) contractAddr of
       Some m \<Rightarrow> s\<lparr>ms_data := gm_put contractAddr (gm_del key m) (ms_data s)\<rparr>
     | None \<Rightarrow> s)"

text \<open>The in-place reversal loop of \<^verbatim>\<open>Range\<close>: swap from both ends until the indices meet.\<close>

function swap_loop :: "nat \<Rightarrow> nat \<Rightarrow> 'a list \<Rightarrow> 'a list" where
  "swap_loop i j keys = (if i < j
     then swap_loop (i + 1) (j - 1) (keys[i := keys ! j, j := keys ! i]) else keys)"
  by pat_completeness auto
termination
  by (relation "measure (\<lambda>(i, j, keys). j - i)") auto

declare swap_loop.simps [simp del]

definition mem_Range ::
    "mem_store \<Rightarrow> address \<Rightarrow> bytes option \<Rightarrow> bytes option \<Rightarrow> Order \<Rightarrow> sliceIterator" where
  "mem_Range s contractAddr start end order =
     (let m = (case gm_get (ms_data s) contractAddr of Some m \<Rightarrow> m | None \<Rightarrow> []);
          keys = filter (\<lambda>k. \<not> (start \<noteq> None \<and> k < slice_bytes start)
                           \<and> \<not> (end \<noteq> None \<and> slice_bytes end \<le> k)) (gm_keys m);
          keys = sort keys;
          keys = (if order = Descending then swap_loop 0 (length keys - 1) keys else keys)
      in \<lparr>it_pairs = map (\<lambda>k. (k, nil_append (case gm_get m k of Some v \<Rightarrow> v | None \<Rightarrow> []))) keys,
          it_pos = 0\<rparr>)"

definition mem_deepCopy :: "mem_store \<Rightarrow> (address, (bytes, bytes) gomap) gomap" where
  "mem_deepCopy s = map (\<lambda>(addr, m). (addr, map (\<lambda>(k, v). (k, slice_bytes (nil_append v))) m)) (ms_data s)"

definition mem_Snapshot :: "mem_store \<Rightarrow> (address, (bytes, bytes) gomap) gomap" where
  "mem_Snapshot s = mem_deepCopy s"

definition mem_Restore :: "(address, (bytes, bytes) gomap) gomap \<Rightarrow> mem_store \<Rightarrow> mem_store" where
  "mem_Restore snap s = s\<lparr>ms_data := snap\<rparr>"

text \<open>\<^verbatim>\<open>ForEach(fn)\<close> as a fold of the callback over a caller's state.\<close>

definition mem_entries :: "mem_store \<Rightarrow> (address \<times> bytes \<times> bytes) list" where
  "mem_entries s = concat (map (\<lambda>(addr, m). map (\<lambda>(k, v). (addr, k, v)) m) (ms_data s))"

definition mem_ForEach :: "mem_store \<Rightarrow> (address \<Rightarrow> bytes \<Rightarrow> bytes \<Rightarrow> 'a \<Rightarrow> 'a) \<Rightarrow> 'a \<Rightarrow> 'a" where
  "mem_ForEach s fn acc = fold (\<lambda>(addr, k, v). fn addr k v) (mem_entries s) acc"

subsection \<open>Invariant and content\<close>

definition mem_wf :: "mem_store \<Rightarrow> bool" where
  "mem_wf s \<longleftrightarrow> gm_wf (ms_data s) \<and> (\<forall>(a, m) \<in> set (ms_data s). gm_wf m)"

definition mem_content :: "mem_store \<Rightarrow> kv_content" where
  "mem_content s a k = (case gm_get (ms_data s) a of Some m \<Rightarrow> gm_get m k | None \<Rightarrow> None)"

lemma slice_nil_append [simp]: "slice_bytes (nil_append v) = v"
  by (simp add: slice_bytes_def nil_append_def)

lemma slice_Some [simp]: "slice_bytes (Some v) = v"
  by (simp add: slice_bytes_def)

lemma mem_deepCopy_id [simp]: "mem_deepCopy s = ms_data s"
proof -
  have "(\<lambda>(k, v). (k, slice_bytes (nil_append v))) = (\<lambda>x. x)"
    by (auto simp: fun_eq_iff)
  then show ?thesis by (simp add: mem_deepCopy_def case_prod_unfold)
qed

lemma mem_wf_get: "mem_wf s \<Longrightarrow> gm_get (ms_data s) a = Some m \<Longrightarrow> gm_wf m"
  by (auto simp: mem_wf_def dest: map_of_SomeD)

lemma mem_wf_put:
  assumes "mem_wf s" "gm_wf m"
  shows "mem_wf (s\<lparr>ms_data := gm_put a m (ms_data s)\<rparr>)"
  using assms by (auto simp: mem_wf_def intro: distinct_update dest!: set_gm_put_subset [THEN subsetD])

lemma mem_wf_Set [preserves, intro]: "mem_wf s \<Longrightarrow> mem_wf (mem_Set s a k v)"
  unfolding mem_Set_def Let_def
  by (rule mem_wf_put) (auto split: option.splits intro: distinct_update mem_wf_get)

lemma mem_wf_Delete [preserves, intro]: "mem_wf s \<Longrightarrow> mem_wf (mem_Delete s a k)"
  unfolding mem_Delete_def
  by (auto split: option.splits intro!: mem_wf_put distinct_delete intro: mem_wf_get)

lemma mem_content_Set:
  "mem_content (mem_Set s a k v) = (mem_content s)(a := (mem_content s a)(k \<mapsto> slice_bytes v))"
  by (auto simp: fun_eq_iff mem_content_def mem_Set_def Let_def split: option.splits)

lemma mem_content_Delete:
  "mem_content (mem_Delete s a k) = (mem_content s)(a := (mem_content s a)(k := None))"
  by (auto simp: fun_eq_iff mem_content_def mem_Delete_def split: option.splits)

lemma mem_Get_content: "mem_Get s a k = Option.bind (mem_content s a k) nil_append"
  by (auto simp: mem_Get_def mem_content_def split: option.splits)

subsection \<open>The reversal loop\<close>

lemma length_swap_loop [simp]: "length (swap_loop i j keys) = length keys"
proof (induction i j keys rule: swap_loop.induct)
  case (1 i j keys)
  then show ?case by (cases "i < j") (simp_all add: swap_loop.simps [of i j keys])
qed

lemma swap_loop_nth:
  "j < length keys \<Longrightarrow> n < length keys \<Longrightarrow>
     swap_loop i j keys ! n = (if i \<le> n \<and> n \<le> j then keys ! (i + j - n) else keys ! n)"
proof (induction i j keys rule: swap_loop.induct)
  case (1 i j keys)
  show ?case
  proof (cases "i < j")
    case True
    let ?ks = "keys[i := keys ! j, j := keys ! i]"
    have "swap_loop i j keys ! n = swap_loop (i + 1) (j - 1) ?ks ! n"
      using True by (simp add: swap_loop.simps [of i j keys])
    also have "\<dots> = (if i + 1 \<le> n \<and> n \<le> j - 1 then ?ks ! (i + 1 + (j - 1) - n) else ?ks ! n)"
      using 1 True by (intro "1.IH") auto
    also have "\<dots> = (if i \<le> n \<and> n \<le> j then keys ! (i + j - n) else keys ! n)"
      using True "1.prems" by (auto simp: nth_list_update)
    finally show ?thesis .
  next
    case False
    then have "i + j - n = n" if "i \<le> n \<and> n \<le> j" using that by auto
    with False show ?thesis by (auto simp: swap_loop.simps [of i j keys])
  qed
qed

lemma swap_loop_rev: "swap_loop 0 (length keys - 1) keys = rev keys"
proof (cases "keys = []")
  case True
  then show ?thesis by (simp add: swap_loop.simps)
next
  case False
  have "n \<le> length keys - Suc 0" if "n < length keys" for n using that by simp
  with False show ?thesis
    by (intro nth_equalityI) (simp_all add: swap_loop_nth rev_nth)
qed

lemma set_swap_loop [simp]: "set (swap_loop 0 (length keys - Suc 0) keys) = set keys"
  using swap_loop_rev [of keys] by simp

subsection \<open>Range\<close>

lemma mem_keys_content: "fst ` set (case gm_get (ms_data s) a of Some m \<Rightarrow> m | None \<Rightarrow> []) = {k. mem_content s a k \<noteq> None}"
proof (cases "gm_get (ms_data s) a")
  case None
  then show ?thesis by (simp add: mem_content_def)
next
  case (Some m)
  then show ?thesis using gm_get_None_keys [of m] by (auto simp: mem_content_def)
qed

lemma in_range_filter:
  "\<not> (start \<noteq> None \<and> k < slice_bytes start) \<and> \<not> (end \<noteq> None \<and> slice_bytes end \<le> k)
     \<longleftrightarrow> in_range start end k"
  by (auto simp: in_range_def slice_bytes_def not_less not_le split: option.splits)

lemma mem_Range_spec:
  assumes "mem_wf s"
  shows "order_sorted ord (map fst (it_pairs (mem_Range s a lo hi ord)))"
    and "fst ` set (it_pairs (mem_Range s a lo hi ord)) = {k. mem_content s a k \<noteq> None \<and> in_range lo hi k}"
    and "\<forall>(k, v) \<in> set (it_pairs (mem_Range s a lo hi ord)). mem_content s a k = Some (slice_bytes v)"
proof -
  define m where "m = (case gm_get (ms_data s) a of Some m \<Rightarrow> m | None \<Rightarrow> [])"
  define ks where "ks = sort (filter (in_range lo hi) (gm_keys m))"
  define ks' where "ks' = (if ord = Descending then rev ks else ks)"
  have rng: "mem_Range s a lo hi ord =
      \<lparr>it_pairs = map (\<lambda>k. (k, nil_append (case gm_get m k of Some v \<Rightarrow> v | None \<Rightarrow> []))) ks', it_pos = 0\<rparr>"
    unfolding mem_Range_def Let_def in_range_filter m_def ks_def ks'_def swap_loop_rev by simp
  have "gm_wf m" using assms by (auto simp: m_def split: option.splits intro: mem_wf_get)
  then have d: "sorted ks" "distinct ks" by (auto simp: ks_def)
  then have "order_sorted ord ks'"
    by (cases ord) (simp_all add: ks'_def order_sorted_def)
  then show "order_sorted ord (map fst (it_pairs (mem_Range s a lo hi ord)))"
    by (simp add: rng comp_def)
  have sk: "set ks' = {k. mem_content s a k \<noteq> None \<and> in_range lo hi k}"
    using mem_keys_content [of s a] by (auto simp: ks'_def ks_def m_def [symmetric])
  then show "fst ` set (it_pairs (mem_Range s a lo hi ord)) = {k. mem_content s a k \<noteq> None \<and> in_range lo hi k}"
    by (simp add: rng image_image)
  have "gm_get m k = mem_content s a k" for k
    by (auto simp: m_def mem_content_def split: option.splits)
  then show "\<forall>(k, v) \<in> set (it_pairs (mem_Range s a lo hi ord)). mem_content s a k = Some (slice_bytes v)"
    using sk by (auto simp: rng)
qed

lemma mem_Range_pos [simp]: "it_pos (mem_Range s a lo hi ord) = 0"
  by (simp add: mem_Range_def Let_def)

subsection \<open>The interfaces it implements\<close>

interpretation mem: storage_adapter
  mem_wf mem_content
  "\<lambda>s a k. (Inr (mem_Get s a k), s)"
  "\<lambda>s a k v. (None, mem_Set s a k v)"
  "\<lambda>s a k. (None, mem_Delete s a k)"
  "\<lambda>s a lo hi ord. (Inr (mem_Range s a lo hi ord), s)"
proof (unfold_locales, goal_cases)
  case (11 s a lo hi ord)
  then show ?case using mem_Range_spec [OF 11] by simp
qed (auto simp: mem_Get_content nil_append_def mem_content_Set mem_content_Delete)

interpretation mem_snap: snapshotable "\<lambda>_ _. True" mem_Snapshot mem_Restore
  by unfold_locales (simp_all add: mem_Snapshot_def mem_Restore_def)

lemma set_mem_entries:
  assumes "mem_wf s"
  shows "(a, k, v) \<in> set (mem_entries s) \<longleftrightarrow> mem_content s a k = Some v"
proof
  assume "(a, k, v) \<in> set (mem_entries s)"
  then obtain m where m: "(a, m) \<in> set (ms_data s)" "(k, v) \<in> set m"
    by (auto simp: mem_entries_def)
  with assms show "mem_content s a k = Some v"
    by (auto simp: mem_content_def mem_wf_def)
next
  assume "mem_content s a k = Some v"
  then show "(a, k, v) \<in> set (mem_entries s)"
    by (force simp: mem_content_def mem_entries_def split: option.splits dest: map_of_SomeD)
qed

end
