(* ===== verification/Storage_Sqlite.thy ===== *)
theory Storage_Sqlite
  imports Storage_Iface
begin

text \<open>
  \<^verbatim>\<open>storage/sqlite/sqlite.go\<close>: the adapter over one SQL table. The table is the list of its rows, and
  each statement of the source is its meaning on rows. What the database may do besides (fail a
  statement, a scan or the iteration) is an input of the model: \<open>sq_faults\<close> lists the outcomes of the
  next calls into \<^verbatim>\<open>database/sql\<close>, \<open>Some text\<close> for an error, and calls after the end of the list
  succeed. The adapter has no snapshot operations, so it is not \<^verbatim>\<open>storage.Snapshotable\<close>.
\<close>

type_synonym storage_row = "bytes \<times> bytes \<times> bytes"

record sql_store =
  sq_rows :: "storage_row list"
  sq_faults :: "string option list"

definition next_outcome :: "string option list \<Rightarrow> string option \<times> string option list" where
  "next_outcome fs = (case fs of [] \<Rightarrow> (None, []) | f # fs' \<Rightarrow> (f, fs'))"

definition sql_call :: "sql_store \<Rightarrow> string option \<times> sql_store" where
  "sql_call s = (case next_outcome (sq_faults s) of (out, fs) \<Rightarrow> (out, s\<lparr>sq_faults := fs\<rparr>))"

text \<open>\<^verbatim>\<open>New(path)\<close> over the rows the file at \<^verbatim>\<open>path\<close> already holds.\<close>

definition sqlite_New :: "storage_row list \<Rightarrow> string option list \<Rightarrow> go_error + sql_store" where
  "sqlite_New rows fs = (case next_outcome fs of
       (Some e, _) \<Rightarrow> Inl (WrapErr ''open sqlite'' (PlainErr e))
     | (None, fs1) \<Rightarrow> (case next_outcome fs1 of
         (Some e, _) \<Rightarrow> Inl (WrapErr ''create table'' (PlainErr e))
       | (None, fs2) \<Rightarrow> Inr \<lparr>sq_rows = rows, sq_faults = fs2\<rparr>))"

definition same_pk :: "address \<Rightarrow> bytes \<Rightarrow> storage_row \<Rightarrow> bool" where
  "same_pk a k r \<longleftrightarrow> (case r of (a', k', _) \<Rightarrow> a' = a \<and> k' = k)"

definition sqlite_Get ::
    "sql_store \<Rightarrow> address \<Rightarrow> bytes \<Rightarrow> (go_error + bytes option) \<times> sql_store" where
  "sqlite_Get s contractAddr key = (case sql_call s of
       (Some e, s') \<Rightarrow> (Inl (PlainErr e), s')
     | (None, s') \<Rightarrow> (case find (same_pk contractAddr key) (sq_rows s') of
         None \<Rightarrow> (Inr None, s')
       | Some (_, _, v) \<Rightarrow> (Inr (Some v), s')))"

definition sqlite_Set ::
    "sql_store \<Rightarrow> address \<Rightarrow> bytes \<Rightarrow> bytes option \<Rightarrow> go_error option \<times> sql_store" where
  "sqlite_Set s contractAddr key value = (case sql_call s of
       (Some e, s') \<Rightarrow> (Some (PlainErr e), s')
     | (None, s') \<Rightarrow> (case value of
         None \<Rightarrow> (Some (PlainErr ''NOT NULL constraint failed: contract_storage.value''), s')
       | Some v \<Rightarrow> (None, s'\<lparr>sq_rows :=
           filter (\<lambda>r. \<not> same_pk contractAddr key r) (sq_rows s') @ [(contractAddr, key, v)]\<rparr>)))"

definition sqlite_Delete :: "sql_store \<Rightarrow> address \<Rightarrow> bytes \<Rightarrow> go_error option \<times> sql_store" where
  "sqlite_Delete s contractAddr key = (case sql_call s of
       (Some e, s') \<Rightarrow> (Some (PlainErr e), s')
     | (None, s') \<Rightarrow> (None, s'\<lparr>sq_rows := filter (\<lambda>r. \<not> same_pk contractAddr key r) (sq_rows s')\<rparr>))"

text \<open>\<^verbatim>\<open>loadIterator\<close>: one \<^verbatim>\<open>Scan\<close> per row, then \<^verbatim>\<open>rows.Err()\<close>.\<close>

fun load_rows :: "(bytes \<times> bytes) list \<Rightarrow> kvPair list \<Rightarrow> string option list
    \<Rightarrow> (go_error + kvPair list) \<times> string option list" where
  "load_rows [] pairs fs = (case next_outcome fs of
       (Some e, fs') \<Rightarrow> (Inl (PlainErr e), fs')
     | (None, fs') \<Rightarrow> (Inr pairs, fs'))"
| "load_rows ((k, v) # rows) pairs fs = (case next_outcome fs of
       (Some e, fs') \<Rightarrow> (Inl (PlainErr e), fs')
     | (None, fs') \<Rightarrow> load_rows rows (pairs @ [(k, Some v)]) fs')"

definition loadIterator ::
    "(bytes \<times> bytes) list \<Rightarrow> sql_store \<Rightarrow> (go_error + sliceIterator) \<times> sql_store" where
  "loadIterator rows s = (case load_rows rows [] (sq_faults s) of
       (Inl e, fs) \<Rightarrow> (Inl e, s\<lparr>sq_faults := fs\<rparr>)
     | (Inr pairs, fs) \<Rightarrow> (Inr \<lparr>it_pairs = pairs, it_pos = 0\<rparr>, s\<lparr>sq_faults := fs\<rparr>))"

text \<open>The four queries of \<^verbatim>\<open>Range\<close>: \<^verbatim>\<open>WHERE contract_addr = ? AND ... ORDER BY key ASC|DESC\<close>.\<close>

definition select_kv :: "storage_row list \<Rightarrow> address \<Rightarrow> (bytes \<Rightarrow> bool) \<Rightarrow> Order \<Rightarrow> (bytes \<times> bytes) list" where
  "select_kv rows contractAddr cond dir =
     (let hits = sort_key fst (map snd (filter (\<lambda>(a, k, v). a = contractAddr \<and> cond k) rows))
      in case dir of Ascending \<Rightarrow> hits | Descending \<Rightarrow> rev hits)"

definition sqlite_Range ::
    "sql_store \<Rightarrow> address \<Rightarrow> bytes option \<Rightarrow> bytes option \<Rightarrow> Order
      \<Rightarrow> (go_error + sliceIterator) \<times> sql_store" where
  "sqlite_Range s contractAddr start end order = (case sql_call s of
       (Some e, s') \<Rightarrow> (Inl (PlainErr e), s')
     | (None, s') \<Rightarrow>
         let rows = (case (start, end) of
             (None, None) \<Rightarrow> select_kv (sq_rows s') contractAddr (\<lambda>k. True) order
           | (Some lo, None) \<Rightarrow> select_kv (sq_rows s') contractAddr (\<lambda>k. k \<ge> lo) order
           | (None, Some hi) \<Rightarrow> select_kv (sq_rows s') contractAddr (\<lambda>k. k < hi) order
           | (Some lo, Some hi) \<Rightarrow> select_kv (sq_rows s') contractAddr (\<lambda>k. k \<ge> lo \<and> k < hi) order)
         in loadIterator rows s')"

subsection \<open>Invariant and content\<close>

definition row_pk :: "storage_row \<Rightarrow> bytes \<times> bytes" where
  "row_pk r = (case r of (a, k, _) \<Rightarrow> (a, k))"

definition sql_wf :: "sql_store \<Rightarrow> bool" where
  "sql_wf s \<longleftrightarrow> distinct (map row_pk (sq_rows s)) \<and> sq_faults s = []"

definition sql_content :: "sql_store \<Rightarrow> kv_content" where
  "sql_content s a k = map_option (\<lambda>(_, _, v). v) (find (same_pk a k) (sq_rows s))"

lemma same_pk_alt: "same_pk a k r \<longleftrightarrow> row_pk r = (a, k)"
  by (auto simp: same_pk_def row_pk_def split: prod.splits)

lemma sql_call_ok [simp]: "sq_faults s = [] \<Longrightarrow> sql_call s = (None, s)"
  by (simp add: sql_call_def next_outcome_def)

lemma load_rows_ok: "load_rows rows pairs [] = (Inr (pairs @ map (\<lambda>(k, v). (k, Some v)) rows), [])"
  by (induction rows arbitrary: pairs) (auto simp: next_outcome_def)

lemma loadIterator_ok:
  "sq_faults s = [] \<Longrightarrow>
     loadIterator rows s = (Inr \<lparr>it_pairs = map (\<lambda>(k, v). (k, Some v)) rows, it_pos = 0\<rparr>, s)"
  by (simp add: loadIterator_def load_rows_ok)

lemma find_pk_Some_iff:
  "distinct (map row_pk rows) \<Longrightarrow>
     find (same_pk a k) rows = Some (a', k', v) \<longleftrightarrow> a' = a \<and> k' = k \<and> (a, k, v) \<in> set rows"
  by (induction rows) (force simp: same_pk_alt row_pk_def split: prod.splits)+

lemma sql_content_iff:
  assumes "sql_wf s"
  shows "sql_content s a k = Some v \<longleftrightarrow> (a, k, v) \<in> set (sq_rows s)"
  using assms find_pk_Some_iff [of "sq_rows s" a k]
  by (auto simp: sql_content_def sql_wf_def)

lemma sql_content_None_iff:
  assumes "sql_wf s"
  shows "sql_content s a k = None \<longleftrightarrow> (\<forall>v. (a, k, v) \<notin> set (sq_rows s))"
  using sql_content_iff [OF assms, of a k] by (metis not_None_eq option.discI)

lemma distinct_filter_snoc:
  "distinct (map row_pk rows) \<Longrightarrow>
     distinct (map row_pk (filter (\<lambda>r. \<not> same_pk a k r) rows @ [(a, k, v)]))"
  by (auto simp: distinct_map_filter same_pk_alt row_pk_def)

lemma sql_wf_upsert [preserves, intro]:
  "sql_wf s \<Longrightarrow> sql_wf (s\<lparr>sq_rows := filter (\<lambda>r. \<not> same_pk a k r) (sq_rows s) @ [(a, k, v)]\<rparr>)"
  by (simp add: sql_wf_def distinct_filter_snoc del: map_append)

lemma sql_wf_filter [preserves, intro]: "sql_wf s \<Longrightarrow> sql_wf (s\<lparr>sq_rows := filter P (sq_rows s)\<rparr>)"
  by (simp add: sql_wf_def distinct_map_filter)

lemma sql_content_upsert:
  assumes "sql_wf s"
  shows "sql_content (s\<lparr>sq_rows := filter (\<lambda>r. \<not> same_pk a k r) (sq_rows s) @ [(a, k, v)]\<rparr>)
    = (sql_content s)(a := (sql_content s a)(k \<mapsto> v))" (is "sql_content ?t = ?c")
proof (intro ext)
  fix a' k'
  have "sql_content ?t a' k' = Some w \<longleftrightarrow> ?c a' k' = Some w" for w
    using sql_content_iff [OF sql_wf_upsert [OF assms, of a k v], of a' k'] sql_content_iff [OF assms, of a' k']
    by (auto simp: same_pk_def)
  then show "sql_content ?t a' k' = ?c a' k'" by (metis not_Some_eq)
qed

lemma sql_content_delete:
  assumes "sql_wf s"
  shows "sql_content (s\<lparr>sq_rows := filter (\<lambda>r. \<not> same_pk a k r) (sq_rows s)\<rparr>)
    = (sql_content s)(a := (sql_content s a)(k := None))" (is "sql_content ?t = ?c")
proof (intro ext)
  fix a' k'
  have "sql_content ?t a' k' = Some w \<longleftrightarrow> ?c a' k' = Some w" for w
    using sql_content_iff [OF sql_wf_filter [OF assms], of _ a' k'] sql_content_iff [OF assms, of a' k']
    by (auto simp: same_pk_def)
  then show "sql_content ?t a' k' = ?c a' k'" by (metis not_Some_eq)
qed

subsection \<open>Range\<close>

lemma set_select_kv:
  "set (select_kv rows a P dir) = {(k, v). (a, k, v) \<in> set rows \<and> P k}"
  by (force simp: select_kv_def Let_def split: Order.splits)

lemma distinct_select:
  "distinct (map row_pk rows) \<Longrightarrow>
     distinct (map fst (map snd (filter (\<lambda>(a, k, v). a = c \<and> P k) rows)))"
  by (induction rows) (force simp: row_pk_def)+

lemma order_sorted_select:
  assumes "distinct (map row_pk rows)"
  shows "order_sorted dir (map fst (select_kv rows a P dir))"
proof -
  let ?hits = "map snd (filter (\<lambda>(a', k, v). a' = a \<and> P k) rows)"
  have d: "distinct (map fst (sort_key fst ?hits))"
    using distinct_select [OF assms] by (simp add: distinct_map inj_on_def)
  show ?thesis
    using d by (cases dir) (simp_all add: order_sorted_def select_kv_def Let_def rev_map [symmetric])
qed

lemma sqlite_Range_ok:
  assumes "sql_wf s"
  shows "sqlite_Range s a lo hi ord =
    (Inr \<lparr>it_pairs = map (\<lambda>(k, v). (k, Some v)) (select_kv (sq_rows s) a (in_range lo hi) ord), it_pos = 0\<rparr>, s)"
proof -
  have "sq_faults s = []" using assms by (simp add: sql_wf_def)
  moreover have "in_range None None = (\<lambda>k. True)" "in_range (Some l) None = (\<lambda>k. l \<le> k)"
    "in_range None (Some h) = (\<lambda>k. k < h)" "in_range (Some l) (Some h) = (\<lambda>k. l \<le> k \<and> k < h)" for l h
    by (auto simp: in_range_def)
  ultimately show ?thesis
    by (cases lo; cases hi) (simp_all add: sqlite_Range_def loadIterator_ok)
qed

interpretation sqlite: storage_adapter
  sql_wf sql_content sqlite_Get sqlite_Set sqlite_Delete sqlite_Range
proof (unfold_locales, goal_cases)
  case (11 s a lo hi ord)
  then have "distinct (map row_pk (sq_rows s))" by (simp add: sql_wf_def)
  then have "order_sorted ord (map fst (select_kv (sq_rows s) a (in_range lo hi) ord))"
    by (rule order_sorted_select)
  moreover have "fst ` set (select_kv (sq_rows s) a (in_range lo hi) ord)
      = {k. sql_content s a k \<noteq> None \<and> in_range lo hi k}"
    using sql_content_iff [OF 11] by (auto simp: set_select_kv image_iff)
  moreover have "\<forall>(k, v) \<in> set (select_kv (sq_rows s) a (in_range lo hi) ord). sql_content s a k = Some v"
    using sql_content_iff [OF 11] by (auto simp: set_select_kv)
  ultimately show ?case
    by (auto simp: sqlite_Range_ok [OF 11] comp_def case_prod_unfold image_image slice_bytes_def)
next
  case (10 s a lo hi ord)
  then show ?case by (simp add: sqlite_Range_ok)
qed (auto simp: sqlite_Get_def sqlite_Set_def sqlite_Delete_def sql_wf_def sql_content_upsert
      sql_content_delete sql_content_def distinct_filter_snoc distinct_map_filter
      split: option.splits prod.splits simp del: map_append)

end
