(* ===== verification/Runtime_Gas.thy ===== *)
theory Runtime_Gas
  imports Core_Errors
begin

text \<open>
  \<^verbatim>\<open>runtime/gas.go\<close>: the gas costs and the gas meter the host functions charge, on 64-bit words.
  \<open>safeSubGas\<close> of \<^verbatim>\<open>runtime/vm.go\<close>, the clamped subtraction of the dispatcher, is here too.
\<close>

definition GasCostInstruction :: uint64 where "GasCostInstruction = 1"
definition GasCostStorageRead :: uint64 where "GasCostStorageRead = 200"
definition GasCostStorageWrite :: uint64 where "GasCostStorageWrite = 5000"
definition GasCostHashPerByte :: uint64 where "GasCostHashPerByte = 3"
definition GasCostSigVerify :: uint64 where "GasCostSigVerify = 3000"
definition GasCostStoreCodePerByte :: uint64 where "GasCostStoreCodePerByte = 420000"
definition GasCostAddrOp :: uint64 where "GasCostAddrOp = 50"
definition MaxCodeSize :: nat where "MaxCodeSize = 2 * 1024 * 1024"

record GasMeter =
  gm_limit :: uint64
  gm_consumed :: uint64

definition NewGasMeter :: "uint64 \<Rightarrow> GasMeter" where
  "NewGasMeter limit = \<lparr>gm_limit = limit, gm_consumed = 0\<rparr>"

definition GasConsumed :: "GasMeter \<Rightarrow> uint64" where
  "GasConsumed g = gm_consumed g"

definition GasRemaining :: "GasMeter \<Rightarrow> uint64" where
  "GasRemaining g = (if gm_consumed g > gm_limit g then 0 else gm_limit g - gm_consumed g)"

definition ConsumeGas :: "GasMeter \<Rightarrow> uint64 \<Rightarrow> go_error option \<times> GasMeter" where
  "ConsumeGas g amount = (let next = gm_consumed g + amount in
     if next < gm_consumed g then (Some (CoreErr ErrOutOfGas), g)
     else let g' = g\<lparr>gm_consumed := next\<rparr> in
       if gm_consumed g' > gm_limit g' then (Some (CoreErr ErrOutOfGas), g') else (None, g'))"

definition safeSubGas :: "uint64 \<Rightarrow> uint64 \<Rightarrow> uint64" where
  "safeSubGas a b = (if b \<ge> a then 0 else a - b)"

lemma uint64_add_wrap_iff: "(a :: uint64) + b < a \<longleftrightarrow> 2 ^ 64 \<le> unat a + unat b"
proof (cases "unat a + unat b < 2 ^ 64")
  case True
  then show ?thesis by (simp add: word_less_nat_alt unat_add_no_wrap)
next
  case False
  have "unat a + unat b < 2 ^ 64 + 2 ^ 64"
    using uint64_bound [of a] uint64_bound [of b] by simp
  with False have "(unat a + unat b) mod 2 ^ 64 = unat a + unat b - 2 ^ 64"
    by (simp add: mod_if)
  then have "unat (a + b) = unat a + unat b - 2 ^ 64"
    by (simp add: unat_word_ariths)
  then show ?thesis
    using False uint64_bound [of b] by (simp add: word_less_nat_alt)
qed

lemma unat_safeSubGas: "unat (safeSubGas a b) = unat a - unat b"
  by (auto simp: safeSubGas_def word_le_nat_alt unat_sub not_le word_less_nat_alt)

lemma ConsumeGas_limit [simp]: "gm_limit (snd (ConsumeGas g n)) = gm_limit g"
  by (simp add: ConsumeGas_def Let_def)

text \<open>
  C33. The meter never wraps: \<^verbatim>\<open>ConsumeGas\<close> reports out-of-gas exactly when the exact sum of what was
  consumed and the new amount exceeds the limit, consumption never decreases, and after a success
  the remaining gas is the limit less the exact sum.
\<close>

theorem ConsumeGas_exact:
  assumes "gm_consumed g \<le> gm_limit g"
  shows "case ConsumeGas g n of (err, g') \<Rightarrow>
    (err = None \<longleftrightarrow> unat (gm_consumed g) + unat n \<le> unat (gm_limit g))
    \<and> (err \<noteq> None \<longrightarrow> errors_Is (the err) ErrOutOfGas)
    \<and> gm_consumed g \<le> gm_consumed g'
    \<and> (err = None \<longrightarrow> unat (gm_consumed g') = unat (gm_consumed g) + unat n
         \<and> unat (GasRemaining g') = unat (gm_limit g) - (unat (gm_consumed g) + unat n))"
proof (cases "unat (gm_consumed g) + unat n < 2 ^ 64")
  case True
  then have "unat (gm_consumed g + n) = unat (gm_consumed g) + unat n"
    by (rule unat_add_no_wrap)
  moreover have "\<not> gm_consumed g + n < gm_consumed g"
    using True by (simp add: uint64_add_wrap_iff)
  ultimately show ?thesis
    by (auto simp: ConsumeGas_def Let_def GasRemaining_def word_less_nat_alt word_le_nat_alt
        unat_sub not_less)
next
  case False
  then have "gm_consumed g + n < gm_consumed g"
    by (simp add: uint64_add_wrap_iff)
  moreover have "\<not> unat (gm_consumed g) + unat n \<le> unat (gm_limit g)"
    using False uint64_bound [of "gm_limit g"] by linarith
  ultimately show ?thesis by (simp add: ConsumeGas_def Let_def)
qed

theorem ConsumeGas_exact_witness:
  "fst (ConsumeGas (NewGasMeter 1000) 1001) \<noteq> None"
proof -
  have h: "gm_consumed (NewGasMeter 1000) \<le> gm_limit (NewGasMeter 1000)"
    by (simp add: NewGasMeter_def)
  from ConsumeGas_exact [OF h, of 1001] show ?thesis
    by (simp add: NewGasMeter_def split: prod.splits)
qed

end
