(* ===== verification/Runtime_State.thy ===== *)
theory Runtime_State
  imports Core_Types Storage_Memory Storage_Sqlite Runtime_Gas
begin

text \<open>
  The mutable state of \<^verbatim>\<open>runtime/vm.go\<close>'s \<^verbatim>\<open>NitroVM\<close> and the operations that touch it without running a
  contract: accounts, nonces, balances, funds transfer, gas fees, the contract and code registries,
  block context, touched addresses, snapshots. The lock \<^verbatim>\<open>mu\<close> is not modelled: each of these
  operations holds it for its body and so is one atomic step. The handle of the wasm engine is a
  parameter of the operations that call it (theory \<open>Runtime_Host\<close>), not a field.

  The storage adapter the VM was created with is one of the two backends of the repository; the type
  assertion to \<^verbatim>\<open>storage.Snapshotable\<close> succeeds for the in-memory one only.
\<close>

subsection \<open>The storage behind the VM\<close>

datatype adapter = MemoryAdapter mem_store | SqliteAdapter sql_store

fun adapter_Get :: "adapter \<Rightarrow> address \<Rightarrow> bytes \<Rightarrow> (go_error + bytes option) \<times> adapter" where
  "adapter_Get (MemoryAdapter s) a k = (Inr (mem_Get s a k), MemoryAdapter s)"
| "adapter_Get (SqliteAdapter s) a k = map_prod id SqliteAdapter (sqlite_Get s a k)"

fun adapter_Set :: "adapter \<Rightarrow> address \<Rightarrow> bytes \<Rightarrow> bytes option \<Rightarrow> go_error option \<times> adapter" where
  "adapter_Set (MemoryAdapter s) a k v = (None, MemoryAdapter (mem_Set s a k v))"
| "adapter_Set (SqliteAdapter s) a k v = map_prod id SqliteAdapter (sqlite_Set s a k v)"

fun adapter_Delete :: "adapter \<Rightarrow> address \<Rightarrow> bytes \<Rightarrow> go_error option \<times> adapter" where
  "adapter_Delete (MemoryAdapter s) a k = (None, MemoryAdapter (mem_Delete s a k))"
| "adapter_Delete (SqliteAdapter s) a k = map_prod id SqliteAdapter (sqlite_Delete s a k)"

fun adapter_Range :: "adapter \<Rightarrow> address \<Rightarrow> bytes option \<Rightarrow> bytes option \<Rightarrow> Order
    \<Rightarrow> (go_error + sliceIterator) \<times> adapter" where
  "adapter_Range (MemoryAdapter s) a lo hi ord = (Inr (mem_Range s a lo hi ord), MemoryAdapter s)"
| "adapter_Range (SqliteAdapter s) a lo hi ord = map_prod id SqliteAdapter (sqlite_Range s a lo hi ord)"

fun adapter_Snapshot :: "adapter \<Rightarrow> (address, (bytes, bytes) gomap) gomap option" where
  "adapter_Snapshot (MemoryAdapter s) = Some (mem_Snapshot s)"
| "adapter_Snapshot (SqliteAdapter s) = None"

fun adapter_Restore :: "(address, (bytes, bytes) gomap) gomap option \<Rightarrow> adapter \<Rightarrow> adapter" where
  "adapter_Restore (Some snap) (MemoryAdapter s) = MemoryAdapter (mem_Restore snap s)"
| "adapter_Restore _ ad = ad"

definition is_memory :: "adapter \<Rightarrow> bool" where
  "is_memory ad \<longleftrightarrow> (case ad of MemoryAdapter _ \<Rightarrow> True | SqliteAdapter _ \<Rightarrow> False)"

fun adapter_ok :: "adapter \<Rightarrow> bool" where
  "adapter_ok (MemoryAdapter s) = mem_wf s"
| "adapter_ok (SqliteAdapter s) = sql_wf s"

fun adapter_content :: "adapter \<Rightarrow> kv_content" where
  "adapter_content (MemoryAdapter s) = mem_content s"
| "adapter_content (SqliteAdapter s) = sql_content s"

interpretation adapter: storage_adapter
  adapter_ok adapter_content adapter_Get adapter_Set adapter_Delete adapter_Range
proof (unfold_locales, goal_cases)
  case (1 s a k) then show ?case
    by (cases s) (auto simp: sqlite.get_state)
next
  case (2 s a k) then show ?case
    by (cases s) (auto simp: mem.get_absent [simplified] sqlite.get_absent)
next
  case (3 s a k v) then show ?case
    by (cases s) (auto simp: mem.get_present [simplified] sqlite.get_present)
next
  case (4 s a k v) then show ?case
    by (cases s) (auto simp: sqlite.set_ok)
next
  case (5 s a k v) then show ?case
    by (cases s) (auto simp: sqlite.set_invar)
next
  case (6 s a k v) then show ?case
    by (cases s) (simp_all add: mem_content_Set sqlite.set_content)
next
  case (7 s a k) then show ?case
    by (cases s) (auto simp: sqlite.del_ok)
next
  case (8 s a k) then show ?case
    by (cases s) (auto simp: sqlite.del_invar)
next
  case (9 s a k) then show ?case
    by (cases s) (simp_all add: mem_content_Delete sqlite.del_content)
next
  case (10 s a lo hi ord) then show ?case
    by (cases s) (auto simp: sqlite.range_state)
next
  case (11 s a lo hi ord) then show ?case
    using mem.range_ok [of _ a lo hi ord] sqlite.range_ok [of _ a lo hi ord]
    by (cases s) auto
qed

lemma adapter_Restore_Snapshot: "is_memory s \<Longrightarrow> is_memory t \<Longrightarrow> adapter_Restore (adapter_Snapshot s) t = s"
  by (cases s; cases t) (simp_all add: is_memory_def mem_snap.Restore_Snapshot)

lemma adapter_Restore_sqlite: "\<not> is_memory s \<Longrightarrow> adapter_Restore (adapter_Snapshot s) t = t"
  by (cases s; cases t) (simp_all add: is_memory_def)

lemma adapter_kind [simp]:
  "is_memory (snd (adapter_Get s a k)) = is_memory s"
  "is_memory (snd (adapter_Set s a k v)) = is_memory s"
  "is_memory (snd (adapter_Delete s a k)) = is_memory s"
  "is_memory (snd (adapter_Range s a lo hi ord)) = is_memory s"
  "is_memory (adapter_Restore snap s) = is_memory s"
  by (cases s; cases snap; simp add: is_memory_def)+

subsection \<open>The VM record\<close>

record contractMeta =
  cm_Checksum :: bytes
  cm_Label :: string
  cm_Creator :: address

record nitrovm =
  storage :: adapter
  chainID :: string
  accounts :: "(address, Account) gomap"
  contracts :: "(address, contractMeta) gomap"
  codes :: "(string, bytes) gomap"
  codeSeq :: uint64
  codeBySeq :: "(uint64, bytes) gomap"
  seqByCode :: "(string, uint64) gomap"
  blockHeight :: uint64
  blockTime :: uint64
  instanceCount :: uint64
  touched :: "address list"

text \<open>\<^verbatim>\<open>New\<close>: the engine is created first and may refuse; \<open>now\<close> is the clock in nanoseconds.\<close>

definition vm_New :: "string option \<Rightarrow> uint64 \<Rightarrow> Config \<Rightarrow> adapter \<Rightarrow> go_error + nitrovm" where
  "vm_New engine_err now cfg store = (case engine_err of
       Some e \<Rightarrow> Inl (WrapErr ''create wasmvm'' (PlainErr e))
     | None \<Rightarrow> Inr \<lparr>storage = store, chainID = cfg_ChainID cfg, accounts = [], contracts = [],
         codes = [], codeSeq = 0, codeBySeq = [], seqByCode = [], blockHeight = 1, blockTime = now,
         instanceCount = 0, touched = []\<rparr>)"

subsection \<open>Accounts\<close>

definition getOrCreateAccount :: "nitrovm \<Rightarrow> address \<Rightarrow> Account \<times> nitrovm" where
  "getOrCreateAccount n addr = (case gm_get (accounts n) addr of
       Some acct \<Rightarrow> (acct, n)
     | None \<Rightarrow> let acct = \<lparr>acct_Address = addr, acct_Balance = \<lparr>amt_v = None\<rparr>, acct_Nonce = 0,
                          acct_CodeHash = None\<rparr>
               in (acct, n\<lparr>accounts := gm_put addr acct (accounts n)\<rparr>))"

text \<open>Assignment through the account pointer the map holds at \<open>addr\<close>.\<close>

definition update_account :: "address \<Rightarrow> (Account \<Rightarrow> Account) \<Rightarrow> nitrovm \<Rightarrow> nitrovm" where
  "update_account addr f n = (case gm_get (accounts n) addr of
       Some acct \<Rightarrow> n\<lparr>accounts := gm_put addr (f acct) (accounts n)\<rparr>
     | None \<Rightarrow> n)"

definition markTouched :: "nitrovm \<Rightarrow> address \<Rightarrow> nitrovm" where
  "markTouched n addr = n\<lparr>touched := List.insert addr (touched n)\<rparr>"

definition TouchedAddresses :: "nitrovm \<Rightarrow> address list \<times> nitrovm" where
  "TouchedAddresses n = (touched n, n\<lparr>touched := []\<rparr>)"

definition GetBalance :: "nitrovm \<Rightarrow> address \<Rightarrow> Amount" where
  "GetBalance n addr = (case gm_get (accounts n) addr of
       Some acct \<Rightarrow> acct_Balance acct | None \<Rightarrow> \<lparr>amt_v = None\<rparr>)"

definition SetBalance :: "nitrovm \<Rightarrow> address \<Rightarrow> Amount \<Rightarrow> nitrovm" where
  "SetBalance n addr balance = (case getOrCreateAccount n addr of (_, n1) \<Rightarrow>
     markTouched (update_account addr (\<lambda>a. a\<lparr>acct_Balance := balance\<rparr>) n1) addr)"

definition GetNonce :: "nitrovm \<Rightarrow> address \<Rightarrow> uint64" where
  "GetNonce n addr = (case gm_get (accounts n) addr of Some acct \<Rightarrow> acct_Nonce acct | None \<Rightarrow> 0)"

definition SetNonce :: "nitrovm \<Rightarrow> address \<Rightarrow> uint64 \<Rightarrow> nitrovm" where
  "SetNonce n addr nonce = (case getOrCreateAccount n addr of (_, n1) \<Rightarrow>
     markTouched (update_account addr (\<lambda>a. a\<lparr>acct_Nonce := nonce\<rparr>) n1) addr)"

text \<open>The statements \<^verbatim>\<open>n.getOrCreateAccount(sender).Nonce++; n.markTouched(sender)\<close>.\<close>

definition increment_nonce :: "nitrovm \<Rightarrow> address \<Rightarrow> nitrovm" where
  "increment_nonce n sender = (case getOrCreateAccount n sender of (_, n1) \<Rightarrow>
     markTouched (update_account sender (\<lambda>a. a\<lparr>acct_Nonce := acct_Nonce a + 1\<rparr>) n1) sender)"

definition validateNonce :: "nitrovm \<Rightarrow> address \<Rightarrow> uint64 option \<Rightarrow> go_error option" where
  "validateNonce n sender nonce = (case nonce of
       None \<Rightarrow> None
     | Some got \<Rightarrow> let expected = GetNonce n sender in
         if got \<noteq> expected
         then Some (DetailErr ErrInvalidNonce
           (''got '' @ dec_nat (unat got) @ '', expected '' @ dec_nat (unat expected)))
         else None)"

fun transferFunds :: "nitrovm \<Rightarrow> address \<Rightarrow> address \<Rightarrow> coin list \<Rightarrow> go_error option \<times> nitrovm" where
  "transferFunds n from to [] = (None, n)"
| "transferFunds n from to (c # funds) =
     (if Denom c \<noteq> ''YELLOW'' then (Some (DetailErr ErrUnsupportedDenom (go_quote (Denom c))), n)
      else (case NewAmountFromString (coin_amount c) of
        Inl err \<Rightarrow> (Some (WrapErr (''invalid fund amount '' @ go_quote (coin_amount c)) err), n)
      | Inr amt \<Rightarrow>
          if Amount_IsZero amt then transferFunds n from to funds
          else (case getOrCreateAccount n from of (fromAcct, n1) \<Rightarrow>
            (case Amount_Sub (acct_Balance fromAcct) amt of
              Inl err \<Rightarrow> (Some (CoreErr ErrInsufficientFunds), n1)
            | Inr newFromBal \<Rightarrow>
                (case getOrCreateAccount n1 to of (_, n2) \<Rightarrow>
                  let n3 = update_account from (\<lambda>a. a\<lparr>acct_Balance := newFromBal\<rparr>) n2;
                      n4 = update_account to (\<lambda>a. a\<lparr>acct_Balance := Amount_Add (acct_Balance a) amt\<rparr>) n3
                  in transferFunds (markTouched (markTouched n4 from) to) from to funds)))))"

definition DeductGasFee :: "nitrovm \<Rightarrow> address \<Rightarrow> uint64 \<Rightarrow> uint64 \<Rightarrow> go_error option \<times> nitrovm" where
  "DeductGasFee n sender gasUsed gasPrice =
     (if gasPrice = 0 then (None, n)
      else let fee = Amount_Mul (NewAmount gasUsed) (NewAmount gasPrice) in
        (case getOrCreateAccount n sender of (acct, n1) \<Rightarrow>
          (case Amount_Sub (acct_Balance acct) fee of
            Inl err \<Rightarrow> (Some (CoreErr ErrInsufficientFunds), n1)
          | Inr newBal \<Rightarrow>
              (None, markTouched (update_account sender (\<lambda>a. a\<lparr>acct_Balance := newBal\<rparr>) n1) sender))))"

subsection \<open>Block context and registries\<close>

definition SetBlockInfo :: "nitrovm \<Rightarrow> uint64 \<Rightarrow> uint64 \<Rightarrow> nitrovm" where
  "SetBlockInfo n height timeNanos = n\<lparr>blockHeight := height, blockTime := timeNanos\<rparr>"

definition TickOp :: "uint64 \<Rightarrow> nitrovm \<Rightarrow> nitrovm" where
  "TickOp now n = n\<lparr>blockHeight := blockHeight n + 1, blockTime := now\<rparr>"

definition GetOpSeq :: "nitrovm \<Rightarrow> uint64" where
  "GetOpSeq n = blockHeight n"

definition RegisterContract :: "nitrovm \<Rightarrow> address \<Rightarrow> address \<Rightarrow> bytes \<Rightarrow> string \<Rightarrow> nitrovm" where
  "RegisterContract n addr creator checksum label = n\<lparr>contracts :=
     gm_put addr \<lparr>cm_Checksum = checksum, cm_Label = label, cm_Creator = creator\<rparr> (contracts n)\<rparr>"

definition SetInstanceCount :: "nitrovm \<Rightarrow> uint64 \<Rightarrow> nitrovm" where
  "SetInstanceCount n cnt = n\<lparr>instanceCount := cnt\<rparr>"

definition GetInstanceCount :: "nitrovm \<Rightarrow> uint64" where
  "GetInstanceCount n = instanceCount n"

definition ListCodes :: "nitrovm \<Rightarrow> string list" where
  "ListCodes n = map (\<lambda>(hexID, _). hexID) (codes n)"

definition contract_info :: "address \<Rightarrow> contractMeta \<Rightarrow> ContractInfo" where
  "contract_info addr meta = \<lparr>ci_Address = Hex addr, ci_CodeID = hex_EncodeToString (cm_Checksum meta),
     ci_Label = cm_Label meta, ci_Creator = Hex (cm_Creator meta)\<rparr>"

definition ListContracts :: "nitrovm \<Rightarrow> ContractInfo list" where
  "ListContracts n = map (\<lambda>(addr, meta). contract_info addr meta) (contracts n)"

definition GetContractInfo :: "nitrovm \<Rightarrow> address \<Rightarrow> ContractInfo option" where
  "GetContractInfo n addr = (case gm_get (contracts n) addr of
       None \<Rightarrow> None | Some meta \<Rightarrow> Some (contract_info addr meta))"

definition GetCodeSeq :: "nitrovm \<Rightarrow> string \<Rightarrow> uint64 \<times> bool" where
  "GetCodeSeq n hexCodeID = (case gm_get (seqByCode n) hexCodeID of
       Some s \<Rightarrow> (s, True) | None \<Rightarrow> (0, False))"

definition SetCodeSeq :: "nitrovm \<Rightarrow> uint64 \<Rightarrow> nitrovm" where
  "SetCodeSeq n s = n\<lparr>codeSeq := s\<rparr>"

definition vm_ChainID :: "nitrovm \<Rightarrow> string" where
  "vm_ChainID n = chainID n"

definition vm_Storage :: "nitrovm \<Rightarrow> adapter" where
  "vm_Storage n = storage n"

definition makeEnv :: "nitrovm \<Rightarrow> address \<Rightarrow> env" where
  "makeEnv n contract = \<lparr>env_height = blockHeight n, env_time = blockTime n, env_chainID = chainID n,
     env_contract = Hex contract\<rparr>"

subsection \<open>Snapshots\<close>

record vmSnapshot =
  snap_accounts :: "(address, Account) gomap"
  snap_contracts :: "(address, contractMeta) gomap"
  snap_codes :: "(string, bytes) gomap"
  snap_codeSeq :: uint64
  snap_codeBySeq :: "(uint64, bytes) gomap"
  snap_seqByCode :: "(string, uint64) gomap"
  snap_touched :: "address list"
  snap_instanceCount :: uint64
  snap_blockHeight :: uint64
  snap_blockTime :: uint64
  snap_storage :: "(address, (bytes, bytes) gomap) gomap option"

definition vm_Snapshot :: "nitrovm \<Rightarrow> vmSnapshot" where
  "vm_Snapshot n = \<lparr>
     snap_accounts = map (\<lambda>(k, v). (k, v\<lparr>acct_Balance := Amount_DeepCopy (acct_Balance v)\<rparr>)) (accounts n),
     snap_contracts = map (\<lambda>(k, v). (k, v\<lparr>cm_Checksum := slice_bytes (nil_append (cm_Checksum v))\<rparr>)) (contracts n),
     snap_codes = map (\<lambda>(k, v). (k, slice_bytes (nil_append v))) (codes n),
     snap_codeSeq = codeSeq n,
     snap_codeBySeq = map (\<lambda>(k, v). (k, slice_bytes (nil_append v))) (codeBySeq n),
     snap_seqByCode = map (\<lambda>(k, v). (k, v)) (seqByCode n),
     snap_touched = touched n,
     snap_instanceCount = instanceCount n,
     snap_blockHeight = blockHeight n,
     snap_blockTime = blockTime n,
     snap_storage = adapter_Snapshot (storage n)\<rparr>"

definition vm_Restore :: "vmSnapshot \<Rightarrow> nitrovm \<Rightarrow> nitrovm" where
  "vm_Restore s n = n\<lparr>storage := adapter_Restore (snap_storage s) (storage n),
     accounts := snap_accounts s, contracts := snap_contracts s, codes := snap_codes s,
     codeSeq := snap_codeSeq s, codeBySeq := snap_codeBySeq s, seqByCode := snap_seqByCode s,
     touched := snap_touched s, instanceCount := snap_instanceCount s,
     blockHeight := snap_blockHeight s, blockTime := snap_blockTime s\<rparr>"

end
