(* ===== verification/Runtime_Host.thy ===== *)
theory Runtime_Host
  imports Runtime_State
begin

text \<open>
  \<^verbatim>\<open>runtime/host.go\<close> and the query entry point of \<^verbatim>\<open>runtime/vm.go\<close>: the host functions a running contract
  can call, and running a contract against them.

  The wasm engine (wasmvm) is not part of the repository and is a parameter, the record \<open>engine\<close>.
  What it does with one call of an entry point is a tree of host calls, \<open>'r prog\<close>: the engine asks the
  host for a storage read, write, deletion or scan, an address conversion or a chain query, goes on
  with the answer, and finally returns a result and the gas it used. A tree has no infinite branch,
  which is the engine's documented guarantee that metered execution ends; the one recursion that
  guarantee does not cover, contracts querying contracts, is counted by fuel in \<open>vm_Query\<close>, and
  running out of it is the value \<open>None\<close>.
\<close>

subsection \<open>The key-value store of one contract\<close>

record contractKVStore =
  kv_addr :: address
  kv_err :: "go_error option"

definition newContractKVStore :: "address \<Rightarrow> contractKVStore" where
  "newContractKVStore addr = \<lparr>kv_addr = addr, kv_err = None\<rparr>"

record host =
  h_vm :: nitrovm
  h_kv :: contractKVStore
  h_meter :: GasMeter

definition set_storage :: "adapter \<Rightarrow> host \<Rightarrow> host" where
  "set_storage ad h = h\<lparr>h_vm := (h_vm h)\<lparr>storage := ad\<rparr>\<rparr>"

definition storage_failed :: "string \<Rightarrow> go_error \<Rightarrow> host \<Rightarrow> host" where
  "storage_failed op e h = h\<lparr>h_kv := (h_kv h)\<lparr>kv_err :=
     Some (WrapErr (op @ '' (contract='' @ Hex (kv_addr (h_kv h)) @ '')'') e)\<rparr>\<rparr>"

definition KV_Get :: "host \<Rightarrow> bytes \<Rightarrow> bytes option \<times> host" where
  "KV_Get h key = (if kv_err (h_kv h) \<noteq> None then (None, h)
     else (case adapter_Get (storage (h_vm h)) (kv_addr (h_kv h)) key of
       (Inl e, ad) \<Rightarrow> (None, storage_failed ''storage get'' e (set_storage ad h))
     | (Inr v, ad) \<Rightarrow> (v, set_storage ad h)))"

definition KV_Set :: "host \<Rightarrow> bytes \<Rightarrow> bytes option \<Rightarrow> host" where
  "KV_Set h key value = (if kv_err (h_kv h) \<noteq> None then h
     else (case adapter_Set (storage (h_vm h)) (kv_addr (h_kv h)) key value of
       (Some e, ad) \<Rightarrow> storage_failed ''storage set'' e (set_storage ad h)
     | (None, ad) \<Rightarrow> set_storage ad h))"

definition KV_Delete :: "host \<Rightarrow> bytes \<Rightarrow> host" where
  "KV_Delete h key = (if kv_err (h_kv h) \<noteq> None then h
     else (case adapter_Delete (storage (h_vm h)) (kv_addr (h_kv h)) key of
       (Some e, ad) \<Rightarrow> storage_failed ''storage delete'' e (set_storage ad h)
     | (None, ad) \<Rightarrow> set_storage ad h))"

datatype wasm_iterator =
    WasmIterator sliceIterator "bytes option" "bytes option"
  | EmptyIterator

primrec wi_Domain :: "wasm_iterator \<Rightarrow> bytes option \<times> bytes option" where
  "wi_Domain (WasmIterator inner start end) = (start, end)"
| "wi_Domain EmptyIterator = (None, None)"

primrec wi_Valid :: "wasm_iterator \<Rightarrow> bool" where
  "wi_Valid (WasmIterator inner start end) = it_Valid inner"
| "wi_Valid EmptyIterator = False"

primrec wi_Next :: "wasm_iterator \<Rightarrow> wasm_iterator" where
  "wi_Next (WasmIterator inner start end) = WasmIterator (it_Next inner) start end"
| "wi_Next EmptyIterator = EmptyIterator"

primrec wi_Key :: "wasm_iterator \<Rightarrow> bytes option" where
  "wi_Key (WasmIterator inner start end) = it_Key inner"
| "wi_Key EmptyIterator = None"

primrec wi_Value :: "wasm_iterator \<Rightarrow> bytes option" where
  "wi_Value (WasmIterator inner start end) = it_Value inner"
| "wi_Value EmptyIterator = None"

text \<open>\<^verbatim>\<open>Iterator\<close> and \<^verbatim>\<open>ReverseIterator\<close> differ in the order only; neither looks at or records errors.\<close>

definition KV_scan :: "Order \<Rightarrow> host \<Rightarrow> bytes option \<Rightarrow> bytes option \<Rightarrow> wasm_iterator \<times> host" where
  "KV_scan ord h start end = (case adapter_Range (storage (h_vm h)) (kv_addr (h_kv h)) start end ord of
       (Inl e, ad) \<Rightarrow> (EmptyIterator, set_storage ad h)
     | (Inr iter, ad) \<Rightarrow> (WasmIterator iter start end, set_storage ad h))"

definition KV_Iterator :: "host \<Rightarrow> bytes option \<Rightarrow> bytes option \<Rightarrow> wasm_iterator \<times> host" where
  "KV_Iterator h start end = KV_scan Ascending h start end"

definition KV_ReverseIterator :: "host \<Rightarrow> bytes option \<Rightarrow> bytes option \<Rightarrow> wasm_iterator \<times> host" where
  "KV_ReverseIterator h start end = KV_scan Descending h start end"

subsection \<open>Address conversions\<close>

definition humanizeAddress :: "bytes \<Rightarrow> (go_error + string) \<times> uint64" where
  "humanizeAddress canonical =
     (if length canonical \<noteq> 20
      then (Inl (PlainErr (''invalid canonical address length: '' @ dec_nat (length canonical))), GasCostAddrOp)
      else (Inr (''0x'' @ hex_EncodeToString canonical), GasCostAddrOp))"

definition canonicalizeAddress :: "string \<Rightarrow> (go_error + bytes) \<times> uint64" where
  "canonicalizeAddress human = (let s = TrimHexPrefix human in
     if length s \<noteq> 40
     then (Inl (PlainErr (''invalid address length: '' @ dec_nat (length s) @ '' hex chars, want 40'')), GasCostAddrOp)
     else (case hex_DecodeString s of
       Inl e \<Rightarrow> (Inl (WrapErr ''invalid hex'' (PlainErr (hex_error_text e))), GasCostAddrOp)
     | Inr b \<Rightarrow> (Inr b, GasCostAddrOp)))"

definition validateAddress :: "string \<Rightarrow> uint64 \<times> go_error option" where
  "validateAddress human = (case canonicalizeAddress human of
       (Inl e, gas) \<Rightarrow> (gas, Some e)
     | (Inr _, gas) \<Rightarrow> (gas, None))"

subsection \<open>The engine and its host calls\<close>

datatype 'r prog =
    Done 'r uint64
  | HGet bytes "bytes option \<Rightarrow> 'r prog"
  | HSet bytes "bytes option" "'r prog"
  | HDelete bytes "'r prog"
  | HScan Order "bytes option" "bytes option" "wasm_iterator \<Rightarrow> 'r prog"
  | HHumanize bytes "(go_error + string) \<times> uint64 \<Rightarrow> 'r prog"
  | HCanonicalize string "(go_error + bytes) \<times> uint64 \<Rightarrow> 'r prog"
  | HValidate string "uint64 \<times> go_error option \<Rightarrow> 'r prog"
  | HQuery query_request uint64 "go_error + query_response \<Rightarrow> uint64 \<Rightarrow> 'r prog"

record engine =
  eng_StoreCode :: "bytes \<Rightarrow> uint64 \<Rightarrow> (string + bytes) \<times> uint64"
  eng_Instantiate :: "bytes \<Rightarrow> env \<Rightarrow> message_info \<Rightarrow> bytes \<Rightarrow> uint64 \<Rightarrow> (string + contract_result) prog"
  eng_Execute :: "bytes \<Rightarrow> env \<Rightarrow> message_info \<Rightarrow> bytes \<Rightarrow> uint64 \<Rightarrow> (string + contract_result) prog"
  eng_Query :: "bytes \<Rightarrow> env \<Rightarrow> bytes \<Rightarrow> uint64 \<Rightarrow> (string + query_result) prog"
  eng_Reply :: "bytes \<Rightarrow> env \<Rightarrow> reply \<Rightarrow> uint64 \<Rightarrow> (string + contract_result) prog"

type_synonym query_fn =
  "nitrovm \<Rightarrow> address \<Rightarrow> bytes \<Rightarrow> uint64 \<Rightarrow> ((go_error + bytes option) \<times> uint64 \<times> nitrovm) option"

subsection \<open>Chain queries\<close>

definition bankQuery :: "nitrovm \<Rightarrow> bank_query \<Rightarrow> go_error + query_response" where
  "bankQuery n query = (case bankq_Balance query of
       Some bq \<Rightarrow> (case HexToAddress (bq_address bq) of
           Inl e \<Rightarrow> Inl e
         | Inr addr \<Rightarrow> Inr (BalanceResponse
             \<lparr>Denom = bq_denom bq, coin_amount = Amount_String (GetBalance n addr)\<rparr>))
     | None \<Rightarrow> (case bankq_AllBalances query of
           Some a \<Rightarrow> (case HexToAddress a of
               Inl e \<Rightarrow> Inl e
             | Inr addr \<Rightarrow> Inr (AllBalancesResponse
                 [\<lparr>Denom = ''YELLOW'', coin_amount = Amount_String (GetBalance n addr)\<rparr>]))
         | None \<Rightarrow> Inl (PlainErr ''unsupported bank query'')))"

definition wasmQuery :: "query_fn \<Rightarrow> nitrovm \<Rightarrow> GasMeter \<Rightarrow> wasm_query \<Rightarrow> uint64
    \<Rightarrow> ((go_error + query_response) \<times> GasMeter \<times> nitrovm) option" where
  "wasmQuery vmQuery n meter query gasLimit = (case wasmq_Smart query of
       None \<Rightarrow> Some (Inl (PlainErr ''unsupported wasm query''), meter, n)
     | Some smart \<Rightarrow> (case HexToAddress (sq_contract smart) of
         Inl e \<Rightarrow> Some (Inl e, meter, n)
       | Inr addr \<Rightarrow> (case vmQuery n addr (sq_msg smart) gasLimit of
           None \<Rightarrow> None
         | Some (result, gasUsed, n') \<Rightarrow> (case ConsumeGas meter gasUsed of
             (Some consumeErr, meter') \<Rightarrow>
               Some (Inl (WrapErr ''cross-contract query out of gas'' consumeErr), meter', n')
           | (None, meter') \<Rightarrow> (case result of
               Inl e \<Rightarrow> Some (Inl e, meter', n')
             | Inr data \<Rightarrow> Some (Inr (SmartResponse data), meter', n'))))))"

definition chainQuerier_Query :: "query_fn \<Rightarrow> nitrovm \<Rightarrow> GasMeter \<Rightarrow> query_request \<Rightarrow> uint64
    \<Rightarrow> ((go_error + query_response) \<times> GasMeter \<times> nitrovm) option" where
  "chainQuerier_Query vmQuery n meter request gasLimit = (case req_Bank request of
       Some bq \<Rightarrow> (case ConsumeGas meter GasCostStorageRead of
           (Some e, meter') \<Rightarrow> Some (Inl (WrapErr ''query out of gas'' e), meter', n)
         | (None, meter') \<Rightarrow> Some (bankQuery n bq, meter', n))
     | None \<Rightarrow> (case req_Wasm request of
           Some wq \<Rightarrow> wasmQuery vmQuery n meter wq gasLimit
         | None \<Rightarrow> Some (Inl (PlainErr ''unsupported query type''), meter, n)))"

subsection \<open>Running a contract\<close>

primrec run_prog :: "query_fn \<Rightarrow> 'r prog \<Rightarrow> host \<Rightarrow> ('r \<times> uint64 \<times> host) option" where
  "run_prog vmQuery (Done r gasUsed) h = Some (r, gasUsed, h)"
| "run_prog vmQuery (HGet k c) h = (case KV_Get h k of (v, h') \<Rightarrow> run_prog vmQuery (c v) h')"
| "run_prog vmQuery (HSet k v p) h = run_prog vmQuery p (KV_Set h k v)"
| "run_prog vmQuery (HDelete k p) h = run_prog vmQuery p (KV_Delete h k)"
| "run_prog vmQuery (HScan ord lo hi c) h =
     (case (case ord of Ascending \<Rightarrow> KV_Iterator h lo hi | Descending \<Rightarrow> KV_ReverseIterator h lo hi) of
       (it, h') \<Rightarrow> run_prog vmQuery (c it) h')"
| "run_prog vmQuery (HHumanize a c) h = run_prog vmQuery (c (humanizeAddress a)) h"
| "run_prog vmQuery (HCanonicalize s c) h = run_prog vmQuery (c (canonicalizeAddress s)) h"
| "run_prog vmQuery (HValidate s c) h = run_prog vmQuery (c (validateAddress s)) h"
| "run_prog vmQuery (HQuery req gl c) h =
     (case chainQuerier_Query vmQuery (h_vm h) (h_meter h) req gl of
       None \<Rightarrow> None
     | Some (res, meter', n') \<Rightarrow>
         run_prog vmQuery (c res (GasConsumed meter')) (h\<lparr>h_vm := n', h_meter := meter'\<rparr>))"

text \<open>
  A call into the engine: a fresh key-value store for the contract, a fresh meter, the run, and the
  three error checks that follow every call in the source (the store's first error, the engine's
  error under \<open>label\<close>, the error the contract returned).
\<close>

definition newHost :: "nitrovm \<Rightarrow> address \<Rightarrow> uint64 \<Rightarrow> host" where
  "newHost n contract gasLimit =
     \<lparr>h_vm = n, h_kv = newContractKVStore contract, h_meter = NewGasMeter gasLimit\<rparr>"

fun vm_Query :: "engine \<Rightarrow> nat \<Rightarrow> query_fn" where
  "vm_Query eng 0 n contract msg gasLimit = None"
| "vm_Query eng (Suc fuel) n contract msg gasLimit = (case gm_get (contracts n) contract of
       None \<Rightarrow> Some (Inl (CoreErr ErrContractNotFound), 0, n)
     | Some ci \<Rightarrow>
         (case run_prog (vm_Query eng fuel)
                 (eng_Query eng (cm_Checksum ci) (makeEnv n contract) msg gasLimit)
                 (newHost n contract gasLimit) of
           None \<Rightarrow> None
         | Some (result, gasUsed, h) \<Rightarrow> Some
             ((case kv_err (h_kv h) of
                 Some e \<Rightarrow> Inl (DetailErr ErrStorageError (Error e))
               | None \<Rightarrow> (case result of
                   Inl err \<Rightarrow> Inl (WrapErr ''query'' (PlainErr err))
                 | Inr r \<Rightarrow> if qr_Err r \<noteq> [] then Inl (DetailErr ErrContractError (qr_Err r))
                            else Inr (qr_Ok r))),
              gasUsed, h_vm h)))"

end
