(* ===== verification/Runtime_VM.thy ===== *)
theory Runtime_VM
  imports Runtime_Host
begin

text \<open>
  The contract lifecycle of \<^verbatim>\<open>runtime/vm.go\<close>: storing code, instantiating, executing, and the dispatcher
  of sub-messages with its replies.

  \<^verbatim>\<open>executeInternal\<close>, \<^verbatim>\<open>instantiateInternal\<close>, \<^verbatim>\<open>dispatchSingleMessage\<close>, \<^verbatim>\<open>invokeReply\<close> and
  \<^verbatim>\<open>dispatchMessages\<close> call each other with a growing depth. Each of the first four takes the dispatcher
  it calls, at the depth it calls it with, as the argument \<open>dispatch\<close>; \<open>dispatchMessages\<close> closes the loop
  by passing itself at depth plus one, and its recursion ends because the depth is below the limit.
  \<open>None\<close> is the exhaustion of the fuel \<open>qf\<close> of nested contract queries, see \<open>Runtime_Host\<close>. Every other
  outcome is a value: an error or a result, the gas used, and the VM state, on errors too.
\<close>

definition maxDispatchDepth :: nat where
  "maxDispatchDepth = 10"

record dispatchResult =
  dr_Events :: "event list"
  dr_DataOverride :: "bytes option"
  dr_GasUsed :: uint64

definition dr_empty :: dispatchResult where
  "dr_empty = \<lparr>dr_Events = [], dr_DataOverride = None, dr_GasUsed = 0\<rparr>"

type_synonym dispatch_fn =
  "nitrovm \<Rightarrow> address \<Rightarrow> sub_msg list \<Rightarrow> uint64 \<Rightarrow> (dispatchResult \<times> go_error option \<times> nitrovm) option"

type_synonym 'a call_result = "((go_error + 'a) \<times> uint64 \<times> nitrovm) option"

subsection \<open>Storing code\<close>

definition register_code :: "nitrovm \<Rightarrow> bytes \<Rightarrow> nitrovm" where
  "register_code n checksum =
     (let hexID = hex_EncodeToString checksum;
          n1 = n\<lparr>codes := gm_put hexID checksum (codes n)\<rparr>
      in case gm_get (seqByCode n1) hexID of
           Some _ \<Rightarrow> n1
         | None \<Rightarrow> let s = codeSeq n1 + 1 in
             n1\<lparr>codeSeq := s, codeBySeq := gm_put s checksum (codeBySeq n1),
                seqByCode := gm_put hexID s (seqByCode n1)\<rparr>)"

definition StoreCode :: "engine \<Rightarrow> nitrovm \<Rightarrow> bytes \<Rightarrow> address option \<Rightarrow> uint64 option
    \<Rightarrow> (go_error + bytes) \<times> uint64 \<times> nitrovm" where
  "StoreCode eng n code sender nonce =
     (if length code > MaxCodeSize
      then (Inl (DetailErr ErrCodeTooLarge (dec_nat (length code) @ '' bytes exceeds ''
              @ dec_nat MaxCodeSize @ '' byte limit'')), 0, n)
      else (case (case sender of None \<Rightarrow> None | Some s \<Rightarrow> validateNonce n s nonce) of
        Some e \<Rightarrow> (Inl e, 0, n)
      | None \<Rightarrow>
          let gasLimit = of_nat (length code) * GasCostStoreCodePerByte in
          (case eng_StoreCode eng code gasLimit of
            (Inl err, _) \<Rightarrow> (Inl (WrapErr ''store code'' (PlainErr err)), 0, n)
          | (Inr checksum, gasUsed) \<Rightarrow>
              let n1 = register_code n checksum;
                  n2 = (case (sender, nonce) of
                          (Some s, Some _) \<Rightarrow> increment_nonce n1 s
                        | _ \<Rightarrow> n1)
              in (Inr checksum, gasUsed, n2))))"

subsection \<open>One engine call and the dispatch of its messages\<close>

text \<open>The checks after \<^verbatim>\<open>n.vm.Execute\<close> and \<^verbatim>\<open>n.vm.Instantiate\<close>, in the order of the source.\<close>

definition call_outcome :: "string \<Rightarrow> go_error option \<Rightarrow> string + contract_result
    \<Rightarrow> go_error + response option" where
  "call_outcome label store_err result = (case store_err of
       Some e \<Rightarrow> Inl (DetailErr ErrStorageError (Error e))
     | None \<Rightarrow> (case result of
         Inl err \<Rightarrow> Inl (WrapErr label (PlainErr err))
       | Inr r \<Rightarrow> if cr_Err r \<noteq> [] then Inl (DetailErr ErrContractError (cr_Err r)) else Inr (cr_Ok r)))"

text \<open>
  The rest of both functions: data, attributes and events of the response, the dispatch of its
  sub-messages with what is left of the gas, and the sums. The result is the \<^verbatim>\<open>ExecuteResult\<close>.
\<close>

definition collect_response :: "dispatch_fn \<Rightarrow> address \<Rightarrow> response option \<Rightarrow> uint64 \<Rightarrow> uint64 \<Rightarrow> nitrovm
    \<Rightarrow> ExecuteResult call_result" where
  "collect_response dispatch contract ok gasLimit gasUsed n = (case ok of
       None \<Rightarrow> Some (Inr \<lparr>er_Data = None, er_Attributes = [], er_Events = [], er_GasUsed = gasUsed\<rparr>, gasUsed, n)
     | Some r \<Rightarrow>
         let res = \<lparr>er_Data = resp_Data r, er_Attributes = resp_Attributes r,
                    er_Events = resp_Events r, er_GasUsed = gasUsed\<rparr> in
         if resp_Messages r = [] then Some (Inr res, gasUsed, n)
         else let remaining = safeSubGas gasLimit gasUsed in
           (case dispatch n contract (resp_Messages r) remaining of
             None \<Rightarrow> None
           | Some (dr, Some err, n') \<Rightarrow> Some (Inl (WrapErr ''dispatch'' err), gasUsed + dr_GasUsed dr, n')
           | Some (dr, None, n') \<Rightarrow>
               let total = gasUsed + dr_GasUsed dr in
               Some (Inr (res\<lparr>er_GasUsed := total, er_Events := er_Events res @ dr_Events dr,
                 er_Data := (case dr_DataOverride dr of Some d \<Rightarrow> Some d | None \<Rightarrow> er_Data res)\<rparr>),
                 total, n')))"

definition executeInternal :: "engine \<Rightarrow> nat \<Rightarrow> dispatch_fn \<Rightarrow> nitrovm \<Rightarrow> address \<Rightarrow> address \<Rightarrow> bytes
    \<Rightarrow> coin list \<Rightarrow> uint64 \<Rightarrow> ExecuteResult call_result" where
  "executeInternal eng qf dispatch n contract sender msg funds gasLimit =
     (case gm_get (contracts n) contract of
       None \<Rightarrow> Some (Inl (CoreErr ErrContractNotFound), 0, n)
     | Some ci \<Rightarrow>
         (case (if length funds > 0 then transferFunds n sender contract funds else (None, n)) of
           (Some err, n1) \<Rightarrow> Some (Inl err, 0, n1)
         | (None, n1) \<Rightarrow>
             (case run_prog (vm_Query eng qf)
                 (eng_Execute eng (cm_Checksum ci) (makeEnv n1 contract)
                    \<lparr>info_sender = Hex sender, info_funds = funds\<rparr> msg gasLimit)
                 (newHost n1 contract gasLimit) of
               None \<Rightarrow> None
             | Some (result, gasUsed, h) \<Rightarrow>
                 (case call_outcome ''execute'' (kv_err (h_kv h)) result of
                   Inl err \<Rightarrow> Some (Inl err, gasUsed, h_vm h)
                 | Inr ok \<Rightarrow> collect_response dispatch contract ok gasLimit gasUsed (h_vm h)))))"

text \<open>The part of \<^verbatim>\<open>instantiateInternal\<close> under the lock: register the instance, move the funds, undo.\<close>

definition begin_instance :: "nitrovm \<Rightarrow> bytes \<Rightarrow> address \<Rightarrow> string \<Rightarrow> coin list
    \<Rightarrow> (go_error + address \<times> bytes) \<times> nitrovm" where
  "begin_instance n codeID sender label funds =
     (case gm_get (codes n) (hex_EncodeToString codeID) of
       None \<Rightarrow> (Inl (CoreErr ErrCodeNotFound), n)
     | Some checksum \<Rightarrow>
         let n1 = n\<lparr>instanceCount := instanceCount n + 1\<rparr>;
             addr = CreateContractAddress sender codeID (instanceCount n1);
             n2 = n1\<lparr>contracts := gm_put addr
                    \<lparr>cm_Checksum = checksum, cm_Label = label, cm_Creator = sender\<rparr> (contracts n1)\<rparr>
         in (case transferFunds n2 sender addr funds of
              (Some err, n3) \<Rightarrow> (Inl err, n3\<lparr>contracts := gm_del addr (contracts n3),
                                            instanceCount := instanceCount n3 - 1\<rparr>)
            | (None, n3) \<Rightarrow> (Inr (addr, checksum), n3)))"

definition instantiateInternal :: "engine \<Rightarrow> nat \<Rightarrow> dispatch_fn \<Rightarrow> nitrovm \<Rightarrow> bytes \<Rightarrow> address \<Rightarrow> bytes
    \<Rightarrow> string \<Rightarrow> coin list \<Rightarrow> uint64 \<Rightarrow> InstantiateResult call_result" where
  "instantiateInternal eng qf dispatch n codeID sender msg label funds gasLimit =
     (case begin_instance n codeID sender label funds of
       (Inl err, n1) \<Rightarrow> Some (Inl err, 0, n1)
     | (Inr (addr, checksum), n1) \<Rightarrow>
         (case run_prog (vm_Query eng qf)
             (eng_Instantiate eng checksum (makeEnv n1 addr)
                \<lparr>info_sender = Hex sender, info_funds = funds\<rparr> msg gasLimit)
             (newHost n1 addr gasLimit) of
           None \<Rightarrow> None
         | Some (result, gasUsed, h) \<Rightarrow>
             (case call_outcome ''instantiate'' (kv_err (h_kv h)) result of
               Inl err \<Rightarrow> Some (Inl err, gasUsed, h_vm h)
             | Inr ok \<Rightarrow>
                 (case collect_response dispatch addr ok gasLimit gasUsed (h_vm h) of
                   None \<Rightarrow> None
                 | Some (Inl err, g, n2) \<Rightarrow> Some (Inl err, g, n2)
                 | Some (Inr res, g, n2) \<Rightarrow> Some (Inr \<lparr>ir_ContractAddress = addr, ir_Data = er_Data res,
                     ir_Attributes = er_Attributes res, ir_Events = er_Events res,
                     ir_GasUsed = er_GasUsed res\<rparr>, g, n2)))))"

subsection \<open>Sub-messages\<close>

text \<open>\<^verbatim>\<open>toCoins\<close> only changes the Go type.\<close>

definition toCoins :: "coin list \<Rightarrow> coin list" where
  "toCoins arr = arr"

fun coinString_from :: "nat \<Rightarrow> string \<Rightarrow> coin list \<Rightarrow> string" where
  "coinString_from i s [] = s"
| "coinString_from i s (c # coins) =
     coinString_from (i + 1) ((if i > 0 then s @ '','' else s) @ coin_amount c @ Denom c) coins"

definition coinString :: "coin list \<Rightarrow> string" where
  "coinString coins = coinString_from 0 [] coins"

definition wasm_event :: "event_attribute list \<Rightarrow> event list" where
  "wasm_event attrs = (if length attrs > 0 then [\<lparr>ev_type = ''wasm'', ev_attributes = attrs\<rparr>] else [])"

definition dispatchSingleMessage :: "engine \<Rightarrow> nat \<Rightarrow> dispatch_fn \<Rightarrow> nitrovm \<Rightarrow> address \<Rightarrow> cosmos_msg
    \<Rightarrow> uint64 \<Rightarrow> (event list \<times> bytes option) call_result" where
  "dispatchSingleMessage eng qf dispatch n contractAddr msg gasLimit =
     (case Option.bind (msg_Bank msg) bank_Send of
       Some send \<Rightarrow>
         (case HexToAddress (send_to send) of
           Inl addrErr \<Rightarrow> Some (Inl (WrapErr ''dispatch bank send: bad address'' addrErr), 0, n)
         | Inr to \<Rightarrow>
             (case transferFunds n contractAddr to (toCoins (send_amount send)) of
               (Some txErr, n1) \<Rightarrow> Some (Inl (WrapErr ''dispatch bank send'' txErr), 0, n1)
             | (None, n1) \<Rightarrow> Some (Inr ([\<lparr>ev_type = ''transfer'', ev_attributes =
                   [\<lparr>ea_key = ''sender'', ea_value = Hex contractAddr\<rparr>,
                    \<lparr>ea_key = ''recipient'', ea_value = send_to send\<rparr>,
                    \<lparr>ea_key = ''amount'', ea_value = coinString (send_amount send)\<rparr>]\<rparr>], None), 0, n1)))
     | None \<Rightarrow> (case Option.bind (msg_Wasm msg) wasm_Execute of
         Some wmsg \<Rightarrow>
           (case HexToAddress (exec_contract wmsg) of
             Inl addrErr \<Rightarrow> Some (Inl (WrapErr ''dispatch wasm execute: bad address'' addrErr), 0, n)
           | Inr target \<Rightarrow>
               (case executeInternal eng qf dispatch n target contractAddr (exec_msg wmsg)
                       (toCoins (exec_funds wmsg)) gasLimit of
                 None \<Rightarrow> None
               | Some (Inl execErr, subGasUsed, n1) \<Rightarrow>
                   Some (Inl (WrapErr ''dispatch wasm execute'' execErr), subGasUsed, n1)
               | Some (Inr subRes, subGasUsed, n1) \<Rightarrow>
                   Some (Inr (wasm_event (er_Attributes subRes) @ er_Events subRes, er_Data subRes),
                     subGasUsed, n1)))
       | None \<Rightarrow> (case Option.bind (msg_Wasm msg) wasm_Instantiate of
           Some imsg \<Rightarrow>
             (case gm_get (codeBySeq n) (inst_codeID imsg) of
               None \<Rightarrow> Some (Inl (PlainErr (''dispatch wasm instantiate: code_id ''
                   @ dec_nat (unat (inst_codeID imsg)) @ '' not found'')), 0, n)
             | Some checksum \<Rightarrow>
                 (case instantiateInternal eng qf dispatch n checksum contractAddr (inst_msg imsg)
                         (inst_label imsg) (toCoins (inst_funds imsg)) gasLimit of
                   None \<Rightarrow> None
                 | Some (Inl instErr, subGasUsed, n1) \<Rightarrow>
                     Some (Inl (WrapErr ''dispatch wasm instantiate'' instErr), subGasUsed, n1)
                 | Some (Inr res, subGasUsed, n1) \<Rightarrow>
                     Some (Inr (\<lparr>ev_type = ''instantiate'', ev_attributes =
                         [\<lparr>ea_key = ''_contract_address'', ea_value = Hex (ir_ContractAddress res)\<rparr>,
                          \<lparr>ea_key = ''code_id'', ea_value = dec_nat (unat (inst_codeID imsg))\<rparr>]\<rparr>
                         # wasm_event (ir_Attributes res) @ ir_Events res, ir_Data res), subGasUsed, n1)))
         | None \<Rightarrow> Some (Inl (DetailErr ErrUnsupportedMsg
             ''only bank.send, wasm.execute, and wasm.instantiate are supported''), 0, n))))"

definition invokeReply :: "engine \<Rightarrow> nat \<Rightarrow> dispatch_fn \<Rightarrow> nitrovm \<Rightarrow> address \<Rightarrow> reply
    \<Rightarrow> uint64 \<Rightarrow> (event list \<times> bytes option) call_result" where
  "invokeReply eng qf dispatch n contractAddr rep gasLimit =
     (case gm_get (contracts n) contractAddr of
       None \<Rightarrow> Some (Inl (CoreErr ErrContractNotFound), 0, n)
     | Some ci \<Rightarrow>
         (case run_prog (vm_Query eng qf)
             (eng_Reply eng (cm_Checksum ci) (makeEnv n contractAddr) rep gasLimit)
             (newHost n contractAddr gasLimit) of
           None \<Rightarrow> None
         | Some (Inl replyErr, gasUsed, h) \<Rightarrow> Some (Inl (DetailErr ErrReplyFailed replyErr), gasUsed, h_vm h)
         | Some (Inr result, gasUsed, h) \<Rightarrow>
             if cr_Err result \<noteq> [] then Some (Inl (DetailErr ErrReplyFailed (cr_Err result)), gasUsed, h_vm h)
             else (case cr_Ok result of
               None \<Rightarrow> Some (Inr ([], None), gasUsed, h_vm h)
             | Some r \<Rightarrow>
                 let events = (if length (resp_Attributes r) > 0
                       then [\<lparr>ev_type = ''reply'', ev_attributes = resp_Attributes r\<rparr>] else [])
                       @ resp_Events r;
                     dataOverride = resp_Data r
                 in if resp_Messages r = [] then Some (Inr (events, dataOverride), gasUsed, h_vm h)
                    else let remaining = safeSubGas gasLimit gasUsed in
                      (case dispatch (h_vm h) contractAddr (resp_Messages r) remaining of
                        None \<Rightarrow> None
                      | Some (dr, Some dispatchErr, n1) \<Rightarrow>
                          Some (Inl (WrapErr ''reply dispatch'' dispatchErr), gasUsed + dr_GasUsed dr, n1)
                      | Some (dr, None, n1) \<Rightarrow>
                          Some (Inr (events @ dr_Events dr,
                              case dr_DataOverride dr of Some d \<Rightarrow> Some d | None \<Rightarrow> dataOverride),
                            gasUsed + dr_GasUsed dr, n1)))))"

text \<open>The bookkeeping after a call: gas is added to the result and taken from what remains.\<close>

definition add_gas :: "uint64 \<Rightarrow> dispatchResult \<Rightarrow> dispatchResult" where
  "add_gas g dr = dr\<lparr>dr_GasUsed := dr_GasUsed dr + g\<rparr>"

definition add_events :: "event list \<Rightarrow> bytes option \<Rightarrow> dispatchResult \<Rightarrow> dispatchResult" where
  "add_events evs data dr = dr\<lparr>dr_Events := dr_Events dr @ evs,
     dr_DataOverride := (case data of Some d \<Rightarrow> Some d | None \<Rightarrow> dr_DataOverride dr)\<rparr>"

text \<open>
  The loop of \<^verbatim>\<open>dispatchMessages\<close> over \<open>single\<close> and \<open>reply\<close>, the two functions it calls at its depth.
\<close>

fun dispatch_loop ::
    "(nitrovm \<Rightarrow> address \<Rightarrow> cosmos_msg \<Rightarrow> uint64 \<Rightarrow> (event list \<times> bytes option) call_result)
     \<Rightarrow> (nitrovm \<Rightarrow> address \<Rightarrow> reply \<Rightarrow> uint64 \<Rightarrow> (event list \<times> bytes option) call_result)
     \<Rightarrow> nitrovm \<Rightarrow> address \<Rightarrow> sub_msg list \<Rightarrow> dispatchResult \<Rightarrow> uint64
     \<Rightarrow> (dispatchResult \<times> go_error option \<times> nitrovm) option" where
  "dispatch_loop single reply n contractAddr [] dr remaining = Some (dr, None, n)"
| "dispatch_loop single reply n contractAddr (sub # msgs) dr remaining =
     (let canCatchError = (sub_ReplyOn sub = ReplyError \<or> sub_ReplyOn sub = ReplyAlways);
          vmSnap = vm_Snapshot n
      in case single n contractAddr (sub_Msg sub) remaining of
        None \<Rightarrow> None
      | Some (Inl dispatchErr, subGasUsed, n1) \<Rightarrow>
          let dr1 = add_gas subGasUsed dr; remaining1 = safeSubGas remaining subGasUsed in
          if canCatchError then
            let n2 = vm_Restore vmSnap n1;
                rep = \<lparr>rep_ID = sub_ID sub, rep_Payload = sub_Payload sub,
                       rep_Result = SubErr (Error dispatchErr)\<rparr>
            in (case reply n2 contractAddr rep remaining1 of
                 None \<Rightarrow> None
               | Some (Inl err, replyGasUsed, n3) \<Rightarrow> Some (add_gas replyGasUsed dr1, Some err, n3)
               | Some (Inr (replyEvents, replyData), replyGasUsed, n3) \<Rightarrow>
                   dispatch_loop single reply n3 contractAddr msgs
                     (add_events replyEvents replyData (add_gas replyGasUsed dr1))
                     (safeSubGas remaining1 replyGasUsed))
          else Some (dr1, Some dispatchErr, n1)
      | Some (Inr (subEvents, subData), subGasUsed, n1) \<Rightarrow>
          let dr1 = add_gas subGasUsed dr; remaining1 = safeSubGas remaining subGasUsed in
          if sub_ReplyOn sub = ReplySuccess \<or> sub_ReplyOn sub = ReplyAlways then
            let rep = \<lparr>rep_ID = sub_ID sub, rep_Payload = sub_Payload sub,
                       rep_Result = SubOk subEvents subData\<rparr>
            in (case reply n1 contractAddr rep remaining1 of
                 None \<Rightarrow> None
               | Some (Inl err, replyGasUsed, n2) \<Rightarrow> Some (add_gas replyGasUsed dr1, Some err, n2)
               | Some (Inr (replyEvents, replyData), replyGasUsed, n2) \<Rightarrow>
                   dispatch_loop single reply n2 contractAddr msgs
                     (add_events (subEvents @ replyEvents) replyData (add_gas replyGasUsed dr1))
                     (safeSubGas remaining1 replyGasUsed))
          else dispatch_loop single reply n1 contractAddr msgs (add_events subEvents None dr1) remaining1)"

function dispatchMessages :: "engine \<Rightarrow> nat \<Rightarrow> nat \<Rightarrow> dispatch_fn" where
  "dispatchMessages eng qf depth =
     (if depth \<ge> maxDispatchDepth then (\<lambda>n contractAddr msgs gasLimit.
        Some (dr_empty, Some (CoreErr ErrMaxDispatchDepth), n))
      else (\<lambda>n contractAddr msgs gasLimit.
        dispatch_loop
          (dispatchSingleMessage eng qf (dispatchMessages eng qf (depth + 1)))
          (invokeReply eng qf (dispatchMessages eng qf (depth + 1)))
          n contractAddr msgs dr_empty gasLimit))"
  by pat_completeness auto
termination
  by (relation "measure (\<lambda>(eng, qf, depth). maxDispatchDepth - depth)") auto

declare dispatchMessages.simps [simp del]

subsection \<open>The public entry points\<close>

text \<open>Both validate the nonce first and count it up only after a success of a signed call.\<close>

definition with_nonce :: "nitrovm \<Rightarrow> address \<Rightarrow> uint64 option \<Rightarrow> 'a call_result \<Rightarrow> 'a call_result" where
  "with_nonce n sender nonce body = (case validateNonce n sender nonce of
       Some e \<Rightarrow> Some (Inl e, 0, n)
     | None \<Rightarrow> (case body of
         None \<Rightarrow> None
       | Some (Inl err, gasUsed, n1) \<Rightarrow> Some (Inl err, gasUsed, n1)
       | Some (Inr res, gasUsed, n1) \<Rightarrow>
           Some (Inr res, gasUsed, (if nonce \<noteq> None then increment_nonce n1 sender else n1))))"

definition Instantiate :: "engine \<Rightarrow> nat \<Rightarrow> nitrovm \<Rightarrow> bytes \<Rightarrow> address \<Rightarrow> bytes \<Rightarrow> string \<Rightarrow> coin list
    \<Rightarrow> uint64 \<Rightarrow> uint64 option \<Rightarrow> InstantiateResult call_result" where
  "Instantiate eng qf n codeID sender msg label funds gasLimit nonce =
     with_nonce n sender nonce
       (instantiateInternal eng qf (dispatchMessages eng qf 0) n codeID sender msg label funds gasLimit)"

definition Execute :: "engine \<Rightarrow> nat \<Rightarrow> nitrovm \<Rightarrow> address \<Rightarrow> address \<Rightarrow> bytes \<Rightarrow> coin list
    \<Rightarrow> uint64 \<Rightarrow> uint64 option \<Rightarrow> ExecuteResult call_result" where
  "Execute eng qf n contract sender msg funds gasLimit nonce =
     with_nonce n sender nonce
       (executeInternal eng qf (dispatchMessages eng qf 0) n contract sender msg funds gasLimit)"

end
