(* ===== verification/Runtime_Ledger.thy ===== *)
theory Runtime_Ledger
  imports Runtime_State
begin

text \<open>
  Facts about the state operations of \<open>Runtime_State\<close>: what each does to balances, nonces, the total
  supply and the set of touched addresses; snapshots; the well-formedness invariant of the VM state.
\<close>

definition total_supply :: "nitrovm \<Rightarrow> int" where
  "total_supply n = gm_sum (\<lambda>a. Amount_val (acct_Balance a)) (accounts n)"

definition balance_of :: "nitrovm \<Rightarrow> address \<Rightarrow> int" where
  "balance_of n a = Amount_val (GetBalance n a)"

text \<open>The fields no account operation writes.\<close>

definition same_registry :: "nitrovm \<Rightarrow> nitrovm \<Rightarrow> bool" where
  "same_registry n n' \<longleftrightarrow> chainID n' = chainID n \<and> codes n' = codes n \<and> codeSeq n' = codeSeq n
     \<and> codeBySeq n' = codeBySeq n \<and> seqByCode n' = seqByCode n \<and> blockHeight n' = blockHeight n
     \<and> blockTime n' = blockTime n"

definition same_rest :: "nitrovm \<Rightarrow> nitrovm \<Rightarrow> bool" where
  "same_rest n n' \<longleftrightarrow> same_registry n n' \<and> storage n' = storage n \<and> contracts n' = contracts n
     \<and> instanceCount n' = instanceCount n"

lemma same_rest_refl [simp]: "same_rest n n"
  by (simp add: same_rest_def same_registry_def)

lemma same_rest_trans: "same_rest a b \<Longrightarrow> same_rest b c \<Longrightarrow> same_rest a c"
  by (simp add: same_rest_def same_registry_def)

subsection \<open>Single account operations\<close>

lemma getOrCreate_GetBalance [simp]: "GetBalance (snd (getOrCreateAccount n a)) b = GetBalance n b"
  by (auto simp: GetBalance_def getOrCreateAccount_def Let_def split: option.splits)

lemma getOrCreate_GetNonce [simp]: "GetNonce (snd (getOrCreateAccount n a)) b = GetNonce n b"
  by (auto simp: GetNonce_def getOrCreateAccount_def Let_def split: option.splits)

lemma getOrCreate_fst: "acct_Balance (fst (getOrCreateAccount n a)) = GetBalance n a"
  by (auto simp: GetBalance_def getOrCreateAccount_def Let_def split: option.splits)

lemma getOrCreate_has [simp]: "gm_get (accounts (snd (getOrCreateAccount n a))) a = Some (fst (getOrCreateAccount n a))"
  by (auto simp: getOrCreateAccount_def Let_def split: option.splits)

lemma getOrCreate_keeps:
  "gm_get (accounts n) b = Some x \<Longrightarrow> gm_get (accounts (snd (getOrCreateAccount n a))) b = Some x"
  by (auto simp: getOrCreateAccount_def Let_def split: option.splits)

lemma getOrCreate_supply [simp]: "total_supply (snd (getOrCreateAccount n a)) = total_supply n"
  by (auto simp: total_supply_def getOrCreateAccount_def Let_def gm_sum_put Amount_val_def
      split: option.splits)

lemma getOrCreate_touched [simp]: "touched (snd (getOrCreateAccount n a)) = touched n"
  by (auto simp: getOrCreateAccount_def Let_def split: option.splits)

lemma getOrCreate_rest: "same_rest n (snd (getOrCreateAccount n a))"
  by (auto simp: same_rest_def same_registry_def getOrCreateAccount_def Let_def split: option.splits)

lemma markTouched_simps [simp]:
  "GetBalance (markTouched n a) b = GetBalance n b"
  "GetNonce (markTouched n a) b = GetNonce n b"
  "total_supply (markTouched n a) = total_supply n"
  "accounts (markTouched n a) = accounts n"
  "set (touched (markTouched n a)) = insert a (set (touched n))"
  "same_rest n (markTouched n a)"
  by (auto simp: markTouched_def GetBalance_def GetNonce_def total_supply_def same_rest_def same_registry_def)

lemma update_account_rest: "same_rest n (update_account a f n)"
  by (auto simp: same_rest_def same_registry_def update_account_def split: option.splits)

lemma update_account_touched [simp]: "touched (update_account a f n) = touched n"
  by (auto simp: update_account_def split: option.splits)

lemma update_balance_GetBalance:
  assumes "gm_get (accounts n) a = Some x"
  shows "GetBalance (update_account a (\<lambda>y. y\<lparr>acct_Balance := f y\<rparr>) n) b
    = (if b = a then f x else GetBalance n b)"
  using assms by (auto simp: GetBalance_def update_account_def)

lemma update_balance_GetNonce [simp]:
  "GetNonce (update_account a (\<lambda>y. y\<lparr>acct_Balance := f y\<rparr>) n) b = GetNonce n b"
  by (auto simp: GetNonce_def update_account_def split: option.splits)

lemma update_balance_supply:
  assumes "gm_get (accounts n) a = Some x"
  shows "total_supply (update_account a (\<lambda>y. y\<lparr>acct_Balance := f y\<rparr>) n)
    = total_supply n - balance_of n a + Amount_val (f x)"
  using assms by (simp add: total_supply_def update_account_def gm_sum_put balance_of_def GetBalance_def)

text \<open>The common shape of the operations that assign a balance.\<close>

definition assign_balance :: "nitrovm \<Rightarrow> address \<Rightarrow> Amount \<Rightarrow> nitrovm" where
  "assign_balance n a v = markTouched
     (update_account a (\<lambda>x. x\<lparr>acct_Balance := v\<rparr>) (snd (getOrCreateAccount n a))) a"

lemma assign_balance_simps [simp]:
  "GetBalance (assign_balance n a v) b = (if b = a then v else GetBalance n b)"
  "GetNonce (assign_balance n a v) b = GetNonce n b"
  "set (touched (assign_balance n a v)) = insert a (set (touched n))"
  by (simp_all add: assign_balance_def update_balance_GetBalance [OF getOrCreate_has])

lemma assign_balance_supply:
  "total_supply (assign_balance n a v) = total_supply n - balance_of n a + Amount_val v"
  by (simp add: assign_balance_def update_balance_supply [OF getOrCreate_has] balance_of_def)

lemma assign_balance_rest: "same_rest n (assign_balance n a v)"
  unfolding assign_balance_def
  by (blast intro: same_rest_trans getOrCreate_rest update_account_rest markTouched_simps)

lemma SetBalance_assign: "SetBalance n a v = assign_balance n a v"
  by (simp add: SetBalance_def assign_balance_def case_prod_unfold)

lemma DeductGasFee_cases:
  "DeductGasFee n s g p =
     (if p = 0 then (None, n)
      else if balance_of n s < int (unat g) * int (unat p)
        then (Some (CoreErr ErrInsufficientFunds), snd (getOrCreateAccount n s))
      else (None, assign_balance n s \<lparr>amt_v = Some (balance_of n s - int (unat g) * int (unat p))\<rparr>))"
  by (simp add: DeductGasFee_def Let_def case_prod_unfold Amount_Sub_def getOrCreate_fst
      balance_of_def assign_balance_def)

subsection \<open>Nonces\<close>

lemma increment_nonce_simps [simp]:
  "GetNonce (increment_nonce n a) b = (if b = a then GetNonce n a + 1 else GetNonce n b)"
  "GetBalance (increment_nonce n a) b = GetBalance n b"
  "set (touched (increment_nonce n a)) = insert a (set (touched n))"
  by (auto simp: increment_nonce_def getOrCreateAccount_def Let_def GetNonce_def GetBalance_def update_account_def
      markTouched_def split: option.splits)

lemma increment_nonce_supply [simp]: "total_supply (increment_nonce n a) = total_supply n"
proof -
  have "total_supply (update_account a (\<lambda>x. x\<lparr>acct_Nonce := f x\<rparr>) m) = total_supply m" for f m
    by (auto simp: total_supply_def update_account_def gm_sum_put split: option.splits)
  then show ?thesis by (simp add: increment_nonce_def case_prod_unfold)
qed

lemma increment_nonce_rest: "same_rest n (increment_nonce n a)"
  unfolding increment_nonce_def case_prod_unfold
  by (blast intro: same_rest_trans getOrCreate_rest update_account_rest markTouched_simps)

lemma SetNonce_simps [simp]:
  "GetNonce (SetNonce n a v) b = (if b = a then v else GetNonce n b)"
  "GetBalance (SetNonce n a v) b = GetBalance n b"
  by (auto simp: SetNonce_def getOrCreateAccount_def Let_def GetNonce_def GetBalance_def update_account_def
      markTouched_def split: option.splits)

subsection \<open>Transfers\<close>

text \<open>The payment of one coin, as two assignments of a balance.\<close>

definition pay :: "nitrovm \<Rightarrow> address \<Rightarrow> address \<Rightarrow> int \<Rightarrow> nitrovm" where
  "pay n from to v = (let n1 = assign_balance n from \<lparr>amt_v = Some (balance_of n from - v)\<rparr> in
     assign_balance n1 to \<lparr>amt_v = Some (balance_of n1 to + v)\<rparr>)"

definition coin_value :: "coin \<Rightarrow> int option" where
  "coin_value c = (if Denom c \<noteq> ''YELLOW'' then None
     else (case NewAmountFromString (coin_amount c) of Inl _ \<Rightarrow> None | Inr a \<Rightarrow> Some (Amount_val a)))"

fun coins_value :: "coin list \<Rightarrow> int option" where
  "coins_value [] = Some 0"
| "coins_value (c # cs) = (case (coin_value c, coins_value cs) of
      (Some v, Some w) \<Rightarrow> Some (v + w) | _ \<Rightarrow> None)"

lemma coin_value_nonneg: "coin_value c = Some v \<Longrightarrow> 0 \<le> v"
  by (auto simp: coin_value_def Amount_val_def NewAmountFromString_Inr split: if_splits sum.splits)

lemma coins_value_nonneg: "coins_value cs = Some v \<Longrightarrow> 0 \<le> v"
  by (induction cs arbitrary: v) (auto split: option.splits dest: coin_value_nonneg)

lemma markTouched_update: "markTouched (update_account a f n) b = update_account a f (markTouched n b)"
  by (auto simp: markTouched_def update_account_def split: option.splits)

lemma markTouched_getOrCreate:
  "getOrCreateAccount (markTouched n b) a = map_prod id (\<lambda>m. markTouched m b) (getOrCreateAccount n a)"
  by (auto simp: markTouched_def getOrCreateAccount_def Let_def split: option.splits)

lemma update_getOrCreate:
  "gm_get (accounts n) a = Some x \<Longrightarrow>
   update_account a f (snd (getOrCreateAccount n b)) = snd (getOrCreateAccount (update_account a f n) b)"
  by (auto simp: update_account_def getOrCreateAccount_def Let_def gm_put_append gm_put_snoc
      split: option.splits)

lemma update_account_cong:
  "gm_get (accounts n) a = Some x \<Longrightarrow> f x = g x \<Longrightarrow> update_account a f n = update_account a g n"
  by (simp add: update_account_def)

lemma payment_pay:
  fixes n :: nitrovm and "from" to :: address
  defines "n1 \<equiv> snd (getOrCreateAccount n from)"
  shows "markTouched (markTouched
      (update_account to (\<lambda>a. a\<lparr>acct_Balance := Amount_Add (acct_Balance a) amt\<rparr>)
        (update_account from (\<lambda>a. a\<lparr>acct_Balance := \<lparr>amt_v = Some (balance_of n from - Amount_val amt)\<rparr>\<rparr>)
          (snd (getOrCreateAccount n1 to)))) from) to
    = pay n from to (Amount_val amt)"
proof -
  let ?set = "\<lambda>a. a\<lparr>acct_Balance := \<lparr>amt_v = Some (balance_of n from - Amount_val amt)\<rparr>\<rparr>"
  let ?m = "markTouched (update_account from ?set n1) from"
  have m: "?m = assign_balance n from \<lparr>amt_v = Some (balance_of n from - Amount_val amt)\<rparr>"
    by (simp add: assign_balance_def n1_def)
  have h: "gm_get (accounts n1) from = Some (fst (getOrCreateAccount n from))" by (simp add: n1_def)
  have "gm_get (accounts (snd (getOrCreateAccount ?m to))) to = Some (fst (getOrCreateAccount ?m to))"
    by simp
  moreover have "Amount_val (acct_Balance (fst (getOrCreateAccount ?m to))) = balance_of ?m to"
    by (simp add: getOrCreate_fst balance_of_def)
  ultimately have "update_account to (\<lambda>a. a\<lparr>acct_Balance := Amount_Add (acct_Balance a) amt\<rparr>)
        (snd (getOrCreateAccount ?m to))
      = update_account to (\<lambda>a. a\<lparr>acct_Balance := \<lparr>amt_v = Some (balance_of ?m to + Amount_val amt)\<rparr>\<rparr>)
        (snd (getOrCreateAccount ?m to))"
    by (intro update_account_cong) (auto simp: Amount_Add_def)
  then have p: "pay n from to (Amount_val amt) = markTouched
      (update_account to (\<lambda>a. a\<lparr>acct_Balance := Amount_Add (acct_Balance a) amt\<rparr>)
        (snd (getOrCreateAccount ?m to))) to"
    by (simp add: pay_def Let_def m [symmetric] assign_balance_def [of ?m])
  have "snd (getOrCreateAccount ?m to)
      = markTouched (update_account from ?set (snd (getOrCreateAccount n1 to))) from"
    by (simp add: markTouched_getOrCreate update_getOrCreate [OF h])
  then show ?thesis by (simp add: p markTouched_update)
qed

lemma transferFunds_step:
  assumes "coin_value c = Some v"
  shows "transferFunds n from to (c # cs) =
    (if v = 0 then transferFunds n from to cs
     else if balance_of n from < v
       then (Some (CoreErr ErrInsufficientFunds), snd (getOrCreateAccount n from))
     else transferFunds (pay n from to v) from to cs)"
proof -
  from assms obtain amt where "Denom c = ''YELLOW''" "NewAmountFromString (coin_amount c) = Inr amt"
    "v = Amount_val amt"
    by (auto simp: coin_value_def split: if_splits sum.splits)
  then show ?thesis
    by (simp add: case_prod_unfold Amount_Sub_def getOrCreate_fst balance_of_def [symmetric] Let_def
        payment_pay)
qed

lemma transferFunds_bad_coin:
  "coin_value c = None \<Longrightarrow> \<exists>e. transferFunds n from to (c # cs) = (Some e, n)"
  by (auto simp: coin_value_def split: if_splits sum.splits)

declare transferFunds.simps(2) [simp del]

lemma pay_balance:
  "balance_of (pay n from to v) a =
     (if from = to then balance_of n a
      else balance_of n a - (if a = from then v else 0) + (if a = to then v else 0))"
  by (auto simp: pay_def Let_def balance_of_def)

lemma pay_nonce [simp]: "GetNonce (pay n from to v) a = GetNonce n a"
  by (simp add: pay_def Let_def)

lemma pay_supply [simp]: "total_supply (pay n from to v) = total_supply n"
  by (simp add: pay_def Let_def assign_balance_supply)

lemma pay_touched [simp]: "set (touched (pay n from to v)) = {from, to} \<union> set (touched n)"
  by (auto simp: pay_def Let_def)

lemma pay_rest: "same_rest n (pay n from to v)"
  unfolding pay_def Let_def by (rule same_rest_trans [OF assign_balance_rest assign_balance_rest])

text \<open>
  Everything a transfer may do is a sequence of payments, perhaps followed by the creation of the
  empty account of a sender who cannot pay: what these two keep, a transfer keeps.
\<close>

lemma transferFunds_induct:
  assumes refl: "\<And>m. P m m"
    and trans: "\<And>a b c. P a b \<Longrightarrow> P b c \<Longrightarrow> P a c"
    and create: "\<And>m. P m (snd (getOrCreateAccount m from))"
    and pay: "\<And>m v. 0 < v \<Longrightarrow> v \<le> balance_of m from \<Longrightarrow> P m (pay m from to v)"
  shows "P n (snd (transferFunds n from to cs))"
proof (induction cs arbitrary: n)
  case Nil show ?case by (simp add: refl)
next
  case (Cons c cs)
  show ?case
  proof (cases "coin_value c")
    case None
    then show ?thesis using transferFunds_bad_coin [of c n "from" to cs] refl by auto
  next
    case (Some v)
    then have "0 \<le> v" by (rule coin_value_nonneg)
    with Some show ?thesis
      by (auto simp: transferFunds_step create Cons intro: trans [OF pay Cons])
  qed
qed

lemma transferFunds_rest: "same_rest n (snd (transferFunds n from to cs))"
  by (rule transferFunds_induct) (auto intro: same_rest_trans getOrCreate_rest pay_rest)

lemma transferFunds_supply [simp]: "total_supply (snd (transferFunds n from to cs)) = total_supply n"
  by (rule transferFunds_induct [where P = "\<lambda>a b. total_supply b = total_supply a"]) auto

lemma transferFunds_nonce [simp]: "GetNonce (snd (transferFunds n from to cs)) a = GetNonce n a"
  by (rule transferFunds_induct [where P = "\<lambda>s t. GetNonce t a = GetNonce s a"]) auto

lemma transferFunds_other:
  "a \<noteq> from \<Longrightarrow> a \<noteq> to \<Longrightarrow> balance_of (snd (transferFunds n from to cs)) a = balance_of n a"
  by (rule transferFunds_induct [where P = "\<lambda>s t. balance_of t a = balance_of s a"])
     (auto simp: pay_balance, simp add: balance_of_def)

text \<open>
  C15. A transfer between two different accounts succeeds if and only if every coin is YELLOW with a
  parseable non-negative amount and the sender can pay their sum. On success the sum has moved from
  the sender to the recipient; a transfer of an account to itself changes no balance, successful or
  not; no other balance and no nonce changes.
\<close>

theorem transferFunds_spec:
  assumes "0 \<le> balance_of n from"
  shows "(from \<noteq> to \<longrightarrow> (fst (transferFunds n from to cs) = None
            \<longleftrightarrow> (\<exists>v. coins_value cs = Some v \<and> v \<le> balance_of n from)))
    \<and> (from \<noteq> to \<longrightarrow> fst (transferFunds n from to cs) = None \<longrightarrow>
         balance_of (snd (transferFunds n from to cs)) from = balance_of n from - the (coins_value cs)
       \<and> balance_of (snd (transferFunds n from to cs)) to = balance_of n to + the (coins_value cs))
    \<and> (from = to \<longrightarrow> balance_of (snd (transferFunds n from to cs)) a = balance_of n a)
    \<and> (a \<notin> {from, to} \<longrightarrow> balance_of (snd (transferFunds n from to cs)) a = balance_of n a)
    \<and> GetNonce (snd (transferFunds n from to cs)) a = GetNonce n a"
proof -
  have ok: "fst (transferFunds n from to cs) = None
        \<longleftrightarrow> (\<exists>v. coins_value cs = Some v \<and> v \<le> balance_of n from)" if "from \<noteq> to"
    using assms
  proof (induction cs arbitrary: n)
    case (Cons c cs)
    show ?case
    proof (cases "coin_value c")
      case None
      then show ?thesis using transferFunds_bad_coin [of c n "from" to cs] by auto
    next
      case (Some v)
      moreover have "0 \<le> balance_of (pay n from to v) from" if "v \<le> balance_of n from"
        using that \<open>from \<noteq> to\<close> by (simp add: pay_balance)
      ultimately show ?thesis
        using Cons coin_value_nonneg [OF Some] \<open>from \<noteq> to\<close>
        by (auto simp: transferFunds_step pay_balance split: option.splits dest: coins_value_nonneg)
    qed
  qed simp
  have moved: "balance_of (snd (transferFunds n from to cs)) from = balance_of n from - the (coins_value cs)
      \<and> balance_of (snd (transferFunds n from to cs)) to = balance_of n to + the (coins_value cs)"
    if "from \<noteq> to" "coins_value cs = Some v" "v \<le> balance_of n from" for v
    using that
  proof (induction cs arbitrary: n v)
    case (Cons c cs)
    then show ?case
      by (auto simp: transferFunds_step pay_balance split: option.splits dest: coins_value_nonneg)
  qed simp
  have self: "balance_of (snd (transferFunds n from to cs)) a = balance_of n a" if "from = to"
    by (rule transferFunds_induct [where P = "\<lambda>s t. balance_of t a = balance_of s a"])
       (auto simp: pay_balance that, simp add: balance_of_def)
  show ?thesis
    using ok moved self by (auto simp: transferFunds_other)
qed

definition yellow :: "string \<Rightarrow> coin" where
  "yellow amount = \<lparr>Denom = ''YELLOW'', coin_amount = amount\<rparr>"

definition vm_fresh :: "adapter \<Rightarrow> nitrovm" where
  "vm_fresh ad = \<lparr>storage = ad, chainID = ''nitrovm-1'', accounts = [], contracts = [], codes = [],
     codeSeq = 0, codeBySeq = [], seqByCode = [], blockHeight = 1, blockTime = 0, instanceCount = 0,
     touched = []\<rparr>"

theorem transferFunds_spec_witness:
  "let n = SetBalance (vm_fresh (MemoryAdapter mem_New)) [1] (NewAmount 10);
       cs = [yellow ''3'', yellow ''4'']
   in 0 \<le> balance_of n [1] \<and> fst (transferFunds n [1] [2] cs) = None
      \<and> balance_of (snd (transferFunds n [1] [2] cs)) [1] = 3
      \<and> balance_of (snd (transferFunds n [1] [2] cs)) [2] = 7"
proof -
  let ?n = "SetBalance (vm_fresh (MemoryAdapter mem_New)) [1] (NewAmount 10)"
  have b: "balance_of ?n [1] = 10" "balance_of ?n [2] = 0"
    by (simp_all add: balance_of_def SetBalance_assign, simp_all add: NewAmount_def GetBalance_def vm_fresh_def Amount_val_def)
  moreover have "coins_value [yellow ''3'', yellow ''4''] = Some 7"
    by code_simp
  ultimately show ?thesis
    using transferFunds_spec [of ?n "[1]" "[2]" "[yellow ''3'', yellow ''4'']"] by simp
qed

subsection \<open>Snapshots\<close>

text \<open>
  Two states of one VM process: the chain ID is fixed at creation, and either the adapter can be
  snapshotted or the storage has not changed.
\<close>

definition same_machine :: "nitrovm \<Rightarrow> nitrovm \<Rightarrow> bool" where
  "same_machine s t \<longleftrightarrow> chainID t = chainID s
     \<and> (storage t = storage s \<or> is_memory (storage s) \<and> is_memory (storage t))"

lemma map_pair_id [simp]: "map (\<lambda>(k, v). (k, v)) m = m"
  by (induction m) auto

lemma vm_Snapshot_simps [simp]:
  "snap_accounts (vm_Snapshot s) = accounts s"
  "snap_contracts (vm_Snapshot s) = contracts s"
  "snap_codes (vm_Snapshot s) = codes s"
  "snap_codeSeq (vm_Snapshot s) = codeSeq s"
  "snap_codeBySeq (vm_Snapshot s) = codeBySeq s"
  "snap_seqByCode (vm_Snapshot s) = seqByCode s"
  "snap_touched (vm_Snapshot s) = touched s"
  "snap_instanceCount (vm_Snapshot s) = instanceCount s"
  "snap_blockHeight (vm_Snapshot s) = blockHeight s"
  "snap_blockTime (vm_Snapshot s) = blockTime s"
  "snap_storage (vm_Snapshot s) = adapter_Snapshot (storage s)"
  by (simp_all add: vm_Snapshot_def)

lemma vm_Restore_fields [simp]:
  "accounts (vm_Restore (vm_Snapshot s) t) = accounts s"
  "contracts (vm_Restore (vm_Snapshot s) t) = contracts s"
  "codes (vm_Restore (vm_Snapshot s) t) = codes s"
  "codeSeq (vm_Restore (vm_Snapshot s) t) = codeSeq s"
  "codeBySeq (vm_Restore (vm_Snapshot s) t) = codeBySeq s"
  "seqByCode (vm_Restore (vm_Snapshot s) t) = seqByCode s"
  "touched (vm_Restore (vm_Snapshot s) t) = touched s"
  "instanceCount (vm_Restore (vm_Snapshot s) t) = instanceCount s"
  "blockHeight (vm_Restore (vm_Snapshot s) t) = blockHeight s"
  "blockTime (vm_Restore (vm_Snapshot s) t) = blockTime s"
  "chainID (vm_Restore (vm_Snapshot s) t) = chainID t"
  "storage (vm_Restore (vm_Snapshot s) t) = adapter_Restore (adapter_Snapshot (storage s)) (storage t)"
  by (simp_all add: vm_Restore_def)

lemma vm_Restore_queries [simp]:
  "GetBalance (vm_Restore (vm_Snapshot s) t) a = GetBalance s a"
  "GetNonce (vm_Restore (vm_Snapshot s) t) a = GetNonce s a"
  "total_supply (vm_Restore (vm_Snapshot s) t) = total_supply s"
  by (simp_all add: GetBalance_def GetNonce_def total_supply_def)

lemma adapter_Restore_same: "adapter_Restore (adapter_Snapshot s) s = s"
  by (cases "is_memory s") (simp_all add: adapter_Restore_Snapshot adapter_Restore_sqlite)

interpretation vm_snap: snapshotable same_machine vm_Snapshot vm_Restore
proof
  fix s t assume "same_machine s t"
  then show "vm_Restore (vm_Snapshot s) t = s"
    by (intro nitrovm.equality)
       (auto simp: same_machine_def adapter_Restore_Snapshot adapter_Restore_same)
qed (auto simp: same_machine_def)

end
