(* ===== verification/Runtime_Steps.thy ===== *)
theory Runtime_Steps
  imports Runtime_VM Runtime_Ledger
begin

text \<open>
  What running contracts can do to the VM state, once and for all. Whatever the engine does and
  however deep messages are dispatched, the state changes only by a handful of primitive steps: a
  storage call, a transfer of funds, the registration of an instance, and the restore of an earlier
  snapshot. The locale \<open>vm_step_relation\<close> states this as an interface: a relation between states that
  contains the primitive steps and is reflexive and transitive contains every execution. Its
  interpretations on concrete relations give the invariants of the VM.
\<close>

locale vm_step_relation =
  fixes R :: "nitrovm \<Rightarrow> nitrovm \<Rightarrow> bool"
  assumes refl: "R n n"
    and trans: "R n1 n2 \<Longrightarrow> R n2 n3 \<Longrightarrow> R n1 n3"
    and kv_get: "R n (n\<lparr>storage := snd (adapter_Get (storage n) a k)\<rparr>)"
    and kv_set: "R n (n\<lparr>storage := snd (adapter_Set (storage n) a k v)\<rparr>)"
    and kv_del: "R n (n\<lparr>storage := snd (adapter_Delete (storage n) a k)\<rparr>)"
    and kv_range: "R n (n\<lparr>storage := snd (adapter_Range (storage n) a lo hi ord)\<rparr>)"
    and transfer: "is_address from \<Longrightarrow> is_address to \<Longrightarrow> R n (snd (transferFunds n from to cs))"
    and inst: "is_address sender \<Longrightarrow> R n (snd (begin_instance n codeID sender label cs))"
    and restore: "R s t \<Longrightarrow> R s (vm_Restore (vm_Snapshot s) t)"
begin

text \<open>The host calls.\<close>

lemma host_steps:
  "R (h_vm h) (h_vm (snd (KV_Get h k)))"
  "R (h_vm h) (h_vm (KV_Set h k v))"
  "R (h_vm h) (h_vm (KV_Delete h k))"
  "R (h_vm h) (h_vm (snd (KV_scan ord h lo hi)))"
  using kv_get [of "h_vm h" "kv_addr (h_kv h)" k] kv_set [of "h_vm h" "kv_addr (h_kv h)" k v]
    kv_del [of "h_vm h" "kv_addr (h_kv h)" k] kv_range [of "h_vm h" "kv_addr (h_kv h)" lo hi ord]
  by (auto simp: KV_Get_def KV_Set_def KV_Delete_def KV_scan_def set_storage_def storage_failed_def refl
      split: prod.splits sum.splits option.splits)

definition query_step :: "query_fn \<Rightarrow> bool" where
  "query_step q \<longleftrightarrow> (\<forall>n c m g res gu n'. q n c m g = Some (res, gu, n') \<longrightarrow> R n n')"

lemma query_stepD: "query_step q \<Longrightarrow> q n c m g = Some (res, gu, n') \<Longrightarrow> R n n'"
  unfolding query_step_def by blast

lemma wasmQuery_step:
  assumes "query_step q" and "wasmQuery q n meter query gl = Some (res, meter', n')"
  shows "R n n'"
  using assms(2) unfolding wasmQuery_def
  by (auto simp: refl split: option.splits prod.splits sum.splits dest: query_stepD [OF assms(1)])

lemma chainQuerier_step:
  assumes "query_step q" and "chainQuerier_Query q n meter request gl = Some (res, meter', n')"
  shows "R n n'"
proof (cases "req_Bank request")
  case None
  with assms show ?thesis
    by (cases "req_Wasm request") (auto simp: chainQuerier_Query_def refl dest: wasmQuery_step)
next
  case (Some bq)
  obtain e meter1 where "ConsumeGas meter GasCostStorageRead = (e, meter1)" by fastforce
  with Some assms show ?thesis by (cases e) (simp_all add: chainQuerier_Query_def refl)
qed

lemma run_prog_step:
  assumes q: "query_step q" and "run_prog q p h = Some (r, g, h')"
  shows "R (h_vm h) (h_vm h')"
  using assms(2)
proof (induction p arbitrary: h)
  case (HGet k c)
  obtain v h1 where "KV_Get h k = (v, h1)" by fastforce
  with HGet.prems host_steps(1) [of h k] HGet.IH [of "c v" h1] show ?case by (auto dest: trans)
next
  case (HSet k v p)
  with host_steps(2) [of h k v] show ?case by (auto intro: trans [of _ "h_vm (KV_Set h k v)"])
next
  case (HDelete k p)
  with host_steps(3) [of h k] show ?case by (auto intro: trans [of _ "h_vm (KV_Delete h k)"])
next
  case (HScan ord lo hi c)
  have "(case ord of Ascending \<Rightarrow> KV_Iterator h lo hi | Descending \<Rightarrow> KV_ReverseIterator h lo hi)
      = KV_scan ord h lo hi"
    by (simp add: KV_Iterator_def KV_ReverseIterator_def split: Order.splits)
  moreover obtain it h1 where "KV_scan ord h lo hi = (it, h1)" by fastforce
  ultimately show ?case
    using HScan.prems host_steps(4) [of h ord lo hi] HScan.IH [of "c it" h1] by (auto dest: trans)
next
  case (HQuery req gl c)
  then obtain res meter' n' where
    *: "chainQuerier_Query q (h_vm h) (h_meter h) req gl = Some (res, meter', n')"
    and "run_prog q (c res (GasConsumed meter')) (h\<lparr>h_vm := n', h_meter := meter'\<rparr>) = Some (r, g, h')"
    by (auto split: option.splits)
  with HQuery.IH have "R n' (h_vm h')" by fastforce
  with chainQuerier_step [OF q *] show ?case by (rule trans)
qed (auto simp: refl)

lemma vm_Query_step: "query_step (vm_Query eng fuel)"
proof (induction fuel)
  case (Suc fuel)
  show ?case
    unfolding query_step_def using run_prog_step [OF Suc]
    by (fastforce simp: newHost_def refl split: option.splits)
qed (simp add: query_step_def)

lemmas engine_call_step = run_prog_step [OF vm_Query_step]

definition dispatch_step :: "dispatch_fn \<Rightarrow> bool" where
  "dispatch_step d \<longleftrightarrow> (\<forall>n c ms g dr e n'. is_address c \<longrightarrow> d n c ms g = Some (dr, e, n') \<longrightarrow> R n n')"

lemma collect_response_step:
  assumes "dispatch_step d" "is_address c" "collect_response d c ok gl gu n = Some (res, g, n')"
  shows "R n n'"
  using assms unfolding collect_response_def dispatch_step_def
  by (auto simp: refl Let_def split: option.splits if_splits)

lemma executeInternal_step:
  assumes "dispatch_step d" "is_address contract" "is_address sender"
    and "executeInternal eng qf d n contract sender msg funds gl = Some (res, g, n')"
  shows "R n n'"
proof -
  obtain err n1 where pre: "(if length funds > 0 then transferFunds n sender contract funds else (None, n)) = (err, n1)"
    by fastforce
  then have n1: "R n n1"
    using transfer [OF assms(3,2), of n funds] by (auto simp: refl split: if_splits)
  show ?thesis
  proof (cases "gm_get (contracts n) contract")
    case None
    then show ?thesis using assms by (simp add: executeInternal_def refl)
  next
    case (Some ci)
    then show ?thesis
      using assms n1 unfolding executeInternal_def pre
      by (auto simp: newHost_def split: option.splits sum.splits
          dest!: engine_call_step collect_response_step [OF assms(1,2)]; blast intro: trans)
  qed
qed

lemma instantiateInternal_step:
  assumes "dispatch_step d" "is_address sender"
    and "instantiateInternal eng qf d n codeID sender msg label funds gl = Some (res, g, n')"
  shows "R n n'"
proof -
  obtain r n1 where pre: "begin_instance n codeID sender label funds = (r, n1)" by fastforce
  then have n1: "R n n1" using inst [OF assms(2), of n codeID label funds] by simp
  show ?thesis
  proof (cases r)
    case (Inl e)
    with assms pre n1 show ?thesis by (simp add: instantiateInternal_def)
  next
    case (Inr p)
    obtain addr checksum where p: "p = (addr, checksum)" by fastforce
    with pre Inr have a: "is_address addr"
      by (auto simp: begin_instance_def Let_def split: option.splits prod.splits)
    show ?thesis
      using assms(3) n1 unfolding instantiateInternal_def pre Inr p
      by (auto simp: newHost_def split: option.splits sum.splits
          dest!: engine_call_step collect_response_step [OF assms(1) a]; blast intro: trans)
  qed
qed

lemma dispatchSingleMessage_step:
  assumes d: "dispatch_step d" and c: "is_address c"
    and run: "dispatchSingleMessage eng qf d n c msg gl = Some (res, g, n')"
  shows "R n n'"
proof (cases "Option.bind (msg_Bank msg) bank_Send")
  case (Some send)
  with run show ?thesis
    using transfer [OF c, of _ n "send_amount send"]
    by (auto simp: dispatchSingleMessage_def refl toCoins_def split: sum.splits prod.splits option.splits
        dest!: HexToAddress_is_address; fastforce)
next
  case bank: None
  show ?thesis
  proof (cases "Option.bind (msg_Wasm msg) wasm_Execute")
    case (Some wmsg)
    with run bank show ?thesis
      by (auto simp: dispatchSingleMessage_def refl split: sum.splits option.splits
          dest!: HexToAddress_is_address dest: executeInternal_step [OF d _ c])
  next
    case None
    with run bank show ?thesis
      by (auto simp: dispatchSingleMessage_def refl split: sum.splits option.splits
          dest: instantiateInternal_step [OF d c])
  qed
qed

lemma invokeReply_step:
  assumes "dispatch_step d" "is_address c"
    and "invokeReply eng qf d n c rep gl = Some (res, g, n')"
  shows "R n n'"
  using assms unfolding invokeReply_def dispatch_step_def
  by (fastforce simp: refl newHost_def Let_def split: option.splits sum.splits if_splits
      dest!: engine_call_step intro: trans)

lemma dispatch_loop_step:
  assumes single: "\<And>n msg gl res g n'. single n c msg gl = Some (res, g, n') \<Longrightarrow> R n n'"
    and rep: "\<And>n r gl res g n'. reply n c r gl = Some (res, g, n') \<Longrightarrow> R n n'"
    and "dispatch_loop single reply n c msgs dr remaining = Some (dr', e, n')"
  shows "R n n'"
  using assms(3)
proof (induction msgs arbitrary: n dr remaining)
  case (Cons sub msgs)
  then show ?case
    by (auto simp: Let_def split: option.splits sum.splits if_splits
        dest!: single rep Cons.IH; blast intro: trans restore)
qed (simp add: refl)

lemma dispatchMessages_step: "dispatch_step (dispatchMessages eng qf depth)"
proof (induction eng qf depth rule: dispatchMessages.induct)
  case (1 eng qf depth)
  show ?case
  proof (cases "depth \<ge> maxDispatchDepth")
    case True
    then show ?thesis by (simp add: dispatch_step_def dispatchMessages.simps [of eng qf depth] refl)
  next
    case False
    then have ih: "dispatch_step (dispatchMessages eng qf (depth + 1))" using 1 by simp
    have "R n n'" if c: "is_address c" and run: "dispatchMessages eng qf depth n c ms g = Some (dr, e, n')"
      for n c ms g dr e n'
    proof (rule dispatch_loop_step)
      show "dispatch_loop (dispatchSingleMessage eng qf (dispatchMessages eng qf (depth + 1)))
          (invokeReply eng qf (dispatchMessages eng qf (depth + 1))) n c ms dr_empty g = Some (dr, e, n')"
        using run False by (simp add: dispatchMessages.simps [of eng qf depth])
    qed (auto intro: dispatchSingleMessage_step [OF ih c] invokeReply_step [OF ih c])
    then show ?thesis unfolding dispatch_step_def by blast
  qed
qed

text \<open>The public entry points, up to the increment of the nonce after a success.\<close>

lemmas execute_steps = executeInternal_step [OF dispatchMessages_step]
lemmas instantiate_steps = instantiateInternal_step [OF dispatchMessages_step]

end

end
