(* ===== verification/Runtime_Invariant.thy ===== *)
theory Runtime_Invariant
  imports Runtime_Steps
begin

text \<open>
  The invariants of the VM state: well-formedness, conservation of the token supply, what running
  contracts never changes, and completeness of the set of touched addresses. Each is an interpretation
  of \<open>vm_step_relation\<close>.
\<close>

subsection \<open>Well-formed states\<close>

definition account_ok :: "address \<Rightarrow> Account \<Rightarrow> bool" where
  "account_ok a x \<longleftrightarrow> is_address a \<and> acct_Address x = a \<and> 0 \<le> Amount_val (acct_Balance x)"

definition accounts_ok :: "nitrovm \<Rightarrow> bool" where
  "accounts_ok n \<longleftrightarrow> gm_all account_ok (accounts n) \<and> distinct (touched n) \<and> list_all is_address (touched n)"

text \<open>
  The code tables: \<^verbatim>\<open>codes\<close> maps the hex form of a checksum to the checksum, and \<^verbatim>\<open>codeBySeq\<close> and
  \<^verbatim>\<open>seqByCode\<close> are inverse to each other on numbers from 1 to \<^verbatim>\<open>codeSeq\<close>.
\<close>

definition code_ok :: "nitrovm \<Rightarrow> string \<Rightarrow> bytes \<Rightarrow> bool" where
  "code_ok n h c \<longleftrightarrow> h = hex_EncodeToString c \<and> gm_get (seqByCode n) h \<noteq> None"

definition codeBySeq_ok :: "nitrovm \<Rightarrow> uint64 \<Rightarrow> bytes \<Rightarrow> bool" where
  "codeBySeq_ok n s c \<longleftrightarrow> gm_get (codes n) (hex_EncodeToString c) = Some c
     \<and> gm_get (seqByCode n) (hex_EncodeToString c) = Some s \<and> 1 \<le> s \<and> s \<le> codeSeq n"

definition seqByCode_ok :: "nitrovm \<Rightarrow> string \<Rightarrow> uint64 \<Rightarrow> bool" where
  "seqByCode_ok n h s \<longleftrightarrow> map_option hex_EncodeToString (gm_get (codeBySeq n) s) = Some h"

definition codes_ok :: "nitrovm \<Rightarrow> bool" where
  "codes_ok n \<longleftrightarrow> gm_all (code_ok n) (codes n) \<and> gm_all (codeBySeq_ok n) (codeBySeq n)
     \<and> gm_all (seqByCode_ok n) (seqByCode n)"

definition contract_ok :: "nitrovm \<Rightarrow> address \<Rightarrow> contractMeta \<Rightarrow> bool" where
  "contract_ok n a m \<longleftrightarrow> is_address a \<and> is_address (cm_Creator m)
     \<and> gm_get (codes n) (hex_EncodeToString (cm_Checksum m)) = Some (cm_Checksum m)"

definition contracts_ok :: "nitrovm \<Rightarrow> bool" where
  "contracts_ok n \<longleftrightarrow> gm_all (contract_ok n) (contracts n)"

fun adapter_wf :: "adapter \<Rightarrow> bool" where
  "adapter_wf (MemoryAdapter s) = mem_wf s"
| "adapter_wf (SqliteAdapter s) = distinct (map row_pk (sq_rows s))"

definition vm_wf :: "nitrovm \<Rightarrow> bool" where
  "vm_wf n \<longleftrightarrow> accounts_ok n \<and> codes_ok n \<and> contracts_ok n \<and> adapter_wf (storage n)"

lemma codes_ok_cong:
  "codes n' = codes n \<Longrightarrow> codeSeq n' = codeSeq n \<Longrightarrow> codeBySeq n' = codeBySeq n
   \<Longrightarrow> seqByCode n' = seqByCode n \<Longrightarrow> codes_ok n' = codes_ok n"
  by (simp add: codes_ok_def code_ok_def [abs_def] codeBySeq_ok_def [abs_def] seqByCode_ok_def [abs_def])

lemma contracts_ok_cong: "codes n' = codes n \<Longrightarrow> contracts n' = contracts n \<Longrightarrow> contracts_ok n' = contracts_ok n"
  by (simp add: contracts_ok_def contract_ok_def [abs_def])

lemma accounts_ok_cong: "accounts n' = accounts n \<Longrightarrow> touched n' = touched n \<Longrightarrow> accounts_ok n' = accounts_ok n"
  by (simp add: accounts_ok_def)

lemmas vm_wf_congs = codes_ok_cong contracts_ok_cong accounts_ok_cong

lemma Amount_val_nil [simp]: "Amount_val \<lparr>amt_v = None\<rparr> = 0"
  by (simp add: Amount_val_def)

lemma accounts_ok_balance: "accounts_ok n \<Longrightarrow> 0 \<le> balance_of n a"
  by (auto simp: accounts_ok_def account_ok_def balance_of_def GetBalance_def split: option.splits dest: gm_all_get)

lemma vm_wf_New: "vm_New None now cfg ad = Inr n \<Longrightarrow> adapter_wf ad \<Longrightarrow> vm_wf n"
  by (auto simp: vm_New_def vm_wf_def accounts_ok_def codes_ok_def contracts_ok_def)

subsection \<open>Preservation by the state operations\<close>

lemma accounts_ok_getOrCreate [preserves]:
  "accounts_ok n \<Longrightarrow> is_address a \<Longrightarrow> accounts_ok (snd (getOrCreateAccount n a))"
  by (auto simp: accounts_ok_def account_ok_def getOrCreateAccount_def Let_def Amount_val_def
      split: option.splits intro: gm_all_put)

lemma accounts_ok_update [preserves]:
  assumes "accounts_ok n" "\<And>x. account_ok a x \<Longrightarrow> account_ok a (f x)"
  shows "accounts_ok (update_account a f n)"
  using assms
  by (auto simp: accounts_ok_def update_account_def split: option.splits intro!: gm_all_put dest: gm_all_get)

lemma accounts_ok_mark [preserves]: "accounts_ok n \<Longrightarrow> is_address a \<Longrightarrow> accounts_ok (markTouched n a)"
  by (auto simp: accounts_ok_def markTouched_def list_all_iff)

lemma accounts_ok_assign [preserves]:
  "accounts_ok n \<Longrightarrow> is_address a \<Longrightarrow> 0 \<le> Amount_val v \<Longrightarrow> accounts_ok (assign_balance n a v)"
  unfolding assign_balance_def
  by (intro accounts_ok_mark accounts_ok_update accounts_ok_getOrCreate) (auto simp: account_ok_def)

lemma accounts_ok_nonce [preserves]:
  "accounts_ok n \<Longrightarrow> is_address a \<Longrightarrow> accounts_ok (increment_nonce n a)"
  unfolding increment_nonce_def case_prod_unfold
  by (intro accounts_ok_mark accounts_ok_update accounts_ok_getOrCreate) (auto simp: account_ok_def)

lemma accounts_ok_pay [preserves]:
  assumes "accounts_ok n" "is_address from" "is_address to" "0 < v" "v \<le> balance_of n from"
  shows "accounts_ok (pay n from to v)"
  unfolding pay_def Let_def
proof (intro accounts_ok_assign assms)
  let ?n1 = "assign_balance n from \<lparr>amt_v = Some (balance_of n from - v)\<rparr>"
  have "accounts_ok ?n1" using assms by (intro accounts_ok_assign) (auto simp: Amount_val_def)
  then show "0 \<le> Amount_val \<lparr>amt_v = Some (balance_of ?n1 to + v)\<rparr>"
    using accounts_ok_balance [of ?n1 to] assms by (simp add: Amount_val_def)
qed (use assms in \<open>simp add: Amount_val_def\<close>)

lemma accounts_ok_transfer [preserves]:
  assumes "accounts_ok n" "is_address from" "is_address to"
  shows "accounts_ok (snd (transferFunds n from to cs))"
  using assms(1)
  by (rule transferFunds_induct [where P = "\<lambda>a b. accounts_ok a \<longrightarrow> accounts_ok b", THEN mp, rotated -1])
     (use assms in \<open>auto intro: preserves\<close>)

lemma vm_wf_same_rest:
  "vm_wf n \<Longrightarrow> accounts_ok n' \<Longrightarrow> same_rest n n' \<Longrightarrow> vm_wf n'"
  using codes_ok_cong [of n' n] contracts_ok_cong [of n' n]
  by (simp add: vm_wf_def same_rest_def same_registry_def)

lemma vm_wf_transfer [preserves]:
  assumes "vm_wf n" "is_address from" "is_address to"
  shows "vm_wf (snd (transferFunds n from to cs))"
  using assms by (intro vm_wf_same_rest [OF _ accounts_ok_transfer transferFunds_rest]) (auto simp: vm_wf_def)

lemma vm_wf_SetBalance [preserves]: "vm_wf n \<Longrightarrow> is_address a \<Longrightarrow> 0 \<le> Amount_val v \<Longrightarrow> vm_wf (SetBalance n a v)"
  unfolding SetBalance_assign
  by (rule vm_wf_same_rest [OF _ accounts_ok_assign assign_balance_rest]) (auto simp: vm_wf_def)

lemma vm_wf_increment_nonce [preserves]: "vm_wf n \<Longrightarrow> is_address a \<Longrightarrow> vm_wf (increment_nonce n a)"
  by (rule vm_wf_same_rest [OF _ accounts_ok_nonce increment_nonce_rest]) (auto simp: vm_wf_def)

lemma vm_wf_DeductGasFee [preserves]:
  assumes "vm_wf n" "is_address a"
  shows "vm_wf (snd (DeductGasFee n a g p))"
  using assms vm_wf_same_rest [OF assms(1) accounts_ok_getOrCreate getOrCreate_rest, of a]
    vm_wf_same_rest [OF assms(1) accounts_ok_assign assign_balance_rest, of a]
  by (auto simp: DeductGasFee_cases vm_wf_def Amount_val_def)

lemma contract_ok_contracts [simp]: "contract_ok (n\<lparr>contracts := cs\<rparr>) = contract_ok n"
  by (simp add: contract_ok_def [abs_def])

lemma vm_wf_contracts:
  assumes "vm_wf n" "gm_all (contract_ok n) cs"
  shows "vm_wf (n\<lparr>contracts := cs\<rparr>)"
  using assms by (simp add: vm_wf_def contracts_ok_def codes_ok_cong [of "n\<lparr>contracts := cs\<rparr>" n] accounts_ok_def)

lemma vm_wf_put_contract:
  "vm_wf n \<Longrightarrow> contract_ok n a m \<Longrightarrow> vm_wf (n\<lparr>contracts := gm_put a m (contracts n)\<rparr>)"
  by (rule vm_wf_contracts) (auto simp: vm_wf_def contracts_ok_def intro: gm_all_put)

lemma vm_wf_del_contract: "vm_wf n \<Longrightarrow> vm_wf (n\<lparr>contracts := gm_del a (contracts n)\<rparr>)"
  by (rule vm_wf_contracts) (auto simp: vm_wf_def contracts_ok_def intro: gm_all_del)

lemma vm_wf_code: "vm_wf n \<Longrightarrow> gm_get (codes n) h = Some c \<Longrightarrow> h = hex_EncodeToString c"
  by (auto simp: vm_wf_def codes_ok_def code_ok_def dest: gm_all_get)

lemma vm_wf_counter [simp]: "vm_wf (n\<lparr>instanceCount := i\<rparr>) = vm_wf n"
  using vm_wf_congs [of "n\<lparr>instanceCount := i\<rparr>" n] by (simp add: vm_wf_def)

lemma vm_wf_begin_instance [preserves]:
  assumes "vm_wf n" "is_address sender"
  shows "vm_wf (snd (begin_instance n codeID sender label funds))"
proof (cases "gm_get (codes n) (hex_EncodeToString codeID)")
  case (Some c)
  define i where "i = instanceCount n + 1"
  define a where "a = CreateContractAddress sender codeID i"
  define n2 where "n2 = n\<lparr>instanceCount := i, contracts := gm_put a
    \<lparr>cm_Checksum = c, cm_Label = label, cm_Creator = sender\<rparr> (contracts n)\<rparr>"
  have a: "is_address a" by (simp add: a_def)
  have "vm_wf ((n\<lparr>instanceCount := i\<rparr>)\<lparr>contracts := gm_put a
      \<lparr>cm_Checksum = c, cm_Label = label, cm_Creator = sender\<rparr> (contracts (n\<lparr>instanceCount := i\<rparr>))\<rparr>)"
    using assms a Some vm_wf_code [OF assms(1) Some]
    by (intro vm_wf_put_contract) (auto simp: contract_ok_def)
  then have "vm_wf n2" by (simp add: n2_def)
  then have "vm_wf (snd (transferFunds n2 sender a funds))" by (intro vm_wf_transfer assms a)
  with Some show ?thesis
    by (auto simp: begin_instance_def Let_def n2_def a_def i_def vm_wf_del_contract
        split: prod.splits option.splits)
qed (simp add: begin_instance_def assms)

lemma distinct_pk_calls:
  "sq_rows (snd (sql_call s)) = sq_rows s"
  "sq_rows (snd (loadIterator rows s)) = sq_rows s"
  by (auto simp: sql_call_def loadIterator_def split: prod.splits sum.splits)

lemma adapter_wf_calls [preserves]:
  assumes "adapter_wf ad"
  shows "adapter_wf (snd (adapter_Get ad a k))" "adapter_wf (snd (adapter_Set ad a k v))"
    "adapter_wf (snd (adapter_Delete ad a k))" "adapter_wf (snd (adapter_Range ad a lo hi ord))"
proof -
  have ad: "distinct (map row_pk (sq_rows s))" if "ad = SqliteAdapter s" for s using assms that by simp
  have call: "sq_rows s' = sq_rows s" if "sql_call s = (e, s')" for s s' e
    using distinct_pk_calls(1) [of s] that by simp
  show "adapter_wf (snd (adapter_Get ad a k))" "adapter_wf (snd (adapter_Set ad a k v))"
    "adapter_wf (snd (adapter_Delete ad a k))" "adapter_wf (snd (adapter_Range ad a lo hi ord))"
    using assms ad
    by (cases ad; auto simp: sqlite_Get_def sqlite_Set_def sqlite_Delete_def sqlite_Range_def
        distinct_pk_calls distinct_filter_snoc distinct_map_filter mem_wf_Set mem_wf_Delete
        dest!: call split: prod.splits option.splits simp del: map_append)+
qed

lemma vm_wf_storage [preserves]: "vm_wf n \<Longrightarrow> adapter_wf ad \<Longrightarrow> vm_wf (n\<lparr>storage := ad\<rparr>)"
  using vm_wf_congs [of "n\<lparr>storage := ad\<rparr>" n] by (simp add: vm_wf_def)

lemma vm_wf_adapter: "vm_wf n \<Longrightarrow> adapter_wf (storage n)"
  by (simp add: vm_wf_def)

lemma vm_wf_restore:
  assumes "vm_wf s" "vm_wf t"
  shows "vm_wf (vm_Restore (vm_Snapshot s) t)"
proof -
  have "adapter_wf (adapter_Restore (adapter_Snapshot (storage s)) (storage t))"
    using assms by (cases "storage s"; cases "storage t") (auto simp: vm_wf_def mem_snap.Restore_Snapshot)
  then show ?thesis
    using assms vm_wf_congs [of "vm_Restore (vm_Snapshot s) t" s] by (simp add: vm_wf_def)
qed

interpretation wf: vm_step_relation "\<lambda>s t. vm_wf s \<longrightarrow> vm_wf t"
proof (unfold_locales, goal_cases)
  case (3 n a k) then show ?case by (auto intro: vm_wf_storage adapter_wf_calls vm_wf_adapter)
next
  case (4 n a k v) then show ?case by (auto intro: vm_wf_storage adapter_wf_calls vm_wf_adapter)
next
  case (5 n a k) then show ?case by (auto intro: vm_wf_storage adapter_wf_calls vm_wf_adapter)
next
  case (6 n a lo hi ord) then show ?case by (auto intro: vm_wf_storage adapter_wf_calls vm_wf_adapter)
qed (auto intro: vm_wf_transfer vm_wf_begin_instance vm_wf_restore)

subsection \<open>What running contracts leaves alone\<close>

text \<open>
  \<open>ledger_frame\<close>: tokens are neither created nor destroyed and nonces do not move. \<open>config_frame\<close>: the
  code registry, the block context, the chain ID and the kind of adapter are as before.
\<close>

definition ledger_frame :: "nitrovm \<Rightarrow> nitrovm \<Rightarrow> bool" where
  "ledger_frame s t \<longleftrightarrow> total_supply t = total_supply s \<and> (\<forall>a. GetNonce t a = GetNonce s a)"

definition config_frame :: "nitrovm \<Rightarrow> nitrovm \<Rightarrow> bool" where
  "config_frame s t \<longleftrightarrow> same_registry s t \<and> is_memory (storage t) = is_memory (storage s)"

text \<open>
  \<open>touched_frame\<close>: an account whose balance or nonce differs is in the touched set, which only grows.
\<close>

definition touched_frame :: "nitrovm \<Rightarrow> nitrovm \<Rightarrow> bool" where
  "touched_frame s t \<longleftrightarrow> set (touched s) \<subseteq> set (touched t)
     \<and> (\<forall>a. a \<notin> set (touched t) \<longrightarrow> balance_of t a = balance_of s a \<and> GetNonce t a = GetNonce s a)"

lemma queries_other_fields [simp]:
  "total_supply (n\<lparr>storage := ad\<rparr>) = total_supply n"
  "total_supply (n\<lparr>contracts := cs\<rparr>) = total_supply n"
  "total_supply (n\<lparr>instanceCount := i\<rparr>) = total_supply n"
  "GetNonce (n\<lparr>storage := ad\<rparr>) a = GetNonce n a"
  "GetNonce (n\<lparr>contracts := cs\<rparr>) a = GetNonce n a"
  "GetNonce (n\<lparr>instanceCount := i\<rparr>) a = GetNonce n a"
  "balance_of (n\<lparr>storage := ad\<rparr>) a = balance_of n a"
  "balance_of (n\<lparr>contracts := cs\<rparr>) a = balance_of n a"
  "balance_of (n\<lparr>instanceCount := i\<rparr>) a = balance_of n a"
  by (simp_all add: total_supply_def GetNonce_def balance_of_def GetBalance_def)

text \<open>
  The registration of an instance is a change of the contract table and the counter around a transfer.
\<close>

lemma begin_instance_shape:
  "\<exists>cs i to funds' cs' i'. snd (begin_instance n codeID sender label funds)
     = (snd (transferFunds (n\<lparr>contracts := cs, instanceCount := i\<rparr>) sender to funds'))
         \<lparr>contracts := cs', instanceCount := i'\<rparr>"
proof (cases "gm_get (codes n) (hex_EncodeToString codeID)")
  case None
  have "snd (begin_instance n codeID sender label funds)
      = (snd (transferFunds (n\<lparr>contracts := contracts n, instanceCount := instanceCount n\<rparr>) sender [] []))
         \<lparr>contracts := contracts n, instanceCount := instanceCount n\<rparr>"
    by (simp add: begin_instance_def None)
  then show ?thesis by blast
next
  case (Some c)
  let ?i = "instanceCount n + 1"
  let ?a = "CreateContractAddress sender codeID ?i"
  let ?cs = "gm_put ?a \<lparr>cm_Checksum = c, cm_Label = label, cm_Creator = sender\<rparr> (contracts n)"
  obtain e n3 where t: "transferFunds (n\<lparr>contracts := ?cs, instanceCount := ?i\<rparr>) sender ?a funds = (e, n3)"
    by fastforce
  have u: "n\<lparr>instanceCount := ?i, contracts := ?cs\<rparr> = n\<lparr>contracts := ?cs, instanceCount := ?i\<rparr>" by simp
  have "snd (begin_instance n codeID sender label funds) =
      (case e of None \<Rightarrow> n3 | Some _ \<Rightarrow> n3\<lparr>contracts := gm_del ?a (contracts n3), instanceCount := instanceCount n3 - 1\<rparr>)"
    by (simp add: begin_instance_def Some Let_def u t split: option.splits)
  also have "\<dots> = n3\<lparr>contracts := (case e of None \<Rightarrow> contracts n3 | Some _ \<Rightarrow> gm_del ?a (contracts n3)),
      instanceCount := (case e of None \<Rightarrow> instanceCount n3 | Some _ \<Rightarrow> instanceCount n3 - 1)\<rparr>"
    by (simp split: option.splits)
  finally show ?thesis using t by (metis snd_conv)
qed

interpretation ledger: vm_step_relation ledger_frame
proof (unfold_locales, goal_cases)
  case (8 sender n codeID label cs)
  then show ?case
    using begin_instance_shape [of n codeID sender label cs] by (auto simp: ledger_frame_def)
qed (auto simp: ledger_frame_def)

interpretation config: vm_step_relation config_frame
proof (unfold_locales, goal_cases)
  case (7 src dst n cs)
  then show ?case
    using transferFunds_rest [of n src dst cs] by (simp add: config_frame_def same_rest_def)
next
  case (8 sender n codeID label cs)
  obtain xs i to cs' xs' i' where *: "snd (begin_instance n codeID sender label cs)
     = (snd (transferFunds (n\<lparr>contracts := xs, instanceCount := i\<rparr>) sender to cs'))
         \<lparr>contracts := xs', instanceCount := i'\<rparr>"
    using begin_instance_shape by blast
  show ?case
    using transferFunds_rest [of "n\<lparr>contracts := xs, instanceCount := i\<rparr>" sender to cs']
    unfolding * by (simp add: config_frame_def same_rest_def same_registry_def)
qed (auto simp: config_frame_def same_registry_def)

lemma transferFunds_touched: "touched_frame n (snd (transferFunds n from to cs))"
proof (rule transferFunds_induct [where P = touched_frame])
  fix m v assume "v \<le> balance_of m from"
  then show "touched_frame m (pay m from to v)"
    by (auto simp: touched_frame_def pay_balance)
qed (auto simp: touched_frame_def balance_of_def)

interpretation tch: vm_step_relation touched_frame
proof (unfold_locales, goal_cases)
  case (7 src dst n cs) show ?case by (rule transferFunds_touched)
next
  case (8 sender n codeID label cs)
  obtain xs i to cs' xs' i' where *: "snd (begin_instance n codeID sender label cs)
     = (snd (transferFunds (n\<lparr>contracts := xs, instanceCount := i\<rparr>) sender to cs'))
         \<lparr>contracts := xs', instanceCount := i'\<rparr>"
    using begin_instance_shape by blast
  show ?case
    using transferFunds_touched [of "n\<lparr>contracts := xs, instanceCount := i\<rparr>" sender to cs']
    unfolding * by (simp add: touched_frame_def)
next
  case (9 s t) then show ?case by (simp add: touched_frame_def balance_of_def)
qed (auto simp: touched_frame_def)

end
