(* ===== verification/Runtime_Demo.thy ===== *)
theory Runtime_Demo
  imports Runtime_Invariant
begin

text \<open>
  A concrete engine and a concrete VM, used to show that the hypotheses of the theorems about
  execution can hold. The engine runs one contract whose behaviour is chosen by the first byte of the
  message: 0 writes a key, 1 also asks the host to pay the caller, 2 calls itself with message 3
  and catches the error, 3 writes and fails, 4 calls itself with message 4, and 5 queries itself. Every
  call costs 10 gas.
\<close>

definition demo_contract :: address where "demo_contract = replicate 20 1"
definition demo_user :: address where "demo_user = replicate 20 2"
definition demo_checksum :: bytes where "demo_checksum = [7, 7]"

definition demo_ok :: "sub_msg list \<Rightarrow> (string + contract_result)" where
  "demo_ok msgs = Inr \<lparr>cr_Ok = Some \<lparr>resp_Messages = msgs, resp_Data = None, resp_Attributes = [],
     resp_Events = []\<rparr>, cr_Err = []\<rparr>"

definition demo_fail :: "string + contract_result" where
  "demo_fail = Inr \<lparr>cr_Ok = None, cr_Err = ''no''\<rparr>"

definition demo_pay :: sub_msg where
  "demo_pay = \<lparr>sub_ID = 1, sub_Msg = \<lparr>msg_Bank = Some \<lparr>bank_Send = Some
     \<lparr>send_to = Hex demo_user, send_amount = [yellow ''3'']\<rparr>\<rparr>, msg_Wasm = None\<rparr>, sub_Payload = [],
     sub_ReplyOn = ReplyNever\<rparr>"

definition demo_call :: "byte \<Rightarrow> ReplyOn \<Rightarrow> sub_msg" where
  "demo_call b ro = \<lparr>sub_ID = 2, sub_Msg = \<lparr>msg_Bank = None, msg_Wasm = Some \<lparr>wasm_Execute = Some
     \<lparr>exec_contract = Hex demo_contract, exec_msg = [b], exec_funds = []\<rparr>, wasm_Instantiate = None\<rparr>\<rparr>,
     sub_Payload = [], sub_ReplyOn = ro\<rparr>"

definition demo_query :: query_request where
  "demo_query = \<lparr>req_Bank = None, req_Wasm = Some \<lparr>wasmq_Smart = Some
     \<lparr>sq_contract = Hex demo_contract, sq_msg = []\<rparr>\<rparr>\<rparr>"

definition demo_execute :: "bytes \<Rightarrow> uint64 \<Rightarrow> (string + contract_result) prog" where
  "demo_execute msg gl = (if gl < 10 then Done (Inl ''out of gas'') gl else
     if msg = [0] then HSet [1] (Some [9]) (Done (demo_ok []) 10)
     else if msg = [1] then HSet [1] (Some [9]) (Done (demo_ok [demo_pay]) 10)
     else if msg = [2] then Done (demo_ok [demo_call 3 ReplyError]) 10
     else if msg = [3] then HSet [1] (Some [8]) (Done demo_fail 10)
     else if msg = [4] then Done (demo_ok [demo_call 4 ReplyNever]) 10
     else if msg = [5] then HQuery demo_query (gl - 1) (\<lambda>_ _. Done (demo_ok []) 10)
     else Done demo_fail 10)"

definition demo_engine :: engine where
  "demo_engine = \<lparr>
     eng_StoreCode = (\<lambda>code gl. (Inr (take 2 code), gl)),
     eng_Instantiate = (\<lambda>c env info msg gl. Done (demo_ok []) (min 10 gl)),
     eng_Execute = (\<lambda>c env info msg gl. demo_execute msg gl),
     eng_Query = (\<lambda>c env msg gl. HGet [1] (\<lambda>v. Done (Inr \<lparr>qr_Ok = v, qr_Err = []\<rparr>) (min 10 gl))),
     eng_Reply = (\<lambda>c env rep gl. Done (demo_ok []) (min 10 gl))\<rparr>"

definition demo_vm :: nitrovm where
  "demo_vm = \<lparr>storage = MemoryAdapter mem_New, chainID = ''nitrovm-1'',
     accounts = [(demo_contract, \<lparr>acct_Address = demo_contract, acct_Balance = \<lparr>amt_v = Some 5\<rparr>,
                    acct_Nonce = 0, acct_CodeHash = None\<rparr>)],
     contracts = [(demo_contract, \<lparr>cm_Checksum = demo_checksum, cm_Label = ''demo'', cm_Creator = demo_user\<rparr>)],
     codes = [(hex_EncodeToString demo_checksum, demo_checksum)], codeSeq = 1,
     codeBySeq = [(1, demo_checksum)], seqByCode = [(hex_EncodeToString demo_checksum, 1)],
     blockHeight = 1, blockTime = 0, instanceCount = 1, touched = []\<rparr>"

lemma demo_vm_wf: "vm_wf demo_vm"
  by code_simp

definition demo_run :: "byte \<Rightarrow> ExecuteResult call_result" where
  "demo_run b = Execute demo_engine 2 demo_vm demo_contract demo_user [b] [] 1000 (Some 0)"

definition gas_and_store :: "'a call_result \<Rightarrow> (bool \<times> uint64 \<times> bytes option \<times> int \<times> int) option" where
  "gas_and_store r = map_option (\<lambda>(res, g, n). (case res of Inl _ \<Rightarrow> False | Inr _ \<Rightarrow> True, g,
     adapter_content (storage n) demo_contract [1], balance_of n demo_contract, balance_of n demo_user)) r"

text \<open>The contract pays its caller; and it calls itself, catches the failure and goes on.\<close>

lemma demo_run_pay: "gas_and_store (demo_run 1) = Some (True, 10, Some [9], 2, 3)"
  by code_simp

lemma demo_run_catch: "gas_and_store (demo_run 2) = Some (True, 30, None, 5, 0)"
  by code_simp

lemma gas_and_storeD:
  assumes "gas_and_store r = Some (True, g, x)"
  obtains res n where "r = Some (Inr res, g, n)"
proof -
  from assms obtain res n where r: "r = Some (res, g, n)" "(case res of Inl _ \<Rightarrow> False | Inr _ \<Rightarrow> True)"
    by (auto simp: gas_and_store_def)
  then show thesis by (cases res) (auto intro: that)
qed

lemma demo_addresses [simp]: "is_address demo_contract" "is_address demo_user"
  by (simp_all add: is_address_def demo_contract_def demo_user_def)

end
