(* ===== verification/Runtime_Theorems.thy ===== *)
theory Runtime_Theorems
  imports Runtime_Demo
begin

text \<open>
  The theorems about the public operations of the VM: \<^verbatim>\<open>Execute\<close>, \<^verbatim>\<open>Instantiate\<close>, \<^verbatim>\<open>StoreCode\<close>, \<^verbatim>\<open>Query\<close>
  and the dispatcher. They hold for every engine and every outcome, errors included, unless they say
  otherwise.
\<close>

subsection \<open>The shape of a public call\<close>

lemma with_nonceD:
  assumes "with_nonce n sender nonce body = Some (res, g, n')"
  obtains (rejected) e where "validateNonce n sender nonce = Some e" "res = Inl e" "g = 0" "n' = n"
  | (failed) e where "validateNonce n sender nonce = None" "body = Some (Inl e, g, n')" "res = Inl e"
  | (finished) r n1 where "validateNonce n sender nonce = None" "body = Some (Inr r, g, n1)" "res = Inr r"
      "n' = (if nonce \<noteq> None then increment_nonce n1 sender else n1)"
  using assms by (auto simp: with_nonce_def split: option.splits sum.splits)

lemma validateNonce_None_iff: "validateNonce n s nonce = None \<longleftrightarrow> nonce = None \<or> nonce = Some (GetNonce n s)"
  by (auto simp: validateNonce_def Let_def split: option.splits)

text \<open>
  A public execution or instantiation, as one relation: any of the two calls of the VM with well-formed
  addresses.
\<close>

definition public_call :: "engine \<Rightarrow> nat \<Rightarrow> nitrovm \<Rightarrow> address \<Rightarrow> uint64 option \<Rightarrow> bool \<Rightarrow> uint64 \<Rightarrow> uint64
    \<Rightarrow> nitrovm \<Rightarrow> bool" where
  "public_call eng qf n sender nonce ok gl g n' \<longleftrightarrow> is_address sender \<and>
     ((\<exists>contract msg funds res. is_address contract
         \<and> Execute eng qf n contract sender msg funds gl nonce = Some (res, g, n') \<and> ok = (\<exists>r. res = Inr r))
      \<or> (\<exists>codeID msg label funds res.
           Instantiate eng qf n codeID sender msg label funds gl nonce = Some (res, g, n') \<and> ok = (\<exists>r. res = Inr r)))"

context vm_step_relation begin

text \<open>The body of a public call is a step; after a success the nonce of the sender is counted up.\<close>

lemma public_call_step:
  assumes "public_call eng qf n sender nonce ok gl g n'"
  obtains n1 where "R n n1" and "n' = (if ok \<and> nonce \<noteq> None then increment_nonce n1 sender else n1)"
    and "ok \<longrightarrow> validateNonce n sender nonce = None"
    and "validateNonce n sender nonce \<noteq> None \<longrightarrow> n' = n \<and> g = 0"
proof -
  have s: "is_address sender" using assms by (simp add: public_call_def)
  from assms consider
    contract msg funds res where "is_address contract" "ok = (\<exists>r. res = Inr r)"
      "with_nonce n sender nonce
         (executeInternal eng qf (dispatchMessages eng qf 0) n contract sender msg funds gl) = Some (res, g, n')"
  | codeID msg label funds res where "ok = (\<exists>r. res = Inr r)"
      "with_nonce n sender nonce
         (instantiateInternal eng qf (dispatchMessages eng qf 0) n codeID sender msg label funds gl) = Some (res, g, n')"
    unfolding public_call_def Execute_def Instantiate_def by blast
  then show thesis
  proof cases
    case 1
    from 1(3) show thesis
    proof (cases rule: with_nonceD)
      case (rejected e)
      with 1 show thesis by (intro that [OF refl]) auto
    qed (use 1 s in \<open>auto intro: that dest: execute_steps [rotated 2]\<close>)
  next
    case 2
    from 2(2) show thesis
    proof (cases rule: with_nonceD)
      case (rejected e)
      with 2 show thesis by (intro that [OF refl]) auto
    qed (use 2 s in \<open>auto intro: that dest: instantiate_steps [rotated 1]\<close>)
  qed
qed

end

lemma public_call_Execute:
  assumes "Execute eng qf n contract sender msg funds gl nonce = Some (res, g, n')"
    "is_address contract" "is_address sender"
  shows "public_call eng qf n sender nonce (\<exists>r. res = Inr r) gl g n'"
  using assms unfolding public_call_def by blast

lemma demo_public:
  obtains n' where "public_call demo_engine 2 demo_vm demo_user (Some 0) True 1000 10 n'"
    "balance_of n' demo_user = 3" "adapter_content (storage n') demo_contract [1] = Some [9]"
proof -
  obtain res n' where r: "demo_run 1 = Some (Inr res, 10, n')"
    using demo_run_pay by (rule gas_and_storeD)
  then have "public_call demo_engine 2 demo_vm demo_user (Some 0) (\<exists>r. (Inr res :: go_error + ExecuteResult) = Inr r) 1000 10 n'"
    unfolding demo_run_def by (rule public_call_Execute) simp_all
  with r demo_run_pay show thesis by (intro that) (auto simp: gas_and_store_def)
qed

subsection \<open>Invariants of execution\<close>

text \<open>
  C4. Executing or instantiating a contract, whatever the contract does and whether the call succeeds
  or fails, keeps the VM state well-formed: account and contract keys are 20-byte addresses without
  duplicates, no balance is negative, every contract runs registered code, and the tables of codes and
  code numbers are inverse to each other.
\<close>

theorem execution_keeps_vm_wf:
  assumes "vm_wf n" "public_call eng qf n sender nonce ok gl g n'"
  shows "vm_wf n' \<and> 0 \<le> balance_of n' a"
proof -
  from assms(2) obtain n1 where "vm_wf n \<longrightarrow> vm_wf n1"
    "n' = (if ok \<and> nonce \<noteq> None then increment_nonce n1 sender else n1)"
    by (rule wf.public_call_step)
  moreover have "is_address sender" using assms(2) by (simp add: public_call_def)
  ultimately have "vm_wf n'" using assms(1) by (simp add: vm_wf_increment_nonce)
  then show ?thesis by (auto simp: vm_wf_def accounts_ok_balance)
qed

theorem execution_keeps_vm_wf_witness:
  "\<exists>n'. public_call demo_engine 2 demo_vm demo_user (Some 0) True 1000 10 n'
     \<and> vm_wf demo_vm \<and> vm_wf n' \<and> 0 \<le> balance_of n' demo_contract"
proof -
  obtain n' where "public_call demo_engine 2 demo_vm demo_user (Some 0) True 1000 10 n'"
    by (rule demo_public)
  with execution_keeps_vm_wf [OF demo_vm_wf this] demo_vm_wf show ?thesis by blast
qed

text \<open>
  C5. Conservation: executing or instantiating a contract creates and destroys no tokens, however
  funds move through transfers, sub-messages, replies and rollbacks. No nonce changes except that of
  the sender, which goes up by one exactly when the call succeeds and carried a nonce.
\<close>

theorem execution_conserves_supply:
  assumes "public_call eng qf n sender nonce ok gl g n'"
  shows "total_supply n' = total_supply n
    \<and> GetNonce n' a = (if a = sender \<and> ok \<and> nonce \<noteq> None then GetNonce n a + 1 else GetNonce n a)"
proof -
  from assms obtain n1 where "ledger_frame n n1"
    "n' = (if ok \<and> nonce \<noteq> None then increment_nonce n1 sender else n1)"
    by (rule ledger.public_call_step)
  then show ?thesis by (auto simp: ledger_frame_def)
qed

theorem execution_conserves_supply_witness:
  "\<exists>n'. public_call demo_engine 2 demo_vm demo_user (Some 0) True 1000 10 n'
     \<and> total_supply n' = 5 \<and> balance_of n' demo_user = 3 \<and> GetNonce n' demo_user = 1"
proof -
  obtain n' where p: "public_call demo_engine 2 demo_vm demo_user (Some 0) True 1000 10 n'"
    and b: "balance_of n' demo_user = 3"
    by (rule demo_public)
  have "total_supply demo_vm = 5" "GetNonce demo_vm demo_user = 0" by code_simp+
  with execution_conserves_supply [OF p, of demo_user] p b show ?thesis by auto
qed

text \<open>
  C25. Executing or instantiating a contract changes neither the code registry nor the block height and
  time, the chain ID or the kind of storage: these move only by uploads and ticks.
\<close>

theorem execution_frame:
  assumes "public_call eng qf n sender nonce ok gl g n'"
  shows "codes n' = codes n \<and> codeSeq n' = codeSeq n \<and> codeBySeq n' = codeBySeq n
    \<and> seqByCode n' = seqByCode n \<and> GetOpSeq n' = GetOpSeq n \<and> blockTime n' = blockTime n
    \<and> vm_ChainID n' = vm_ChainID n \<and> is_memory (vm_Storage n') = is_memory (vm_Storage n)
    \<and> makeEnv n' a = makeEnv n a"
proof -
  from assms obtain n1 where "config_frame n n1"
    "n' = (if ok \<and> nonce \<noteq> None then increment_nonce n1 sender else n1)"
    by (rule config.public_call_step)
  then show ?thesis
    using increment_nonce_rest [of n1 sender]
    by (auto simp: config_frame_def same_rest_def same_registry_def GetOpSeq_def vm_ChainID_def
        vm_Storage_def makeEnv_def)
qed

theorem execution_frame_witness:
  "\<exists>n'. public_call demo_engine 2 demo_vm demo_user (Some 0) True 1000 10 n'
     \<and> n' \<noteq> demo_vm \<and> makeEnv n' demo_contract = makeEnv demo_vm demo_contract"
proof -
  obtain n' where p: "public_call demo_engine 2 demo_vm demo_user (Some 0) True 1000 10 n'"
    and b: "balance_of n' demo_user = 3"
    by (rule demo_public)
  have "balance_of demo_vm demo_user = 0" by code_simp
  with execution_frame [OF p] p b show ?thesis by auto
qed

text \<open>
  C13. The touched set is complete: after a call, an account that is not in it has the balance and the
  nonce it had before, so that writing back the touched accounts and nothing else loses no change.
\<close>

theorem touched_complete:
  assumes "public_call eng qf n sender nonce ok gl g n'"
    and "a \<notin> set (fst (TouchedAddresses n'))"
  shows "balance_of n' a = balance_of n a \<and> GetNonce n' a = GetNonce n a"
proof -
  from assms(1) obtain n1 where "touched_frame n n1"
    "n' = (if ok \<and> nonce \<noteq> None then increment_nonce n1 sender else n1)"
    by (rule tch.public_call_step)
  with assms(2) show ?thesis
    by (auto simp: touched_frame_def TouchedAddresses_def balance_of_def split: if_splits)
qed

theorem touched_complete_witness:
  "\<exists>n'. public_call demo_engine 2 demo_vm demo_user (Some 0) True 1000 10 n'
     \<and> demo_user \<in> set (fst (TouchedAddresses n'))"
proof -
  obtain n' where p: "public_call demo_engine 2 demo_vm demo_user (Some 0) True 1000 10 n'"
    and b: "balance_of n' demo_user = 3"
    by (rule demo_public)
  have "balance_of demo_vm demo_user = 0" by code_simp
  with touched_complete [OF p, of demo_user] p b show ?thesis by auto
qed



end
