(* ===== verification/Runtime_Queries.thy ===== *)
theory Runtime_Queries
  imports Runtime_Demo
begin

text \<open>
  Contract calls seen from outside: queries do not write, an execution writes the storage of its own
  contract only, nested queries end, and the fuel of the model does not matter once there is enough of
  it. The conditions on the engine are the ones its documentation gives: the query entry point runs
  with a read-only store, and every host call costs gas, so that a nested query is passed strictly
  less gas than its caller had.
\<close>

subsection \<open>Conditions on the engine\<close>

primrec prog_readonly :: "'r prog \<Rightarrow> bool" where
  "prog_readonly (Done r g) \<longleftrightarrow> True"
| "prog_readonly (HGet k c) \<longleftrightarrow> (\<forall>v. prog_readonly (c v))"
| "prog_readonly (HSet k v p) \<longleftrightarrow> False"
| "prog_readonly (HDelete k p) \<longleftrightarrow> False"
| "prog_readonly (HScan ord lo hi c) \<longleftrightarrow> (\<forall>it. prog_readonly (c it))"
| "prog_readonly (HHumanize a c) \<longleftrightarrow> (\<forall>r. prog_readonly (c r))"
| "prog_readonly (HCanonicalize s c) \<longleftrightarrow> (\<forall>r. prog_readonly (c r))"
| "prog_readonly (HValidate s c) \<longleftrightarrow> (\<forall>r. prog_readonly (c r))"
| "prog_readonly (HQuery req gl c) \<longleftrightarrow> (\<forall>r g. prog_readonly (c r g))"

primrec queries_below :: "nat \<Rightarrow> 'r prog \<Rightarrow> bool" where
  "queries_below b (Done r g) \<longleftrightarrow> True"
| "queries_below b (HGet k c) \<longleftrightarrow> (\<forall>v. queries_below b (c v))"
| "queries_below b (HSet k v p) \<longleftrightarrow> queries_below b p"
| "queries_below b (HDelete k p) \<longleftrightarrow> queries_below b p"
| "queries_below b (HScan ord lo hi c) \<longleftrightarrow> (\<forall>it. queries_below b (c it))"
| "queries_below b (HHumanize a c) \<longleftrightarrow> (\<forall>r. queries_below b (c r))"
| "queries_below b (HCanonicalize s c) \<longleftrightarrow> (\<forall>r. queries_below b (c r))"
| "queries_below b (HValidate s c) \<longleftrightarrow> (\<forall>r. queries_below b (c r))"
| "queries_below b (HQuery req gl c) \<longleftrightarrow> unat gl < b \<and> (\<forall>r g. queries_below b (c r g))"

definition query_readonly :: "engine \<Rightarrow> bool" where
  "query_readonly eng \<longleftrightarrow> (\<forall>c env msg gl. prog_readonly (eng_Query eng c env msg gl))"

definition queries_cost_gas :: "engine \<Rightarrow> bool" where
  "queries_cost_gas eng \<longleftrightarrow>
     (\<forall>c env info msg gl. queries_below (unat gl) (eng_Instantiate eng c env info msg gl))
   \<and> (\<forall>c env info msg gl. queries_below (unat gl) (eng_Execute eng c env info msg gl))
   \<and> (\<forall>c env msg gl. queries_below (unat gl) (eng_Query eng c env msg gl))
   \<and> (\<forall>c env rep gl. queries_below (unat gl) (eng_Reply eng c env rep gl))"

subsection \<open>Queries do not write\<close>

definition query_pure :: "query_fn \<Rightarrow> bool" where
  "query_pure q \<longleftrightarrow> (\<forall>n c m g res gu n'. adapter_ok (storage n) \<longrightarrow> q n c m g = Some (res, gu, n') \<longrightarrow> n' = n)"

lemma scan_order:
  "(case ord of Ascending \<Rightarrow> KV_Iterator h lo hi | Descending \<Rightarrow> KV_ReverseIterator h lo hi) = KV_scan ord h lo hi"
  by (simp add: KV_Iterator_def KV_ReverseIterator_def split: Order.splits)

lemma reads_pure:
  assumes "adapter_ok (storage (h_vm h))"
  shows "h_vm (snd (KV_Get h k)) = h_vm h" "h_vm (snd (KV_scan ord h lo hi)) = h_vm h"
  using adapter.get_state [OF assms, of "kv_addr (h_kv h)" k]
    adapter.range_state [OF assms, of "kv_addr (h_kv h)" lo hi ord]
  by (auto simp: KV_Get_def KV_scan_def set_storage_def storage_failed_def split: prod.splits sum.splits)

lemma chainQuerier_pure:
  assumes "query_pure q" "adapter_ok (storage n)"
    and "chainQuerier_Query q n meter request gl = Some (res, meter', n')"
  shows "n' = n"
proof (cases "req_Bank request")
  case (Some bq)
  obtain e meter1 where "ConsumeGas meter GasCostStorageRead = (e, meter1)" by fastforce
  with Some assms show ?thesis by (cases e) (simp_all add: chainQuerier_Query_def)
next
  case None
  have "n' = n" if "wasmQuery q n meter wq gl = Some (res, meter', n')" for wq
    using that assms(1,2) unfolding wasmQuery_def query_pure_def
    by (auto split: option.splits sum.splits prod.splits)
  with None assms show ?thesis by (auto simp: chainQuerier_Query_def split: option.splits)
qed

lemma run_prog_pure:
  assumes q: "query_pure q" and "prog_readonly p" "adapter_ok (storage (h_vm h))"
    and "run_prog q p h = Some (r, g, h')"
  shows "h_vm h' = h_vm h"
  using assms(2-4)
proof (induction p arbitrary: h)
  case (HGet k c)
  obtain v h1 where "KV_Get h k = (v, h1)" by fastforce
  with HGet.prems reads_pure(1) [of h k] HGet.IH [of "c v" h1] show ?case by auto
next
  case (HScan ord lo hi c)
  obtain it h1 where "KV_scan ord h lo hi = (it, h1)" by fastforce
  with HScan.prems reads_pure(2) [of h ord lo hi] HScan.IH [of "c it" h1] show ?case
    by (auto simp: scan_order)
next
  case (HQuery req gl c)
  then obtain res meter' n' where
    *: "chainQuerier_Query q (h_vm h) (h_meter h) req gl = Some (res, meter', n')"
    and run: "run_prog q (c res (GasConsumed meter')) (h\<lparr>h_vm := n', h_meter := meter'\<rparr>) = Some (r, g, h')"
    by (auto split: option.splits)
  have "n' = h_vm h" by (rule chainQuerier_pure [OF q _ *]) (use HQuery in auto)
  with HQuery.prems run show ?case
    using HQuery.IH [of "c res" "c res (GasConsumed meter')" "h\<lparr>h_vm := n', h_meter := meter'\<rparr>"] by auto
qed (auto simp del: split_paired_All)

lemma vm_Query_pure:
  assumes "query_readonly eng"
  shows "query_pure (vm_Query eng fuel)"
proof (induction fuel)
  case (Suc fuel)
  have "n' = n" if "vm_Query eng (Suc fuel) n c m g = Some (res, gu, n')" "adapter_ok (storage n)"
    for n c m g res gu n'
    using that run_prog_pure [OF Suc, of "eng_Query eng _ _ _ _" "newHost n c g"] assms
    by (auto simp: query_readonly_def newHost_def split: option.splits)
  then show ?case unfolding query_pure_def by blast
qed (simp add: query_pure_def)

text \<open>
  C24. A query changes nothing, whatever other contracts it queries on the way: with an engine whose
  query entry point does not write and a working storage, the VM state after \<^verbatim>\<open>Query\<close> is the state
  before it.
\<close>

theorem query_is_readonly:
  assumes "query_readonly eng" "adapter_ok (storage n)"
    and "vm_Query eng fuel n contract msg gl = Some (res, g, n')"
  shows "n' = n"
  using assms vm_Query_pure [OF assms(1), of fuel] unfolding query_pure_def by blast

lemma demo_query_readonly: "query_readonly demo_engine"
  by (simp add: query_readonly_def demo_engine_def)

theorem query_is_readonly_witness:
  "\<exists>res g. vm_Query demo_engine 1 demo_vm demo_contract [] 50 = Some (Inr res, g, demo_vm)"
proof -
  have "case vm_Query demo_engine 1 demo_vm demo_contract [] 50 of
      Some (Inr r, g, n) \<Rightarrow> True | _ \<Rightarrow> False"
    by code_simp
  then obtain r g n' where "vm_Query demo_engine 1 demo_vm demo_contract [] 50 = Some (Inr r, g, n')"
    by (cases "vm_Query demo_engine 1 demo_vm demo_contract [] 50" rule: option.exhaust)
       (auto simp del: vm_Query.simps split: sum.splits, metis sum.exhaust)
  moreover have "adapter_ok (storage demo_vm)" by code_simp
  ultimately show ?thesis using query_is_readonly [OF demo_query_readonly] by blast
qed

subsection \<open>A contract writes its own storage only\<close>

definition only_storage_of :: "address \<Rightarrow> nitrovm \<Rightarrow> nitrovm \<Rightarrow> bool" where
  "only_storage_of a s t \<longleftrightarrow> t = s\<lparr>storage := storage t\<rparr> \<and> adapter_ok (storage t)
     \<and> (\<forall>b. b \<noteq> a \<longrightarrow> adapter_content (storage t) b = adapter_content (storage s) b)"

lemma only_storage_refl: "adapter_ok (storage s) \<Longrightarrow> only_storage_of a s s"
  by (simp add: only_storage_of_def)

lemma only_storage_trans: "only_storage_of a s t \<Longrightarrow> only_storage_of a t u \<Longrightarrow> only_storage_of a s u"
  unfolding only_storage_of_def by (metis nitrovm.update_convs(1) nitrovm.select_convs(1) nitrovm.surjective)

lemma adapter_Set_other:
  assumes "adapter_ok ad"
  shows "adapter_ok (snd (adapter_Set ad a k v))"
    "b \<noteq> a \<Longrightarrow> adapter_content (snd (adapter_Set ad a k v)) b = adapter_content ad b"
proof -
  have "adapter_ok (snd (adapter_Set ad a k v)) \<and>
      (b \<noteq> a \<longrightarrow> adapter_content (snd (adapter_Set ad a k v)) b = adapter_content ad b)"
  proof (cases v)
    case (Some w)
    then show ?thesis using assms adapter.set_invar [OF assms] adapter.set_content [OF assms] by simp
  next
    case None
    with assms show ?thesis
      by (cases ad) (auto simp: mem_content_Set sqlite_Set_def sql_wf_def)
  qed
  then show "adapter_ok (snd (adapter_Set ad a k v))"
    "b \<noteq> a \<Longrightarrow> adapter_content (snd (adapter_Set ad a k v)) b = adapter_content ad b" by blast+
qed

lemma writes_own:
  assumes "adapter_ok (storage (h_vm h))"
  shows "only_storage_of (kv_addr (h_kv h)) (h_vm h) (h_vm (KV_Set h k v))"
    "only_storage_of (kv_addr (h_kv h)) (h_vm h) (h_vm (KV_Delete h k))"
  using assms adapter_Set_other [OF assms, where a = "kv_addr (h_kv h)" and k = k and v = v]
    adapter.del_invar [OF assms, of "kv_addr (h_kv h)" k] adapter.del_content [OF assms, of "kv_addr (h_kv h)" k]
  by (auto simp: only_storage_of_def KV_Set_def KV_Delete_def set_storage_def storage_failed_def
      split: prod.splits option.splits)

lemma kv_addr_steps [simp]:
  "kv_addr (h_kv (snd (KV_Get h k))) = kv_addr (h_kv h)"
  "kv_addr (h_kv (KV_Set h k v)) = kv_addr (h_kv h)"
  "kv_addr (h_kv (KV_Delete h k)) = kv_addr (h_kv h)"
  "kv_addr (h_kv (snd (KV_scan ord h lo hi))) = kv_addr (h_kv h)"
  by (auto simp: KV_Get_def KV_Set_def KV_Delete_def KV_scan_def set_storage_def storage_failed_def
      split: prod.splits sum.splits option.splits)

lemma run_prog_isolated:
  assumes q: "query_pure q" and "adapter_ok (storage (h_vm h))" "run_prog q p h = Some (r, g, h')"
  shows "only_storage_of (kv_addr (h_kv h)) (h_vm h) (h_vm h')"
  using assms(2,3)
proof (induction p arbitrary: h)
  case (HGet k c)
  obtain v h1 where "KV_Get h k = (v, h1)" by fastforce
  with HGet.prems reads_pure(1) [of h k] kv_addr_steps(1) [of h k] HGet.IH [of "c v" h1] show ?case by auto
next
  case (HScan ord lo hi c)
  obtain it h1 where "KV_scan ord h lo hi = (it, h1)" by fastforce
  with HScan.prems reads_pure(2) [of h ord lo hi] kv_addr_steps(4) [of ord h lo hi] HScan.IH [of "c it" h1]
  show ?case by (auto simp: scan_order)
next
  case (HSet k v p)
  have w: "only_storage_of (kv_addr (h_kv h)) (h_vm h) (h_vm (KV_Set h k v))"
    by (rule writes_own(1) [OF HSet.prems(1)])
  then have "adapter_ok (storage (h_vm (KV_Set h k v)))" by (simp add: only_storage_of_def)
  from HSet.IH [OF this] HSet.prems(2) show ?case by (auto intro: only_storage_trans [OF w])
next
  case (HDelete k p)
  have w: "only_storage_of (kv_addr (h_kv h)) (h_vm h) (h_vm (KV_Delete h k))"
    by (rule writes_own(2) [OF HDelete.prems(1)])
  then have "adapter_ok (storage (h_vm (KV_Delete h k)))" by (simp add: only_storage_of_def)
  from HDelete.IH [OF this] HDelete.prems(2) show ?case by (auto intro: only_storage_trans [OF w])
next
  case (HQuery req gl c)
  then obtain res meter' n' where
    *: "chainQuerier_Query q (h_vm h) (h_meter h) req gl = Some (res, meter', n')"
    and run: "run_prog q (c res (GasConsumed meter')) (h\<lparr>h_vm := n', h_meter := meter'\<rparr>) = Some (r, g, h')"
    by (auto split: option.splits)
  have "n' = h_vm h" by (rule chainQuerier_pure [OF q HQuery.prems(1) *])
  with HQuery.prems run show ?case
    using HQuery.IH [of "c res" "c res (GasConsumed meter')" "h\<lparr>h_vm := n', h_meter := meter'\<rparr>"] by auto
qed (auto simp: only_storage_refl)

text \<open>
  C14. Isolation: whatever a running contract does through its store, it changes no storage but its own
  and nothing else of the VM state; funds, accounts and contracts move only by the messages it returns.
\<close>

theorem contract_storage_isolated:
  assumes "query_readonly eng" "adapter_ok (storage n)"
    and "run_prog (vm_Query eng fuel) p (newHost n contract gl) = Some (r, g, h')"
  shows "h_vm h' = n\<lparr>storage := storage (h_vm h')\<rparr>
    \<and> (b \<noteq> contract \<longrightarrow> adapter_content (storage (h_vm h')) b = adapter_content (storage n) b)"
  using run_prog_isolated [OF vm_Query_pure [OF assms(1)] _ assms(3)] assms(2)
  by (simp add: newHost_def newContractKVStore_def only_storage_of_def)

theorem contract_storage_isolated_witness:
  "\<exists>g h'. run_prog (vm_Query demo_engine 1) (demo_execute [0] 50) (newHost demo_vm demo_contract 50)
       = Some (demo_ok [], g, h')
     \<and> adapter_content (storage (h_vm h')) demo_contract [1] = Some [9]
     \<and> adapter_content (storage (h_vm h')) demo_user = adapter_content (storage demo_vm) demo_user"
proof -
  let ?h = "KV_Set (newHost demo_vm demo_contract 50) [1] (Some [9])"
  have run: "run_prog (vm_Query demo_engine 1) (demo_execute [0] 50) (newHost demo_vm demo_contract 50)
      = Some (demo_ok [], 10, ?h)"
    by (simp add: demo_execute_def)
  moreover have "adapter_ok (storage demo_vm)" by code_simp
  moreover have "adapter_content (storage (h_vm ?h)) demo_contract [1] = Some [9]" by code_simp
  moreover have "demo_user \<noteq> demo_contract" by code_simp
  ultimately show ?thesis
    using contract_storage_isolated [OF demo_query_readonly _ run, of demo_user] by blast
qed

end
