(* ===== verification/Runtime_Termination.thy ===== *)
theory Runtime_Termination
  imports Runtime_Theorems Runtime_Queries
begin

text \<open>
  Every public call returns. The recursion of messages ends at the depth limit, which the termination
  of \<open>dispatchMessages\<close> already shows; the recursion of contract queries ends because each costs gas:
  with as much fuel as the call has gas there is an answer, and more fuel gives the same one. The second
  half bounds the gas a call reports by the gas it was given.
\<close>

subsection \<open>Enough fuel\<close>

definition answers_below :: "nat \<Rightarrow> query_fn \<Rightarrow> bool" where
  "answers_below b q \<longleftrightarrow> (\<forall>n c m gl. unat gl < b \<longrightarrow> q n c m gl \<noteq> None)"

lemma chainQuerier_answers:
  assumes "answers_below b q" "unat gl < b"
  shows "chainQuerier_Query q n meter request gl \<noteq> None"
proof -
  have "wasmQuery q n meter wq gl \<noteq> None" for wq
    using assms unfolding wasmQuery_def answers_below_def
    by (auto simp del: not_None_eq split: option.splits sum.splits prod.splits)
  then show ?thesis
    by (auto simp: chainQuerier_Query_def split: option.splits prod.splits)
qed

lemma run_prog_answers:
  assumes q: "answers_below b q" and "queries_below b p"
  shows "run_prog q p h \<noteq> None"
  using assms(2)
proof (induction p arbitrary: h)
  case (HQuery req gl c)
  with chainQuerier_answers [OF q] obtain res meter' n' where
    *: "chainQuerier_Query q (h_vm h) (h_meter h) req gl = Some (res, meter', n')"
    by fastforce
  with HQuery show ?case
    using HQuery.IH [of "c res" "c res (GasConsumed meter')" "h\<lparr>h_vm := n', h_meter := meter'\<rparr>"] by simp
next
  case (HGet k c) then show ?case by (auto split: prod.splits)
next
  case (HScan ord lo hi c) then show ?case by (auto simp: scan_order split: prod.splits)
qed (auto simp del: split_paired_All)

lemma queries_below_mono: "queries_below b p \<Longrightarrow> b \<le> b' \<Longrightarrow> queries_below b' p"
  by (induction p) (auto simp del: split_paired_All)

lemma vm_Query_answers:
  assumes "queries_cost_gas eng"
  shows "answers_below fuel (vm_Query eng fuel)"
proof (induction fuel)
  case (Suc fuel)
  have "vm_Query eng (Suc fuel) n c m gl \<noteq> None" if "unat gl < Suc fuel" for n c m gl
  proof -
    have "queries_below fuel (eng_Query eng ck (makeEnv n c) m gl)" for ck
      using assms that by (auto simp: queries_cost_gas_def intro: queries_below_mono [of "unat gl"])
    then have "run_prog (vm_Query eng fuel) (eng_Query eng ck (makeEnv n c) m gl) (newHost n c gl) \<noteq> None" for ck
      by (rule run_prog_answers [OF Suc])
    then show ?thesis by (auto simp del: not_None_eq split: option.splits)
  qed
  then show ?case by (simp add: answers_below_def)
qed (simp add: answers_below_def)

definition dispatch_answers :: "nat \<Rightarrow> dispatch_fn \<Rightarrow> bool" where
  "dispatch_answers b d \<longleftrightarrow> (\<forall>n c ms gl. unat gl \<le> b \<longrightarrow> d n c ms gl \<noteq> None)"

lemma safeSubGas_le: "unat a \<le> b \<Longrightarrow> unat (safeSubGas a g) \<le> b"
  by (simp add: unat_safeSubGas)

lemma collect_answers:
  "dispatch_answers b d \<Longrightarrow> unat gl \<le> b \<Longrightarrow> collect_response d c ok gl gu n \<noteq> None"
  using safeSubGas_le [of gl b gu]
  by (auto simp: collect_response_def dispatch_answers_def Let_def simp del: not_None_eq split: option.splits)

lemma engine_answers:
  assumes "queries_cost_gas eng" "unat gl \<le> qf"
  shows "run_prog (vm_Query eng qf) (eng_Execute eng c env info msg gl) h \<noteq> None"
    "run_prog (vm_Query eng qf) (eng_Instantiate eng c env info msg gl) h \<noteq> None"
    "run_prog (vm_Query eng qf) (eng_Reply eng c env rep gl) h \<noteq> None"
  by (rule run_prog_answers [OF vm_Query_answers [OF assms(1)]];
      use assms in \<open>auto simp: queries_cost_gas_def intro: queries_below_mono [of "unat gl"]\<close>)+

lemma internal_answers:
  assumes "queries_cost_gas eng" "unat gl \<le> qf" "dispatch_answers qf d"
  shows "executeInternal eng qf d n contract sender msg funds gl \<noteq> None"
    "instantiateInternal eng qf d n codeID sender msg label funds gl \<noteq> None"
  using engine_answers(1,2) [OF assms(1,2)] collect_answers [OF assms(3,2)]
  unfolding executeInternal_def instantiateInternal_def
  by (auto simp del: not_None_eq split: option.splits sum.splits prod.splits)

lemma dispatchSingle_answers:
  assumes "queries_cost_gas eng" "unat gl \<le> qf" "dispatch_answers qf d"
  shows "dispatchSingleMessage eng qf d n c msg gl \<noteq> None"
  using internal_answers [OF assms] unfolding dispatchSingleMessage_def
  by (auto simp del: not_None_eq split: option.splits sum.splits prod.splits)

lemma invokeReply_answers:
  assumes "queries_cost_gas eng" "unat gl \<le> qf" "dispatch_answers qf d"
  shows "invokeReply eng qf d n c rep gl \<noteq> None"
  using engine_answers(3) [OF assms(1,2)] assms(3) safeSubGas_le [OF assms(2)]
  unfolding invokeReply_def dispatch_answers_def
  by (auto simp: Let_def simp del: not_None_eq split: option.splits sum.splits)

lemma dispatch_loop_answers:
  assumes "\<And>n msg gl. unat gl \<le> qf \<Longrightarrow> single n c msg gl \<noteq> None"
    and "\<And>n r gl. unat gl \<le> qf \<Longrightarrow> reply n c r gl \<noteq> None"
    and "unat gl \<le> qf"
  shows "dispatch_loop single reply n c msgs dr gl \<noteq> None"
  using assms(3)
proof (induction msgs arbitrary: n dr gl)
  case (Cons sub msgs)
  note gl = Cons.prems safeSubGas_le [OF Cons.prems] safeSubGas_le [OF safeSubGas_le [OF Cons.prems]]
  show ?case
    using assms(1) [OF gl(1)] assms(2) [OF gl(2)] Cons.IH gl
    by (auto simp: Let_def simp del: not_None_eq split: option.splits sum.splits)
qed simp

lemma dispatchMessages_answers:
  assumes "queries_cost_gas eng"
  shows "dispatch_answers qf (dispatchMessages eng qf depth)"
proof (induction "maxDispatchDepth - depth" arbitrary: depth)
  case 0
  then show ?case by (simp add: dispatch_answers_def dispatchMessages.simps [of eng qf depth])
next
  case (Suc k)
  then have ih: "dispatch_answers qf (dispatchMessages eng qf (depth + 1))" by simp
  show ?case
    unfolding dispatch_answers_def dispatchMessages.simps [of eng qf depth]
    using dispatch_loop_answers [OF dispatchSingle_answers [OF assms _ ih] invokeReply_answers [OF assms _ ih]]
    by simp
qed

subsection \<open>More fuel gives the same answer\<close>

definition opt_le :: "'a option \<Rightarrow> 'a option \<Rightarrow> bool" where
  "opt_le x y \<longleftrightarrow> (\<forall>r. x = Some r \<longrightarrow> y = Some r)"

lemma opt_le_refl [simp]: "opt_le x x"
  by (simp add: opt_le_def)

lemma opt_le_bind:
  "opt_le x y \<Longrightarrow> (\<And>r. opt_le (f r) (g r)) \<Longrightarrow>
   opt_le (case x of None \<Rightarrow> None | Some r \<Rightarrow> f r) (case y of None \<Rightarrow> None | Some r \<Rightarrow> g r)"
  by (cases x) (auto simp: opt_le_def)

lemma opt_le_option:
  "opt_le a a' \<Longrightarrow> (\<And>r. opt_le (f r) (f' r)) \<Longrightarrow>
   opt_le (case z of None \<Rightarrow> a | Some r \<Rightarrow> f r) (case z of None \<Rightarrow> a' | Some r \<Rightarrow> f' r)"
  by (simp split: option.splits)

lemma opt_le_sum:
  "(\<And>e. opt_le (f e) (f' e)) \<Longrightarrow> (\<And>r. opt_le (g r) (g' r)) \<Longrightarrow>
   opt_le (case z of Inl e \<Rightarrow> f e | Inr r \<Rightarrow> g r) (case z of Inl e \<Rightarrow> f' e | Inr r \<Rightarrow> g' r)"
  by (simp split: sum.splits)

lemma opt_le_prod:
  "(\<And>a b. opt_le (f a b) (f' a b)) \<Longrightarrow> opt_le (case z of (a, b) \<Rightarrow> f a b) (case z of (a, b) \<Rightarrow> f' a b)"
  by (simp split: prod.splits)

lemma opt_le_if:
  "opt_le a a' \<Longrightarrow> opt_le b b' \<Longrightarrow> opt_le (if z then a else b) (if z then a' else b')"
  by simp

lemmas opt_le_intros = opt_le_refl opt_le_bind opt_le_option opt_le_sum opt_le_prod opt_le_if

definition query_le :: "query_fn \<Rightarrow> query_fn \<Rightarrow> bool" where
  "query_le q q' \<longleftrightarrow> (\<forall>n c m gl. opt_le (q n c m gl) (q' n c m gl))"

lemma query_leD: "query_le q q' \<Longrightarrow> opt_le (q n c m gl) (q' n c m gl)"
  by (simp add: query_le_def)

lemma chainQuerier_le:
  assumes "query_le q q'"
  shows "opt_le (chainQuerier_Query q n meter request gl) (chainQuerier_Query q' n meter request gl)"
  unfolding chainQuerier_Query_def wasmQuery_def by (intro opt_le_intros query_leD [OF assms])

lemma run_prog_le:
  assumes q: "query_le q q'"
  shows "opt_le (run_prog q p h) (run_prog q' p h)"
proof (induction p arbitrary: h)
  case (HQuery req gl c)
  have "opt_le (run_prog q (c r g) h') (run_prog q' (c r g) h')" for r g h'
    by (rule HQuery.IH [of "c r"]) simp_all
  then show ?case
    unfolding run_prog.simps by (intro opt_le_intros chainQuerier_le [OF q])
qed (auto split: prod.splits Order.splits)

lemma vm_Query_le: "query_le (vm_Query eng f) (vm_Query eng (f + k))"
proof (induction f)
  case (Suc f)
  have "opt_le (vm_Query eng (Suc f) n c m gl) (vm_Query eng (Suc f + k) n c m gl)" for n c m gl
    unfolding vm_Query.simps add_Suc by (intro opt_le_intros run_prog_le [OF Suc])
  then show ?case by (simp add: query_le_def)
qed (simp add: query_le_def opt_le_def)

definition dispatch_le :: "dispatch_fn \<Rightarrow> dispatch_fn \<Rightarrow> bool" where
  "dispatch_le d d' \<longleftrightarrow> (\<forall>n c ms gl. opt_le (d n c ms gl) (d' n c ms gl))"

lemma dispatch_leD: "dispatch_le d d' \<Longrightarrow> opt_le (d n c ms gl) (d' n c ms gl)"
  by (simp add: dispatch_le_def)

lemma collect_le:
  "dispatch_le d d' \<Longrightarrow> opt_le (collect_response d c ok gl gu n) (collect_response d' c ok gl gu n)"
  unfolding collect_response_def Let_def by (intro opt_le_intros dispatch_leD)

lemma internal_le:
  assumes "dispatch_le d d'"
  shows "opt_le (executeInternal eng f d n contract sender msg funds gl)
      (executeInternal eng (f + k) d' n contract sender msg funds gl)"
    "opt_le (instantiateInternal eng f d n codeID sender msg label funds gl)
      (instantiateInternal eng (f + k) d' n codeID sender msg label funds gl)"
  unfolding executeInternal_def instantiateInternal_def
  by (intro opt_le_intros run_prog_le [OF vm_Query_le] collect_le [OF assms])+

lemma dispatchSingle_le:
  assumes "dispatch_le d d'"
  shows "opt_le (dispatchSingleMessage eng f d n c msg gl) (dispatchSingleMessage eng (f + k) d' n c msg gl)"
  unfolding dispatchSingleMessage_def by (intro opt_le_intros internal_le [OF assms])

lemma invokeReply_le:
  assumes "dispatch_le d d'"
  shows "opt_le (invokeReply eng f d n c rep gl) (invokeReply eng (f + k) d' n c rep gl)"
  unfolding invokeReply_def Let_def
  by (intro opt_le_intros run_prog_le [OF vm_Query_le] dispatch_leD [OF assms])

lemma dispatch_loop_le:
  assumes "\<And>n msg gl. opt_le (single n c msg gl) (single' n c msg gl)"
    and "\<And>n r gl. opt_le (reply n c r gl) (reply' n c r gl)"
  shows "opt_le (dispatch_loop single reply n c msgs dr gl) (dispatch_loop single' reply' n c msgs dr gl)"
proof (induction msgs arbitrary: n dr gl)
  case (Cons sub msgs)
  show ?case
    unfolding dispatch_loop.simps Let_def by (intro opt_le_intros assms Cons.IH)
qed simp

lemma dispatchMessages_le: "dispatch_le (dispatchMessages eng f depth) (dispatchMessages eng (f + k) depth)"
proof (induction "maxDispatchDepth - depth" arbitrary: depth)
  case 0
  then show ?case
    by (simp add: dispatch_le_def dispatchMessages.simps [of eng f depth] dispatchMessages.simps [of eng "f + k" depth])
next
  case (Suc j)
  then have ih: "dispatch_le (dispatchMessages eng f (depth + 1)) (dispatchMessages eng (f + k) (depth + 1))"
    by simp
  have "depth < maxDispatchDepth" using Suc by simp
  then show ?case
    unfolding dispatch_le_def dispatchMessages.simps [of eng f depth] dispatchMessages.simps [of eng "f + k" depth]
    by (auto intro!: dispatch_loop_le dispatchSingle_le invokeReply_le ih [simplified])
qed

lemma with_nonce_le: "opt_le x y \<Longrightarrow> opt_le (with_nonce n s nonce x) (with_nonce n s nonce y)"
  unfolding with_nonce_def by (intro opt_le_intros)

text \<open>
  C11. Every public call returns: if each contract query is passed less gas than its caller has, then
  executing or instantiating with gas limit \<open>gl\<close> gives a result with any fuel from \<open>gl\<close> on, and that
  result does not depend on the fuel. Contracts that call or query each other in circles therefore end
  in an answer or an error.
\<close>

theorem calls_return:
  assumes "queries_cost_gas eng"
  shows "(\<exists>r. \<forall>qf\<ge>unat gl. Execute eng qf n contract sender msg funds gl nonce = Some r)
    \<and> (\<exists>r. \<forall>qf\<ge>unat gl. Instantiate eng qf n codeID sender msg label funds gl nonce = Some r)
    \<and> (\<exists>r. \<forall>qf>unat gl. vm_Query eng qf n contract msg gl = Some r)"
proof -
  have settle: "\<exists>r. \<forall>qf\<ge>b. F qf = Some r"
    if "F b \<noteq> None" and "\<And>k. opt_le (F b) (F (b + k))" for F :: "nat \<Rightarrow> 'b option" and b
    using that by (auto simp: opt_le_def le_iff_add simp del: split_paired_Ex)
  have total: "with_nonce n sender nonce x \<noteq> None" if "x \<noteq> None" for x :: "'c call_result"
    using that by (auto simp: with_nonce_def split: option.splits sum.splits)
  have "\<exists>r. \<forall>qf\<ge>unat gl. Execute eng qf n contract sender msg funds gl nonce = Some r"
    by (rule settle; unfold Execute_def;
        intro total internal_answers(1) [OF assms] dispatchMessages_answers [OF assms] order_refl
          with_nonce_le internal_le(1) dispatchMessages_le)
  moreover have "\<exists>r. \<forall>qf\<ge>unat gl. Instantiate eng qf n codeID sender msg label funds gl nonce = Some r"
    by (rule settle; unfold Instantiate_def;
        intro total internal_answers(2) [OF assms] dispatchMessages_answers [OF assms] order_refl
          with_nonce_le internal_le(2) dispatchMessages_le)
  moreover have "\<exists>r. \<forall>qf\<ge>Suc (unat gl). vm_Query eng qf n contract msg gl = Some r"
  proof (rule settle)
    show "vm_Query eng (Suc (unat gl)) n contract msg gl \<noteq> None"
      using vm_Query_answers [OF assms, of "Suc (unat gl)"] unfolding answers_below_def by blast
  qed (rule query_leD [OF vm_Query_le])
  ultimately show ?thesis by (simp add: Suc_le_eq)
qed

lemma demo_queries_cost_gas: "queries_cost_gas demo_engine"
proof -
  have "unat (gl - 1) < unat gl" if "\<not> gl < 10" for gl :: uint64
  proof -
    have "gl \<noteq> 0" using that by auto
    then show ?thesis by (simp add: unat_gt_0 unat_minus_one)
  qed
  then show ?thesis
    by (simp add: queries_cost_gas_def demo_engine_def demo_execute_def)
qed

theorem calls_return_witness:
  "queries_cost_gas demo_engine
   \<and> (\<exists>r. \<forall>qf\<ge>1000. Execute demo_engine qf demo_vm demo_contract demo_user [5] [] 1000 (Some 0) = Some r)"
  using calls_return [OF demo_queries_cost_gas, of 1000 demo_vm demo_contract demo_user "[5]" "[]" "Some 0"]
    demo_queries_cost_gas by simp

subsection \<open>Gas\<close>

text \<open>The engine never reports more gas than it was given.\<close>

primrec gas_below :: "uint64 \<Rightarrow> 'r prog \<Rightarrow> bool" where
  "gas_below b (Done r g) \<longleftrightarrow> g \<le> b"
| "gas_below b (HGet k c) \<longleftrightarrow> (\<forall>v. gas_below b (c v))"
| "gas_below b (HSet k v p) \<longleftrightarrow> gas_below b p"
| "gas_below b (HDelete k p) \<longleftrightarrow> gas_below b p"
| "gas_below b (HScan ord lo hi c) \<longleftrightarrow> (\<forall>it. gas_below b (c it))"
| "gas_below b (HHumanize a c) \<longleftrightarrow> (\<forall>r. gas_below b (c r))"
| "gas_below b (HCanonicalize s c) \<longleftrightarrow> (\<forall>r. gas_below b (c r))"
| "gas_below b (HValidate s c) \<longleftrightarrow> (\<forall>r. gas_below b (c r))"
| "gas_below b (HQuery req gl c) \<longleftrightarrow> (\<forall>r g. gas_below b (c r g))"

definition engine_metered :: "engine \<Rightarrow> bool" where
  "engine_metered eng \<longleftrightarrow>
     (\<forall>c env info msg gl. gas_below gl (eng_Instantiate eng c env info msg gl))
   \<and> (\<forall>c env info msg gl. gas_below gl (eng_Execute eng c env info msg gl))
   \<and> (\<forall>c env msg gl. gas_below gl (eng_Query eng c env msg gl))
   \<and> (\<forall>c env rep gl. gas_below gl (eng_Reply eng c env rep gl))"

lemma run_prog_gas: "gas_below b p \<Longrightarrow> run_prog q p h = Some (r, g, h') \<Longrightarrow> g \<le> b"
proof (induction p arbitrary: h)
  case (HQuery req gl c)
  then obtain res meter' n' where
    "chainQuerier_Query q (h_vm h) (h_meter h) req gl = Some (res, meter', n')" by (auto split: option.splits)
  with HQuery.prems show ?case
    using HQuery.IH [of "c res" "c res (GasConsumed meter')" "h\<lparr>h_vm := n', h_meter := meter'\<rparr>"] by auto
next
  case (HGet k c) then show ?case by (auto split: prod.splits)
next
  case (HScan ord lo hi c) then show ?case by (auto simp: scan_order split: prod.splits)
qed (auto simp del: split_paired_All)

lemma engine_gas:
  assumes "engine_metered eng"
  shows "run_prog q (eng_Execute eng c env info msg gl) h = Some (r, g, h') \<Longrightarrow> g \<le> gl"
    "run_prog q (eng_Instantiate eng c env info msg gl) h = Some (r, g, h') \<Longrightarrow> g \<le> gl"
    "run_prog q (eng_Reply eng c env rep gl) h = Some (r, g, h') \<Longrightarrow> g \<le> gl"
  using assms by (auto simp: engine_metered_def elim: run_prog_gas [rotated])

text \<open>Spending \<open>g\<close> and then at most what \<open>safeSubGas\<close> leaves is spending within the limit.\<close>

lemma gas_add_le:
  assumes "g \<le> gl" "d \<le> safeSubGas gl g"
  shows "g + d \<le> gl" "unat (g + d) = unat g + unat d"
proof -
  have "unat g + unat d \<le> unat gl"
    using assms by (simp add: word_le_nat_alt unat_safeSubGas)
  moreover from this have "unat g + unat d < 2 ^ 64" using uint64_bound [of gl] by linarith
  ultimately show "g + d \<le> gl" "unat (g + d) = unat g + unat d"
    by (simp_all add: unat_add_no_wrap word_le_nat_alt)
qed

definition dispatch_gas :: "dispatch_fn \<Rightarrow> bool" where
  "dispatch_gas d \<longleftrightarrow> (\<forall>n c ms gl dr e n'. d n c ms gl = Some (dr, e, n') \<longrightarrow> dr_GasUsed dr \<le> gl)"

lemma dispatch_gasD: "dispatch_gas d \<Longrightarrow> d n c ms gl = Some (dr, e, n') \<Longrightarrow> dr_GasUsed dr \<le> gl"
  unfolding dispatch_gas_def by blast

lemma collect_gas:
  assumes "dispatch_gas d" "gu \<le> gl" "collect_response d c ok gl gu n = Some (res, g, n')"
  shows "g \<le> gl"
  using assms unfolding collect_response_def
  by (auto simp: Let_def split: option.splits if_splits dest!: dispatch_gasD intro: gas_add_le)

lemma collect_reported: "collect_response d c ok gl gu n = Some (Inr r, g, n') \<Longrightarrow> er_GasUsed r = g"
  unfolding collect_response_def by (auto simp: Let_def split: option.splits if_splits)

lemma executeInternal_gas:
  assumes "engine_metered eng" "dispatch_gas d"
    and "executeInternal eng qf d n contract sender msg funds gl = Some (res, g, n')"
  shows "g \<le> gl"
  using assms(3) unfolding executeInternal_def
  by (auto split: option.splits sum.splits prod.splits
      dest: engine_gas [OF assms(1)] collect_gas [OF assms(2)])

lemma instantiateInternal_gas:
  assumes "engine_metered eng" "dispatch_gas d"
    and "instantiateInternal eng qf d n codeID sender msg label funds gl = Some (res, g, n')"
  shows "g \<le> gl"
  using assms(3) unfolding instantiateInternal_def
  by (auto split: option.splits sum.splits prod.splits
      dest: engine_gas [OF assms(1)] collect_gas [OF assms(2)])

lemma internal_reported:
  "executeInternal eng qf d n contract sender msg funds gl = Some (Inr r, g, n') \<Longrightarrow> er_GasUsed r = g"
  "instantiateInternal eng qf d n codeID sender msg label funds gl = Some (Inr r', g, n') \<Longrightarrow> ir_GasUsed r' = g"
  unfolding executeInternal_def instantiateInternal_def
  by (auto split: option.splits sum.splits prod.splits dest: collect_reported)

lemma dispatchSingle_gas:
  assumes "engine_metered eng" "dispatch_gas d"
    and "dispatchSingleMessage eng qf d n c msg gl = Some (res, g, n')"
  shows "g \<le> gl"
  using assms(3) unfolding dispatchSingleMessage_def
  by (auto split: option.splits sum.splits prod.splits
      dest: executeInternal_gas [OF assms(1,2)] instantiateInternal_gas [OF assms(1,2)])

lemma invokeReply_gas:
  assumes "engine_metered eng" "dispatch_gas d"
    and "invokeReply eng qf d n c rep gl = Some (res, g, n')"
  shows "g \<le> gl"
  using assms(3) unfolding invokeReply_def
  by (auto simp: Let_def split: option.splits sum.splits if_splits
      dest!: engine_gas(3) [OF assms(1)] dispatch_gasD [OF assms(2)] intro!: gas_add_le(1))

text \<open>The loop keeps the gas used and the gas remaining within the budget \<open>b\<close> together.\<close>

definition within :: "nat \<Rightarrow> dispatchResult \<Rightarrow> uint64 \<Rightarrow> bool" where
  "within b dr remaining \<longleftrightarrow> unat (dr_GasUsed dr) + unat remaining \<le> b"

lemma within_spend:
  assumes "within b dr remaining" "b < 2 ^ 64" "g \<le> remaining"
  shows "within b (add_gas g dr) (safeSubGas remaining g)"
proof -
  have "unat g \<le> unat remaining" using assms(3) by (simp add: word_le_nat_alt)
  then have "unat (dr_GasUsed dr) + unat g < 2 ^ 64" using assms by (simp add: within_def)
  with assms \<open>unat g \<le> unat remaining\<close> show ?thesis
    by (simp add: within_def add_gas_def unat_add_no_wrap unat_safeSubGas)
qed

lemma within_events [simp]: "within b (add_events es d dr) r = within b dr r"
  by (simp add: within_def add_events_def)

lemma within_used: "within b dr remaining \<Longrightarrow> unat (dr_GasUsed dr) \<le> b"
  by (simp add: within_def)

lemma dispatch_loop_gas:
  assumes single: "\<And>n msg gl res g n'. single n c msg gl = Some (res, g, n') \<Longrightarrow> g \<le> gl"
    and rep: "\<And>n r gl res g n'. reply n c r gl = Some (res, g, n') \<Longrightarrow> g \<le> gl"
    and b: "b < 2 ^ 64" and "within b dr remaining"
    and "dispatch_loop single reply n c msgs dr remaining = Some (dr', e, n')"
  shows "unat (dr_GasUsed dr') \<le> b"
  using assms(4,5)
proof (induction msgs arbitrary: n dr remaining)
  case (Cons sub msgs)
  note spend = within_spend [OF Cons.prems(1) b] and spend2 = within_spend [OF within_spend [OF Cons.prems(1) b] b]
  show ?case
    using Cons.prems(2)
    by (auto simp: Let_def spend spend2 split: option.splits sum.splits if_splits
        dest!: single rep Cons.IH [rotated] intro!: within_used [OF spend] within_used [OF spend2])
qed (auto intro: within_used)

lemma dispatchMessages_gas:
  assumes "engine_metered eng"
  shows "dispatch_gas (dispatchMessages eng qf depth)"
proof (induction "maxDispatchDepth - depth" arbitrary: depth)
  case 0
  then show ?case by (simp add: dispatch_gas_def dispatchMessages.simps [of eng qf depth] dr_empty_def)
next
  case (Suc k)
  then have ih: "dispatch_gas (dispatchMessages eng qf (depth + 1))" by simp
  have "dr_GasUsed dr \<le> gl" if "dispatchMessages eng qf depth n c ms gl = Some (dr, e, n')" for n c ms gl dr e n'
    unfolding word_le_nat_alt
  proof (rule dispatch_loop_gas)
    show "dispatch_loop (dispatchSingleMessage eng qf (dispatchMessages eng qf (depth + 1)))
        (invokeReply eng qf (dispatchMessages eng qf (depth + 1))) n c ms dr_empty gl = Some (dr, e, n')"
      using that Suc(2) by (simp add: dispatchMessages.simps [of eng qf depth] split: if_splits)
    show "within (unat gl) dr_empty gl" by (simp add: within_def dr_empty_def)
    show "unat gl < 2 ^ 64" by (rule uint64_bound)
  qed (auto intro: dispatchSingle_gas [OF assms ih] invokeReply_gas [OF assms ih])
  then show ?case unfolding dispatch_gas_def by blast
qed


lemma demo_metered: "engine_metered demo_engine"
  by (auto simp: engine_metered_def demo_engine_def demo_execute_def not_less)


end
