(* ===== verification/Runtime_Codes.thy ===== *)
theory Runtime_Codes
  imports Runtime_Demo
begin

text \<open>
  Storing code: the registry of codes and their sequence numbers, which sub-messages use to name the
  code of a new instance.
\<close>

lemma register_known:
  assumes "vm_wf n" "gm_get (seqByCode n) (hex_EncodeToString ck) = Some s"
  shows "register_code n ck = n \<and> gm_get (codeBySeq n) s = Some ck \<and> gm_get (codes n) (hex_EncodeToString ck) = Some ck"
proof -
  have "seqByCode_ok n (hex_EncodeToString ck) s"
    using assms by (auto simp: vm_wf_def codes_ok_def dest: gm_all_get)
  then have c: "gm_get (codeBySeq n) s = Some ck" by (auto simp: seqByCode_ok_def)
  then have "codeBySeq_ok n s ck"
    using assms by (auto simp: vm_wf_def codes_ok_def dest: gm_all_get)
  then have "gm_get (codes n) (hex_EncodeToString ck) = Some ck" by (simp add: codeBySeq_ok_def)
  with c assms(2) show ?thesis by (simp add: register_code_def Let_def gm_put_same)
qed

lemma seq_bound:
  assumes "vm_wf n" "gm_get (codeBySeq n) s = Some c"
  shows "s \<le> codeSeq n" "gm_get (seqByCode n) (hex_EncodeToString c) = Some s"
  using assms by (auto simp: vm_wf_def codes_ok_def codeBySeq_ok_def dest: gm_all_get)

lemma codes_ok_register:
  assumes "vm_wf n" "unat (codeSeq n) < 2 ^ 64 - 1" and new: "gm_get (seqByCode n) (hex_EncodeToString ck) = None"
  shows "codes_ok (register_code n ck)"
proof -
  let ?h = "hex_EncodeToString ck" and ?s = "codeSeq n + 1"
  let ?m = "register_code n ck"
  have lt: "codeSeq n < ?s" using assms(2) by (simp add: word_less_nat_alt unat_add_no_wrap)
  have m: "codes ?m = gm_put ?h ck (codes n)" "codeSeq ?m = ?s"
    "codeBySeq ?m = gm_put ?s ck (codeBySeq n)" "seqByCode ?m = gm_put ?h ?s (seqByCode n)"
    using new by (simp_all add: register_code_def Let_def)
  have ok: "codes_ok n" using assms(1) by (simp add: vm_wf_def)
  have fresh: "s \<noteq> ?s" "hex_EncodeToString c \<noteq> ?h" if "gm_get (codeBySeq n) s = Some c" for s c
    using seq_bound [OF assms(1) that] lt new by auto
  have one: "1 \<le> ?s" using lt by (simp add: word_le_nat_alt word_less_nat_alt)
  have le: "s \<le> ?s" if "s \<le> codeSeq n" for s using that lt by simp
  have "gm_all (code_ok ?m) (codes ?m)"
    unfolding m(1) using ok
    by (intro gm_all_put [OF gm_all_mono [of "code_ok n"]]) (auto simp: codes_ok_def code_ok_def m)
  moreover have "gm_all (codeBySeq_ok ?m) (codeBySeq ?m)"
    unfolding m(3) using ok fresh one
    by (intro gm_all_put [OF gm_all_mono [of "codeBySeq_ok n"]]) (auto simp: codes_ok_def codeBySeq_ok_def m le)
  moreover have "gm_all (seqByCode_ok ?m) (seqByCode ?m)"
    unfolding m(4) using ok fresh
    by (intro gm_all_put [OF gm_all_mono [of "seqByCode_ok n"]]) (auto simp: codes_ok_def seqByCode_ok_def m)
  ultimately show ?thesis by (simp add: codes_ok_def)
qed

lemma vm_wf_register [preserves]:
  assumes "vm_wf n" "unat (codeSeq n) < 2 ^ 64 - 1"
  shows "vm_wf (register_code n ck)"
proof (cases "gm_get (seqByCode n) (hex_EncodeToString ck)")
  case None
  let ?m = "register_code n ck"
  have m: "accounts ?m = accounts n" "touched ?m = touched n" "contracts ?m = contracts n" "storage ?m = storage n"
    "codes ?m = gm_put (hex_EncodeToString ck) ck (codes n)"
    using None by (simp_all add: register_code_def Let_def)
  have "accounts_ok ?m" using assms accounts_ok_cong [of ?m n] by (simp add: m vm_wf_def)
  moreover have "contracts_ok ?m"
    using assms(1) unfolding vm_wf_def contracts_ok_def m
    by (auto intro: gm_all_mono [of "contract_ok n"] simp: contract_ok_def m)
  moreover have "codes_ok ?m" by (rule codes_ok_register [OF assms None])
  ultimately show ?thesis using assms by (simp add: vm_wf_def m)
next
  case (Some s)
  then show ?thesis using register_known [OF assms(1) Some] assms by simp
qed

lemma register_code_seq:
  assumes "vm_wf n" "unat (codeSeq n) < 2 ^ 64 - 1"
  shows "GetCodeSeq (register_code n ck) (hex_EncodeToString ck)
      = (if snd (GetCodeSeq n (hex_EncodeToString ck)) then GetCodeSeq n (hex_EncodeToString ck) else (codeSeq n + 1, True))"
    "h \<noteq> hex_EncodeToString ck \<Longrightarrow> GetCodeSeq (register_code n ck) h = GetCodeSeq n h"
  by (auto simp: GetCodeSeq_def register_code_def Let_def split: option.splits)

lemma StoreCodeD:
  assumes "StoreCode eng n code sender nonce = (res, g, n')"
  obtains (failed) e where "res = Inl e" "n' = n" "g = 0"
  | (stored) ck where "res = Inr ck" "length code \<le> MaxCodeSize"
      "n' = (case (sender, nonce) of (Some s, Some _) \<Rightarrow> increment_nonce (register_code n ck) s | _ \<Rightarrow> register_code n ck)"
  using assms by (auto simp: StoreCode_def Let_def split: if_splits option.splits sum.splits prod.splits)

lemma increment_nonce_code [simp]:
  "codes (increment_nonce n a) = codes n" "codeBySeq (increment_nonce n a) = codeBySeq n"
  "seqByCode (increment_nonce n a) = seqByCode n" "codeSeq (increment_nonce n a) = codeSeq n"
  "GetCodeSeq (increment_nonce n a) h = GetCodeSeq n h"
  using increment_nonce_rest [of n a] by (simp_all add: same_rest_def same_registry_def GetCodeSeq_def)

text \<open>
  C16. Storing code. A failed upload changes nothing. A successful one, of at most 2 MiB, keeps the
  state well-formed and registers the checksum under its hex form with a sequence number that leads
  back to it: the number it already had, or the next one. No other code's number changes, so storing
  the same code again changes no number.
\<close>

theorem StoreCode_spec:
  assumes "vm_wf n" "unat (codeSeq n) < 2 ^ 64 - 1" "\<forall>s. sender = Some s \<longrightarrow> is_address s"
    and "StoreCode eng n code sender nonce = (res, g, n')"
  shows "(\<forall>e. res = Inl e \<longrightarrow> n' = n \<and> g = 0)
    \<and> (\<forall>ck. res = Inr ck \<longrightarrow> vm_wf n' \<and> length code \<le> MaxCodeSize
         \<and> gm_get (codes n') (hex_EncodeToString ck) = Some ck
         \<and> GetCodeSeq n' (hex_EncodeToString ck)
             = (if snd (GetCodeSeq n (hex_EncodeToString ck)) then GetCodeSeq n (hex_EncodeToString ck)
                else (codeSeq n + 1, True))
         \<and> gm_get (codeBySeq n') (fst (GetCodeSeq n' (hex_EncodeToString ck))) = Some ck
         \<and> (\<forall>h. h \<noteq> hex_EncodeToString ck \<longrightarrow> GetCodeSeq n' h = GetCodeSeq n h)
         \<and> total_supply n' = total_supply n)"
  using assms(4)
proof (cases rule: StoreCodeD)
  case (stored ck)
  let ?m = "register_code n ck"
  have wf: "vm_wf ?m" by (rule vm_wf_register [OF assms(1,2)])
  have m: "vm_wf n'" "codes n' = codes ?m" "codeBySeq n' = codeBySeq ?m" "\<And>h. GetCodeSeq n' h = GetCodeSeq ?m h"
    "total_supply n' = total_supply ?m"
    using stored(3) assms(3) wf by (auto simp: vm_wf_increment_nonce split: option.splits)
  have reg: "gm_get (seqByCode ?m) (hex_EncodeToString ck) \<noteq> None"
    by (auto simp: register_code_def Let_def split: option.splits)
  then obtain s where s: "gm_get (seqByCode ?m) (hex_EncodeToString ck) = Some s" by blast
  have "total_supply ?m = total_supply n"
    by (simp add: total_supply_def register_code_def Let_def split: option.splits)
  moreover have "GetCodeSeq ?m (hex_EncodeToString ck) = (s, True)" using s by (simp add: GetCodeSeq_def)
  ultimately show ?thesis
    using stored(1,2) m register_known [OF wf s] register_code_seq [OF assms(1,2)] by simp
qed auto

theorem StoreCode_spec_witness:
  "\<exists>g n'. StoreCode demo_engine demo_vm [7, 8, 9] (Some demo_user) (Some 0) = (Inr [7, 8], g, n')
     \<and> vm_wf n' \<and> GetCodeSeq n' (hex_EncodeToString [7, 8]) = (2, True)"
proof -
  have v: "validateNonce demo_vm demo_user (Some 0) = None" by code_simp
  obtain g n' where s: "StoreCode demo_engine demo_vm [7, 8, 9] (Some demo_user) (Some 0) = (Inr [7, 8], g, n')"
    using v by (auto simp: StoreCode_def demo_engine_def MaxCodeSize_def)
  have "codeSeq demo_vm = 1" "snd (GetCodeSeq demo_vm (hex_EncodeToString [7, 8])) = False" by code_simp+
  with StoreCode_spec [OF demo_vm_wf _ _ s] have "vm_wf n' \<and> GetCodeSeq n' (hex_EncodeToString [7, 8]) = (2, True)"
    by simp
  with s show ?thesis by blast
qed

end
