(* ===== verification/Runtime_Rollback.thy ===== *)
theory Runtime_Rollback
  imports Runtime_Demo
begin

text \<open>
  What the dispatcher does with a failed sub-message whose error may be caught. With the in-memory
  storage the rollback is exact; the SQLite storage has no snapshots and keeps what the failed
  sub-message wrote.
\<close>

lemma dispatchMessages_unfold:
  "depth < maxDispatchDepth \<Longrightarrow> dispatchMessages eng qf depth n c msgs gl =
     dispatch_loop (dispatchSingleMessage eng qf (dispatchMessages eng qf (depth + 1)))
       (invokeReply eng qf (dispatchMessages eng qf (depth + 1))) n c msgs dr_empty gl"
  by (simp add: dispatchMessages.simps [of eng qf depth])

lemma sub_message_rollback:
  assumes "is_memory (storage n)" "is_address c"
    and "dispatchSingleMessage eng qf (dispatchMessages eng qf d) n c msg gl = Some (res, g, n1)"
  shows "vm_Restore (vm_Snapshot n) n1 = n"
proof (rule vm_snap.Restore_Snapshot)
  have "config_frame n n1"
    by (rule config.dispatchSingleMessage_step [OF config.dispatchMessages_step assms(2,3)])
  with assms(1) show "same_machine n n1"
    by (simp add: config_frame_def same_machine_def same_registry_def)
qed



lemma demo_sub_fails:
  "\<exists>n1. dispatchSingleMessage demo_engine 2 (dispatchMessages demo_engine 2 1) demo_vm demo_contract
     (sub_Msg (demo_call 3 ro)) 1000
     = Some (Inl (WrapErr ''dispatch wasm execute'' (DetailErr ErrContractError ''no'')), 10, n1)"
proof -
  have "HexToAddress (Hex demo_contract) = Inr demo_contract" by (simp add: HexToAddress_Hex)
  moreover have "gm_get (contracts demo_vm) demo_contract = Some \<lparr>cm_Checksum = demo_checksum, cm_Label = ''demo'', cm_Creator = demo_user\<rparr>"
    by (simp add: demo_vm_def)
  moreover have "kv_err (h_kv (KV_Set (newHost demo_vm demo_contract 1000) [1] (Some [8]))) = None"
    by (simp add: newHost_def newContractKVStore_def KV_Set_def demo_vm_def set_storage_def)
  ultimately show ?thesis
    by (simp add: dispatchSingleMessage_def demo_call_def executeInternal_def toCoins_def demo_engine_def
        demo_execute_def call_outcome_def demo_fail_def)
qed



definition demo_sqlite_vm :: nitrovm where
  "demo_sqlite_vm = demo_vm\<lparr>storage := SqliteAdapter \<lparr>sq_rows = [], sq_faults = []\<rparr>\<rparr>"


end
