(* ===== verification/Crypto.thy ===== *)
theory Crypto
  imports Core_Address Core_Amount
begin

text \<open>
  \<^verbatim>\<open>crypto/crypto.go\<close>: the transaction envelope, signing, recovery of the sender, and the wire format.

  The RLP codec, the Keccak hash and the ECDSA routines are third-party packages and are a parameter,
  the record \<open>crypto_ext\<close>. What the theorems need of them is stated as hypotheses: the RLP decoder
  inverts the encoder and accepts canonical encodings only, \<^verbatim>\<open>RecoverCompact\<close> returns the public key of
  the key that made the signature, and a compact signature has 65 bytes with a low S. The header byte of
  a compact signature is 27 plus the recovery code; codes above 1 occur with negligible probability and
  are excluded by hypothesis where a theorem needs it.
\<close>

datatype TxType = TxStore | TxInstantiate | TxExecute | TxOther byte

text \<open>The byte that carries the type; every other byte decodes to a transaction no handler accepts.\<close>

primrec TxType_byte :: "TxType \<Rightarrow> byte" where
  "TxType_byte TxStore = 1"
| "TxType_byte TxInstantiate = 2"
| "TxType_byte TxExecute = 3"
| "TxType_byte (TxOther b) = b"

record RLPCoin =
  rlp_Denom :: string
  rlp_Amount :: string

record Transaction =
  tx_ChainID :: string
  tx_Nonce :: uint64
  tx_GasLimit :: uint64
  tx_GasPrice :: uint64
  tx_Type :: TxType
  tx_Code :: bytes
  tx_CodeID :: bytes
  tx_Label :: string
  tx_Contract :: address
  tx_Msg :: bytes
  tx_Funds :: "RLPCoin list"

record SignedTransaction =
  stx_Tx :: Transaction
  stx_V :: byte
  stx_R :: bytes
  stx_S :: bytes

type_synonym privkey = bytes

record crypto_ext =
  ext_keccak256 :: "bytes \<Rightarrow> bytes"
  ext_rlp_encode :: "Transaction \<Rightarrow> string + bytes"
  ext_rlp_decode :: "bytes \<Rightarrow> string + Transaction"
  ext_SignCompact :: "privkey \<Rightarrow> bytes \<Rightarrow> bytes"
  ext_RecoverCompact :: "bytes \<Rightarrow> bytes \<Rightarrow> string + bytes"
  ext_PubKey :: "privkey \<Rightarrow> bytes"

definition secp256k1HalfOrder :: nat where
  "secp256k1HalfOrder = 0x7FFFFFFFFFFFFFFFFFFFFFFFFFFFFFFF5D576E7357A4501DDFE92F46681B20A0"

definition Keccak256 :: "crypto_ext \<Rightarrow> bytes \<Rightarrow> bytes" where
  "Keccak256 ext data = ext_keccak256 ext data"

definition PubKeyToAddress :: "crypto_ext \<Rightarrow> bytes \<Rightarrow> address" where
  "PubKeyToAddress ext pubkey0 =
     (let pubkey = (if length pubkey0 = 65 \<and> hd pubkey0 = 4 then tl pubkey0 else pubkey0);
          hash = Keccak256 ext pubkey
      in BytesToAddress (drop 12 hash))"

definition DeriveAddress :: "crypto_ext \<Rightarrow> privkey \<Rightarrow> address" where
  "DeriveAddress ext key = PubKeyToAddress ext (ext_PubKey ext key)"

definition EncodeTx :: "crypto_ext \<Rightarrow> Transaction \<Rightarrow> go_error + bytes" where
  "EncodeTx ext tx = (case ext_rlp_encode ext tx of Inl e \<Rightarrow> Inl (PlainErr e) | Inr b \<Rightarrow> Inr b)"

definition DecodeTx :: "crypto_ext \<Rightarrow> bytes \<Rightarrow> go_error + Transaction" where
  "DecodeTx ext data = (case ext_rlp_decode ext data of
       Inl e \<Rightarrow> Inl (WrapErr ''decode tx'' (PlainErr e)) | Inr tx \<Rightarrow> Inr tx)"

definition HashTx :: "crypto_ext \<Rightarrow> Transaction \<Rightarrow> go_error + bytes" where
  "HashTx ext tx = (case EncodeTx ext tx of Inl e \<Rightarrow> Inl e | Inr enc \<Rightarrow> Inr (Keccak256 ext enc))"

definition SignTx :: "crypto_ext \<Rightarrow> Transaction \<Rightarrow> privkey \<Rightarrow> go_error + SignedTransaction" where
  "SignTx ext tx key = (case HashTx ext tx of
       Inl e \<Rightarrow> Inl (WrapErr ''hash tx'' e)
     | Inr hash \<Rightarrow>
         let sig = ext_SignCompact ext key hash; v = hd sig - 27 in
         Inr \<lparr>stx_Tx = tx, stx_V = v, stx_R = take 32 (drop 1 sig), stx_S = take 32 (drop 33 sig)\<rparr>)"

definition RecoverSender :: "crypto_ext \<Rightarrow> SignedTransaction \<Rightarrow> go_error + address" where
  "RecoverSender ext stx =
     (if stx_V stx > 1 then
        Inl (DetailErr ErrInvalidSignature (''V must be 0 or 1, got '' @ dec_nat (unat (stx_V stx))))
      else if be_nat 0 (stx_S stx) > secp256k1HalfOrder then
        Inl (DetailErr ErrInvalidSignature ''S value exceeds half curve order (malleable)'')
      else (case HashTx ext (stx_Tx stx) of
        Inl e \<Rightarrow> Inl (WrapErr ''hash tx'' e)
      | Inr hash \<Rightarrow>
          let sig = (stx_V stx + 27) # stx_R stx @ stx_S stx in
          (case ext_RecoverCompact ext sig hash of
            Inl e \<Rightarrow> Inl (DetailErr ErrInvalidSignature e)
          | Inr pubkey \<Rightarrow> Inr (PubKeyToAddress ext pubkey))))"

definition EncodeSignedTx :: "crypto_ext \<Rightarrow> SignedTransaction \<Rightarrow> go_error + bytes" where
  "EncodeSignedTx ext stx = (case EncodeTx ext (stx_Tx stx) of
       Inl e \<Rightarrow> Inl e
     | Inr txBytes \<Rightarrow> Inr (txBytes @ [stx_V stx] @ stx_R stx @ stx_S stx))"

definition DecodeSignedTx :: "crypto_ext \<Rightarrow> bytes \<Rightarrow> go_error + SignedTransaction" where
  "DecodeSignedTx ext data =
     (if length data < 66 then Inl (DetailErr ErrInvalidSignature ''data too short'')
      else let sigStart = length data - 65; txBytes = take sigStart data in
        (case DecodeTx ext txBytes of
          Inl e \<Rightarrow> Inl e
        | Inr tx \<Rightarrow>
            let v = data ! sigStart in
            if v > 1 then Inl (DetailErr ErrInvalidSignature (''V must be 0 or 1, got '' @ dec_nat (unat v)))
            else Inr \<lparr>stx_Tx = tx, stx_V = v, stx_R = take 32 (drop (sigStart + 1) data),
                      stx_S = take 32 (drop (sigStart + 33) data)\<rparr>))"

subsection \<open>What is assumed of the packages\<close>

definition rlp_laws :: "crypto_ext \<Rightarrow> bool" where
  "rlp_laws ext \<longleftrightarrow>
     (\<forall>tx b. ext_rlp_encode ext tx = Inr b \<longrightarrow> ext_rlp_decode ext b = Inr tx \<and> b \<noteq> [])
   \<and> (\<forall>b tx. ext_rlp_decode ext b = Inr tx \<longrightarrow> ext_rlp_encode ext tx = Inr b)"

definition ecdsa_laws :: "crypto_ext \<Rightarrow> privkey \<Rightarrow> bytes \<Rightarrow> bool" where
  "ecdsa_laws ext key hash \<longleftrightarrow> (let sig = ext_SignCompact ext key hash in
     length sig = 65 \<and> (hd sig = 27 \<or> hd sig = 28)
     \<and> be_nat 0 (take 32 (drop 33 sig)) \<le> secp256k1HalfOrder
     \<and> ext_RecoverCompact ext sig hash = Inr (ext_PubKey ext key))"

text \<open>A signature of the shape a \<^verbatim>\<open>SignedTransaction\<close> value can have.\<close>

definition stx_shape :: "SignedTransaction \<Rightarrow> bool" where
  "stx_shape stx \<longleftrightarrow> length (stx_R stx) = 32 \<and> length (stx_S stx) = 32"

subsection \<open>Sender recovery\<close>

lemma is_address_PubKey [simp]: "is_address (PubKeyToAddress ext pk)"
  by (simp add: PubKeyToAddress_def Let_def)

lemma RecoverSender_address: "RecoverSender ext stx = Inr a \<Longrightarrow> is_address a"
  by (auto simp: RecoverSender_def Let_def split: if_splits sum.splits)

lemma sig_split:
  assumes "length sig = 65"
  shows "sig = hd sig # take 32 (drop 1 sig) @ take 32 (drop 33 sig)"
proof -
  have "drop 33 sig = drop 32 (drop 1 sig)" by simp
  moreover have "length (drop 33 sig) = 32" using assms by simp
  ultimately have "take 32 (drop 1 sig) @ take 32 (drop 33 sig) = drop 1 sig"
    by (metis append_take_drop_id take_all order_refl)
  then show ?thesis using assms by (cases sig) auto
qed

lemma SignTx_recovers:
  assumes "SignTx ext tx key = Inr stx"
    and "\<forall>hash. HashTx ext tx = Inr hash \<longrightarrow> ecdsa_laws ext key hash"
  shows "stx_Tx stx = tx \<and> stx_shape stx \<and> RecoverSender ext stx = Inr (DeriveAddress ext key)"
proof -
  obtain hash where h: "HashTx ext tx = Inr hash"
    using assms(1) by (auto simp: SignTx_def split: sum.splits)
  define sig where "sig = ext_SignCompact ext key hash"
  have l: "length sig = 65" "hd sig = 27 \<or> hd sig = 28"
    "be_nat 0 (take 32 (drop 33 sig)) \<le> secp256k1HalfOrder"
    "ext_RecoverCompact ext sig hash = Inr (ext_PubKey ext key)"
    using assms(2) h by (auto simp: ecdsa_laws_def Let_def sig_def)
  have stx: "stx = \<lparr>stx_Tx = tx, stx_V = hd sig - 27, stx_R = take 32 (drop 1 sig), stx_S = take 32 (drop 33 sig)\<rparr>"
    using assms(1) h by (simp add: SignTx_def Let_def sig_def)
  have "hd sig - 27 \<le> 1" using l(2) by auto
  then have v: "\<not> 1 < hd sig - 27" by simp
  have whole: "(hd sig - 27 + 27) # take 32 (drop 1 sig) @ take 32 (drop 33 sig) = sig"
    using sig_split [OF l(1)] by simp
  then show ?thesis
    using h l v unfolding stx
    by (simp add: stx_shape_def RecoverSender_def DeriveAddress_def Let_def not_less)
qed

text \<open>
  C17. Signing and recovering fit: whatever transaction a key signs, the sender recovered from the signed
  transaction is the address derived from that key.
\<close>

theorem sign_recover:
  assumes "SignTx ext tx key = Inr stx"
    and "\<forall>hash. HashTx ext tx = Inr hash \<longrightarrow> ecdsa_laws ext key hash"
  shows "stx_Tx stx = tx \<and> stx_shape stx \<and> RecoverSender ext stx = Inr (DeriveAddress ext key)"
  using assms by (rule SignTx_recovers)

text \<open>
  C19. Malleability: a signature with a recovery code other than 0 or 1 or with an S above half the
  curve order is refused as invalid whatever the transaction, so of the two signatures with S and with
  the curve order minus S at most one is accepted.
\<close>

theorem malleable_signature_refused:
  shows "(stx_V stx > 1 \<or> be_nat 0 (stx_S stx) > secp256k1HalfOrder \<longrightarrow>
            (\<exists>e. RecoverSender ext stx = Inl e \<and> errors_Is e ErrInvalidSignature))
    \<and> (be_nat 0 (stx_S stx) + be_nat 0 (stx_S stx') = 2 * secp256k1HalfOrder + 1 \<longrightarrow>
         \<not> ((\<exists>a. RecoverSender ext stx = Inr a) \<and> (\<exists>b. RecoverSender ext stx' = Inr b)))"
proof (intro conjI impI notI)
  assume "1 < stx_V stx \<or> secp256k1HalfOrder < be_nat 0 (stx_S stx)"
  then show "\<exists>e. RecoverSender ext stx = Inl e \<and> errors_Is e ErrInvalidSignature"
    by (auto simp: RecoverSender_def)
next
  assume sum: "be_nat 0 (stx_S stx) + be_nat 0 (stx_S stx') = 2 * secp256k1HalfOrder + 1"
    and both: "(\<exists>a. RecoverSender ext stx = Inr a) \<and> (\<exists>b. RecoverSender ext stx' = Inr b)"
  from both obtain a b where "RecoverSender ext stx = Inr a" "RecoverSender ext stx' = Inr b" by blast
  then have "be_nat 0 (stx_S stx) \<le> secp256k1HalfOrder" "be_nat 0 (stx_S stx') \<le> secp256k1HalfOrder"
    by (auto simp: RecoverSender_def not_less split: if_splits)
  with sum show False by linarith
qed

subsection \<open>The wire format\<close>

lemma Decode_EncodeSignedTx:
  assumes "rlp_laws ext" and a: "stx_shape stx \<and> stx_V stx \<le> 1 \<and> EncodeSignedTx ext stx = Inr data"
  shows "DecodeSignedTx ext data = Inr stx"
proof -
  from a obtain b where b: "ext_rlp_encode ext (stx_Tx stx) = Inr b"
    "data = b @ [stx_V stx] @ stx_R stx @ stx_S stx"
    by (auto simp: EncodeSignedTx_def EncodeTx_def split: sum.splits)
  then have d: "ext_rlp_decode ext b = Inr (stx_Tx stx)" "b \<noteq> []"
    using assms(1) unfolding rlp_laws_def by blast+
  have len: "length (stx_R stx) = 32" "length (stx_S stx) = 32" using a by (simp_all add: stx_shape_def)
  have k: "length data - 65 = length b" "\<not> length data < 66"
    using len d(2) by (simp_all add: b Suc_le_eq)
  have parts: "take (length b) data = b" "data ! length b = stx_V stx"
    "take 32 (drop (length b + 1) data) = stx_R stx" "take 32 (drop (length b + 33) data) = stx_S stx"
    using len by (simp_all add: b nth_append)
  have v: "\<not> 1 < stx_V stx" using a by (auto simp: not_less)
  show "DecodeSignedTx ext data = Inr stx"
    by (simp only: DecodeSignedTx_def Let_def k parts DecodeTx_def d v if_False sum.case) simp
qed

lemma Encode_DecodeSignedTx:
  assumes "rlp_laws ext" and a: "DecodeSignedTx ext data = Inr stx"
  shows "stx_shape stx \<and> stx_V stx \<le> 1 \<and> EncodeSignedTx ext stx = Inr data"
proof -
  define k where "k = length data - 65"
  have l: "66 \<le> length data" using a by (auto simp: DecodeSignedTx_def split: if_splits)
  have d: "ext_rlp_decode ext (take k data) = Inr (stx_Tx stx)" "\<not> 1 < data ! k"
    "stx_V stx = data ! k" "stx_R stx = take 32 (drop (k + 1) data)" "stx_S stx = take 32 (drop (k + 33) data)"
    using a by (auto simp: DecodeSignedTx_def DecodeTx_def Let_def k_def split: if_splits sum.splits)
  have e: "ext_rlp_encode ext (stx_Tx stx) = Inr (take k data)"
    using d(1) assms(1) unfolding rlp_laws_def by blast
  have "length (drop k data) = 65" using l by (simp add: k_def)
  from sig_split [OF this] have "drop k data = [stx_V stx] @ stx_R stx @ stx_S stx"
    using l by (simp add: d k_def hd_drop_conv_nth add.commute)
  then have "take k data @ [stx_V stx] @ stx_R stx @ stx_S stx = data"
    by (metis append_take_drop_id)
  then show "stx_shape stx \<and> stx_V stx \<le> 1 \<and> EncodeSignedTx ext stx = Inr data"
    using e d l by (simp add: EncodeSignedTx_def EncodeTx_def stx_shape_def k_def)
qed

text \<open>
  C18. The wire format of signed transactions is a bijection: decoding what was encoded gives the
  transaction back, and re-encoding what was decoded gives the bytes back, so no two byte strings carry
  the same signed transaction.
\<close>

theorem signed_tx_roundtrip:
  assumes "rlp_laws ext"
  shows "(stx_shape stx \<and> stx_V stx \<le> 1 \<and> EncodeSignedTx ext stx = Inr data \<longrightarrow> DecodeSignedTx ext data = Inr stx)
    \<and> (DecodeSignedTx ext data = Inr stx \<longrightarrow> stx_shape stx \<and> stx_V stx \<le> 1 \<and> EncodeSignedTx ext stx = Inr data)"
  using Decode_EncodeSignedTx [OF assms] Encode_DecodeSignedTx [OF assms] by blast

subsection \<open>The assumptions can hold\<close>

text \<open>
  A small codec and signature scheme that satisfy the laws: transactions that differ in the nonce only,
  written as the eight bytes of the nonce, and signatures that carry the key.
\<close>

definition toy_tx :: "uint64 \<Rightarrow> Transaction" where
  "toy_tx nonce = \<lparr>tx_ChainID = ''nitrovm-1'', tx_Nonce = nonce, tx_GasLimit = 1000, tx_GasPrice = 0,
     tx_Type = TxExecute, tx_Code = [], tx_CodeID = [], tx_Label = [], tx_Contract = replicate 20 1,
     tx_Msg = [1], tx_Funds = []\<rparr>"

definition toy_crypto :: crypto_ext where
  "toy_crypto = \<lparr>
     ext_keccak256 = (\<lambda>d. take 32 (d @ replicate 32 0)),
     ext_rlp_encode = (\<lambda>tx. if tx = toy_tx (tx_Nonce tx) then Inr (be_PutUint64 (tx_Nonce tx)) else Inl ''no''),
     ext_rlp_decode = (\<lambda>b. let k = of_nat (be_nat 0 b) in if be_PutUint64 k = b then Inr (toy_tx k) else Inl ''no''),
     ext_SignCompact = (\<lambda>key hash. 27 # take 32 (key @ replicate 32 0) @ replicate 32 0),
     ext_RecoverCompact = (\<lambda>sig hash. Inr (take 32 (drop 1 sig))),
     ext_PubKey = (\<lambda>key. take 32 (key @ replicate 32 0))\<rparr>"

lemma toy_tx_simps [simp]: "tx_Nonce (toy_tx k) = k"
  by (simp add: toy_tx_def)

lemma toy_rlp_laws: "rlp_laws toy_crypto"
proof -
  have ne: "be_PutUint64 k \<noteq> []" for k using length_be_PutUint64 [of k] by fastforce
  show ?thesis
    by (auto simp: rlp_laws_def toy_crypto_def Let_def be_nat_PutUint64 ne split: if_splits)
qed

lemma toy_ecdsa_laws: "ecdsa_laws toy_crypto key hash"
proof -
  have "be_nat 0 (replicate k 0) = 0" for k by (induction k) simp_all
  then show ?thesis by (auto simp: ecdsa_laws_def toy_crypto_def Let_def min_def)
qed

theorem sign_recover_witness:
  "\<exists>stx. SignTx toy_crypto (toy_tx 3) [9] = Inr stx
     \<and> RecoverSender toy_crypto stx = Inr (DeriveAddress toy_crypto [9])"
proof -
  obtain stx where "SignTx toy_crypto (toy_tx 3) [9] = Inr stx"
    by (auto simp: SignTx_def HashTx_def EncodeTx_def toy_crypto_def Let_def)
  then show ?thesis
    using sign_recover [of toy_crypto "toy_tx 3" "[9]" stx] toy_ecdsa_laws by blast
qed

theorem malleable_signature_refused_witness:
  "\<exists>e. RecoverSender toy_crypto \<lparr>stx_Tx = toy_tx 3, stx_V = 2, stx_R = [], stx_S = []\<rparr> = Inl e
     \<and> errors_Is e ErrInvalidSignature"
  using malleable_signature_refused
    [of "\<lparr>stx_Tx = toy_tx 3, stx_V = 2, stx_R = [], stx_S = []\<rparr>" toy_crypto]
  by (simp add: word_less_nat_alt)

theorem signed_tx_roundtrip_witness:
  "rlp_laws toy_crypto \<and> (\<exists>data. EncodeSignedTx toy_crypto
       \<lparr>stx_Tx = toy_tx 3, stx_V = 1, stx_R = replicate 32 5, stx_S = replicate 32 6\<rparr> = Inr data
     \<and> DecodeSignedTx toy_crypto data
       = Inr \<lparr>stx_Tx = toy_tx 3, stx_V = 1, stx_R = replicate 32 5, stx_S = replicate 32 6\<rparr>)"
proof -
  let ?stx = "\<lparr>stx_Tx = toy_tx 3, stx_V = 1, stx_R = replicate 32 5, stx_S = replicate 32 6\<rparr>"
  obtain data where d: "EncodeSignedTx toy_crypto ?stx = Inr data"
    by (auto simp: EncodeSignedTx_def EncodeTx_def toy_crypto_def)
  have "stx_shape ?stx \<and> stx_V ?stx \<le> 1" by (simp add: stx_shape_def)
  with d signed_tx_roundtrip [OF toy_rlp_laws, of ?stx data] toy_rlp_laws show ?thesis by blast
qed

end
