(* ===== verification/Node_Persist.thy ===== *)
theory Node_Persist
  imports Runtime_VM Crypto
begin

text \<open>
  The state of \<^verbatim>\<open>node.Server\<close> and \<^verbatim>\<open>node/persist.go\<close>: the metadata database, writing the VM state to it
  inside a handler's transaction, and restoring the VM from it at start.

  A table is the list of its rows in the order of their row IDs, which is the order an unordered
  \<^verbatim>\<open>SELECT\<close> scans them; \<^verbatim>\<open>INSERT OR REPLACE\<close> deletes the conflicting row and appends the new one,
  \<^verbatim>\<open>INSERT OR IGNORE\<close> appends only without a conflict. As in \<open>Storage_Sqlite\<close>, what the database may
  do besides is the input \<open>srv_faults\<close>, the outcomes of the next calls into it. Log output is not
  modelled, and readings of the clock are arguments.
\<close>

subsection \<open>Tables\<close>

record contract_row =
  cr_code_id :: string
  cr_label :: string
  cr_creator :: string

record account_row =
  ar_balance :: string
  ar_nonce :: uint64

record event_row =
  er_op_seq :: uint64
  er_tx_type :: string
  er_contract :: string
  er_sender :: string
  er_event_type :: string
  er_attributes :: "event_attribute list"
  er_created_at :: int

record meta_db =
  db_codes :: "(string \<times> bytes) list"
  db_code_seqs :: "(uint64 \<times> string) list"
  db_contracts :: "(string \<times> contract_row) list"
  db_accounts :: "(string \<times> account_row) list"
  db_meta :: "(string \<times> string) list"
  db_events :: "event_row list"
  db_storage :: "storage_row list"

definition insert_or_replace :: "'k \<Rightarrow> 'v \<Rightarrow> ('k \<times> 'v) list \<Rightarrow> ('k \<times> 'v) list" where
  "insert_or_replace k v rows = filter (\<lambda>(k', _). k' \<noteq> k) rows @ [(k, v)]"

definition insert_or_ignore :: "'k \<Rightarrow> 'v \<Rightarrow> ('k \<times> 'v) list \<Rightarrow> ('k \<times> 'v) list" where
  "insert_or_ignore k v rows = (if map_of rows k = None then rows @ [(k, v)] else rows)"

datatype Network = Devnet | Testnet | Mainnet | OtherNetwork string

record server =
  srv_vm :: nitrovm
  srv_db :: meta_db
  srv_network :: Network
  srv_minGasPrice :: uint64
  srv_faults :: "string option list"

text \<open>One call into the database: the next scripted outcome, and the effect if it succeeds.\<close>

definition db_call :: "server \<Rightarrow> string option \<times> server" where
  "db_call s = (case next_outcome (srv_faults s) of (out, fs) \<Rightarrow> (out, s\<lparr>srv_faults := fs\<rparr>))"

definition db_exec :: "(meta_db \<Rightarrow> meta_db) \<Rightarrow> server \<Rightarrow> go_error option \<times> server" where
  "db_exec upd s = (case db_call s of
       (Some e, s1) \<Rightarrow> (Some (PlainErr e), s1)
     | (None, s1) \<Rightarrow> (None, s1\<lparr>srv_db := upd (srv_db s1)\<rparr>))"

text \<open>\<^verbatim>\<open>database/sql\<close> refuses a \<^verbatim>\<open>uint64\<close> argument with the high bit set before the statement runs.\<close>

definition sql_uint64_arg :: "nat \<Rightarrow> uint64 \<Rightarrow> go_error option" where
  "sql_uint64_arg i v = (if unat v \<ge> 2 ^ 63
     then Some (PlainErr (''sql: converting argument $'' @ dec_nat i
            @ '' type: uint64 values with high bit set are not supported''))
     else None)"

text \<open>Two steps, the second only after a success of the first.\<close>

definition and_then :: "go_error option \<times> server \<Rightarrow> (server \<Rightarrow> go_error option \<times> server)
    \<Rightarrow> go_error option \<times> server" where
  "and_then m f = (case m of (Some e, s) \<Rightarrow> (Some e, s) | (None, s) \<Rightarrow> f s)"

definition wrap_err :: "string \<Rightarrow> go_error option \<times> server \<Rightarrow> go_error option \<times> server" where
  "wrap_err p m = (case m of (Some e, s) \<Rightarrow> (Some (WrapErr p e), s) | (None, s) \<Rightarrow> (None, s))"

subsection \<open>Writing\<close>

text \<open>
  \<^verbatim>\<open>CreateMetaTables\<close>: on a file with its tables both statements leave the rows as they are; the result
  of the second, the migration that adds the nonce column, is ignored.
\<close>

definition CreateMetaTables :: "server \<Rightarrow> go_error option \<times> server" where
  "CreateMetaTables s = (case db_call s of
       (Some e, s1) \<Rightarrow> (Some (PlainErr e), s1)
     | (None, s1) \<Rightarrow> (None, snd (db_call s1)))"

definition getInstanceCount :: "server \<Rightarrow> uint64" where
  "getInstanceCount s = GetInstanceCount (srv_vm s)"

definition put_meta :: "string \<Rightarrow> string \<Rightarrow> server \<Rightarrow> go_error option \<times> server" where
  "put_meta k v = db_exec (\<lambda>db. db\<lparr>db_meta := insert_or_replace k v (db_meta db)\<rparr>)"

definition tickOp :: "uint64 \<Rightarrow> uint64 \<Rightarrow> server \<Rightarrow> go_error option \<times> server" where
  "tickOp now1 now2 s =
     (let s1 = s\<lparr>srv_vm := TickOp now1 (srv_vm s)\<rparr> in
      and_then (put_meta ''op_seq'' (dec_nat (unat (GetOpSeq (srv_vm s1)))) s1)
               (put_meta ''block_time'' (dec_nat (unat now2))))"

definition put_account :: "string \<Rightarrow> string \<Rightarrow> uint64 \<Rightarrow> server \<Rightarrow> go_error option \<times> server" where
  "put_account addr bal nonce s = (case sql_uint64_arg 3 nonce of
       Some e \<Rightarrow> (Some e, s)
     | None \<Rightarrow> db_exec (\<lambda>db. db\<lparr>db_accounts :=
         insert_or_replace addr \<lparr>ar_balance = bal, ar_nonce = nonce\<rparr> (db_accounts db)\<rparr>) s)"

definition persistBalance :: "address \<Rightarrow> server \<Rightarrow> go_error option \<times> server" where
  "persistBalance addr s =
     (let bal = GetBalance (srv_vm s) addr; nonce = GetNonce (srv_vm s) addr in
      put_account (Hex addr) (Amount_String bal) nonce s)"

text \<open>The loop over the touched addresses in the handlers: the first failure ends it.\<close>

fun persistBalances :: "address list \<Rightarrow> server \<Rightarrow> go_error option \<times> server" where
  "persistBalances [] s = (None, s)"
| "persistBalances (a # as) s = and_then (persistBalance a s) (persistBalances as)"

text \<open>
  An \<^verbatim>\<open>INSERT\<close> into \<^verbatim>\<open>contract_storage\<close>. An empty stored value is the nil slice (see \<open>Storage_Memory\<close>) and
  is bound as NULL; a row with the same primary key is a constraint violation.
\<close>

definition insert_storage :: "address \<Rightarrow> bytes \<Rightarrow> bytes \<Rightarrow> server \<Rightarrow> go_error option \<times> server" where
  "insert_storage addr key value s = (case db_call s of
       (Some e, s1) \<Rightarrow> (Some (PlainErr e), s1)
     | (None, s1) \<Rightarrow>
         if value = [] then (Some (PlainErr ''NOT NULL constraint failed: contract_storage.value''), s1)
         else if find (same_pk addr key) (db_storage (srv_db s1)) \<noteq> None
         then (Some (PlainErr ''UNIQUE constraint failed: contract_storage.contract_addr, contract_storage.key''), s1)
         else (None, s1\<lparr>srv_db := (srv_db s1)\<lparr>db_storage := db_storage (srv_db s1) @ [(addr, key, value)]\<rparr>\<rparr>))"

definition flushStorage :: "server \<Rightarrow> go_error option \<times> server" where
  "flushStorage s = (case vm_Storage (srv_vm s) of
       SqliteAdapter _ \<Rightarrow> (None, s)
     | MemoryAdapter store \<Rightarrow>
         and_then (wrap_err ''clear contract_storage'' (db_exec (\<lambda>db. db\<lparr>db_storage := []\<rparr>) s))
           (\<lambda>s1. mem_ForEach store (\<lambda>addr key value acc. case acc of
                (Some e, s2) \<Rightarrow> (Some e, s2)
              | (None, s2) \<Rightarrow> insert_storage addr key value s2) (None, s1)))"

definition insert_event :: "int \<Rightarrow> string \<Rightarrow> string \<Rightarrow> string \<Rightarrow> event \<Rightarrow> server \<Rightarrow> go_error option \<times> server" where
  "insert_event now txType contract sender evt s =
     (let opSeq = GetOpSeq (srv_vm s) in
      wrap_err ''insert event'' (case sql_uint64_arg 1 opSeq of
        Some e \<Rightarrow> (Some e, s)
      | None \<Rightarrow> db_exec (\<lambda>db. db\<lparr>db_events := db_events db @ [\<lparr>er_op_seq = opSeq, er_tx_type = txType,
          er_contract = contract, er_sender = sender, er_event_type = ev_type evt,
          er_attributes = ev_attributes evt, er_created_at = now\<rparr>]\<rparr>) s))"

fun insert_events :: "int \<Rightarrow> string \<Rightarrow> string \<Rightarrow> string \<Rightarrow> event list \<Rightarrow> server \<Rightarrow> go_error option \<times> server" where
  "insert_events now txType contract sender [] s = (None, s)"
| "insert_events now txType contract sender (evt # evts) s =
     and_then (insert_event now txType contract sender evt s) (insert_events now txType contract sender evts)"

text \<open>
  \<^verbatim>\<open>persistEvents\<close>. The column holds the JSON text of the attributes; the model keeps the attributes,
  whose marshalling cannot fail.
\<close>

definition persistEvents :: "int \<Rightarrow> string \<Rightarrow> string \<Rightarrow> string \<Rightarrow> event_attribute list \<Rightarrow> event list
    \<Rightarrow> server \<Rightarrow> go_error option \<times> server" where
  "persistEvents now txType contract sender attrs events s =
     (let allEvents = (if length attrs > 0 then [\<lparr>ev_type = ''wasm'', ev_attributes = attrs\<rparr>] else []) @ events
      in insert_events now txType contract sender allEvents s)"

subsection \<open>Restoring\<close>

text \<open>
  \<^verbatim>\<open>for rows.Next() { rows.Scan(...); ... }\<close>: each \<^verbatim>\<open>Next\<close> may end the iteration with an error that only
  \<^verbatim>\<open>rows.Err\<close> shows, each \<^verbatim>\<open>Scan\<close> may fail. The result is the error of the body or of \<^verbatim>\<open>Scan\<close>, the state,
  and what \<^verbatim>\<open>rows.Err\<close> would return.
\<close>

fun scan_rows :: "('row \<Rightarrow> server \<Rightarrow> go_error option \<times> server) \<Rightarrow> 'row list \<Rightarrow> server
    \<Rightarrow> go_error option \<times> go_error option \<times> server" where
  "scan_rows body [] s = (case db_call s of
       (Some e, s1) \<Rightarrow> (None, Some (PlainErr e), s1)
     | (None, s1) \<Rightarrow> (None, None, s1))"
| "scan_rows body (row # rows) s = (case db_call s of
       (Some e, s1) \<Rightarrow> (None, Some (PlainErr e), s1)
     | (None, s1) \<Rightarrow> (case db_call s1 of
         (Some e, s2) \<Rightarrow> (Some (PlainErr e), None, s2)
       | (None, s2) \<Rightarrow> (case body row s2 of
           (Some e, s3) \<Rightarrow> (Some e, None, s3)
         | (None, s3) \<Rightarrow> scan_rows body rows s3)))"

text \<open>A query and its loop, without the check of \<^verbatim>\<open>rows.Err\<close> and with it.\<close>

definition for_rows :: "('row \<Rightarrow> server \<Rightarrow> go_error option \<times> server) \<Rightarrow> 'row list \<Rightarrow> server
    \<Rightarrow> go_error option \<times> server" where
  "for_rows body rows s = (case db_call s of
       (Some e, s1) \<Rightarrow> (Some (PlainErr e), s1)
     | (None, s1) \<Rightarrow> (case scan_rows body rows s1 of (err, _, s2) \<Rightarrow> (err, s2)))"

definition for_rows_checked :: "('row \<Rightarrow> server \<Rightarrow> go_error option \<times> server) \<Rightarrow> 'row list \<Rightarrow> server
    \<Rightarrow> go_error option \<times> server" where
  "for_rows_checked body rows s = (case db_call s of
       (Some e, s1) \<Rightarrow> (Some (PlainErr e), s1)
     | (None, s1) \<Rightarrow> (case scan_rows body rows s1 of
         (Some e, _, s2) \<Rightarrow> (Some e, s2) | (None, rows_err, s2) \<Rightarrow> (rows_err, s2)))"

definition restore_code :: "engine \<Rightarrow> string \<times> bytes \<Rightarrow> server \<Rightarrow> go_error option \<times> server" where
  "restore_code eng row s = (case row of (codeHex, wasm) \<Rightarrow>
     (case StoreCode eng (srv_vm s) wasm None None of
       (Inl e, _, n) \<Rightarrow> (Some (WrapErr (''restore code '' @ codeHex) e), s\<lparr>srv_vm := n\<rparr>)
     | (Inr _, _, n) \<Rightarrow> (None, s\<lparr>srv_vm := n\<rparr>)))"

definition restore_contract :: "string \<times> contract_row \<Rightarrow> server \<Rightarrow> go_error option \<times> server" where
  "restore_contract row s = (case row of (addrHex, cr) \<Rightarrow>
     (case HexToAddress addrHex of
       Inl e \<Rightarrow> (Some (WrapErr (''restore contract '' @ addrHex @ '': bad address'') e), s)
     | Inr addr \<Rightarrow> (case HexToAddress (cr_creator cr) of
         Inl e \<Rightarrow> (Some (WrapErr (''restore contract '' @ addrHex @ '': bad creator'') e), s)
       | Inr creator \<Rightarrow> (case hex_DecodeString (cr_code_id cr) of
           Inl e \<Rightarrow> (Some (WrapErr (''restore contract '' @ addrHex @ '': bad code_id hex'') (PlainErr (hex_error_text e))), s)
         | Inr checksum \<Rightarrow>
             (None, s\<lparr>srv_vm := RegisterContract (srv_vm s) addr creator checksum (cr_label cr)\<rparr>)))))"

definition restore_account :: "string \<times> account_row \<Rightarrow> server \<Rightarrow> go_error option \<times> server" where
  "restore_account row s = (case row of (addrHex, ar) \<Rightarrow>
     (case NewAmountFromString (ar_balance ar) of
       Inl e \<Rightarrow> (Some (WrapErr (''restore account '' @ addrHex @ '': bad balance '' @ go_quote (ar_balance ar)) e), s)
     | Inr balance \<Rightarrow> (case HexToAddress addrHex of
         Inl e \<Rightarrow> (Some (WrapErr (''restore account '' @ addrHex @ '': bad address'') e), s)
       | Inr addr \<Rightarrow>
           (None, s\<lparr>srv_vm := SetNonce (SetBalance (srv_vm s) addr balance) addr (ar_nonce ar)\<rparr>))))"

text \<open>\<^verbatim>\<open>QueryRow("SELECT value FROM meta WHERE key = ?").Scan(&v)\<close>: no row is an error, too.\<close>

definition query_meta :: "string \<Rightarrow> server \<Rightarrow> string option \<times> server" where
  "query_meta k s = (case db_call s of
       (Some e, s1) \<Rightarrow> (None, s1)
     | (None, s1) \<Rightarrow> (map_of (db_meta (srv_db s1)) k, s1))"

definition restore_instance_count :: "server \<Rightarrow> server" where
  "restore_instance_count s = (case query_meta ''instance_count'' s of
       (None, s1) \<Rightarrow> s1
     | (Some countStr, s1) \<Rightarrow> (case ParseUint64 countStr of
         None \<Rightarrow> s1 | Some n \<Rightarrow> s1\<lparr>srv_vm := SetInstanceCount (srv_vm s1) n\<rparr>))"

definition max_seq :: "(uint64 \<times> string) list \<Rightarrow> uint64" where
  "max_seq rows = fold (\<lambda>(s, _) m. max s m) rows 0"

definition restore_code_seq :: "server \<Rightarrow> go_error option \<times> server" where
  "restore_code_seq s = (case db_call s of
       (Some e, s1) \<Rightarrow> (Some (WrapErr ''restore code seq'' (PlainErr e)), s1)
     | (None, s1) \<Rightarrow> let maxSeq = max_seq (db_code_seqs (srv_db s1)) in
         (None, if maxSeq > 0 then s1\<lparr>srv_vm := SetCodeSeq (srv_vm s1) maxSeq\<rparr> else s1))"

definition restore_block_info :: "uint64 \<Rightarrow> server \<Rightarrow> server" where
  "restore_block_info now s = (case query_meta ''op_seq'' s of
       (None, s1) \<Rightarrow> s1
     | (Some seqStr, s1) \<Rightarrow> (case ParseUint64 seqStr of
         None \<Rightarrow> s1
       | Some n \<Rightarrow>
           (case query_meta ''block_time'' s1 of
             (btStr, s2) \<Rightarrow>
               let blockTime = (case Option.bind btStr ParseUint64 of Some bt \<Rightarrow> bt | None \<Rightarrow> now)
               in s2\<lparr>srv_vm := SetBlockInfo (srv_vm s2) n blockTime\<rparr>)))"

text \<open>\<^verbatim>\<open>var addr core.Address; copy(addr[:], addrBytes)\<close>\<close>

definition copy_address :: "bytes \<Rightarrow> address" where
  "copy_address b = take 20 (b @ replicate 20 0)"

definition restore_entry :: "storage_row \<Rightarrow> server \<Rightarrow> go_error option \<times> server" where
  "restore_entry row s = (case row of (addrBytes, key, value) \<Rightarrow>
     (case adapter_Set (storage (srv_vm s)) (copy_address addrBytes) key (Some value) of
       (err, ad) \<Rightarrow> (err, s\<lparr>srv_vm := (srv_vm s)\<lparr>storage := ad\<rparr>\<rparr>)))"

definition restoreStorage :: "server \<Rightarrow> go_error option \<times> server" where
  "restoreStorage s = (case vm_Storage (srv_vm s) of
       SqliteAdapter _ \<Rightarrow> (None, s)
     | MemoryAdapter _ \<Rightarrow> for_rows_checked restore_entry (db_storage (srv_db s)) s)"

definition restore :: "engine \<Rightarrow> uint64 \<Rightarrow> server \<Rightarrow> go_error option \<times> server" where
  "restore eng now s =
     and_then (for_rows (restore_code eng) (db_codes (srv_db s)) s) (\<lambda>s1.
     and_then (for_rows restore_contract (db_contracts (srv_db s1)) s1) (\<lambda>s2.
     and_then (for_rows restore_account (db_accounts (srv_db s2)) s2) (\<lambda>s3.
     and_then (restore_code_seq (restore_instance_count s3)) (\<lambda>s4.
     and_then (wrap_err ''restore storage'' (restoreStorage (restore_block_info now s4))) (\<lambda>s5.
       (None, s5\<lparr>srv_vm := snd (TouchedAddresses (srv_vm s5))\<rparr>))))))"

end
