(* ===== verification/Node_Handlers.thy ===== *)
theory Node_Handlers
  imports Node_Persist
begin

text \<open>
  \<^verbatim>\<open>node/server.go\<close> and \<^verbatim>\<open>node/handler.go\<close>: the request handlers. A request arrives here as what reading and
  JSON-decoding its body gives, and the response is the status and message of an error or the fields of
  the JSON document written; the HTTP transport itself is not modelled. The mutex \<^verbatim>\<open>writeMu\<close> makes the
  state-changing handlers (except the faucet, which does not take it) one atomic step each.

  A database transaction works on \<open>srv_db\<close>: rolling it back, and a commit that fails, put back the
  database the handler started from.
\<close>

subsection \<open>Server\<close>

definition defaultGasLimit :: uint64 where "defaultGasLimit = 500000000000"
definition maxSimulateGas :: uint64 where "maxSimulateGas = 50000000"

record server_config =
  sc_Addr :: string
  sc_DataDir :: string
  sc_Network :: string
  sc_MinGasPrice :: uint64

definition parse_network :: "string \<Rightarrow> Network" where
  "parse_network s = (if s = ''devnet'' then Devnet else if s = ''testnet'' then Testnet
     else if s = ''mainnet'' then Mainnet else OtherNetwork s)"

definition server_New :: "server_config \<Rightarrow> meta_db \<Rightarrow> string option list \<Rightarrow> nitrovm \<Rightarrow> server" where
  "server_New cfg db fs n = (let network = (if sc_Network cfg = [] then Devnet else parse_network (sc_Network cfg)) in
     \<lparr>srv_vm = n, srv_db = db, srv_network = network, srv_minGasPrice = sc_MinGasPrice cfg, srv_faults = fs\<rparr>)"

definition server_Restore :: "engine \<Rightarrow> uint64 \<Rightarrow> server \<Rightarrow> go_error option \<times> server" where
  "server_Restore eng now s = restore eng now s"

text \<open>The routes \<^verbatim>\<open>Handler\<close> registers; the faucet exists on the development network only.\<close>

datatype route = R_store | R_instantiate | R_execute | R_query | R_balance | R_faucet | R_events
  | R_status | R_account | R_simulate | R_codes | R_contracts | R_contract

definition server_Handler :: "server \<Rightarrow> route list" where
  "server_Handler s = [R_store, R_instantiate, R_execute, R_query, R_balance]
     @ (if srv_network s = Devnet then [R_faucet] else [])
     @ [R_events, R_status, R_account, R_simulate, R_codes, R_contracts, R_contract]"

record node_coin =
  nc_denom :: string
  nc_amount :: string

definition toWasmCoins :: "node_coin list \<Rightarrow> coin list" where
  "toWasmCoins coins = (if length coins = 0 then []
     else map (\<lambda>c. \<lparr>Denom = nc_denom c, coin_amount = nc_amount c\<rparr>) coins)"

definition rlpToWasmCoins :: "RLPCoin list \<Rightarrow> coin list" where
  "rlpToWasmCoins funds = (if length funds = 0 then []
     else map (\<lambda>f. \<lparr>Denom = rlp_Denom f, coin_amount = rlp_Amount f\<rparr>) funds)"

text \<open>
  The body of a signed request: the error of reading it, and the string in its \<^verbatim>\<open>tx\<close> field (\<open>None\<close> if
  it is not a JSON object with such a field, or the field is not a string).
\<close>

record signed_request =
  rq_read_err :: "string option"
  rq_tx :: "string option"

definition TrimPrefix :: "string \<Rightarrow> string \<Rightarrow> string" where
  "TrimPrefix s p = (if take (length p) s = p then drop (length p) s else s)"

definition parseSigned :: "crypto_ext \<Rightarrow> server \<Rightarrow> signed_request \<Rightarrow> go_error + (SignedTransaction \<times> address)" where
  "parseSigned ext s rq =
     (if rq_tx rq = None \<or> rq_tx rq = Some []
      then Inl (PlainErr (''invalid request: expected JSON with signed '' @ go_quote ''tx'' @ '' field''))
      else (case hex_DecodeString (TrimPrefix (the (rq_tx rq)) ''0x'') of
        Inl e \<Rightarrow> Inl (WrapErr ''bad tx hex'' (PlainErr (hex_error_text e)))
      | Inr txBytes \<Rightarrow> (case DecodeSignedTx ext txBytes of
          Inl e \<Rightarrow> Inl (WrapErr ''decode signed tx'' e)
        | Inr stx \<Rightarrow> (case RecoverSender ext stx of
            Inl e \<Rightarrow> Inl e
          | Inr sender \<Rightarrow>
              if tx_ChainID (stx_Tx stx) \<noteq> vm_ChainID (srv_vm s)
              then Inl (DetailErr ErrInvalidChainID (''got '' @ go_quote (tx_ChainID (stx_Tx stx))
                     @ '', want '' @ go_quote (vm_ChainID (srv_vm s))))
              else if tx_GasPrice (stx_Tx stx) < srv_minGasPrice s
              then Inl (DetailErr ErrGasPriceTooLow (''got '' @ dec_nat (unat (tx_GasPrice (stx_Tx stx)))
                     @ '', min '' @ dec_nat (unat (srv_minGasPrice s))))
              else Inr (stx, sender)))))"

definition gas_fee :: "uint64 \<Rightarrow> uint64 \<Rightarrow> string" where
  "gas_fee gasUsed gasPrice = Amount_String (Amount_Mul (NewAmount gasUsed) (NewAmount gasPrice))"

definition deductGasFee :: "address \<Rightarrow> uint64 \<Rightarrow> uint64 \<Rightarrow> server \<Rightarrow> (go_error + string) \<times> server" where
  "deductGasFee sender gasUsed gasPrice s =
     (if gasPrice = 0 then (Inr ''0'', s)
      else (case DeductGasFee (srv_vm s) sender gasUsed gasPrice of
        (Some e, n) \<Rightarrow> (Inl e, s\<lparr>srv_vm := n\<rparr>)
      | (None, n) \<Rightarrow> (case persistBalance sender (s\<lparr>srv_vm := n\<rparr>) of
          (Some e, s1) \<Rightarrow> (Inl (WrapErr ''persist gas fee balance'' e), s1)
        | (None, s1) \<Rightarrow> (Inr (gas_fee gasUsed gasPrice), s1))))"

subsection \<open>Responses\<close>

datatype http_response =
    WriteErr nat string
  | StoreResp string uint64 uint64 string string
  | InstantiateResp string uint64 string string "event_attribute list" "event list"
  | ExecuteResp "bytes option" uint64 string string "event_attribute list" "event list"
  | QueryResp "bytes option" uint64
  | BalanceResp Amount
  | EmptyResp
  | EventsResp "(nat \<times> event_row) list"
  | CodesResp "string list"
  | ContractsResp "ContractInfo list"
  | ContractResp ContractInfo Amount
  | StatusResp string uint64 nat nat
  | AccountResp string Amount uint64 "ContractInfo option"
  | SimExecuteResp "bytes option" uint64 "event_attribute list" "event list"
  | SimInstantiateResp string uint64 "event_attribute list" "event list"

definition is_WriteErr :: "http_response \<Rightarrow> bool" where
  "is_WriteErr r = (case r of WriteErr _ _ \<Rightarrow> True | _ \<Rightarrow> False)"

text \<open>A step of a handler inside its transaction, with the status and message of its failure.\<close>

type_synonym tx_step = "server \<Rightarrow> (nat \<times> string) option \<times> server"

definition tx_do :: "nat \<Rightarrow> string \<Rightarrow> (server \<Rightarrow> go_error option \<times> server) \<Rightarrow> tx_step" where
  "tx_do code label f s = (case f s of
       (Some e, s1) \<Rightarrow> (Some (code, label @ '': '' @ Error e), s1) | (None, s1) \<Rightarrow> (None, s1))"

fun tx_steps :: "tx_step list \<Rightarrow> tx_step" where
  "tx_steps [] s = (None, s)"
| "tx_steps (f # fs) s = (case f s of (Some e, s1) \<Rightarrow> (Some e, s1) | (None, s1) \<Rightarrow> tx_steps fs s1)"

definition fee_step :: "address \<Rightarrow> uint64 \<Rightarrow> uint64 \<Rightarrow> tx_step" where
  "fee_step sender gasUsed gasPrice s =
     (if gasPrice > 0 then (case deductGasFee sender gasUsed gasPrice s of
        (Inl e, s1) \<Rightarrow> (Some (400, ''gas fee: '' @ Error e), s1) | (Inr _, s1) \<Rightarrow> (None, s1))
      else (None, s))"

text \<open>The field \<^verbatim>\<open>gas_fee\<close> of a response, left out (here empty) when the price is zero.\<close>

definition fee_field :: "uint64 \<Rightarrow> uint64 \<Rightarrow> string" where
  "fee_field gasUsed gasPrice = (if gasPrice > 0 then gas_fee gasUsed gasPrice else [])"

definition db_begin :: "server \<Rightarrow> go_error option \<times> server" where
  "db_begin s = db_exec id s"

definition db_commit :: "server \<Rightarrow> go_error option \<times> server" where
  "db_commit s = db_exec id s"

text \<open>
  The end of a state-changing handler after its VM call: begin, the steps, commit; on any failure the
  transaction is rolled back, the VM restored, and the error written.
\<close>

definition run_tx :: "server \<Rightarrow> tx_step list \<Rightarrow> http_response \<Rightarrow> server \<Rightarrow> http_response \<times> server" where
  "run_tx s0 steps resp s =
     (case tx_steps ([tx_do 500 ''begin tx'' db_begin] @ steps @ [tx_do 500 ''commit'' db_commit]) s of
       (Some (code, msg), s1) \<Rightarrow> (WriteErr code msg,
          s1\<lparr>srv_vm := vm_Restore (vm_Snapshot (srv_vm s0)) (srv_vm s1), srv_db := srv_db s0\<rparr>)
     | (None, s1) \<Rightarrow> (resp, s1))"

text \<open>The failure branch after \<^verbatim>\<open>Instantiate\<close> and \<^verbatim>\<open>Execute\<close>: restore, then charge the gas that was used.\<close>

definition charge_failed :: "address \<Rightarrow> uint64 \<Rightarrow> uint64 \<Rightarrow> nitrovm \<Rightarrow> server \<Rightarrow> server" where
  "charge_failed sender gasUsed gasPrice n s =
     (let s1 = s\<lparr>srv_vm := vm_Restore (vm_Snapshot (srv_vm s)) n\<rparr> in
      if gasPrice > 0 \<and> gasUsed > 0 then
        (case DeductGasFee (srv_vm s1) sender gasUsed gasPrice of
          (Some _, n2) \<Rightarrow> s1\<lparr>srv_vm := n2\<rparr>
        | (None, n2) \<Rightarrow> snd (persistBalance sender (s1\<lparr>srv_vm := n2\<rparr>)))
      else s1)"

text \<open>The readings of the clock of one request: in \<^verbatim>\<open>TickOp\<close>, for \<^verbatim>\<open>block_time\<close>, and for events.\<close>

record clock =
  t_tick :: uint64
  t_block :: uint64
  t_unix :: int

subsection \<open>Handlers that change the state\<close>

definition put_code :: "string \<Rightarrow> bytes \<Rightarrow> server \<Rightarrow> go_error option \<times> server" where
  "put_code codeHex wasm = db_exec (\<lambda>db. db\<lparr>db_codes := insert_or_replace codeHex wasm (db_codes db)\<rparr>)"

definition put_code_seq :: "uint64 \<Rightarrow> string \<Rightarrow> server \<Rightarrow> go_error option \<times> server" where
  "put_code_seq cseq codeHex s = (case sql_uint64_arg 1 cseq of
       Some e \<Rightarrow> (Some e, s)
     | None \<Rightarrow> db_exec (\<lambda>db. db\<lparr>db_code_seqs := insert_or_ignore cseq codeHex (db_code_seqs db)\<rparr>) s)"

definition handleStore :: "engine \<Rightarrow> crypto_ext \<Rightarrow> clock \<Rightarrow> signed_request \<Rightarrow> server \<Rightarrow> http_response \<times> server" where
  "handleStore eng ext clk rq s =
     (case rq_read_err rq of Some e \<Rightarrow> (WriteErr 400 (''read body: '' @ e), s)
      | None \<Rightarrow> (case parseSigned ext s rq of
          Inl e \<Rightarrow> (WriteErr 401 (Error e), s)
        | Inr (stx, sender) \<Rightarrow>
            let tx = stx_Tx stx in
            if tx_Type tx \<noteq> TxStore then (WriteErr 400 ''tx type must be store'', s)
            else (case StoreCode eng (srv_vm s) (tx_Code tx) (Some sender) (Some (tx_Nonce tx)) of
              (Inl e, _, n) \<Rightarrow> (WriteErr 400 (Error e), s\<lparr>srv_vm := vm_Restore (vm_Snapshot (srv_vm s)) n\<rparr>)
            | (Inr codeID, gasUsed, n) \<Rightarrow>
                let codeHex = hex_EncodeToString codeID;
                    cseq = fst (GetCodeSeq n codeHex)
                in run_tx s
                     [fee_step sender gasUsed (tx_GasPrice tx),
                      tx_do 500 ''persist code'' (put_code codeHex (tx_Code tx)),
                      tx_do 500 ''persist code seq'' (put_code_seq cseq codeHex),
                      tx_do 500 ''persist balance'' (persistBalance sender),
                      tx_do 500 ''tick op'' (tickOp (t_tick clk) (t_block clk))]
                     (StoreResp codeHex cseq gasUsed (Hex sender) (fee_field gasUsed (tx_GasPrice tx)))
                     (s\<lparr>srv_vm := n\<rparr>))))"

fun put_contracts :: "ContractInfo list \<Rightarrow> server \<Rightarrow> go_error option \<times> server" where
  "put_contracts [] s = (None, s)"
| "put_contracts (ci # cis) s = and_then
     (db_exec (\<lambda>db. db\<lparr>db_contracts := insert_or_ignore (ci_Address ci)
        \<lparr>cr_code_id = ci_CodeID ci, cr_label = ci_Label ci, cr_creator = ci_Creator ci\<rparr> (db_contracts db)\<rparr>) s)
     (put_contracts cis)"

definition put_instance_count :: "server \<Rightarrow> go_error option \<times> server" where
  "put_instance_count s = put_meta ''instance_count'' (dec_nat (unat (GetInstanceCount (srv_vm s)))) s"

definition handleInstantiate :: "engine \<Rightarrow> nat \<Rightarrow> crypto_ext \<Rightarrow> clock \<Rightarrow> signed_request \<Rightarrow> server
    \<Rightarrow> (http_response \<times> server) option" where
  "handleInstantiate eng qf ext clk rq s =
     (case rq_read_err rq of Some e \<Rightarrow> Some (WriteErr 400 (''read body: '' @ e), s)
      | None \<Rightarrow> (case parseSigned ext s rq of
          Inl e \<Rightarrow> Some (WriteErr 401 (Error e), s)
        | Inr (stx, sender) \<Rightarrow>
            let tx = stx_Tx stx; gasPrice = tx_GasPrice tx in
            if tx_Type tx \<noteq> TxInstantiate then Some (WriteErr 400 ''tx type must be instantiate'', s)
            else (case Instantiate eng qf (srv_vm s) (tx_CodeID tx) sender (tx_Msg tx) (tx_Label tx)
                         (rlpToWasmCoins (tx_Funds tx)) (tx_GasLimit tx) (Some (tx_Nonce tx)) of
              None \<Rightarrow> None
            | Some (Inl e, gasUsed, n) \<Rightarrow>
                Some (WriteErr 400 (Error e), charge_failed sender gasUsed gasPrice n s)
            | Some (Inr res, gasUsed, n) \<Rightarrow>
                (case TouchedAddresses n of (tch, n1) \<Rightarrow>
                  Some (run_tx s
                    [fee_step sender gasUsed gasPrice,
                     tx_do 500 ''persist contract'' (\<lambda>s1. put_contracts (ListContracts (srv_vm s1)) s1),
                     tx_do 500 ''persist instance count'' put_instance_count,
                     tx_do 500 ''persist balance'' (persistBalances tch),
                     tx_do 500 ''persist events'' (persistEvents (t_unix clk) ''instantiate''
                       (Hex (ir_ContractAddress res)) (Hex sender) (ir_Attributes res) (ir_Events res)),
                     tx_do 500 ''flush storage'' flushStorage,
                     tx_do 500 ''tick op'' (tickOp (t_tick clk) (t_block clk))]
                    (InstantiateResp (Hex (ir_ContractAddress res)) gasUsed (Hex sender)
                      (fee_field gasUsed gasPrice) (ir_Attributes res) (ir_Events res))
                    (s\<lparr>srv_vm := n1\<rparr>))))))"

definition handleExecute :: "engine \<Rightarrow> nat \<Rightarrow> crypto_ext \<Rightarrow> clock \<Rightarrow> signed_request \<Rightarrow> server
    \<Rightarrow> (http_response \<times> server) option" where
  "handleExecute eng qf ext clk rq s =
     (case rq_read_err rq of Some e \<Rightarrow> Some (WriteErr 400 (''read body: '' @ e), s)
      | None \<Rightarrow> (case parseSigned ext s rq of
          Inl e \<Rightarrow> Some (WriteErr 401 (Error e), s)
        | Inr (stx, sender) \<Rightarrow>
            let tx = stx_Tx stx; gasPrice = tx_GasPrice tx; contract = tx_Contract tx in
            if tx_Type tx \<noteq> TxExecute then Some (WriteErr 400 ''tx type must be execute'', s)
            else
              let known = map ci_Address (ListContracts (srv_vm s)) in
              (case Execute eng qf (srv_vm s) contract sender (tx_Msg tx)
                         (rlpToWasmCoins (tx_Funds tx)) (tx_GasLimit tx) (Some (tx_Nonce tx)) of
                None \<Rightarrow> None
              | Some (Inl e, gasUsed, n) \<Rightarrow>
                  Some (WriteErr 400 (Error e), charge_failed sender gasUsed gasPrice n s)
              | Some (Inr res, gasUsed, n) \<Rightarrow>
                  (case TouchedAddresses n of (tch, n1) \<Rightarrow>
                    Some (run_tx s
                      [fee_step sender gasUsed gasPrice,
                       tx_do 500 ''persist balance'' (persistBalances tch),
                       tx_do 500 ''persist contract'' (\<lambda>s1. put_contracts
                         (filter (\<lambda>ci. ci_Address ci \<notin> set known) (ListContracts (srv_vm s1))) s1),
                       tx_do 500 ''persist instance count'' put_instance_count,
                       tx_do 500 ''persist events'' (persistEvents (t_unix clk) ''execute''
                         (Hex contract) (Hex sender) (er_Attributes res) (er_Events res)),
                       tx_do 500 ''flush storage'' flushStorage,
                       tx_do 500 ''tick op'' (tickOp (t_tick clk) (t_block clk))]
                      (ExecuteResp (er_Data res) gasUsed (Hex sender) (fee_field gasUsed gasPrice)
                        (er_Attributes res) (er_Events res))
                      (s\<lparr>srv_vm := n1\<rparr>))))))"

text \<open>The faucet: the request decodes to an address and an amount, or not at all.\<close>

definition handleFaucet :: "string + (string \<times> Amount) \<Rightarrow> server \<Rightarrow> http_response \<times> server" where
  "handleFaucet rq s = (case rq of
       Inl e \<Rightarrow> (WriteErr 400 (''bad json: '' @ e), s)
     | Inr (address, amount) \<Rightarrow> (case HexToAddress address of
         Inl e \<Rightarrow> (WriteErr 400 (''bad address: '' @ Error e), s)
       | Inr addr \<Rightarrow>
           let s1 = s\<lparr>srv_vm := SetBalance (srv_vm s) addr amount\<rparr>;
               nonce = GetNonce (srv_vm s1) addr
           in (case put_account address (Amount_String amount) nonce s1 of
                (Some e, s2) \<Rightarrow> (WriteErr 500 (''persist account: '' @ Error e), s2)
              | (None, s2) \<Rightarrow> (EmptyResp, s2))))"

subsection \<open>Simulation\<close>

text \<open>
  The request as decoded from JSON, or the error of decoding. The deferred \<^verbatim>\<open>Restore\<close> runs on every path
  after the snapshot.
\<close>

record simulate_request =
  sim_Type :: string
  sim_CodeID :: string
  sim_Contract :: string
  sim_Sender :: string
  sim_Msg :: bytes
  sim_Label :: string
  sim_Funds :: "node_coin list"
  sim_GasLimit :: "uint64 option"

definition simulate_gas :: "uint64 option \<Rightarrow> uint64" where
  "simulate_gas req = (case req of
       Some g \<Rightarrow> if g < maxSimulateGas then g else maxSimulateGas
     | None \<Rightarrow> maxSimulateGas)"

definition simulate_execute :: "engine \<Rightarrow> nat \<Rightarrow> simulate_request \<Rightarrow> nitrovm \<Rightarrow> (http_response \<times> nitrovm) option" where
  "simulate_execute eng qf req n =
     (case HexToAddress (sim_Contract req) of
       Inl e \<Rightarrow> Some (WriteErr 400 (''bad contract: '' @ Error e), n)
     | Inr contract \<Rightarrow> (case HexToAddress (sim_Sender req) of
         Inl e \<Rightarrow> Some (WriteErr 400 (''bad sender: '' @ Error e), n)
       | Inr sender \<Rightarrow>
           (case Execute eng qf n contract sender (sim_Msg req) (toWasmCoins (sim_Funds req))
                  (simulate_gas (sim_GasLimit req)) None of
             None \<Rightarrow> None
           | Some (Inl e, _, n1) \<Rightarrow> Some (WriteErr 400 (Error e), n1)
           | Some (Inr res, gasUsed, n1) \<Rightarrow>
               Some (SimExecuteResp (er_Data res) gasUsed (er_Attributes res) (er_Events res), n1))))"

definition simulate_instantiate :: "engine \<Rightarrow> nat \<Rightarrow> simulate_request \<Rightarrow> nitrovm \<Rightarrow> (http_response \<times> nitrovm) option" where
  "simulate_instantiate eng qf req n =
     (case hex_DecodeString (sim_CodeID req) of
       Inl e \<Rightarrow> Some (WriteErr 400 ''bad code_id hex'', n)
     | Inr codeID \<Rightarrow> (case HexToAddress (sim_Sender req) of
         Inl e \<Rightarrow> Some (WriteErr 400 (''bad sender: '' @ Error e), n)
       | Inr sender \<Rightarrow>
           (case Instantiate eng qf n codeID sender (sim_Msg req) (sim_Label req) (toWasmCoins (sim_Funds req))
                  (simulate_gas (sim_GasLimit req)) None of
             None \<Rightarrow> None
           | Some (Inl e, _, n1) \<Rightarrow> Some (WriteErr 400 (Error e), n1)
           | Some (Inr res, gasUsed, n1) \<Rightarrow>
               Some (SimInstantiateResp (Hex (ir_ContractAddress res)) gasUsed (ir_Attributes res) (ir_Events res), n1))))"

definition handleSimulate :: "engine \<Rightarrow> nat \<Rightarrow> string + simulate_request \<Rightarrow> server
    \<Rightarrow> (http_response \<times> server) option" where
  "handleSimulate eng qf rq s = (case rq of
       Inl e \<Rightarrow> Some (WriteErr 400 (''bad json: '' @ e), s)
     | Inr req \<Rightarrow>
         if sim_Type req \<noteq> ''execute'' \<and> sim_Type req \<noteq> ''instantiate''
         then Some (WriteErr 400 (go_quote ''type'' @ '' must be '' @ go_quote ''execute''
                @ '' or '' @ go_quote ''instantiate''), s)
         else
           let snap = vm_Snapshot (srv_vm s) in
           (case (if sim_Type req = ''execute'' then simulate_execute eng qf req (srv_vm s)
                  else simulate_instantiate eng qf req (srv_vm s)) of
             None \<Rightarrow> None
           | Some (resp, n) \<Rightarrow> Some (resp, s\<lparr>srv_vm := vm_Restore snap n\<rparr>)))"

subsection \<open>Handlers that read\<close>

record query_http_request =
  qh_Contract :: string
  qh_Msg :: bytes
  qh_GasLimit :: "uint64 option"

definition handleQuery :: "engine \<Rightarrow> nat \<Rightarrow> string + query_http_request \<Rightarrow> server
    \<Rightarrow> (http_response \<times> server) option" where
  "handleQuery eng qf rq s = (case rq of
       Inl e \<Rightarrow> Some (WriteErr 400 (''bad json: '' @ e), s)
     | Inr req \<Rightarrow> (case HexToAddress (qh_Contract req) of
         Inl e \<Rightarrow> Some (WriteErr 400 (''bad contract: '' @ Error e), s)
       | Inr contract \<Rightarrow>
           let gl = (case qh_GasLimit req of Some g \<Rightarrow> g | None \<Rightarrow> defaultGasLimit) in
           (case vm_Query eng qf (srv_vm s) contract (qh_Msg req) gl of
             None \<Rightarrow> None
           | Some (Inl e, _, n) \<Rightarrow> Some (WriteErr 400 (Error e), s\<lparr>srv_vm := n\<rparr>)
           | Some (Inr result, gasUsed, n) \<Rightarrow> Some (QueryResp result gasUsed, s\<lparr>srv_vm := n\<rparr>))))"

definition handleBalance :: "string \<Rightarrow> server \<Rightarrow> http_response" where
  "handleBalance path s = (case HexToAddress (TrimPrefix path ''/balance/'') of
       Inl e \<Rightarrow> WriteErr 400 (''bad address: '' @ Error e)
     | Inr addr \<Rightarrow> BalanceResp (GetBalance (srv_vm s) addr))"

definition handleListCodes :: "server \<Rightarrow> http_response" where
  "handleListCodes s = CodesResp (ListCodes (srv_vm s))"

definition handleListContracts :: "server \<Rightarrow> http_response" where
  "handleListContracts s = ContractsResp (ListContracts (srv_vm s))"

definition handleContractInfo :: "string \<Rightarrow> server \<Rightarrow> http_response" where
  "handleContractInfo path s = (case HexToAddress (TrimPrefix path ''/contract/'') of
       Inl e \<Rightarrow> WriteErr 400 (''bad address: '' @ Error e)
     | Inr addr \<Rightarrow> (case GetContractInfo (srv_vm s) addr of
         None \<Rightarrow> WriteErr 404 ''contract not found''
       | Some info \<Rightarrow> ContractResp info (GetBalance (srv_vm s) addr)))"

definition handleStatus :: "server \<Rightarrow> http_response" where
  "handleStatus s = StatusResp (vm_ChainID (srv_vm s)) (GetOpSeq (srv_vm s))
     (length (ListCodes (srv_vm s))) (length (ListContracts (srv_vm s)))"

definition handleAccount :: "string \<Rightarrow> server \<Rightarrow> http_response" where
  "handleAccount path s = (case HexToAddress (TrimPrefix path ''/account/'') of
       Inl e \<Rightarrow> WriteErr 400 (''bad address: '' @ Error e)
     | Inr addr \<Rightarrow> AccountResp (Hex addr) (GetBalance (srv_vm s) addr) (GetNonce (srv_vm s) addr)
         (GetContractInfo (srv_vm s) addr))"

text \<open>\<^verbatim>\<open>strconv.Atoi\<close>: an optional sign and digits, within the range of \<^verbatim>\<open>int\<close>.\<close>

definition Atoi :: "string \<Rightarrow> int option" where
  "Atoi s = (case big_SetString s of
       Some n \<Rightarrow> if - (2 ^ 63) \<le> n \<and> n < 2 ^ 63 then Some n else None | None \<Rightarrow> None)"

record events_request =
  evq_contract :: string
  evq_type :: string
  evq_sender :: string
  evq_limit :: string
  evq_offset :: string

definition events_limit :: "events_request \<Rightarrow> nat" where
  "events_limit q = (case Atoi (evq_limit q) of
       Some n \<Rightarrow> if n > 0 \<and> n \<le> 1000 then nat n else 50 | None \<Rightarrow> 50)"

definition events_offset :: "events_request \<Rightarrow> nat" where
  "events_offset q = (case Atoi (evq_offset q) of Some n \<Rightarrow> if n \<ge> 0 then nat n else 0 | None \<Rightarrow> 0)"

text \<open>
  The statement the handler builds: one condition per parameter that is not empty, newest first, limit
  and offset. The key of a row is its position in the table, counted from 1.
\<close>

definition event_matches :: "events_request \<Rightarrow> event_row \<Rightarrow> bool" where
  "event_matches q r \<longleftrightarrow> (evq_contract q \<noteq> [] \<longrightarrow> er_contract r = evq_contract q)
     \<and> (evq_type q \<noteq> [] \<longrightarrow> er_event_type r = evq_type q)
     \<and> (evq_sender q \<noteq> [] \<longrightarrow> er_sender r = evq_sender q)"

definition matching_events :: "events_request \<Rightarrow> event_row list \<Rightarrow> (nat \<times> event_row) list" where
  "matching_events q rows = rev (filter (\<lambda>(_, r). event_matches q r) (zip [1..<length rows + 1] rows))"

definition select_events :: "events_request \<Rightarrow> event_row list \<Rightarrow> (nat \<times> event_row) list" where
  "select_events q rows = take (events_limit q) (drop (events_offset q) (matching_events q rows))"

text \<open>The loop over the result: an iteration that ends early is not noticed, a failed \<^verbatim>\<open>Scan\<close> is.\<close>

fun scan_events :: "(nat \<times> event_row) list \<Rightarrow> (nat \<times> event_row) list \<Rightarrow> server
    \<Rightarrow> (go_error + (nat \<times> event_row) list) \<times> server" where
  "scan_events [] acc s = (Inr acc, snd (db_call s))"
| "scan_events (row # rows) acc s = (case db_call s of
       (Some _, s1) \<Rightarrow> (Inr acc, s1)
     | (None, s1) \<Rightarrow> (case db_call s1 of
         (Some e, s2) \<Rightarrow> (Inl (PlainErr e), s2)
       | (None, s2) \<Rightarrow> scan_events rows (acc @ [row]) s2))"

definition handleEvents :: "events_request \<Rightarrow> server \<Rightarrow> http_response \<times> server" where
  "handleEvents q s = (case db_call s of
       (Some e, s1) \<Rightarrow> (WriteErr 500 (''query events: '' @ e), s1)
     | (None, s1) \<Rightarrow> (case scan_events (select_events q (db_events (srv_db s1))) [] s1 of
         (Inl e, s2) \<Rightarrow> (WriteErr 500 (''scan: '' @ Error e), s2)
       | (Inr events, s2) \<Rightarrow> (EventsResp events, s2)))"

subsection \<open>Routing\<close>

datatype http_request =
    StoreReq signed_request
  | InstantiateReq signed_request
  | ExecuteReq signed_request
  | QueryReq "string + query_http_request"
  | BalanceReq string
  | FaucetReq "string + (string \<times> Amount)"
  | EventsReq events_request
  | StatusReq
  | AccountReq string
  | SimulateReq "string + simulate_request"
  | CodesReq
  | ContractsReq
  | ContractReq string

primrec request_route :: "http_request \<Rightarrow> route" where
  "request_route (StoreReq _) = R_store"
| "request_route (InstantiateReq _) = R_instantiate"
| "request_route (ExecuteReq _) = R_execute"
| "request_route (QueryReq _) = R_query"
| "request_route (BalanceReq _) = R_balance"
| "request_route (FaucetReq _) = R_faucet"
| "request_route (EventsReq _) = R_events"
| "request_route StatusReq = R_status"
| "request_route (AccountReq _) = R_account"
| "request_route (SimulateReq _) = R_simulate"
| "request_route CodesReq = R_codes"
| "request_route ContractsReq = R_contracts"
| "request_route (ContractReq _) = R_contract"

primrec dispatch_request :: "engine \<Rightarrow> nat \<Rightarrow> crypto_ext \<Rightarrow> clock \<Rightarrow> http_request \<Rightarrow> server
    \<Rightarrow> (http_response \<times> server) option" where
  "dispatch_request eng qf ext clk (StoreReq rq) s = Some (handleStore eng ext clk rq s)"
| "dispatch_request eng qf ext clk (InstantiateReq rq) s = handleInstantiate eng qf ext clk rq s"
| "dispatch_request eng qf ext clk (ExecuteReq rq) s = handleExecute eng qf ext clk rq s"
| "dispatch_request eng qf ext clk (QueryReq rq) s = handleQuery eng qf rq s"
| "dispatch_request eng qf ext clk (BalanceReq p) s = Some (handleBalance p s, s)"
| "dispatch_request eng qf ext clk (FaucetReq rq) s = Some (handleFaucet rq s)"
| "dispatch_request eng qf ext clk (EventsReq q) s = Some (handleEvents q s)"
| "dispatch_request eng qf ext clk StatusReq s = Some (handleStatus s, s)"
| "dispatch_request eng qf ext clk (AccountReq p) s = Some (handleAccount p s, s)"
| "dispatch_request eng qf ext clk (SimulateReq rq) s = handleSimulate eng qf rq s"
| "dispatch_request eng qf ext clk CodesReq s = Some (handleListCodes s, s)"
| "dispatch_request eng qf ext clk ContractsReq s = Some (handleListContracts s, s)"
| "dispatch_request eng qf ext clk (ContractReq p) s = Some (handleContractInfo p s, s)"

text \<open>A request to a route that is not registered gets the multiplexer's own answer.\<close>

definition serve :: "engine \<Rightarrow> nat \<Rightarrow> crypto_ext \<Rightarrow> clock \<Rightarrow> http_request \<Rightarrow> server
    \<Rightarrow> (http_response \<times> server) option" where
  "serve eng qf ext clk req s =
     (if request_route req \<in> set (server_Handler s) then dispatch_request eng qf ext clk req s
      else Some (WriteErr 404 ''404 page not found'', s))"

end
