(* ===== verification/Node_Steps.thy ===== *)
theory Node_Steps
  imports Node_Handlers Runtime_Theorems
begin

text \<open>
  What the persistence steps of a handler can do to the server, as an interface like
  \<open>vm_step_relation\<close>: they use up scripted outcomes, write tables other than \<^verbatim>\<open>accounts\<close>, and put into
  the row of an account what the VM holds for it. A reflexive and transitive relation that contains these
  writes contains every persistence step of \<open>Node_Persist\<close> and \<open>Node_Handlers\<close>, whether it succeeds or fails.
\<close>

lemma db_call_shape: "snd (db_call s) = s\<lparr>srv_faults := srv_faults (snd (db_call s))\<rparr>"
  by (auto simp: db_call_def split: prod.splits)

lemma db_call_fields [simp]:
  "srv_vm (snd (db_call s)) = srv_vm s" "srv_db (snd (db_call s)) = srv_db s"
  "srv_network (snd (db_call s)) = srv_network s" "srv_minGasPrice (snd (db_call s)) = srv_minGasPrice s"
  by (simp_all add: db_call_def split: prod.splits)

lemma db_callD: "db_call s = (out, s1) \<Longrightarrow> \<exists>fs. s1 = s\<lparr>srv_faults := fs\<rparr>"
  using db_call_shape [of s] by auto

lemma tx_steps_append:
  "tx_steps (fs @ gs) s = (case tx_steps fs s of (Some e, s1) \<Rightarrow> (Some e, s1) | (None, s1) \<Rightarrow> tx_steps gs s1)"
  by (induction fs arbitrary: s) (auto split: prod.splits option.splits)

lemma srv_db_same [simp]: "s\<lparr>srv_faults := fs, srv_db := srv_db s\<rparr> = s\<lparr>srv_faults := fs\<rparr>"
  by simp

lemma tx_do_snd [simp]: "snd (tx_do code label f s) = snd (f s)"
  by (auto simp: tx_do_def split: prod.splits option.splits)

lemma fee_step_snd: "snd (fee_step a g p s) = (if p > 0 then snd (deductGasFee a g p s) else s)"
  by (auto simp: fee_step_def split: prod.splits sum.splits)

text \<open>The row \<^verbatim>\<open>persistBalance\<close> writes.\<close>

definition account_row_of :: "nitrovm \<Rightarrow> address \<Rightarrow> account_row" where
  "account_row_of n a = \<lparr>ar_balance = Amount_String (GetBalance n a), ar_nonce = GetNonce n a\<rparr>"

definition put_row :: "server \<Rightarrow> address \<Rightarrow> meta_db \<Rightarrow> meta_db" where
  "put_row s a d = d\<lparr>db_accounts := insert_or_replace (Hex a) (account_row_of (srv_vm s) a) (db_accounts d)\<rparr>"

locale db_write_relation =
  fixes R :: "server \<Rightarrow> server \<Rightarrow> bool"
  assumes refl: "R s s"
    and trans: "R s1 s2 \<Longrightarrow> R s2 s3 \<Longrightarrow> R s1 s3"
    and db: "db_accounts d = db_accounts (srv_db s) \<Longrightarrow> R s (s\<lparr>srv_faults := fs, srv_db := d\<rparr>)"
    and row: "R s (s\<lparr>srv_faults := fs, srv_db := put_row s a (srv_db s)\<rparr>)"
begin

lemma faults: "R s (s\<lparr>srv_faults := fs\<rparr>)"
  using db [of "srv_db s" s fs] by simp

lemma call: "R s (snd (db_call s))"
  by (metis db_call_shape faults)

lemma exec:
  assumes "\<And>d. db_accounts (upd d) = db_accounts d"
  shows "R s (snd (db_exec upd s))"
proof -
  obtain out s1 where c: "db_call s = (out, s1)" by fastforce
  then obtain fs where "s1 = s\<lparr>srv_faults := fs\<rparr>" using db_callD by blast
  with c show ?thesis
    using faults [of s fs] db [of "upd (srv_db s)" s fs] assms by (cases out) (auto simp: db_exec_def)
qed

lemma and_then: "R s (snd m) \<Longrightarrow> (\<And>s1. R s1 (snd (f s1))) \<Longrightarrow> R s (snd (and_then m f))"
  by (auto simp: and_then_def split: prod.splits option.splits intro: trans)

lemma wrap: "R s (snd m) \<Longrightarrow> R s (snd (wrap_err p m))"
  by (auto simp: wrap_err_def split: prod.splits option.splits)

lemma persistBalance: "R s (snd (persistBalance a s))"
proof -
  obtain out s1 where c: "db_call s = (out, s1)" by fastforce
  then obtain fs where "s1 = s\<lparr>srv_faults := fs\<rparr>" using db_callD by blast
  with c show ?thesis
    using faults [of s fs] row [where s = s and fs = fs and a = a]
    by (cases out) (auto simp: persistBalance_def put_account_def db_exec_def put_row_def account_row_of_def refl Let_def
        split: option.splits)
qed

lemma persistBalances: "R s (snd (persistBalances as s))"
  by (induction as arbitrary: s) (auto intro: refl and_then persistBalance)

lemma put_meta: "R s (snd (put_meta k v s))"
  by (simp add: put_meta_def exec)

lemma tickOp: "R (s\<lparr>srv_vm := TickOp t1 (srv_vm s)\<rparr>) (snd (tickOp t1 t2 s))"
  unfolding tickOp_def Let_def by (intro and_then put_meta)

lemma insert_storage: "R s (snd (insert_storage a k v s))"
proof -
  obtain out s1 where c: "db_call s = (out, s1)" by fastforce
  then obtain fs where "s1 = s\<lparr>srv_faults := fs\<rparr>" using db_callD by blast
  with c show ?thesis
    using faults [of s fs] db [of "(srv_db s)\<lparr>db_storage := db_storage (srv_db s) @ [(a, k, v)]\<rparr>" s fs]
    by (cases out) (auto simp: insert_storage_def)
qed

lemma flush_fold:
  "R s (snd (fold (\<lambda>(addr, key, value) acc. case acc of (Some e, s2) \<Rightarrow> (Some e, s2)
      | (None, s2) \<Rightarrow> insert_storage addr key value s2) es (out, s)))"
proof (induction es arbitrary: out s)
  case (Cons e es)
  obtain a k v where e: "e = (a, k, v)" by (cases e)
  obtain out' s' where "(case (out, s) of (Some e, s2) \<Rightarrow> (Some e, s2)
      | (None, s2) \<Rightarrow> insert_storage a k v s2) = (out', s')" by fastforce
  moreover from this have "R s s'"
    using insert_storage [of s a k v] by (cases out) (auto simp: refl)
  ultimately show ?case using Cons [of s' out'] by (simp add: e trans)
qed (simp add: refl)

lemma flushStorage: "R s (snd (flushStorage s))"
  unfolding flushStorage_def mem_ForEach_def
  by (auto simp: refl case_prod_unfold split: adapter.splits
      intro!: and_then wrap exec flush_fold [unfolded case_prod_unfold])

lemma insert_events: "R s (snd (insert_events now t c x evts s))"
proof (induction evts arbitrary: s)
  case (Cons e evts)
  have "R s (snd (insert_event now t c x e s))" for s
    by (auto simp: insert_event_def Let_def refl exec split: option.splits intro!: wrap)
  with Cons show ?case by (auto intro: and_then)
qed (simp add: refl)

lemma persistEvents: "R s (snd (persistEvents now t c x attrs evts s))"
  by (simp add: persistEvents_def Let_def insert_events)

lemma put_contracts: "R s (snd (put_contracts cis s))"
  by (induction cis arbitrary: s) (auto intro: refl intro!: and_then exec)

lemma put_instance_count: "R s (snd (put_instance_count s))"
  by (simp add: put_instance_count_def put_meta)

lemma put_code: "R s (snd (put_code h w s))"
  by (simp add: put_code_def exec)

lemma put_code_seq: "R s (snd (put_code_seq q h s))"
  by (auto simp: put_code_seq_def refl exec split: option.splits)

lemma deductGasFee: "R (s\<lparr>srv_vm := snd (DeductGasFee (srv_vm s) a g p)\<rparr>) (snd (deductGasFee a g p s))"
  using persistBalance [of "s\<lparr>srv_vm := snd (DeductGasFee (srv_vm s) a g p)\<rparr>" a]
  by (auto simp: deductGasFee_def refl DeductGasFee_def split: prod.splits option.splits)

lemma fee_step: "R (s\<lparr>srv_vm := snd (DeductGasFee (srv_vm s) a g p)\<rparr>) (snd (fee_step a g p s))"
  using deductGasFee [of s a g p] by (auto simp: fee_step_snd word_gt_0 DeductGasFee_def refl)

definition step_ok :: "tx_step \<Rightarrow> bool" where
  "step_ok f \<longleftrightarrow> (\<forall>s. R s (snd (f s)))"

lemma tx_do_ok: "(\<And>s. R s (snd (f s))) \<Longrightarrow> step_ok (tx_do code label f)"
  by (simp add: step_ok_def)

lemma tx_steps_ok: "list_all step_ok fs \<Longrightarrow> R s (snd (tx_steps fs s))"
proof (induction fs arbitrary: s)
  case (Cons f fs)
  obtain out s1 where f: "f s = (out, s1)" by fastforce
  with Cons.prems have "R s s1" by (simp add: step_ok_def) (metis snd_conv)
  with f Cons show ?case by (cases out) (auto intro: trans)
qed (simp add: refl)

lemma begin_commit: "R s (snd (db_begin s))" "R s (snd (db_commit s))"
  by (simp_all add: db_begin_def db_commit_def exec)

lemmas ok_steps = tx_do_ok persistBalance persistBalances put_meta flushStorage persistEvents put_contracts
  put_instance_count put_code put_code_seq begin_commit

end

end
