(* ===== verification/Node_Outcome.thy ===== *)
theory Node_Outcome
  imports Node_Steps Runtime_Codes
begin

text \<open>
  The shape of a signed request: it is refused, or its VM call fails and the gas is charged, or the call
  succeeds and the transaction of the handler runs. The three handlers are brought into this one shape,
  which the theorems about requests start from.
\<close>

subsection \<open>Signed requests\<close>

fun signed_body :: "http_request \<Rightarrow> signed_request option" where
  "signed_body (StoreReq rq) = Some rq"
| "signed_body (InstantiateReq rq) = Some rq"
| "signed_body (ExecuteReq rq) = Some rq"
| "signed_body _ = None"

text \<open>The field \<^verbatim>\<open>Contract\<close> of a decoded transaction has the type \<^verbatim>\<open>[20]byte\<close>.\<close>

definition typed_rlp :: "crypto_ext \<Rightarrow> bool" where
  "typed_rlp ext \<longleftrightarrow> (\<forall>b tx. ext_rlp_decode ext b = Inr tx \<longrightarrow> is_address (tx_Contract tx))"

lemma parseSignedD:
  assumes "parseSigned ext s rq = Inr (stx, sender)"
  shows "RecoverSender ext stx = Inr sender" "tx_ChainID (stx_Tx stx) = vm_ChainID (srv_vm s)"
    "srv_minGasPrice s \<le> tx_GasPrice (stx_Tx stx)" "is_address sender"
    "\<exists>h b. rq_tx rq = Some h \<and> hex_DecodeString (TrimPrefix h ''0x'') = Inr b \<and> DecodeSignedTx ext b = Inr stx"
  using assms by (auto simp: parseSigned_def not_less split: if_splits sum.splits dest: RecoverSender_address)

lemma DecodeSignedTx_contract: "DecodeSignedTx ext b = Inr stx \<Longrightarrow> typed_rlp ext \<Longrightarrow> is_address (tx_Contract (stx_Tx stx))"
  by (auto simp: DecodeSignedTx_def DecodeTx_def typed_rlp_def Let_def split: if_splits sum.splits)

text \<open>The call of the VM a signed transaction asks for.\<close>

definition vm_call :: "engine \<Rightarrow> nat \<Rightarrow> nitrovm \<Rightarrow> address \<Rightarrow> Transaction \<Rightarrow> bool \<Rightarrow> uint64 \<Rightarrow> nitrovm \<Rightarrow> bool" where
  "vm_call eng qf n sender tx ok g n' \<longleftrightarrow> is_address sender \<and>
     ((tx_Type tx = TxStore \<and> (\<exists>r. StoreCode eng n (tx_Code tx) (Some sender) (Some (tx_Nonce tx)) = (r, g, n')
         \<and> ok = (\<exists>c. r = Inr c)))
      \<or> public_call eng qf n sender (Some (tx_Nonce tx)) ok (tx_GasLimit tx) g n')"

lemma StoreCode_failed: "StoreCode eng n code sender nonce = (Inl e, g, n') \<Longrightarrow> n' = n \<and> g = 0"
  by (auto elim: StoreCodeD)

lemma charge_failed_0 [simp]: "charge_failed a 0 p n s = s\<lparr>srv_vm := vm_Restore (vm_Snapshot (srv_vm s)) n\<rparr>"
  by (simp add: charge_failed_def)

lemma vm_Restore_self [simp]: "vm_Restore (vm_Snapshot n) n = n"
  by (rule vm_snap.Restore_Snapshot) (simp add: same_machine_def)

lemma persistBalances_single: "persistBalance a = persistBalances [a]"
  by (auto simp: fun_eq_iff and_then_def split: prod.splits option.splits)

lemma run_txD:
  assumes "run_tx s0 steps r s = (resp, s')"
  obtains (rolled_back) s1 where "is_WriteErr resp"
      "s' = s1\<lparr>srv_vm := vm_Restore (vm_Snapshot (srv_vm s0)) (srv_vm s1), srv_db := srv_db s0\<rparr>"
      "s1 = snd (tx_steps ([tx_do 500 ''begin tx'' db_begin] @ steps @ [tx_do 500 ''commit'' db_commit]) s)"
  | (committed) "resp = r"
      "tx_steps ([tx_do 500 ''begin tx'' db_begin] @ steps @ [tx_do 500 ''commit'' db_commit]) s = (None, s')"
  using assms by (auto simp: run_tx_def is_WriteErr_def split: prod.splits option.splits)

text \<open>The steps of the three transactions: those before and after the accounts are written.\<close>

definition db_steps :: "tx_step list \<Rightarrow> bool" where
  "db_steps fs \<longleftrightarrow> (\<forall>R. db_write_relation R \<longrightarrow> list_all (db_write_relation.step_ok R) fs)"

lemma db_stepsI: "(\<And>R. db_write_relation R \<Longrightarrow> list_all (db_write_relation.step_ok R) fs) \<Longrightarrow> db_steps fs"
  by (simp add: db_steps_def)

context db_write_relation begin

lemma handler_steps:
  "list_all step_ok [tx_do 500 l1 (put_code h w), tx_do 500 l2 (put_code_seq q h)]"
  "list_all step_ok [tx_do 500 l1 (\<lambda>s1. put_contracts (F s1) s1), tx_do 500 l2 put_instance_count]"
  "list_all step_ok [tx_do 500 l1 (persistEvents now t c x as es), tx_do 500 l2 flushStorage]"
  "list_all step_ok [tx_do 500 l1 (\<lambda>s1. put_contracts (F s1) s1), tx_do 500 l2 put_instance_count,
     tx_do 500 l3 (persistEvents now t c x as es), tx_do 500 l4 flushStorage]"
  "list_all step_ok []"
  by (simp_all add: tx_do_ok persistBalances flushStorage persistEvents put_contracts put_instance_count
      put_code put_code_seq)

end

lemma handler_db_steps:
  "db_steps [tx_do 500 l1 (put_code h w), tx_do 500 l2 (put_code_seq q h)]"
  "db_steps [tx_do 500 l1 (\<lambda>s1. put_contracts (F s1) s1), tx_do 500 l2 put_instance_count]"
  "db_steps [tx_do 500 l1 (persistEvents now t c x as es), tx_do 500 l2 flushStorage]"
  "db_steps [tx_do 500 l1 (\<lambda>s1. put_contracts (F s1) s1), tx_do 500 l2 put_instance_count,
     tx_do 500 l3 (persistEvents now t c x as es), tx_do 500 l4 flushStorage]"
  "db_steps []"
  by (intro db_stepsI, erule db_write_relation.handler_steps)+

text \<open>The whole transaction of a handler, with the accounts it writes.\<close>

definition handler_tx :: "clock \<Rightarrow> address \<Rightarrow> uint64 \<Rightarrow> uint64 \<Rightarrow> tx_step list \<Rightarrow> address list \<Rightarrow> tx_step list
    \<Rightarrow> tx_step list" where
  "handler_tx clk sender g p pre tch post = fee_step sender g p # pre
     @ [tx_do 500 ''persist balance'' (persistBalances tch)] @ post
     @ [tx_do 500 ''tick op'' (tickOp (t_tick clk) (t_block clk))]"

lemma public_call_touches:
  assumes "public_call eng qf n sender (Some k) True gl g n'"
  shows "sender \<in> set (touched n')"
  using tch.public_call_step [OF assms] by (metis increment_nonce_simps(3) insertI1 option.distinct(1))

text \<open>
  The counter of code numbers stays below \<open>2 ^ 63\<close>: the transaction of an upload that would get a higher
  number fails on it.
\<close>

definition seq_ok :: "http_response \<Rightarrow> nitrovm \<Rightarrow> nitrovm \<Rightarrow> bool" where
  "seq_ok resp n n' \<longleftrightarrow> is_WriteErr resp \<or> codeSeq n' = codeSeq n \<or> unat (codeSeq n') < 2 ^ 63"

lemma public_call_seq: "public_call eng qf n sender nonce ok gl g n' \<Longrightarrow> codeSeq n' = codeSeq n"
  by (erule config.public_call_step)
     (auto simp: config_frame_def same_registry_def dest!: arg_cong [of _ _ codeSeq])

lemma put_code_seq_okD: "put_code_seq q h s = (None, s') \<Longrightarrow> unat q < 2 ^ 63"
  by (auto simp: put_code_seq_def sql_uint64_arg_def split: if_splits option.splits)

lemma tx_steps_memberD:
  assumes "tx_steps fs s = (None, s')" "f \<in> set fs"
  obtains s1 s2 where "f s1 = (None, s2)"
  using assms by (induction fs arbitrary: s) (auto split: prod.splits option.splits)

lemma StoreCode_seq:
  assumes "StoreCode eng n code sender nonce = (Inr c, g, n')"
  shows "codeSeq n' = codeSeq n \<or> codeSeq n' = fst (GetCodeSeq n' (hex_EncodeToString c))"
  using assms
  by (cases rule: StoreCodeD)
     (auto simp: register_code_def GetCodeSeq_def Let_def split: option.splits prod.splits)

lemma store_tx_seq:
  assumes "run_tx s steps r s1 = (resp, s')"
    and "tx_do 500 ''persist code seq'' (put_code_seq q h) \<in> set steps" "codeSeq n' = codeSeq n \<or> codeSeq n' = q"
  shows "seq_ok resp n n'"
  using assms(1)
proof (cases rule: run_txD)
  case committed
  from committed(2) obtain s2 s3 where "tx_do 500 ''persist code seq'' (put_code_seq q h) s2 = (None, s3)"
    by (rule tx_steps_memberD [where f = "tx_do 500 ''persist code seq'' (put_code_seq q h)"]) (simp_all add: assms(2))
  then have "unat q < 2 ^ 63" by (auto simp: tx_do_def dest: put_code_seq_okD split: prod.splits option.splits)
  with assms(3) show ?thesis by (auto simp: seq_ok_def)
qed (simp add: seq_ok_def)

lemma handleStore_cases:
  assumes "handleStore eng ext clk rq s = (resp, s')"
  obtains (refused) "is_WriteErr resp" "s' = s"
  | (ran) stx sender g n pre post r where "parseSigned ext s rq = Inr (stx, sender)"
      "vm_call eng qf (srv_vm s) sender (stx_Tx stx) True g n" "db_steps pre" "db_steps post"
      "run_tx s (handler_tx clk sender g (tx_GasPrice (stx_Tx stx)) pre [sender] post) r (s\<lparr>srv_vm := n\<rparr>) = (resp, s')"
      "\<not> is_WriteErr r" "seq_ok resp (srv_vm s) n"
proof (cases "\<exists>stx sender c g n. rq_read_err rq = None \<and> parseSigned ext s rq = Inr (stx, sender)
    \<and> tx_Type (stx_Tx stx) = TxStore
    \<and> StoreCode eng (srv_vm s) (tx_Code (stx_Tx stx)) (Some sender) (Some (tx_Nonce (stx_Tx stx))) = (Inr c, g, n)")
  case True
  then obtain stx sender c g n where p: "rq_read_err rq = None" "parseSigned ext s rq = Inr (stx, sender)"
    "tx_Type (stx_Tx stx) = TxStore"
    "StoreCode eng (srv_vm s) (tx_Code (stx_Tx stx)) (Some sender) (Some (tx_Nonce (stx_Tx stx))) = (Inr c, g, n)"
    by blast
  then have "vm_call eng qf (srv_vm s) sender (stx_Tx stx) True g n"
    using parseSignedD(4) [OF p(2)] by (auto simp: vm_call_def)
  then show thesis
  proof (rule ran [OF p(2) _ handler_db_steps(1,5)])
    let ?h = "hex_EncodeToString c"
    show run: "run_tx s (handler_tx clk sender g (tx_GasPrice (stx_Tx stx))
        [tx_do 500 ''persist code'' (put_code ?h (tx_Code (stx_Tx stx))),
         tx_do 500 ''persist code seq'' (put_code_seq (fst (GetCodeSeq n ?h)) ?h)] [sender] [])
        (StoreResp ?h (fst (GetCodeSeq n ?h)) g (Hex sender) (fee_field g (tx_GasPrice (stx_Tx stx))))
        (s\<lparr>srv_vm := n\<rparr>) = (resp, s')"
      using assms p by (simp add: handleStore_def Let_def handler_tx_def persistBalances_single)
    show "seq_ok resp (srv_vm s) n"
      by (rule store_tx_seq [OF run _ StoreCode_seq [OF p(4)], where h = ?h]) (simp add: handler_tx_def)
  qed (simp add: is_WriteErr_def)
next
  case False
  show thesis
    by (rule refused) (use assms False in \<open>auto simp: handleStore_def is_WriteErr_def Let_def
      dest: StoreCode_failed split: option.splits sum.splits prod.splits if_splits\<close>)
qed


text \<open>
  One shape for the three handlers, as a rule: \<open>refused\<close> before or by a VM call without effect,
  \<open>failed\<close> in the VM, or \<open>ran\<close> with the transaction.
\<close>

definition outcome_failed :: "engine \<Rightarrow> nat \<Rightarrow> crypto_ext \<Rightarrow> signed_request \<Rightarrow> server \<Rightarrow> http_response \<Rightarrow> server \<Rightarrow> bool" where
  "outcome_failed eng qf ext rq s resp s' \<longleftrightarrow> is_WriteErr resp \<and> (\<exists>stx sender g n.
     parseSigned ext s rq = Inr (stx, sender) \<and> vm_call eng qf (srv_vm s) sender (stx_Tx stx) False g n
     \<and> s' = charge_failed sender g (tx_GasPrice (stx_Tx stx)) n s)"

definition outcome_ran :: "engine \<Rightarrow> nat \<Rightarrow> crypto_ext \<Rightarrow> clock \<Rightarrow> signed_request \<Rightarrow> server \<Rightarrow> http_response \<Rightarrow> server \<Rightarrow> bool" where
  "outcome_ran eng qf ext clk rq s resp s' \<longleftrightarrow> (\<exists>stx sender g n ts tch pre post r.
     parseSigned ext s rq = Inr (stx, sender) \<and> vm_call eng qf (srv_vm s) sender (stx_Tx stx) True g n
     \<and> db_steps pre \<and> db_steps post \<and> sender \<in> set tch \<and> set (touched n) \<subseteq> set tch \<union> set ts
     \<and> run_tx s (handler_tx clk sender g (tx_GasPrice (stx_Tx stx)) pre tch post) r
         (s\<lparr>srv_vm := n\<lparr>touched := ts\<rparr>\<rparr>) = (resp, s')
     \<and> \<not> is_WriteErr r \<and> (ts = [] \<or> ts = touched n) \<and> seq_ok resp (srv_vm s) n)"

lemma outcome_ranI:
  assumes "parseSigned ext s rq = Inr (stx, sender)" "vm_call eng qf (srv_vm s) sender (stx_Tx stx) True g n"
    and "db_steps pre" "db_steps post" "sender \<in> set tch" "set (touched n) \<subseteq> set tch \<union> set ts"
    and "run_tx s (handler_tx clk sender g (tx_GasPrice (stx_Tx stx)) pre tch post) r
         (s\<lparr>srv_vm := n\<lparr>touched := ts\<rparr>\<rparr>) = (resp, s')" "\<not> is_WriteErr r"
    and "ts = [] \<or> ts = touched n" "seq_ok resp (srv_vm s) n"
  shows "outcome_ran eng qf ext clk rq s resp s'"
  unfolding outcome_ran_def using assms by blast

lemma handleStore_outcome:
  assumes "handleStore eng ext clk rq s = (resp, s')"
  shows "is_WriteErr resp \<and> s' = s \<or> outcome_ran eng qf ext clk rq s resp s'"
  using assms
proof (cases rule: handleStore_cases [where qf = qf])
  case (ran stx sender g n pre post r)
  then show ?thesis by (intro disjI2 outcome_ranI [where ts = "touched n" and tch = "[sender]" and pre = pre and post = post]) auto
qed simp

lemma handleInstantiate_outcome:
  assumes "handleInstantiate eng qf ext clk rq s = Some (resp, s')"
  shows "is_WriteErr resp \<and> s' = s \<or> outcome_failed eng qf ext rq s resp s' \<or> outcome_ran eng qf ext clk rq s resp s'"
proof (cases "\<exists>stx sender. rq_read_err rq = None \<and> parseSigned ext s rq = Inr (stx, sender)
    \<and> tx_Type (stx_Tx stx) = TxInstantiate")
  case True
  then obtain stx sender where p: "rq_read_err rq = None" "parseSigned ext s rq = Inr (stx, sender)"
    "tx_Type (stx_Tx stx) = TxInstantiate" by blast
  let ?tx = "stx_Tx stx"
  note a = parseSignedD(4) [OF p(2)]
  obtain res g n where i: "Instantiate eng qf (srv_vm s) (tx_CodeID ?tx) sender (tx_Msg ?tx) (tx_Label ?tx)
      (rlpToWasmCoins (tx_Funds ?tx)) (tx_GasLimit ?tx) (Some (tx_Nonce ?tx)) = Some (res, g, n)"
    using assms p by (auto simp: handleInstantiate_def Let_def split: option.splits)
  then have pc: "public_call eng qf (srv_vm s) sender (Some (tx_Nonce ?tx)) (\<exists>r. res = Inr r) (tx_GasLimit ?tx) g n"
    using a unfolding public_call_def by blast
  show ?thesis
  proof (cases res)
    case (Inl e)
    with assms p i pc a show ?thesis
      by (auto simp: handleInstantiate_def Let_def outcome_failed_def vm_call_def is_WriteErr_def)
  next
    case (Inr r)
    then have vc: "vm_call eng qf (srv_vm s) sender ?tx True g n" using pc a by (simp add: vm_call_def)
    have "sender \<in> set (touched n)" using pc Inr by (auto intro: public_call_touches)
    moreover have "seq_ok resp (srv_vm s) n" using public_call_seq [OF pc] by (simp add: seq_ok_def)
    ultimately show ?thesis using outcome_ranI [OF p(2) vc handler_db_steps(2,3), of "touched n" "[]"] assms p i Inr
      by (simp add: handleInstantiate_def Let_def handler_tx_def TouchedAddresses_def is_WriteErr_def)
  qed
qed (use assms in \<open>auto simp: handleInstantiate_def Let_def is_WriteErr_def split: option.splits sum.splits if_splits\<close>)

lemma handleExecute_outcome:
  assumes "typed_rlp ext" "handleExecute eng qf ext clk rq s = Some (resp, s')"
  shows "is_WriteErr resp \<and> s' = s \<or> outcome_failed eng qf ext rq s resp s' \<or> outcome_ran eng qf ext clk rq s resp s'"
proof (cases "\<exists>stx sender. rq_read_err rq = None \<and> parseSigned ext s rq = Inr (stx, sender)
    \<and> tx_Type (stx_Tx stx) = TxExecute")
  case True
  then obtain stx sender where p: "rq_read_err rq = None" "parseSigned ext s rq = Inr (stx, sender)"
    "tx_Type (stx_Tx stx) = TxExecute" by blast
  let ?tx = "stx_Tx stx"
  note a = parseSignedD(4) [OF p(2)]
  have c: "is_address (tx_Contract ?tx)"
    using parseSignedD(5) [OF p(2)] assms(1) by (auto intro: DecodeSignedTx_contract)
  obtain res g n where i: "Execute eng qf (srv_vm s) (tx_Contract ?tx) sender (tx_Msg ?tx)
      (rlpToWasmCoins (tx_Funds ?tx)) (tx_GasLimit ?tx) (Some (tx_Nonce ?tx)) = Some (res, g, n)"
    using assms p by (auto simp: handleExecute_def Let_def split: option.splits)
  note pc = public_call_Execute [OF i c a]
  show ?thesis
  proof (cases res)
    case (Inl e)
    with assms p i pc a show ?thesis
      by (auto simp: handleExecute_def Let_def outcome_failed_def vm_call_def is_WriteErr_def)
  next
    case (Inr r)
    then have vc: "vm_call eng qf (srv_vm s) sender ?tx True g n" using pc a by (simp add: vm_call_def)
    have "sender \<in> set (touched n)" using pc Inr by (auto intro: public_call_touches)
    moreover have "seq_ok resp (srv_vm s) n" using public_call_seq [OF pc] by (simp add: seq_ok_def)
    ultimately show ?thesis using outcome_ranI [OF p(2) vc handler_db_steps(5,4), of "touched n" "[]"] assms p i Inr
      by (simp add: handleExecute_def Let_def handler_tx_def TouchedAddresses_def is_WriteErr_def)
  qed
qed (use assms in \<open>auto simp: handleExecute_def Let_def is_WriteErr_def split: option.splits sum.splits if_splits\<close>)

lemma signed_outcome:
  assumes "typed_rlp ext" "signed_body req = Some rq" "serve eng qf ext clk req s = Some (resp, s')"
  obtains (refused) "is_WriteErr resp" "s' = s"
  | (failed) "outcome_failed eng qf ext rq s resp s'"
  | (ran) "outcome_ran eng qf ext clk rq s resp s'"
proof -
  have "handleStore eng ext clk rq s = (resp, s')
    \<or> handleInstantiate eng qf ext clk rq s = Some (resp, s')
    \<or> handleExecute eng qf ext clk rq s = Some (resp, s')"
    using assms(2,3) by (cases req) (auto simp: serve_def server_Handler_def)
  with handleStore_outcome handleInstantiate_outcome handleExecute_outcome [OF assms(1)] that show thesis by metis
qed

subsection \<open>What the transaction does\<close>

text \<open>
  The three relations the theorems need: a persistence step leaves the VM alone; no step of a handler's
  transaction touches the contract storage or the configuration; and a row of the table of accounts that
  agrees with the VM stays so.
\<close>

definition same_vm :: "server \<Rightarrow> server \<Rightarrow> bool" where
  "same_vm s t \<longleftrightarrow> srv_vm t = srv_vm s"

definition same_setup :: "server \<Rightarrow> server \<Rightarrow> bool" where
  "same_setup s t \<longleftrightarrow> storage (srv_vm t) = storage (srv_vm s) \<and> chainID (srv_vm t) = chainID (srv_vm s)
     \<and> srv_network t = srv_network s \<and> srv_minGasPrice t = srv_minGasPrice s"

definition row_matches :: "server \<Rightarrow> address \<Rightarrow> bool" where
  "row_matches s a \<longleftrightarrow> (case map_of (db_accounts (srv_db s)) (Hex a) of
       Some r \<Rightarrow> r = account_row_of (srv_vm s) a
     | None \<Rightarrow> balance_of (srv_vm s) a = 0 \<and> GetNonce (srv_vm s) a = 0)"

definition keeps_rows :: "server \<Rightarrow> server \<Rightarrow> bool" where
  "keeps_rows s t \<longleftrightarrow> srv_vm t = srv_vm s \<and> (\<forall>a. row_matches s a \<longrightarrow> row_matches t a)"

lemma map_of_insert_or_replace [simp]:
  "map_of (insert_or_replace k v rows) k' = (if k' = k then Some v else map_of rows k')"
proof (cases "k' = k")
  case True
  have "map_of (filter (\<lambda>(k', _). k' \<noteq> k) rows) k = None"
    by (auto simp: map_of_eq_None_iff)
  with True show ?thesis by (simp add: insert_or_replace_def map_add_def)
next
  case False
  then have "map_of (filter (\<lambda>(k', _). k' \<noteq> k) rows) k' = map_of rows k'"
    by (induction rows) auto
  with False show ?thesis by (simp add: insert_or_replace_def map_add_def split: option.splits)
qed

lemma row_matches_put [simp]:
  "row_matches (s\<lparr>srv_faults := fs, srv_db := put_row s b (srv_db s)\<rparr>) a \<longleftrightarrow> a = b \<or> row_matches s a"
  by (auto simp: row_matches_def put_row_def account_row_of_def split: option.splits)

interpretation vmk: db_write_relation same_vm
  by unfold_locales (auto simp: same_vm_def)

interpretation stp: db_write_relation same_setup
  by unfold_locales (auto simp: same_setup_def)

interpretation rows: db_write_relation keeps_rows
proof (unfold_locales, goal_cases)
  case (3 d s fs)
  then show ?case by (auto simp: keeps_rows_def row_matches_def split: option.splits)
qed (auto simp: keeps_rows_def)

lemma db_stepsD: "db_steps fs \<Longrightarrow> list_all vmk.step_ok fs" "db_steps fs \<Longrightarrow> list_all stp.step_ok fs"
  "db_steps fs \<Longrightarrow> list_all rows.step_ok fs"
  by (simp_all add: db_steps_def vmk.db_write_relation_axioms stp.db_write_relation_axioms rows.db_write_relation_axioms)

lemma DeductGasFee_rest: "same_rest n (snd (DeductGasFee n a g p))"
  by (simp add: DeductGasFee_cases getOrCreate_rest assign_balance_rest)

lemma handler_tx_setup:
  assumes "db_steps pre" "db_steps post"
  shows "list_all stp.step_ok ([tx_do 500 l1 db_begin] @ handler_tx clk a g p pre tch post @ [tx_do 500 l2 db_commit])"
proof -
  have "same_setup s (s\<lparr>srv_vm := TickOp t (srv_vm s)\<rparr>)" for s t
    by (simp add: same_setup_def TickOp_def)
  then have "stp.step_ok (tx_do 500 l (tickOp t1 t2))" for l t1 t2
    by (intro stp.tx_do_ok) (blast intro: stp.trans stp.tickOp)
  moreover have "same_setup s (s\<lparr>srv_vm := snd (DeductGasFee (srv_vm s) a g p)\<rparr>)" for s
    using DeductGasFee_rest [of "srv_vm s" a g p] by (simp add: same_setup_def same_rest_def same_registry_def)
  then have "stp.step_ok (fee_step a g p)"
    unfolding stp.step_ok_def by (blast intro: stp.trans stp.fee_step)
  ultimately show ?thesis
    using assms by (simp add: handler_tx_def db_stepsD stp.begin_commit stp.persistBalances stp.tx_do_ok)
qed

lemma tx_steps_appendD:
  assumes "tx_steps (fs @ gs) s = (None, s')"
  obtains s1 where "tx_steps fs s = (None, s1)" "tx_steps gs s1 = (None, s')"
  using assms by (auto simp: tx_steps_append split: prod.splits option.splits)

lemma fee_step_okD:
  assumes "fee_step a g p s = (None, s1)"
  shows "DeductGasFee (srv_vm s) a g p = (None, srv_vm s1)" "row_matches s b \<Longrightarrow> row_matches s1 b"
proof -
  define m where "m = snd (DeductGasFee (srv_vm s) a g p)"
  have k: "keeps_rows (s\<lparr>srv_vm := m\<rparr>) s1" using rows.fee_step [of s a g p] assms by (simp add: m_def)
  have none: "fst (DeductGasFee (srv_vm s) a g p) = None"
    using assms by (auto simp: fee_step_def deductGasFee_def DeductGasFee_def word_gt_0 split: if_splits prod.splits option.splits sum.splits)
  then show d: "DeductGasFee (srv_vm s) a g p = (None, srv_vm s1)"
    using k by (simp add: keeps_rows_def m_def prod_eq_iff)
  assume b: "row_matches s b"
  show "row_matches s1 b"
  proof (cases "p = 0")
    case True
    then show ?thesis using assms b by (simp add: fee_step_def)
  next
    case False
    from assms False obtain s2 where "persistBalance a (s\<lparr>srv_vm := m\<rparr>) = (None, s1)"
      by (auto simp: fee_step_def deductGasFee_def m_def word_gt_0 split: prod.splits option.splits sum.splits)
    then obtain fs where s1: "s1 = (s\<lparr>srv_vm := m\<rparr>)\<lparr>srv_faults := fs, srv_db := put_row (s\<lparr>srv_vm := m\<rparr>) a (srv_db s)\<rparr>"
      by (auto simp: persistBalance_def put_account_def db_exec_def put_row_def account_row_of_def Let_def
          split: option.splits prod.splits dest!: db_callD)
    show ?thesis
    proof (cases "b = a")
      case False
      then have "GetBalance m b = GetBalance (srv_vm s) b" "GetNonce m b = GetNonce (srv_vm s) b"
        by (simp_all add: m_def DeductGasFee_cases)
      then have "row_matches (s\<lparr>srv_vm := m\<rparr>) b"
        using b by (simp add: row_matches_def account_row_of_def balance_of_def split: option.splits)
      then show ?thesis using row_matches_put [where s = "s\<lparr>srv_vm := m\<rparr>" and fs = fs and b = a and a = b] by (simp add: s1)
    qed (use row_matches_put [where s = "s\<lparr>srv_vm := m\<rparr>" and fs = fs and b = a and a = b] in \<open>simp add: s1\<close>)
  qed
qed

lemma persistBalances_okD:
  "persistBalances as s = (None, s') \<Longrightarrow> b \<in> set as \<or> row_matches s b \<Longrightarrow> row_matches s' b"
proof (induction as arbitrary: s)
  case (Cons a as)
  from Cons.prems(1) obtain s1 where p: "persistBalance a s = (None, s1)" "persistBalances as s1 = (None, s')"
    by (auto simp: and_then_def split: prod.splits option.splits)
  from p(1) obtain fs where "s1 = s\<lparr>srv_faults := fs, srv_db := put_row s a (srv_db s)\<rparr>"
    by (auto simp: persistBalance_def put_account_def db_exec_def put_row_def account_row_of_def Let_def
        split: option.splits prod.splits dest!: db_callD)
  with Cons.prems(2) Cons.IH [OF p(2)] show ?case by auto
qed simp

lemma tx_do_None: "tx_do code label f s = (None, s') \<longleftrightarrow> f s = (None, s')"
  by (auto simp: tx_do_def split: prod.splits option.splits)

lemma row_matches_TickOp [simp]: "row_matches (s\<lparr>srv_vm := TickOp t n\<rparr>) a \<longleftrightarrow> row_matches (s\<lparr>srv_vm := n\<rparr>) a"
  by (simp add: row_matches_def account_row_of_def balance_of_def GetBalance_def GetNonce_def TickOp_def
      split: option.splits)

text \<open>A committed transaction: the fee is paid, the counter ticked, and every account in the list written.\<close>

lemma handler_tx_committed:
  assumes run: "tx_steps ([tx_do 500 ''begin tx'' db_begin] @ handler_tx clk a g p pre tch post @ [tx_do 500 ''commit'' db_commit]) s = (None, s')"
    and steps: "db_steps pre" "db_steps post"
  obtains m where "DeductGasFee (srv_vm s) a g p = (None, m)" "srv_vm s' = TickOp (t_tick clk) m"
    "\<And>b. b \<in> set tch \<or> row_matches s b \<Longrightarrow> row_matches s' b"
proof -
  have keep: "keeps_rows s1 s2" if "tx_steps fs s1 = (None, s2)" "db_steps fs" for fs s1 s2
    using rows.tx_steps_ok [OF db_stepsD(3), of fs s1] that by simp
  from run obtain s1 where 1: "tx_steps [tx_do 500 ''begin tx'' db_begin] s = (None, s1)"
    "tx_steps (handler_tx clk a g p pre tch post @ [tx_do 500 ''commit'' db_commit]) s1 = (None, s')"
    by (rule tx_steps_appendD)
  from 1(2) obtain s2 where 2: "fee_step a g p s1 = (None, s2)"
    "tx_steps (pre @ [tx_do 500 ''persist balance'' (persistBalances tch)] @ post
       @ [tx_do 500 ''tick op'' (tickOp (t_tick clk) (t_block clk))] @ [tx_do 500 ''commit'' db_commit]) s2 = (None, s')"
    by (auto simp: handler_tx_def split: prod.splits option.splits)
  from 2(2) obtain s3 s4 s5 s6 where 3: "tx_steps pre s2 = (None, s3)"
    "tx_steps [tx_do 500 ''persist balance'' (persistBalances tch)] s3 = (None, s4)"
    "tx_steps post s4 = (None, s5)"
    "tx_steps [tx_do 500 ''tick op'' (tickOp (t_tick clk) (t_block clk))] s5 = (None, s6)"
    "tx_steps [tx_do 500 ''commit'' db_commit] s6 = (None, s')"
    by (elim tx_steps_appendD)
  have begin_commit: "db_steps [tx_do 500 l db_begin]" "db_steps [tx_do 500 l db_commit]" for l
    by (auto simp: db_steps_def intro: db_write_relation.tx_do_ok db_write_relation.begin_commit)
  have tick: "tickOp (t_tick clk) (t_block clk) s5 = (None, s6)" and bal: "persistBalances tch s3 = (None, s4)"
    using 3 by (auto simp: tx_do_None split: prod.splits option.splits)
  have k: "keeps_rows s s1" "keeps_rows s2 s3" "keeps_rows s3 s4" "keeps_rows s4 s5"
    "keeps_rows (s5\<lparr>srv_vm := TickOp (t_tick clk) (srv_vm s5)\<rparr>) s6" "keeps_rows s6 s'"
    using keep [OF 1(1) begin_commit(1)] keep [OF 3(1) steps(1)] keep [OF 3(3) steps(2)] keep [OF 3(5) begin_commit(2)]
      rows.persistBalances [of s3 tch] rows.tickOp [where s = s5 and ?t1.0 = "t_tick clk" and ?t2.0 = "t_block clk"] bal tick by simp_all
  then have vm: "srv_vm s' = TickOp (t_tick clk) (srv_vm s2)" "srv_vm s1 = srv_vm s"
    by (simp_all add: keeps_rows_def)
  have fee: "DeductGasFee (srv_vm s) a g p = (None, srv_vm s2)" using fee_step_okD(1) [OF 2(1)] vm by simp
  moreover have "row_matches s' b" if "b \<in> set tch \<or> row_matches s b" for b
  proof -
    have "row_matches s2 b" if "row_matches s b" using that k(1) fee_step_okD(2) [OF 2(1)] by (simp add: keeps_rows_def)
    with that have "b \<in> set tch \<or> row_matches s3 b" using k(2) by (auto simp: keeps_rows_def)
    then have "row_matches s5 b" using persistBalances_okD [OF bal] k(4) by (simp add: keeps_rows_def)
    then show ?thesis using k(5,6) row_matches_TickOp [where s = s5 and t = "t_tick clk" and n = "srv_vm s5" and a = b] by (simp add: keeps_rows_def)
  qed
  ultimately show thesis using vm(1) by (intro that)
qed

end
