(* ===== verification/Node_Theorems.thy ===== *)
theory Node_Theorems
  imports Node_Outcome
begin

text \<open>
  The theorems about requests to the node: what a failed one leaves behind, what a successful one has
  done, and the invariants of the server over any sequence of requests and database failures.
\<close>

subsection \<open>The VM call of a signed request\<close>

lemma vm_call_cases:
  assumes "vm_call eng qf n sender tx ok g n'"
  obtains (contract) "public_call eng qf n sender (Some (tx_Nonce tx)) ok (tx_GasLimit tx) g n'"
  | (not_stored) "\<not> ok" "n' = n" "g = 0"
  | (stored) ck where "ok" "n' = increment_nonce (register_code n ck) sender" "tx_Nonce tx = GetNonce n sender"
  using assms unfolding vm_call_def
  by (auto simp: StoreCode_def Let_def validateNonce_None_iff split: if_splits option.splits sum.splits prod.splits)

lemma register_code_ledger [simp]:
  "GetBalance (register_code n ck) a = GetBalance n a" "GetNonce (register_code n ck) a = GetNonce n a"
  "total_supply (register_code n ck) = total_supply n" "touched (register_code n ck) = touched n"
  "storage (register_code n ck) = storage n" "chainID (register_code n ck) = chainID n"
  "blockHeight (register_code n ck) = blockHeight n" "contracts (register_code n ck) = contracts n"
  by (simp_all add: register_code_def GetBalance_def GetNonce_def total_supply_def Let_def split: option.splits)

lemma vm_call_ledger:
  assumes "vm_call eng qf n sender tx ok g n'"
  shows "total_supply n' = total_supply n" "ok \<Longrightarrow> tx_Nonce tx = GetNonce n sender"
    "GetNonce n' a = (if a = sender \<and> ok then GetNonce n a + 1 else GetNonce n a)"
  using assms
proof (atomize (full), cases rule: vm_call_cases)
  case contract
  then obtain n1 where "ledger_frame n n1" "n' = (if ok \<and> Some (tx_Nonce tx) \<noteq> None then increment_nonce n1 sender else n1)"
    "ok \<longrightarrow> validateNonce n sender (Some (tx_Nonce tx)) = None"
    by (rule ledger.public_call_step)
  then show "total_supply n' = total_supply n \<and> (ok \<longrightarrow> tx_Nonce tx = GetNonce n sender) \<and>
      GetNonce n' a = (if a = sender \<and> ok then GetNonce n a + 1 else GetNonce n a)"
    by (auto simp: ledger_frame_def validateNonce_None_iff)
qed simp_all

lemma vm_call_setup:
  assumes "vm_call eng qf n sender tx ok g n'"
  shows "chainID n' = chainID n" "is_memory (storage n') = is_memory (storage n)" "blockHeight n' = blockHeight n"
  using assms
proof (atomize (full), cases rule: vm_call_cases)
  case contract
  then obtain n1 where "config_frame n n1" "n' = (if ok \<and> Some (tx_Nonce tx) \<noteq> None then increment_nonce n1 sender else n1)"
    by (rule config.public_call_step)
  then show "chainID n' = chainID n \<and> is_memory (storage n') = is_memory (storage n) \<and> blockHeight n' = blockHeight n"
    using increment_nonce_rest [of n1 sender] by (auto simp: config_frame_def same_rest_def same_registry_def)
next
  case (stored ck)
  then show "chainID n' = chainID n \<and> is_memory (storage n') = is_memory (storage n) \<and> blockHeight n' = blockHeight n"
    using increment_nonce_rest [of "register_code n ck" sender] by (auto simp: same_rest_def same_registry_def)
qed simp

lemma vm_call_touched:
  assumes "vm_call eng qf n sender tx ok g n'"
  shows "touched_frame n n'"
  using assms
proof (cases rule: vm_call_cases)
  case contract
  then obtain n1 where "touched_frame n n1" "n' = (if ok \<and> Some (tx_Nonce tx) \<noteq> None then increment_nonce n1 sender else n1)"
    by (rule tch.public_call_step)
  then show ?thesis by (auto simp: touched_frame_def balance_of_def)
qed (auto simp: touched_frame_def balance_of_def)

lemma vm_call_rollback:
  assumes "vm_call eng qf n sender tx ok g n'" "is_memory (storage n)"
  shows "vm_Restore (vm_Snapshot n) n' = n"
  by (rule vm_snap.Restore_Snapshot) (use assms vm_call_setup [OF assms(1)] in \<open>simp add: same_machine_def\<close>)

lemma vm_Restore_cong:
  "storage t = storage t' \<Longrightarrow> chainID t = chainID t' \<Longrightarrow> vm_Restore (vm_Snapshot s) t = vm_Restore (vm_Snapshot s) t'"
  by (intro nitrovm.equality) simp_all

text \<open>What is left by the two ways to fail after the VM call, and by success.\<close>

lemma charge_failed_vm:
  "srv_vm (charge_failed a g p n s) = (let m = vm_Restore (vm_Snapshot (srv_vm s)) n in
     if p > 0 \<and> g > 0 then snd (DeductGasFee m a g p) else m)"
proof -
  have "srv_vm (snd (persistBalance a t)) = srv_vm t" for t
    using vmk.persistBalance [of t a] by (simp add: same_vm_def)
  then show ?thesis by (simp add: charge_failed_def Let_def split: prod.splits option.splits)
qed

lemma charge_failed_db:
  "srv_db (charge_failed a g p n s) = srv_db s
   \<or> srv_db (charge_failed a g p n s) = put_row (charge_failed a g p n s) a (srv_db s)"
proof -
  have "srv_db (snd (persistBalance a t)) = srv_db t
      \<or> srv_db (snd (persistBalance a t)) = put_row (snd (persistBalance a t)) a (srv_db t)" for t
    by (auto simp: persistBalance_def put_account_def db_exec_def put_row_def account_row_of_def Let_def
        split: option.splits prod.splits dest!: db_callD)
  from this [of "s\<lparr>srv_vm := snd (DeductGasFee (vm_Restore (vm_Snapshot (srv_vm s)) n) a g p)\<rparr>"] show ?thesis
    by (cases "DeductGasFee (vm_Restore (vm_Snapshot (srv_vm s)) n) a g p")
       (auto simp: charge_failed_def Let_def split: option.splits)
qed

lemma ran_cases:
  assumes "outcome_ran eng qf ext clk rq s resp s'"
  obtains (rolled_back) stx sender g n where "is_WriteErr resp" "parseSigned ext s rq = Inr (stx, sender)"
      "vm_call eng qf (srv_vm s) sender (stx_Tx stx) True g n"
      "srv_vm s' = vm_Restore (vm_Snapshot (srv_vm s)) n" "srv_db s' = srv_db s"
  | (committed) stx sender g n ts tch m where "\<not> is_WriteErr resp" "parseSigned ext s rq = Inr (stx, sender)"
      "vm_call eng qf (srv_vm s) sender (stx_Tx stx) True g n"
      "sender \<in> set tch" "set (touched n) \<subseteq> set tch \<union> set ts"
      "ts = [] \<or> ts = touched n" "seq_ok resp (srv_vm s) n"
      "DeductGasFee (n\<lparr>touched := ts\<rparr>) sender g (tx_GasPrice (stx_Tx stx)) = (None, m)"
      "srv_vm s' = TickOp (t_tick clk) m"
      "\<And>b. b \<in> set tch \<or> row_matches (s\<lparr>srv_vm := n\<lparr>touched := ts\<rparr>\<rparr>) b \<Longrightarrow> row_matches s' b"
proof -
  from assms obtain stx sender g n ts tch pre post r where o: "parseSigned ext s rq = Inr (stx, sender)"
    "vm_call eng qf (srv_vm s) sender (stx_Tx stx) True g n" "db_steps pre" "db_steps post"
    "sender \<in> set tch" "set (touched n) \<subseteq> set tch \<union> set ts" "\<not> is_WriteErr r"
    "ts = [] \<or> ts = touched n" "seq_ok resp (srv_vm s) n"
    and run: "run_tx s (handler_tx clk sender g (tx_GasPrice (stx_Tx stx)) pre tch post) r
         (s\<lparr>srv_vm := n\<lparr>touched := ts\<rparr>\<rparr>) = (resp, s')"
    unfolding outcome_ran_def by blast
  from run show thesis
  proof (cases rule: run_txD)
    case (rolled_back s1)
    from stp.tx_steps_ok [OF handler_tx_setup [OF o(3,4)]]
    have "same_setup (s\<lparr>srv_vm := n\<lparr>touched := ts\<rparr>\<rparr>) s1" unfolding rolled_back(3) by blast
    then have "vm_Restore (vm_Snapshot (srv_vm s)) (srv_vm s1) = vm_Restore (vm_Snapshot (srv_vm s)) n"
      by (intro vm_Restore_cong) (simp_all add: same_setup_def)
    with rolled_back o show thesis by (intro that(1)) auto
  next
    case committed
    from committed(2) o(3,4) show thesis
      by (rule handler_tx_committed) (use committed(1) o in \<open>auto intro: that(2)\<close>)
  qed
qed

subsection \<open>A concrete node\<close>

text \<open>
  The VM and contract of \<open>Runtime_Demo\<close> behind a server with an empty database and scripted outcomes of
  the database calls, and a signed request to execute the contract from the all-zero address.
\<close>

definition demo_request :: http_request where
  "demo_request = ExecuteReq \<lparr>rq_read_err = None, rq_tx = Some (hex_EncodeToString (replicate 73 0))\<rparr>"

definition demo_db :: meta_db where
  "demo_db = \<lparr>db_codes = [], db_code_seqs = [], db_contracts = [],
     db_accounts = [(Hex demo_contract, \<lparr>ar_balance = ''5'', ar_nonce = 0\<rparr>)], db_meta = [], db_events = [],
     db_storage = []\<rparr>"

definition demo_server :: "string option list \<Rightarrow> server" where
  "demo_server fs = \<lparr>srv_vm = demo_vm, srv_db = demo_db, srv_network = Devnet, srv_minGasPrice = 0, srv_faults = fs\<rparr>"

definition demo_clock :: clock where
  "demo_clock = \<lparr>t_tick = 7, t_block = 7, t_unix = 7\<rparr>"

definition demo_serve :: "string option list \<Rightarrow> (http_response \<times> server) option" where
  "demo_serve fs = serve demo_engine 2 toy_crypto demo_clock demo_request (demo_server fs)"

lemma toy_typed_rlp: "typed_rlp toy_crypto"
  by (auto simp: typed_rlp_def toy_crypto_def toy_tx_def Let_def is_address_def split: if_splits)

lemma demo_server_simps [simp]:
  "srv_vm (demo_server fs) = demo_vm" "srv_db (demo_server fs) = demo_db" "is_memory (storage demo_vm)"
  "signed_body demo_request = Some \<lparr>rq_read_err = None, rq_tx = Some (hex_EncodeToString (replicate 73 0))\<rparr>"
  by (simp_all add: demo_server_def demo_vm_def demo_request_def is_memory_def)

definition served :: "(http_response \<times> server) option \<Rightarrow> (bool \<times> account_row option) option" where
  "served r = map_option (\<lambda>(resp, s). (is_WriteErr resp, map_of (db_accounts (srv_db s)) (Hex demo_user))) r"

lemma servedD:
  assumes "served r = Some (e, x)"
  obtains resp s where "r = Some (resp, s)" "is_WriteErr resp = e" "map_of (db_accounts (srv_db s)) (Hex demo_user) = x"
  using assms by (auto simp: served_def)

text \<open>The request succeeds on a working database, and is rolled back when the commit fails.\<close>

lemma demo_serve_ok: "served (demo_serve []) = Some (False, Some \<lparr>ar_balance = ''3'', ar_nonce = 0\<rparr>)"
  by code_simp

lemma demo_serve_fails: "served (demo_serve (replicate 10 None @ [Some ''disk full''])) = Some (True, None)"
  by code_simp

subsection \<open>Failure\<close>

text \<open>
  C2. A signed request that is answered with an error has no effect on the VM or on the database, with the
  in-memory storage, whether the VM call fails or any later write of the transaction, the commit
  included; except that the gas a failed VM call used is charged to the sender, in the VM and in the
  sender's row, where it is written if the database takes it. No nonce and no contract storage changes.
\<close>

theorem failed_request_atomic:
  assumes "typed_rlp ext" "is_memory (storage (srv_vm s))" "signed_body req = Some rq"
    and "serve eng qf ext clk req s = Some (resp, s')" "is_WriteErr resp"
  shows "srv_vm s' = srv_vm s \<and> srv_db s' = srv_db s
    \<or> (\<exists>stx sender g n. parseSigned ext s rq = Inr (stx, sender)
         \<and> vm_call eng qf (srv_vm s) sender (stx_Tx stx) False g n \<and> 0 < g \<and> 0 < tx_GasPrice (stx_Tx stx)
         \<and> srv_vm s' = snd (DeductGasFee (srv_vm s) sender g (tx_GasPrice (stx_Tx stx)))
         \<and> (srv_db s' = srv_db s \<or> srv_db s' = put_row s' sender (srv_db s))
         \<and> (\<forall>a. GetNonce (srv_vm s') a = GetNonce (srv_vm s) a) \<and> storage (srv_vm s') = storage (srv_vm s))"
  using assms(1,3,4)
proof (cases rule: signed_outcome)
  case failed
  then obtain stx sender g n where f: "parseSigned ext s rq = Inr (stx, sender)"
    "vm_call eng qf (srv_vm s) sender (stx_Tx stx) False g n"
    and s': "s' = charge_failed sender g (tx_GasPrice (stx_Tx stx)) n s"
    by (auto simp: outcome_failed_def)
  let ?p = "tx_GasPrice (stx_Tx stx)"
  note rb = vm_call_rollback [OF f(2) assms(2)]
  show ?thesis
  proof (cases "?p > 0 \<and> g > 0")
    case True
    have "GetNonce (snd (DeductGasFee (srv_vm s) sender g ?p)) a = GetNonce (srv_vm s) a" for a
      by (simp add: DeductGasFee_cases)
    moreover have "storage (snd (DeductGasFee (srv_vm s) sender g ?p)) = storage (srv_vm s)"
      using DeductGasFee_rest [of "srv_vm s" sender g ?p] by (simp add: same_rest_def)
    moreover have "srv_vm s' = snd (DeductGasFee (srv_vm s) sender g ?p)"
      using True rb by (simp add: s' charge_failed_vm)
    ultimately show ?thesis using f True charge_failed_db [of sender g ?p n s] unfolding s' [symmetric] by metis
  next
    case False
    with rb show ?thesis by (auto simp: s' charge_failed_def)
  qed
next
  case ran
  then show ?thesis
    by (cases rule: ran_cases) (use assms in \<open>auto dest: vm_call_rollback\<close>)
qed simp

theorem failed_request_atomic_witness:
  "\<exists>resp s'. demo_serve (replicate 10 None @ [Some ''disk full'']) = Some (resp, s') \<and> is_WriteErr resp
     \<and> GetNonce (srv_vm s') (replicate 20 0) = 0"
proof -
  let ?s = "demo_server (replicate 10 None @ [Some ''disk full''])"
  obtain resp s' where r: "demo_serve (replicate 10 None @ [Some ''disk full'']) = Some (resp, s')" "is_WriteErr resp"
    using demo_serve_fails by (rule servedD) simp
  have "GetNonce demo_vm (replicate 20 0) = 0" by code_simp
  then show ?thesis
    using r failed_request_atomic [OF toy_typed_rlp, of ?s demo_request _ demo_engine 2 demo_clock resp s']
    by (auto simp: demo_serve_def)
qed

subsection \<open>Success\<close>

text \<open>
  C3. A signed request that succeeds was signed by the account it acts for, for this chain, at no less than
  the minimal gas price, and with the current nonce of the sender; the VM call succeeded; the nonce of the
  sender and no other went up by one, the operation counter went up by one, and the gas price times the gas
  used was taken from the sender and from the total supply, nothing else.
\<close>

theorem accepted_request:
  assumes "typed_rlp ext" "signed_body req = Some rq"
    and "serve eng qf ext clk req s = Some (resp, s')" "\<not> is_WriteErr resp"
  shows "\<exists>stx sender g n. (\<exists>h b. rq_tx rq = Some h \<and> hex_DecodeString (TrimPrefix h ''0x'') = Inr b
             \<and> DecodeSignedTx ext b = Inr stx) \<and> RecoverSender ext stx = Inr sender
    \<and> tx_ChainID (stx_Tx stx) = vm_ChainID (srv_vm s) \<and> srv_minGasPrice s \<le> tx_GasPrice (stx_Tx stx)
    \<and> tx_Nonce (stx_Tx stx) = GetNonce (srv_vm s) sender
    \<and> vm_call eng qf (srv_vm s) sender (stx_Tx stx) True g n
    \<and> (\<forall>a. GetNonce (srv_vm s') a = GetNonce (srv_vm s) a + (if a = sender then 1 else 0))
    \<and> (\<forall>a. balance_of (srv_vm s') a = balance_of n a
            - (if a = sender then int (unat g) * int (unat (tx_GasPrice (stx_Tx stx))) else 0))
    \<and> total_supply (srv_vm s') = total_supply (srv_vm s) - int (unat g) * int (unat (tx_GasPrice (stx_Tx stx)))
    \<and> GetOpSeq (srv_vm s') = GetOpSeq (srv_vm s) + 1"
  using assms(1-3)
proof (cases rule: signed_outcome)
  case failed
  with assms(4) show ?thesis by (simp add: outcome_failed_def)
next
  case ran
  then show ?thesis
  proof (cases rule: ran_cases)
    case (committed stx sender g n ts tch m)
    let ?p = "tx_GasPrice (stx_Tx stx)" and ?n1 = "n\<lparr>touched := ts\<rparr>"
    note call = vm_call_ledger [OF committed(3)] vm_call_setup [OF committed(3)] parseSignedD [OF committed(2)]
    have n1: "GetNonce ?n1 a = GetNonce n a" "balance_of ?n1 a = balance_of n a"
      "total_supply ?n1 = total_supply n" for a
      by (simp_all add: GetNonce_def balance_of_def GetBalance_def total_supply_def)
    have m: "GetNonce m a = GetNonce n a" "balance_of m a = balance_of n a - (if a = sender then int (unat g) * int (unat ?p) else 0)"
      "total_supply m = total_supply n - int (unat g) * int (unat ?p)" "blockHeight m = blockHeight n" for a
      using committed(8) n1 DeductGasFee_rest [of ?n1 sender g ?p] assign_balance_supply [of ?n1 sender]
      by (auto simp: DeductGasFee_cases balance_of_def same_rest_def same_registry_def split: if_splits)
    have t: "GetNonce (srv_vm s') a = GetNonce m a" "balance_of (srv_vm s') a = balance_of m a"
      "total_supply (srv_vm s') = total_supply m" "GetOpSeq (srv_vm s') = blockHeight m + 1" for a
      by (simp_all add: committed(9) TickOp_def GetNonce_def balance_of_def GetBalance_def total_supply_def GetOpSeq_def)
    show ?thesis
      by (intro exI [of _ stx] exI [of _ sender] exI [of _ g] exI [of _ n] conjI)
         (use call m t committed(3) in \<open>auto simp: GetOpSeq_def\<close>)
  qed (use assms(4) in simp)
qed (use assms(4) in simp)

theorem accepted_request_witness:
  "\<exists>resp s'. demo_serve [] = Some (resp, s') \<and> \<not> is_WriteErr resp \<and> GetOpSeq (srv_vm s') = 2"
proof -
  obtain resp s' where r: "demo_serve [] = Some (resp, s')" "\<not> is_WriteErr resp"
    using demo_serve_ok by (rule servedD) simp
  have "GetOpSeq demo_vm = 1" by code_simp
  then show ?thesis
    using r accepted_request [OF toy_typed_rlp, of demo_request _ demo_engine 2 demo_clock "demo_server []" resp s']
    by (auto simp: demo_serve_def)
qed

end
