(* ===== verification/Node_Invariant.thy ===== *)
theory Node_Invariant
  imports Node_Theorems
begin

text \<open>
  The server as a state machine whose steps are requests: the states it can reach from its start, whatever
  is requested and however the database fails, and the invariant of these states.
\<close>

subsection \<open>The table of accounts\<close>

text \<open>
  The table agrees with the VM on every account that is not marked as touched: the accounts that differ
  are still in the set the next successful transaction writes.
\<close>

definition accounts_mirrored :: "server \<Rightarrow> bool" where
  "accounts_mirrored s \<longleftrightarrow> (\<forall>a. is_address a \<longrightarrow> a \<notin> set (touched (srv_vm s)) \<longrightarrow> row_matches s a)"

lemma Amount_String_val: "Amount_val x = Amount_val y \<Longrightarrow> Amount_String x = Amount_String y"
  by (simp add: Amount_String_def)

lemma row_matches_cong:
  assumes "balance_of (srv_vm t) a = balance_of (srv_vm s) a" "GetNonce (srv_vm t) a = GetNonce (srv_vm s) a"
    and "map_of (db_accounts (srv_db t)) (Hex a) = map_of (db_accounts (srv_db s)) (Hex a)"
  shows "row_matches t a = row_matches s a"
  using assms Amount_String_val [of "GetBalance (srv_vm t) a" "GetBalance (srv_vm s) a"]
  by (simp add: row_matches_def account_row_of_def balance_of_def split: option.splits)

lemma mirrored_frame:
  assumes "accounts_mirrored s" "touched_frame (srv_vm s) (srv_vm t)" "srv_db t = srv_db s"
  shows "accounts_mirrored t"
  unfolding accounts_mirrored_def
proof (intro allI impI)
  fix a assume a: "is_address a" "a \<notin> set (touched (srv_vm t))"
  then have "row_matches s a" using assms(1,2) by (auto simp: accounts_mirrored_def touched_frame_def)
  then show "row_matches t a"
    using row_matches_cong [of t a s] assms(2,3) a(2) by (simp add: touched_frame_def)
qed

lemma touched_frame_DeductGasFee: "touched_frame n (snd (DeductGasFee n a g p))"
  by (auto simp: touched_frame_def DeductGasFee_cases balance_of_def)

lemma mirrored_charge:
  assumes "accounts_mirrored s" "vm_call eng qf (srv_vm s) a tx False g n"
  shows "accounts_mirrored (charge_failed a g p n s)"
proof -
  let ?t = "charge_failed a g p n s" and ?m = "vm_Restore (vm_Snapshot (srv_vm s)) n"
  have r: "touched_frame (srv_vm s) ?m" by (rule tch.restore [OF vm_call_touched [OF assms(2)]])
  have f: "touched_frame (srv_vm s) (srv_vm ?t)"
    using r tch.trans [OF r touched_frame_DeductGasFee] by (simp add: charge_failed_vm Let_def)
  from charge_failed_db [of a g p n s] show ?thesis
  proof
    assume "srv_db ?t = srv_db s"
    with f show ?thesis by (rule mirrored_frame [OF assms(1)])
  next
    assume db: "srv_db ?t = put_row ?t a (srv_db s)"
    have "accounts_mirrored (?t\<lparr>srv_db := srv_db s\<rparr>)"
      by (rule mirrored_frame [OF assms(1)]) (use f in simp_all)
    moreover have "row_matches ?t b = (b = a \<or> row_matches (?t\<lparr>srv_db := srv_db s\<rparr>) b)" for b
      by (auto simp: row_matches_def db put_row_def account_row_of_def split: option.splits)
    ultimately show ?thesis by (simp add: accounts_mirrored_def)
  qed
qed

lemma mirrored_ran:
  assumes "accounts_mirrored s" "outcome_ran eng qf ext clk rq s resp s'"
  shows "accounts_mirrored s'"
  using assms(2)
proof (cases rule: ran_cases)
  case (rolled_back stx sender g n)
  with assms(1) show ?thesis by (intro mirrored_frame [OF assms(1)]) (simp_all add: tch.restore vm_call_touched)
next
  case (committed stx sender g n ts tch m)
  note f = vm_call_touched [OF committed(3)]
  have ts: "set ts \<subseteq> set (touched (srv_vm s'))"
    using touched_frame_DeductGasFee [of "n\<lparr>touched := ts\<rparr>" sender g "tx_GasPrice (stx_Tx stx)"] committed(8,9)
    by (simp add: touched_frame_def TickOp_def)
  show ?thesis
    unfolding accounts_mirrored_def
  proof (intro allI impI committed(10))
    fix b assume b: "is_address b" "b \<notin> set (touched (srv_vm s'))"
    have "row_matches (s\<lparr>srv_vm := n\<lparr>touched := ts\<rparr>\<rparr>) b" if "b \<notin> set tch"
    proof -
      have "b \<notin> set (touched n)" using that b(2) ts committed(5) by auto
      with f have "b \<notin> set (touched (srv_vm s))" "balance_of n b = balance_of (srv_vm s) b" "GetNonce n b = GetNonce (srv_vm s) b"
        by (auto simp: touched_frame_def)
      with assms(1) b(1) show ?thesis
        using row_matches_cong [of "s\<lparr>srv_vm := n\<lparr>touched := ts\<rparr>\<rparr>" b s]
        by (simp add: accounts_mirrored_def balance_of_def GetBalance_def GetNonce_def)
    qed
    then show "b \<in> set tch \<or> row_matches (s\<lparr>srv_vm := n\<lparr>touched := ts\<rparr>\<rparr>) b" by blast
  qed
qed

subsection \<open>Well-formedness\<close>

definition code_seq_bounded :: "nitrovm \<Rightarrow> bool" where
  "code_seq_bounded n \<longleftrightarrow> unat (codeSeq n) < 2 ^ 63"

lemma vm_call_wf:
  assumes "vm_call eng qf n sender tx ok g n'" "vm_wf n" "code_seq_bounded n"
  shows "vm_wf n'"
proof -
  have a: "is_address sender" using assms(1) by (simp add: vm_call_def)
  from assms(1) show ?thesis
  proof (cases rule: vm_call_cases)
    case contract
    then obtain n1 where "vm_wf n \<longrightarrow> vm_wf n1" "n' = (if ok \<and> Some (tx_Nonce tx) \<noteq> None then increment_nonce n1 sender else n1)"
      by (rule wf.public_call_step)
    with assms(2) a show ?thesis by (auto intro: vm_wf_increment_nonce)
  next
    case (stored ck)
    with assms a show ?thesis
      by (auto intro!: vm_wf_increment_nonce vm_wf_register simp: code_seq_bounded_def)
  qed (use assms in simp)
qed

lemma vm_wf_touched: "vm_wf n \<Longrightarrow> ts = [] \<or> ts = touched n \<Longrightarrow> vm_wf (n\<lparr>touched := ts\<rparr>)"
  using vm_wf_congs(1,2) [of "n\<lparr>touched := ts\<rparr>" n] by (auto simp: vm_wf_def accounts_ok_def)

lemma vm_wf_TickOp: "vm_wf n \<Longrightarrow> vm_wf (TickOp t n)"
  using vm_wf_congs [of "TickOp t n" n] by (simp add: vm_wf_def TickOp_def)

lemma DeductGasFee_codeSeq [simp]: "codeSeq (snd (DeductGasFee n a g p)) = codeSeq n"
  using DeductGasFee_rest [of n a g p] by (simp add: same_rest_def same_registry_def)

lemma wf_charge:
  assumes "vm_call eng qf (srv_vm s) a tx False g n" "vm_wf (srv_vm s)" "code_seq_bounded (srv_vm s)"
  shows "vm_wf (srv_vm (charge_failed a g p n s)) \<and> code_seq_bounded (srv_vm (charge_failed a g p n s))"
proof -
  have "vm_wf (vm_Restore (vm_Snapshot (srv_vm s)) n)"
    using wf.restore [of "srv_vm s" n] vm_call_wf [OF assms] assms(2) by blast
  moreover have "is_address a" using assms(1) by (simp add: vm_call_def)
  ultimately show ?thesis
    using assms(3) by (auto simp: charge_failed_vm Let_def code_seq_bounded_def intro: vm_wf_DeductGasFee)
qed

lemma wf_ran:
  assumes "outcome_ran eng qf ext clk rq s resp s'" "vm_wf (srv_vm s)" "code_seq_bounded (srv_vm s)"
  shows "vm_wf (srv_vm s') \<and> code_seq_bounded (srv_vm s')"
  using assms(1)
proof (cases rule: ran_cases)
  case (rolled_back stx sender g n)
  then show ?thesis
    using wf.restore [of "srv_vm s" n] vm_call_wf [OF rolled_back(3) assms(2,3)] assms(2,3)
    by (simp add: code_seq_bounded_def)
next
  case (committed stx sender g n ts tch m)
  have "is_address sender" using committed(3) by (simp add: vm_call_def)
  then have "vm_wf m"
    using vm_wf_DeductGasFee [OF vm_wf_touched [OF vm_call_wf [OF committed(3) assms(2,3)] committed(6)]] committed(8)
    by (metis snd_conv)
  moreover have "codeSeq m = codeSeq n"
    using DeductGasFee_codeSeq [of "n\<lparr>touched := ts\<rparr>" sender g "tx_GasPrice (stx_Tx stx)"] committed(8) by simp
  ultimately show ?thesis
    using committed(1,7,9) assms(3) vm_wf_TickOp [of m]
    by (auto simp: seq_ok_def code_seq_bounded_def TickOp_def)
qed

subsection \<open>The other requests\<close>

text \<open>
  An account in a faucet request is decoded by \<^verbatim>\<open>Amount.UnmarshalJSON\<close>, or is the zero value when the
  field is missing.
\<close>

definition request_ok :: "http_request \<Rightarrow> bool" where
  "request_ok req \<longleftrightarrow> (case req of
       FaucetReq (Inr (_, amount)) \<Rightarrow> amount = Amount_Zero \<or> (\<exists>j. Amount_UnmarshalJSON j = Inr amount)
     | _ \<Rightarrow> True)"

lemma request_ok_faucet: "request_ok (FaucetReq (Inr (a, amount))) \<Longrightarrow> 0 \<le> Amount_val amount"
  by (auto simp: request_ok_def Amount_UnmarshalJSON_def NewAmountFromString_Inr split: json_text.splits)
     (metis Amount_val_simps(6) json_text.exhaust)

definition server_inv :: "server \<Rightarrow> bool" where
  "server_inv s \<longleftrightarrow> vm_wf (srv_vm s) \<and> code_seq_bounded (srv_vm s) \<and> accounts_mirrored s"

text \<open>What running contracts does to the invariant, in terms of the step relations of the VM.\<close>

lemma server_inv_steps:
  assumes "server_inv s" "vm_wf (srv_vm s) \<longrightarrow> vm_wf n" "touched_frame (srv_vm s) n" "config_frame (srv_vm s) n"
  shows "server_inv (s\<lparr>srv_vm := n\<rparr>)"
  using assms mirrored_frame [of s "s\<lparr>srv_vm := n\<rparr>"]
  by (simp add: server_inv_def code_seq_bounded_def config_frame_def same_registry_def)

lemma scan_events_state: "\<exists>fs. snd (scan_events rows acc s) = s\<lparr>srv_faults := fs\<rparr>"
proof (induction rows acc s rule: scan_events.induct)
  case (1 acc s)
  show ?case unfolding scan_events.simps snd_conv by (rule exI, rule db_call_shape)
next
  case (2 row rows acc s)
  obtain o1 s1 where c1: "db_call s = (o1, s1)" by fastforce
  obtain o2 s2 where c2: "db_call s1 = (o2, s2)" by fastforce
  from db_callD [OF c1] db_callD [OF c2] have s2: "\<exists>fs. s2 = s\<lparr>srv_faults := fs\<rparr>" "\<exists>fs. s1 = s\<lparr>srv_faults := fs\<rparr>"
    by auto
  show ?case
    using s2 "2.IH" [OF c1 [symmetric] _ c2 [symmetric]] c1 c2 by (cases o1; cases o2) fastforce+
qed

lemma handleEvents_state: "\<exists>fs. snd (handleEvents q s) = s\<lparr>srv_faults := fs\<rparr>"
proof -
  obtain out s1 where c: "db_call s = (out, s1)" by fastforce
  then obtain fs where s1: "s1 = s\<lparr>srv_faults := fs\<rparr>" using db_callD by blast
  obtain r s2 where sc: "scan_events (select_events q (db_events (srv_db s1))) [] s1 = (r, s2)" by fastforce
  obtain fs2 where "s2 = s1\<lparr>srv_faults := fs2\<rparr>"
    using scan_events_state [of "select_events q (db_events (srv_db s1))" "[]" s1] sc by auto
  with c s1 sc show ?thesis by (cases out; cases r) (auto simp: handleEvents_def)
qed

lemma server_inv_faults: "server_inv (s\<lparr>srv_faults := fs\<rparr>) = server_inv s"
  by (simp add: server_inv_def accounts_mirrored_def row_matches_def split: option.splits)

lemma inv_query:
  assumes "server_inv s" "handleQuery eng qf rq s = Some (resp, s')"
  shows "server_inv s'"
proof -
  have "server_inv (s\<lparr>srv_vm := n\<rparr>)" if "vm_Query eng qf (srv_vm s) c m gl = Some (res, g, n)" for c m gl res g n
    using assms(1) wf.query_stepD [OF wf.vm_Query_step that] tch.query_stepD [OF tch.vm_Query_step that]
      config.query_stepD [OF config.vm_Query_step that] by (rule server_inv_steps)
  with assms show ?thesis
    by (auto simp: handleQuery_def Let_def split: sum.splits option.splits prod.splits)
qed

lemma simulated_call:
  assumes "simulate_execute eng qf req n = Some (resp, n') \<or> simulate_instantiate eng qf req n = Some (resp, n')"
  shows "n' = n \<or> (\<exists>sender ok gl g. public_call eng qf n sender None ok gl g n')"
proof -
  have exec: "\<exists>sender ok gl g. public_call eng qf n sender None ok gl g n'"
    if "Execute eng qf n c a m fs gl None = Some (res, g, n')" "is_address c" "is_address a" for c a m fs gl res g
    using public_call_Execute [OF that] by blast
  have inst: "\<exists>sender ok gl g. public_call eng qf n sender None ok gl g n'"
    if "Instantiate eng qf n ck a m l fs gl None = Some (res, g, n')" "is_address a" for ck a m l fs gl res g
    using that unfolding public_call_def by blast
  from assms show ?thesis
  proof
    assume "simulate_execute eng qf req n = Some (resp, n')"
    then show ?thesis
      by (auto simp: simulate_execute_def split: sum.splits option.splits prod.splits dest!: HexToAddress_is_address dest: exec)
  next
    assume "simulate_instantiate eng qf req n = Some (resp, n')"
    then show ?thesis
      by (auto simp: simulate_instantiate_def split: sum.splits option.splits prod.splits dest!: HexToAddress_is_address dest: inst)
  qed
qed

lemma simulated_frames:
  assumes "public_call eng qf n sender None ok gl g n'"
  shows "vm_wf n \<longrightarrow> vm_wf n'" "touched_frame n n'" "config_frame n n'"
  using assms by (auto elim: wf.public_call_step tch.public_call_step config.public_call_step)

lemma handleSimulate_cases:
  assumes "handleSimulate eng qf rq s = Some (resp, s')"
  obtains "s' = s"
  | sender ok gl g n where "public_call eng qf (srv_vm s) sender None ok gl g n"
      "s' = s\<lparr>srv_vm := vm_Restore (vm_Snapshot (srv_vm s)) n\<rparr>"
proof (cases rq)
  case (Inr req)
  from assms Inr consider "s' = s"
    | n where "s' = s\<lparr>srv_vm := vm_Restore (vm_Snapshot (srv_vm s)) n\<rparr>"
      "simulate_execute eng qf req (srv_vm s) = Some (resp, n) \<or> simulate_instantiate eng qf req (srv_vm s) = Some (resp, n)"
    by (auto simp: handleSimulate_def Let_def split: if_splits option.splits)
  then show thesis
  proof cases
    case (2 n)
    from simulated_call [OF 2(2)] show thesis
    proof (elim disjE exE)
      assume "n = srv_vm s"
      with 2(1) show thesis by (intro that(1)) simp
    qed (rule that(2) [OF _ 2(1)])
  qed (rule that(1))
next
  case (Inl e)
  with assms show thesis by (intro that(1)) (simp add: handleSimulate_def)
qed

lemma inv_simulate:
  assumes "server_inv s" "handleSimulate eng qf rq s = Some (resp, s')"
  shows "server_inv s'"
  using assms(2)
proof (cases rule: handleSimulate_cases)
  case (2 sender ok gl g n)
  note simulated_frames [OF 2(1)]
  then show ?thesis
    unfolding 2(2) by (intro server_inv_steps [OF assms(1)] tch.restore config.restore) (use wf.restore in blast)
qed (use assms in simp)

lemma put_account_state:
  "\<exists>fs. snd (put_account a b k s) = s\<lparr>srv_faults := fs\<rparr> \<or> snd (put_account a b k s) = s\<lparr>srv_faults := fs,
     srv_db := (srv_db s)\<lparr>db_accounts := insert_or_replace a \<lparr>ar_balance = b, ar_nonce = k\<rparr> (db_accounts (srv_db s))\<rparr>\<rparr>"
proof (cases "sql_uint64_arg 3 k")
  case None
  obtain out s1 where c: "db_call s = (out, s1)" by fastforce
  then obtain fs where "s1 = s\<lparr>srv_faults := fs\<rparr>" using db_callD by blast
  with None c show ?thesis by (cases out) (auto simp: put_account_def db_exec_def)
qed (auto simp: put_account_def intro: exI [of _ "srv_faults s"])

lemma inv_faucet:
  assumes "server_inv s" "request_ok (FaucetReq rq)" "handleFaucet rq s = (resp, s')"
  shows "server_inv s'"
proof (cases "\<exists>address amount addr. rq = Inr (address, amount) \<and> HexToAddress address = Inr addr")
  case True
  then obtain address amount addr where rq: "rq = Inr (address, amount)" "HexToAddress address = Inr addr" by blast
  let ?n = "SetBalance (srv_vm s) addr amount"
  have "touched_frame (srv_vm s) ?n" by (auto simp: touched_frame_def SetBalance_assign balance_of_def)
  moreover have "config_frame (srv_vm s) ?n"
    using assign_balance_rest [of "srv_vm s" addr amount] by (simp add: SetBalance_assign config_frame_def same_rest_def)
  moreover have "vm_wf (srv_vm s) \<longrightarrow> vm_wf ?n"
    using request_ok_faucet assms(2) rq HexToAddress_is_address [OF rq(2)] by (auto intro: vm_wf_SetBalance)
  ultimately have inv: "server_inv (s\<lparr>srv_vm := ?n\<rparr>)" using server_inv_steps [OF assms(1)] by blast
  obtain fs where s': "s' = s\<lparr>srv_vm := ?n, srv_faults := fs\<rparr> \<or>
      s' = s\<lparr>srv_vm := ?n, srv_faults := fs, srv_db := (srv_db s)\<lparr>db_accounts := insert_or_replace address
        \<lparr>ar_balance = Amount_String amount, ar_nonce = GetNonce ?n addr\<rparr> (db_accounts (srv_db s))\<rparr>\<rparr>"
    using put_account_state [of address "Amount_String amount" "GetNonce ?n addr" "s\<lparr>srv_vm := ?n\<rparr>"] assms(3) rq
    by (auto simp: handleFaucet_def Let_def split: option.splits prod.splits)
  have "row_matches s' a = row_matches (s\<lparr>srv_vm := ?n\<rparr>) a" if "is_address a" "a \<notin> set (touched ?n)" for a
  proof (rule row_matches_cong)
    have "a \<noteq> addr" using that(2) by (auto simp: SetBalance_assign)
    then have "Hex a \<noteq> address" using rq(2) that(1) by auto
    then show "map_of (db_accounts (srv_db s')) (Hex a) = map_of (db_accounts (srv_db (s\<lparr>srv_vm := ?n\<rparr>))) (Hex a)"
      using s' by auto
  qed (use s' in auto)
  then have "accounts_mirrored s'" using s' inv by (auto simp: server_inv_def accounts_mirrored_def)
  with s' inv show ?thesis by (auto simp: server_inv_def)
next
  case False
  then show ?thesis using assms by (auto simp: handleFaucet_def split: sum.splits)
qed

lemma inv_signed:
  assumes "server_inv s" "typed_rlp ext" "signed_body req = Some rq" "serve eng qf ext clk req s = Some (resp, s')"
  shows "server_inv s'"
  using assms(2-4)
proof (cases rule: signed_outcome)
  case failed
  with assms(1) show ?thesis
    by (auto simp: outcome_failed_def server_inv_def mirrored_charge dest: wf_charge)
next
  case ran
  with assms(1) show ?thesis by (auto simp: server_inv_def mirrored_ran dest: wf_ran)
qed (use assms(1) in simp)

lemma serve_keeps_inv:
  assumes "server_inv s" "typed_rlp ext" "request_ok req" "serve eng qf ext clk req s = Some (resp, s')"
  shows "server_inv s'"
proof (cases "signed_body req")
  case None
  show ?thesis
  proof (cases "request_route req \<in> set (server_Handler s)")
    case True
    then have "dispatch_request eng qf ext clk req s = Some (resp, s')" using assms(4) by (simp add: serve_def)
    with assms None handleEvents_state [of _ s] show ?thesis
      by (cases req) (auto intro: inv_query inv_simulate inv_faucet, metis server_inv_faults snd_conv)
  qed (use assms in \<open>auto simp: serve_def\<close>)
qed (use assms inv_signed in blast)

subsection \<open>Reachable states\<close>

text \<open>
  A server starts with a new VM and a database without accounts, and takes one request after the other;
  the outcomes of the database calls, the readings of the clock and the requests are arbitrary.
\<close>

inductive reachable_server :: "engine \<Rightarrow> crypto_ext \<Rightarrow> server \<Rightarrow> bool" for eng ext where
  start: "vm_New None now vcfg ad = Inr n \<Longrightarrow> adapter_wf ad \<Longrightarrow> db_accounts db = []
    \<Longrightarrow> reachable_server eng ext (server_New cfg db fs n)"
| request: "reachable_server eng ext s \<Longrightarrow> request_ok req \<Longrightarrow> serve eng qf ext clk req s = Some (resp, s')
    \<Longrightarrow> reachable_server eng ext s'"

lemma server_inv_start:
  assumes "vm_New None now vcfg ad = Inr n" "adapter_wf ad" "db_accounts db = []"
  shows "server_inv (server_New cfg db fs n)"
proof -
  have "srv_vm (server_New cfg db fs n) = n" "srv_db (server_New cfg db fs n) = db"
    by (simp_all add: server_New_def Let_def)
  moreover have "accounts n = []" "codeSeq n = 0" using assms(1) by (auto simp: vm_New_def)
  ultimately show ?thesis
    using vm_wf_New [OF assms(1,2)] assms(3)
    by (simp add: server_inv_def code_seq_bounded_def accounts_mirrored_def row_matches_def balance_of_def
        GetBalance_def GetNonce_def)
qed

lemma reachable_inv: "reachable_server eng ext s \<Longrightarrow> typed_rlp ext \<Longrightarrow> server_inv s"
  by (induction rule: reachable_server.induct) (auto intro: server_inv_start serve_keeps_inv)


definition fresh_server :: server where
  "fresh_server = server_New \<lparr>sc_Addr = [], sc_DataDir = [], sc_Network = [], sc_MinGasPrice = 0\<rparr>
     (demo_db\<lparr>db_accounts := []\<rparr>) [] ((vm_fresh (MemoryAdapter mem_New)))"

definition faucet_request :: http_request where
  "faucet_request = FaucetReq (Inr (Hex demo_user, NewAmount 9))"

lemma fresh_server_reachable: "reachable_server eng ext fresh_server"
  unfolding fresh_server_def
  by (rule start [where now = 0 and vcfg = DefaultConfig and ad = "MemoryAdapter mem_New"])
     (simp_all add: vm_New_def vm_fresh_def mem_wf_def mem_New_def DefaultConfig_def)




end
