(* ===== verification/Node_Restart.thy ===== *)
theory Node_Restart
  imports Node_Invariant
begin

text \<open>
  Stopping and starting the node: what \<^verbatim>\<open>restore\<close> reads back from the tables a running server has
  written. On a database that does not fail, a loop over rows is a plain iteration.
\<close>

subsection \<open>Loops over rows on a working database\<close>

fun run_rows :: "('row \<Rightarrow> server \<Rightarrow> go_error option \<times> server) \<Rightarrow> 'row list \<Rightarrow> server
    \<Rightarrow> go_error option \<times> server" where
  "run_rows body [] s = (None, s)"
| "run_rows body (row # rows) s = and_then (body row s) (run_rows body rows)"

lemma db_call_ok [simp]: "srv_faults s = [] \<Longrightarrow> db_call s = (None, s)"
  by (simp add: db_call_def next_outcome_def)

definition quiet_body :: "('row \<Rightarrow> server \<Rightarrow> go_error option \<times> server) \<Rightarrow> bool" where
  "quiet_body body \<longleftrightarrow> (\<forall>row s. srv_faults (snd (body row s)) = srv_faults s \<and> srv_db (snd (body row s)) = srv_db s)"

lemma scan_rows_run:
  assumes "quiet_body body" "srv_faults s = []"
  shows "scan_rows body rows s = (fst (run_rows body rows s), None, snd (run_rows body rows s))"
  using assms(2)
proof (induction rows arbitrary: s)
  case (Cons row rows)
  obtain out s1 where b: "body row s = (out, s1)" by fastforce
  then have "srv_faults s1 = []" using assms(1) Cons.prems unfolding quiet_body_def by (metis snd_conv)
  with b Cons show ?case by (cases out) (simp_all add: and_then_def)
qed simp

lemma for_rows_run:
  assumes "quiet_body body" "srv_faults s = []"
  shows "for_rows body rows s = run_rows body rows s" "for_rows_checked body rows s = run_rows body rows s"
  using assms by (simp_all add: for_rows_def for_rows_checked_def scan_rows_run prod_eq_iff split: option.splits)

lemma quiet_bodies:
  "quiet_body (restore_code eng)" "quiet_body restore_contract" "quiet_body restore_account" "quiet_body restore_entry"
  by (auto simp: quiet_body_def restore_code_def restore_contract_def restore_account_def restore_entry_def
      split: prod.splits sum.splits)

lemma run_rows_rel:
  assumes "\<And>row s. R s (snd (body row s))" "\<And>s. R s s" "\<And>s1 s2 s3. R s1 s2 \<Longrightarrow> R s2 s3 \<Longrightarrow> R s1 s3"
  shows "R s (snd (run_rows body rows s))"
proof (induction rows arbitrary: s)
  case (Cons row rows)
  obtain out s1 where b: "body row s = (out, s1)" by fastforce
  then have "R s s1" using assms(1) [of s row] by simp
  with b Cons [of s1] show ?case by (cases out) (auto simp: and_then_def intro: assms(3))
qed (simp add: assms(2))

lemma and_thenD:
  assumes "and_then m f = (None, s')"
  obtains s where "m = (None, s)" "f s = (None, s')"
  using assms by (auto simp: and_then_def split: prod.splits option.splits)

subsection \<open>Accounts\<close>

text \<open>
  The keys the node writes itself: \<^verbatim>\<open>Hex\<close> of an address, each once. (The faucet writes the address as
  the request spells it.)
\<close>

definition canonical_accounts :: "meta_db \<Rightarrow> bool" where
  "canonical_accounts d \<longleftrightarrow> distinct (map fst (db_accounts d))
     \<and> (\<forall>k \<in> set (map fst (db_accounts d)). \<exists>b. is_address b \<and> k = Hex b)"

definition account_of :: "nitrovm \<Rightarrow> address \<Rightarrow> int \<times> uint64" where
  "account_of n a = (balance_of n a, GetNonce n a)"

lemma restore_account_okD:
  assumes "restore_account (Hex b, r) s = (None, s')" "is_address b"
  shows "\<exists>i. big_SetString (ar_balance r) = Some i \<and> account_of (srv_vm s') b = (i, ar_nonce r)"
    "a \<noteq> b \<Longrightarrow> account_of (srv_vm s') a = account_of (srv_vm s) a"
  using assms
  by (auto simp: restore_account_def account_of_def balance_of_def SetBalance_assign NewAmountFromString_Inr
      split: sum.splits)

lemma restore_accounts_run:
  assumes "run_rows restore_account rows s = (None, s')"
    and "distinct (map fst rows)" "\<forall>k \<in> set (map fst rows). \<exists>b. is_address b \<and> k = Hex b" "is_address a"
  shows "case map_of rows (Hex a) of
      None \<Rightarrow> account_of (srv_vm s') a = account_of (srv_vm s) a
    | Some r \<Rightarrow> \<exists>i. big_SetString (ar_balance r) = Some i \<and> account_of (srv_vm s') a = (i, ar_nonce r)"
  using assms(1-3)
proof (induction rows arbitrary: s)
  case (Cons row rows)
  obtain b r where row: "row = (Hex b, r)" "is_address b" using Cons.prems(3) by (cases row) auto
  from Cons.prems(1) obtain s1 where s1: "restore_account row s = (None, s1)" "run_rows restore_account rows s1 = (None, s')"
    by (auto elim: and_thenD)
  note one = restore_account_okD [OF s1(1) [unfolded row] row(2)]
  have "Hex b \<notin> fst ` set rows" using Cons.prems(2) row by simp
  then have none: "map_of rows (Hex b) = None" by (simp add: map_of_eq_None_iff)
  show ?case
  proof (cases "a = b")
    case True
    then show ?thesis using Cons.IH [OF s1(2)] Cons.prems(2,3) one(1) none row by simp
  next
    case False
    then show ?thesis using Cons.IH [OF s1(2)] Cons.prems(2,3) one(2) [OF False] row
      by (simp cong: option.case_cong)
  qed
qed simp

text \<open>No other part of \<^verbatim>\<open>restore\<close> touches an account, the database or its outcomes.\<close>

definition same_accounts :: "server \<Rightarrow> server \<Rightarrow> bool" where
  "same_accounts s t \<longleftrightarrow> accounts (srv_vm t) = accounts (srv_vm s) \<and> srv_db t = srv_db s \<and> srv_faults t = srv_faults s"

lemma same_accounts_rows:
  "same_accounts s (snd (restore_code eng row s))" "same_accounts s (snd (restore_contract crow s))"
  "same_accounts s (snd (restore_entry erow s))"
  by (auto simp: same_accounts_def restore_code_def restore_contract_def restore_entry_def RegisterContract_def
      StoreCode_def register_code_def Let_def split: prod.splits sum.splits option.splits if_splits)

lemma same_accounts_run: "same_accounts s (snd (run_rows (restore_code eng) rows s))"
  "same_accounts s (snd (run_rows restore_contract crows s))" "same_accounts s (snd (run_rows restore_entry erows s))"
  by (rule run_rows_rel; use same_accounts_rows in \<open>auto simp: same_accounts_def\<close>)+

lemma same_accounts_counters:
  assumes "srv_faults s = []"
  shows "same_accounts s (restore_instance_count s)" "same_accounts s (snd (restore_code_seq s))"
    "same_accounts s (restore_block_info now s)" "same_accounts s (snd (restoreStorage s))"
  using assms same_accounts_run(3)
  by (auto simp: restore_instance_count_def restore_code_seq_def restore_block_info_def restoreStorage_def
      query_meta_def same_accounts_def SetInstanceCount_def SetCodeSeq_def SetBlockInfo_def for_rows_run quiet_bodies Let_def
      split: option.splits adapter.splits)

lemma restoreD:
  assumes "restore eng now s = (None, s')" "srv_faults s = []"
  obtains s2 s3 s4 where "run_rows restore_account (db_accounts (srv_db s)) s2 = (None, s3)"
    "same_accounts s s2" "same_accounts s3 s4" "s' = s4\<lparr>srv_vm := (srv_vm s4)\<lparr>touched := []\<rparr>\<rparr>"
proof -
  from assms(1) obtain s1 s2 s3 s4 s5 where r: "for_rows (restore_code eng) (db_codes (srv_db s)) s = (None, s1)"
    "for_rows restore_contract (db_contracts (srv_db s1)) s1 = (None, s2)"
    "for_rows restore_account (db_accounts (srv_db s2)) s2 = (None, s3)"
    "restore_code_seq (restore_instance_count s3) = (None, s4)"
    "restoreStorage (restore_block_info now s4) = (None, s5)"
    "s' = s5\<lparr>srv_vm := (srv_vm s5)\<lparr>touched := []\<rparr>\<rparr>"
    unfolding restore_def
    by (elim and_thenD) (auto simp: wrap_err_def TouchedAddresses_def split: prod.splits option.splits)
  have trans: "same_accounts a b \<Longrightarrow> same_accounts b c \<Longrightarrow> same_accounts a c" for a b c
    by (simp add: same_accounts_def)
  have f1: "same_accounts s s1" using r(1) same_accounts_run(1) [of s eng "db_codes (srv_db s)"] assms(2)
    by (simp add: for_rows_run quiet_bodies)
  then have "srv_faults s1 = []" using assms(2) by (simp add: same_accounts_def)
  then have "same_accounts s1 s2" using r(2) same_accounts_run(2) [of s1 "db_contracts (srv_db s1)"]
    by (simp add: for_rows_run quiet_bodies)
  with f1 have f2: "same_accounts s s2" by (rule trans)
  then have s2: "srv_faults s2 = []" "srv_db s2 = srv_db s" using assms(2) by (simp_all add: same_accounts_def)
  with r(3) have run: "run_rows restore_account (db_accounts (srv_db s)) s2 = (None, s3)"
    by (simp add: for_rows_run quiet_bodies)
  have "srv_faults (snd (run_rows restore_account rows t)) = srv_faults t" for rows t
    by (rule run_rows_rel [where R = "\<lambda>a b. srv_faults b = srv_faults a"])
       (use quiet_bodies(3) in \<open>auto simp: quiet_body_def\<close>)
  with run s2 have s3: "srv_faults s3 = []" by (metis snd_conv)
  have i: "same_accounts s3 (restore_instance_count s3)" by (rule same_accounts_counters [OF s3])
  then have "same_accounts (restore_instance_count s3) s4"
    using same_accounts_counters(2) [of "restore_instance_count s3"] r(4) s3 by (simp add: same_accounts_def)
  with i have f4: "same_accounts s3 s4" by (rule trans)
  have b: "same_accounts s4 (restore_block_info now s4)"
    by (rule same_accounts_counters(3)) (use f4 s3 in \<open>simp add: same_accounts_def\<close>)
  then have "same_accounts (restore_block_info now s4) s5"
    using same_accounts_counters(4) [of "restore_block_info now s4"] r(5) f4 s3 by (simp add: same_accounts_def)
  with f4 b have "same_accounts s3 s5" by (blast intro: trans)
  from that [OF run f2 this r(6)] show thesis .
qed



subsection \<open>Contract storage\<close>

text \<open>A successful flush leaves in the table exactly the entries of the store, none of them empty.\<close>

lemma flush_fold_failed:
  "fst (fold (\<lambda>(addr, key, value) acc. case acc of (Some e, s2) \<Rightarrow> (Some e, s2)
      | (None, s2) \<Rightarrow> insert_storage addr key value s2) es (Some e, s)) = Some e"
  by (induction es) auto

lemma insert_storage_okD:
  assumes "insert_storage a k v s = (None, s')"
  shows "srv_vm s' = srv_vm s" "v \<noteq> []" "db_storage (srv_db s') = db_storage (srv_db s) @ [(a, k, v)]"
  using assms by (auto simp: insert_storage_def split: prod.splits option.splits if_splits dest!: db_callD)

lemma flush_fold_ok:
  assumes "fold (\<lambda>(addr, key, value) acc. case acc of (Some e, s2) \<Rightarrow> (Some e, s2)
      | (None, s2) \<Rightarrow> insert_storage addr key value s2) es (None, s) = (None, s')"
  shows "srv_vm s' = srv_vm s \<and> db_storage (srv_db s') = db_storage (srv_db s) @ es \<and> (\<forall>(a, k, v) \<in> set es. v \<noteq> [])"
  using assms
proof (induction es arbitrary: s)
  case (Cons x es)
  obtain a k v where x: "x = (a, k, v)" by (cases x)
  obtain out s1 where i: "insert_storage a k v s = (out, s1)" by fastforce
  show ?case
  proof (cases out)
    case None
    with i Cons.prems have "fold (\<lambda>(addr, key, value) acc. case acc of (Some e, s2) \<Rightarrow> (Some e, s2)
      | (None, s2) \<Rightarrow> insert_storage addr key value s2) es (None, s1) = (None, s')" by (simp add: x)
    from Cons.IH [OF this] insert_storage_okD [OF i [unfolded None]] show ?thesis by (auto simp: x)
  next
    case (Some e)
    with i Cons.prems flush_fold_failed [of es e s1] show ?thesis by (simp add: x)
  qed
qed simp

lemma flushStorage_okD:
  assumes "flushStorage s = (None, s')" "storage (srv_vm s) = MemoryAdapter store"
  shows "srv_vm s' = srv_vm s" "db_storage (srv_db s') = mem_entries store" "\<forall>(a, k, v) \<in> set (mem_entries store). v \<noteq> []"
proof -
  from assms obtain s1 where "wrap_err ''clear contract_storage'' (db_exec (\<lambda>db. db\<lparr>db_storage := []\<rparr>) s) = (None, s1)"
    and f: "fold (\<lambda>(addr, key, value) acc. case acc of (Some e, s2) \<Rightarrow> (Some e, s2)
      | (None, s2) \<Rightarrow> insert_storage addr key value s2) (mem_entries store) (None, s1) = (None, s')"
    by (auto simp: flushStorage_def vm_Storage_def mem_ForEach_def elim: and_thenD)
  then have "srv_vm s1 = srv_vm s" "db_storage (srv_db s1) = []"
    by (auto simp: wrap_err_def db_exec_def split: prod.splits option.splits dest!: db_callD)
  with flush_fold_ok [OF f] show "srv_vm s' = srv_vm s" "db_storage (srv_db s') = mem_entries store"
    "\<forall>(a, k, v) \<in> set (mem_entries store). v \<noteq> []" by simp_all
qed

lemma distinct_mem_entries:
  assumes "mem_wf store"
  shows "distinct (map row_pk (mem_entries store))"
proof -
  have gen: "gm_wf m \<Longrightarrow> (\<And>x. x \<in> set m \<Longrightarrow> gm_wf (snd x)) \<Longrightarrow>
      distinct (map row_pk (concat (map (\<lambda>(addr, m). map (\<lambda>(k, v). (addr, k, v)) m) m)))"
    for m :: "(address, (bytes, bytes) gomap) gomap"
  proof (induction m)
    case (Cons x m)
    obtain a es where x: "x = (a, es)" by fastforce
    have "(\<lambda>(a, k, x). (a, k)) \<circ> Pair a = (\<lambda>kv :: bytes \<times> bytes. (a, fst kv))" by auto
    moreover have "distinct (map (\<lambda>kv. (a, fst kv)) es)"
      using Cons.prems(2) [of x] x by (auto simp: distinct_map inj_on_def)
    ultimately show ?case using Cons by (auto simp: x row_pk_def image_iff)
  qed simp
  show ?thesis unfolding mem_entries_def by (rule gen) (use assms in \<open>auto simp: mem_wf_def\<close>)
qed

lemma restore_entries_run:
  assumes "distinct (map row_pk rows)" "\<forall>(a, k, v) \<in> set rows. is_address a" "is_memory (storage (srv_vm s))"
  obtains s' where "run_rows restore_entry rows s = (None, s')" "is_memory (storage (srv_vm s'))"
    "\<And>a k. adapter_content (storage (srv_vm s')) a k
       = (case find (same_pk a k) rows of Some (_, _, v) \<Rightarrow> Some v | None \<Rightarrow> adapter_content (storage (srv_vm s)) a k)"
  using assms
proof (induction rows arbitrary: s thesis)
  case Nil
  then show ?case by simp
next
  case (Cons row rows)
  obtain b j w where row: "row = (b, j, w)" by (cases row)
  obtain store where st: "storage (srv_vm s) = MemoryAdapter store"
    using Cons.prems(4) by (cases "storage (srv_vm s)") (auto simp: is_memory_def)
  define s1 where "s1 = s\<lparr>srv_vm := (srv_vm s)\<lparr>storage := MemoryAdapter (mem_Set store b j (Some w))\<rparr>\<rparr>"
  have "is_address b" using Cons.prems(3) by (simp add: row)
  then have b: "copy_address b = b" by (simp add: copy_address_def is_address_def)
  have e: "restore_entry row s = (None, s1)"
    by (simp add: row restore_entry_def st s1_def b)
  have m1: "is_memory (storage (srv_vm s1))" by (simp add: s1_def is_memory_def)
  obtain s' where s': "run_rows restore_entry rows s1 = (None, s')" "is_memory (storage (srv_vm s'))"
    "\<And>a k. adapter_content (storage (srv_vm s')) a k
       = (case find (same_pk a k) rows of Some (_, _, v) \<Rightarrow> Some v | None \<Rightarrow> adapter_content (storage (srv_vm s1)) a k)"
    using Cons.IH [of s1] Cons.prems(2,3) m1 by auto
  have "find (same_pk b j) rows = None"
    using Cons.prems(2) by (auto simp: row row_pk_def same_pk_alt find_None_iff image_iff)
  moreover have "same_pk a k row \<longleftrightarrow> a = b \<and> k = j" for a k by (auto simp: same_pk_def row)
  moreover have "adapter_content (storage (srv_vm s1)) a k
      = (if a = b \<and> k = j then Some w else adapter_content (storage (srv_vm s)) a k)" for a k
    by (simp add: s1_def st mem_content_Set)
  ultimately show ?case
    using e s' by (intro Cons.prems(1) [of s']) (auto simp: and_then_def row split: option.splits)
qed

text \<open>
  C8. Contract storage survives a restart: what a successful flush has written is, after restoring it
  without an error of the database into a VM with an empty in-memory store, the content of the store that
  was flushed, for every contract and every key.
\<close>

theorem storage_flush_restore:
  assumes "storage (srv_vm s) = MemoryAdapter store" "mem_wf store" "\<forall>(a, k, v) \<in> set (mem_entries store). is_address a"
    and "flushStorage s = (None, s1)"
    and "storage (srv_vm t) = MemoryAdapter mem_New" "db_storage (srv_db t) = db_storage (srv_db s1)" "srv_faults t = []"
  shows "\<exists>t'. restoreStorage t = (None, t') \<and> adapter_content (storage (srv_vm t')) a k = adapter_content (storage (srv_vm s)) a k"
proof -
  note f = flushStorage_okD [OF assms(4,1)]
  obtain t' where t': "run_rows restore_entry (mem_entries store) t = (None, t')"
    "\<And>a k. adapter_content (storage (srv_vm t')) a k
       = (case find (same_pk a k) (mem_entries store) of Some (_, _, v) \<Rightarrow> Some v | None \<Rightarrow> adapter_content (storage (srv_vm t)) a k)"
    by (rule restore_entries_run [OF distinct_mem_entries [OF assms(2)] assms(3), of t]) (auto simp: assms(5) is_memory_def)
  have "find (same_pk a k) (mem_entries store) = map_option (\<lambda>v. (a, k, v)) (mem_content store a k)"
  proof (cases "mem_content store a k")
    case None
    then have "find (same_pk a k) (mem_entries store) = None"
      using set_mem_entries [OF assms(2)] by (fastforce simp: find_None_iff same_pk_def)
    with None show ?thesis by simp
  next
    case (Some v)
    have "find (same_pk a k) (mem_entries store) \<noteq> None"
      using Some set_mem_entries [OF assms(2)] by (auto simp: find_None_iff same_pk_def)
    then obtain r where r: "find (same_pk a k) (mem_entries store) = Some r" by blast
    then have "r \<in> set (mem_entries store)" "same_pk a k r" by (auto simp: find_Some_iff)
    with Some r show ?thesis
      using set_mem_entries [OF assms(2)] by (cases r) (auto simp: same_pk_def)
  qed
  then have "adapter_content (storage (srv_vm t')) a k = mem_content store a k"
    using t'(2) by (auto simp: assms(5) mem_content_def mem_New_def split: option.splits)
  moreover have "restoreStorage t = (None, t')"
    using t'(1) assms(5-7) f(2) by (simp add: restoreStorage_def vm_Storage_def for_rows_run quiet_bodies)
  ultimately show ?thesis using assms(1) by simp
qed

lemma mem_wf_New: "mem_wf mem_New"
  by (simp add: mem_wf_def mem_New_def)

definition demo_stored :: server where
  "demo_stored = (demo_server [])\<lparr>srv_vm := demo_vm\<lparr>storage := MemoryAdapter (mem_Set mem_New demo_contract [1] (Some [9]))\<rparr>\<rparr>"

theorem storage_flush_restore_witness:
  "\<exists>t'. restoreStorage (fresh_server\<lparr>srv_db := srv_db (snd (flushStorage demo_stored))\<rparr>) = (None, t')
     \<and> adapter_content (storage (srv_vm t')) demo_contract [1] = Some [9]"
proof -
  let ?store = "mem_Set mem_New demo_contract [1] (Some [9])"
  have "fst (flushStorage demo_stored) = None" by code_simp
  then obtain s1 where s1: "flushStorage demo_stored = (None, s1)" by (metis prod.collapse)
  have st: "storage (srv_vm demo_stored) = MemoryAdapter ?store" by (simp add: demo_stored_def)
  have "mem_entries ?store = [(demo_contract, [1], [9])]" by code_simp
  then have ad: "\<forall>(a, k, v) \<in> set (mem_entries ?store). is_address a" by simp
  have wf: "mem_wf ?store" by (intro mem_wf_Set mem_wf_New)
  have "storage (srv_vm (fresh_server\<lparr>srv_db := srv_db s1\<rparr>)) = MemoryAdapter mem_New" "srv_faults fresh_server = []"
    by (simp_all add: fresh_server_def server_New_def Let_def vm_fresh_def)
  moreover have "mem_content ?store demo_contract [1] = Some [9]" by (simp add: mem_content_Set)
  ultimately show ?thesis
    using storage_flush_restore [OF st wf ad s1, of "fresh_server\<lparr>srv_db := srv_db s1\<rparr>" demo_contract "[1]"] s1 st
    by simp
qed

lemma insert_storage_ok:
  assumes "srv_faults s = []" "v \<noteq> []" "(a, k) \<notin> set (map row_pk (db_storage (srv_db s)))"
  shows "insert_storage a k v s = (None, s\<lparr>srv_db := (srv_db s)\<lparr>db_storage := db_storage (srv_db s) @ [(a, k, v)]\<rparr>\<rparr>)"
proof -
  have "find (same_pk a k) (db_storage (srv_db s)) = None"
    using assms(3) by (auto simp: find_None_iff same_pk_alt image_iff)
  with assms show ?thesis by (simp add: insert_storage_def)
qed

lemma flush_fold_succeeds:
  assumes "srv_faults s = []" "\<forall>(a, k, v) \<in> set es. v \<noteq> []" "distinct (map row_pk (db_storage (srv_db s) @ es))"
  shows "fst (fold (\<lambda>(addr, key, value) acc. case acc of (Some e, s2) \<Rightarrow> (Some e, s2)
      | (None, s2) \<Rightarrow> insert_storage addr key value s2) es (None, s)) = None"
  using assms
proof (induction es arbitrary: s)
  case (Cons x es)
  obtain a k v where x: "x = (a, k, v)" by (cases x)
  have "insert_storage a k v s = (None, s\<lparr>srv_db := (srv_db s)\<lparr>db_storage := db_storage (srv_db s) @ [(a, k, v)]\<rparr>\<rparr>)"
    using Cons.prems by (intro insert_storage_ok) (auto simp: x row_pk_def)
  then show ?case
    using Cons.IH [of "s\<lparr>srv_db := (srv_db s)\<lparr>db_storage := db_storage (srv_db s) @ [(a, k, v)]\<rparr>\<rparr>"] Cons.prems
    by (simp add: x)
qed simp

text \<open>
  C28. When the flush of contract storage can fail: on a database that does not fail, exactly when a
  contract holds an empty value under some key. Since every execution flushes the whole store, one such
  entry makes every later transaction of every contract fail until it is gone.
\<close>

theorem flush_fails_on_empty_value:
  assumes "storage (srv_vm s) = MemoryAdapter store" "mem_wf store" "srv_faults s = []"
  shows "fst (flushStorage s) \<noteq> None \<longleftrightarrow> (\<exists>a k. adapter_content (storage (srv_vm s)) a k = Some [])"
proof -
  have "fst (flushStorage s) = None" if ne: "\<forall>(a, k, v) \<in> set (mem_entries store). v \<noteq> []"
    using flush_fold_succeeds [OF _ ne, of "s\<lparr>srv_db := (srv_db s)\<lparr>db_storage := []\<rparr>\<rparr>"] assms distinct_mem_entries [OF assms(2)]
    by (simp add: flushStorage_def vm_Storage_def mem_ForEach_def db_exec_def wrap_err_def and_then_def)
  moreover have "\<forall>(a, k, v) \<in> set (mem_entries store). v \<noteq> []" if "fst (flushStorage s) = None"
    using flushStorage_okD(3) [of s "snd (flushStorage s)" store] that assms(1) by (simp add: prod_eq_iff)
  moreover have "(\<forall>(a, k, v) \<in> set (mem_entries store). v \<noteq> []) \<longleftrightarrow> \<not> (\<exists>a k. mem_content store a k = Some [])"
    using set_mem_entries [OF assms(2)] by fastforce
  ultimately show ?thesis using assms(1) by auto
qed

theorem flush_fails_on_empty_value_witness:
  "fst (flushStorage (demo_stored\<lparr>srv_vm := demo_vm\<lparr>storage := MemoryAdapter (mem_Set mem_New demo_contract [1] (Some []))\<rparr>\<rparr>)) \<noteq> None"
proof -
  let ?store = "mem_Set mem_New demo_contract [1] (Some [])"
  have "mem_wf ?store" by (intro mem_wf_Set mem_wf_New)
  moreover have "mem_content ?store demo_contract [1] = Some []" by (simp add: mem_content_Set)
  ultimately show ?thesis
    by (subst flush_fails_on_empty_value [where store = ?store]) (auto simp: demo_stored_def demo_server_def)
qed

subsection \<open>Code numbers\<close>


end
