(* ===== verification/Node_Events.thy ===== *)
theory Node_Events
  imports Node_Restart
begin

text \<open>
  Reading events back: \<^verbatim>\<open>GET /events\<close> with its filters and pages.
\<close>

lemma Atoi_dec: "n < 2 ^ 63 \<Longrightarrow> Atoi (dec_nat n) = Some (int n)"
  using big_SetString_String [of "int n"] by (simp add: Atoi_def big_String_def)

lemma Atoi_Nil: "Atoi [] = None"
  by (simp add: Atoi_def big_SetString_def)

lemma events_limit_bound: "1 \<le> events_limit q \<and> events_limit q \<le> 1000"
  by (auto simp: events_limit_def split: option.splits)

text \<open>The request for page \<open>k\<close> of the events \<open>q\<close> asks for, in pages of \<open>l\<close>.\<close>

definition events_page :: "events_request \<Rightarrow> nat \<Rightarrow> nat \<Rightarrow> events_request" where
  "events_page q l k = q\<lparr>evq_limit := dec_nat l, evq_offset := dec_nat (k * l)\<rparr>"

lemma events_page_simps:
  assumes "1 \<le> l" "l \<le> 1000" "k * l < 2 ^ 63"
  shows "events_limit (events_page q l k) = l" "events_offset (events_page q l k) = k * l"
    "matching_events (events_page q l k) rows = matching_events q rows"
proof -
  have "event_matches (events_page q l k) = event_matches q"
    by (simp add: fun_eq_iff event_matches_def events_page_def)
  then show "matching_events (events_page q l k) rows = matching_events q rows" by (simp add: matching_events_def)
qed (use assms in \<open>simp_all add: events_limit_def events_offset_def events_page_def Atoi_dec flip: of_nat_mult\<close>)

lemma take_pages: "concat (map (\<lambda>k. take l (drop (k * l) xs)) [0..<n]) = take (n * l) xs"
proof (induction n)
  case (Suc n)
  then show ?case using take_add [of "n * l" l xs] by (simp add: add.commute)
qed simp

lemma matching_events_ids: "sorted_wrt (>) (map fst (matching_events q rows))"
proof -
  have "sorted_wrt (<) (map fst (zip [1..<length rows + 1] rows))" by (simp add: sorted_wrt_upt del: upt_Suc)
  then have "sorted_wrt (<) (map fst (filter (\<lambda>(_, r). event_matches q r) (zip [1..<length rows + 1] rows)))"
    by (simp add: sorted_wrt_map sorted_wrt_filter)
  then show ?thesis
    unfolding matching_events_def rev_map [symmetric] sorted_wrt_rev by simp
qed

lemma set_matching_events:
  "(i, r) \<in> set (matching_events q rows) \<longleftrightarrow> 1 \<le> i \<and> i \<le> length rows \<and> rows ! (i - 1) = r \<and> event_matches q r"
proof -
  have "(i, r) \<in> set (zip [1..<length rows + 1] rows) \<longleftrightarrow> 1 \<le> i \<and> i \<le> length rows \<and> rows ! (i - 1) = r"
    by (force simp: in_set_zip simp del: upt_Suc)
  then show ?thesis by (auto simp: matching_events_def simp del: upt_Suc)
qed

text \<open>
  C22. Paging through the events: a page has at most 1000 rows; the first pages one after the other are the
  first events of the list of all stored events that pass the filter, newest first by their strictly
  decreasing IDs, so that walking through the pages shows every matching event once and no other.
\<close>

theorem events_pages:
  assumes "1 \<le> l" "l \<le> 1000" "n * l < 2 ^ 63"
  shows "concat (map (\<lambda>k. select_events (events_page q l k) rows) [0..<n]) = take (n * l) (matching_events q rows)
    \<and> sorted_wrt (>) (map fst (matching_events q rows))
    \<and> ((i, r) \<in> set (matching_events q rows) \<longleftrightarrow> 1 \<le> i \<and> i \<le> length rows \<and> rows ! (i - 1) = r \<and> event_matches q r)
    \<and> length (select_events q rows) \<le> 1000"
proof -
  have "select_events (events_page q l k) rows = take l (drop (k * l) (matching_events q rows))" if "k < n" for k
  proof -
    have "k * l \<le> n * l" using that by simp
    with assms(3) have "k * l < 2 ^ 63" by linarith
    with assms(1,2) show ?thesis by (simp add: select_events_def events_page_simps)
  qed
  then have "map (\<lambda>k. select_events (events_page q l k) rows) [0..<n]
      = map (\<lambda>k. take l (drop (k * l) (matching_events q rows))) [0..<n]" by simp
  then have "concat (map (\<lambda>k. select_events (events_page q l k) rows) [0..<n]) = take (n * l) (matching_events q rows)"
    by (simp only: take_pages)
  moreover have "length (select_events q rows) \<le> 1000"
    using events_limit_bound [of q] by (simp add: select_events_def min.coboundedI2)
  ultimately show ?thesis by (simp add: matching_events_ids set_matching_events)
qed

definition demo_event :: "string \<Rightarrow> event_row" where
  "demo_event t = \<lparr>er_op_seq = 1, er_tx_type = ''execute'', er_contract = ''c'', er_sender = ''s'', er_event_type = t,
     er_attributes = [], er_created_at = 0\<rparr>"

theorem events_pages_witness:
  "let rows = [demo_event ''a'', demo_event ''b'', demo_event ''a'']; q = \<lparr>evq_contract = [], evq_type = ''a'',
     evq_sender = [], evq_limit = [], evq_offset = []\<rparr>
   in concat (map (\<lambda>k. select_events (events_page q 1 k) rows) [0..<5]) = [(3, demo_event ''a''), (1, demo_event ''a'')]"
proof -
  let ?rows = "[demo_event ''a'', demo_event ''b'', demo_event ''a'']"
  let ?q = "\<lparr>evq_contract = [], evq_type = ''a'', evq_sender = [], evq_limit = [], evq_offset = []\<rparr>"
  have "matching_events ?q ?rows = [(3, demo_event ''a''), (1, demo_event ''a'')]" by code_simp
  with events_pages [of 1 5 ?q ?rows] show ?thesis by (simp add: Let_def del: upt_Suc)
qed

text \<open>On a database that does not fail the answer is exactly the selected page.\<close>

lemma scan_events_ok: "srv_faults s = [] \<Longrightarrow> scan_events rows acc s = (Inr (acc @ rows), s)"
  by (induction rows arbitrary: acc) simp_all

lemma events_answer:
  assumes "srv_faults s = []"
  shows "serve eng qf ext clk (EventsReq q) s = Some (EventsResp (select_events q (db_events (srv_db s))), s)"
  using assms by (simp add: serve_def server_Handler_def handleEvents_def scan_events_ok)

end
