(* ===== verification/Node_Faults.thy ===== *)
theory Node_Faults
  imports Node_Restart Runtime_Rollback
begin

text \<open>
  Failures and interleavings the code does not handle: storage errors that are dropped on the way to the
  caller, and a faucet request that overlaps a request that holds the lock \<^verbatim>\<open>writeMu\<close>.
\<close>

subsection \<open>Storage errors that are lost\<close>

definition sqlite_vm :: "storage_row list \<Rightarrow> string option list \<Rightarrow> nitrovm" where
  "sqlite_vm rows faults = demo_vm\<lparr>storage := SqliteAdapter \<lparr>sq_rows = rows, sq_faults = faults\<rparr>\<rparr>"

definition writing_engine :: engine where
  "writing_engine = demo_engine\<lparr>eng_Reply := \<lambda>c env rep gl. HSet [1] (Some [9]) (Done (demo_ok []) (min 10 gl))\<rparr>"

definition call_ok :: "'a call_result \<Rightarrow> bool option" where
  "call_ok r = map_option (\<lambda>(res, g, n). case res of Inl _ \<Rightarrow> False | Inr _ \<Rightarrow> True) r"


definition scanning_engine :: engine where
  "scanning_engine = demo_engine\<lparr>eng_Execute := \<lambda>c env info msg gl.
     HScan Ascending None None (\<lambda>it. Done (if wi_Valid it then demo_fail else demo_ok []) (min 10 gl))\<rparr>"


subsection \<open>The faucet between snapshot and restore\<close>



end
