(* ===== verification/Storage_Equiv.thy ===== *)
theory Storage_Equiv
  imports Runtime_State
begin

text \<open>
  The two storage backends against each other: a client that calls an adapter through the interface and
  reads its iterators to the end cannot tell them apart, as long as the database does not fail and no
  empty value is stored.
\<close>

datatype kv_op = OpGet address bytes | OpSet address bytes bytes | OpDelete address bytes
  | OpRange address "bytes option" "bytes option" Order

datatype kv_answer = AnsGet "go_error + bytes option" | AnsDone "go_error option" | AnsRange "go_error + kvPair list"

primrec run_op :: "kv_op \<Rightarrow> adapter \<Rightarrow> kv_answer \<times> adapter" where
  "run_op (OpGet a k) s = map_prod AnsGet id (adapter_Get s a k)"
| "run_op (OpSet a k v) s = map_prod AnsDone id (adapter_Set s a k (Some v))"
| "run_op (OpDelete a k) s = map_prod AnsDone id (adapter_Delete s a k)"
| "run_op (OpRange a lo hi ord) s = map_prod (\<lambda>r. AnsRange (map_sum id it_drain r)) id (adapter_Range s a lo hi ord)"

fun run_ops :: "kv_op list \<Rightarrow> adapter \<Rightarrow> kv_answer list" where
  "run_ops [] s = []"
| "run_ops (op # ops) s = (case run_op op s of (ans, s') \<Rightarrow> ans # run_ops ops s')"

definition op_ok :: "kv_op \<Rightarrow> bool" where
  "op_ok op \<longleftrightarrow> (case op of OpSet a k v \<Rightarrow> v \<noteq> [] | _ \<Rightarrow> True)"

definition no_empty_value :: "kv_content \<Rightarrow> bool" where
  "no_empty_value c \<longleftrightarrow> (\<forall>a k. c a k \<noteq> Some [])"

text \<open>A list of pairs is determined by the order and the set of its keys and by their values.\<close>

lemma order_sorted_unique:
  assumes "order_sorted ord xs" "order_sorted ord ys" "set xs = set ys"
  shows "xs = ys"
  using assms sorted_distinct_set_unique [of xs ys] sorted_distinct_set_unique [of "rev xs" "rev ys"]
  by (cases ord) (auto simp: order_sorted_def)

lemma pairs_unique:
  assumes "map fst xs = map fst ys" "\<forall>(k, v) \<in> set xs. v = f k" "\<forall>(k, v) \<in> set ys. v = f k"
  shows "xs = ys"
proof -
  have "map (\<lambda>k. (k, f k)) (map fst zs) = zs" if "\<forall>(k, v) \<in> set zs. v = f k" for zs :: "('a \<times> 'b) list"
    using that by (induction zs) auto
  with assms show ?thesis by metis
qed

lemma range_answer:
  assumes "adapter_ok s" "adapter_ok t" "adapter_content s = adapter_content t" "no_empty_value (adapter_content s)"
  shows "fst (run_op (OpRange a lo hi ord) s) = fst (run_op (OpRange a lo hi ord) t)"
proof -
  obtain i where i: "fst (adapter_Range s a lo hi ord) = Inr i" "order_sorted ord (map fst (it_drain i))"
    "fst ` set (it_drain i) = {k. adapter_content s a k \<noteq> None \<and> in_range lo hi k}"
    "\<forall>(k, v) \<in> set (it_drain i). adapter_content s a k = Some (slice_bytes v)"
    by (rule adapter.range_drain [OF assms(1)])
  obtain j where j: "fst (adapter_Range t a lo hi ord) = Inr j" "order_sorted ord (map fst (it_drain j))"
    "fst ` set (it_drain j) = {k. adapter_content t a k \<noteq> None \<and> in_range lo hi k}"
    "\<forall>(k, v) \<in> set (it_drain j). adapter_content t a k = Some (slice_bytes v)"
    by (rule adapter.range_drain [OF assms(2)])
  have slice: "v = adapter_content s a k" if "adapter_content s a k = Some (slice_bytes v)" for v k
    using that assms(4) by (cases v) (auto simp: slice_bytes_def no_empty_value_def)
  have "map fst (it_drain i) = map fst (it_drain j)"
    using i j assms(3) by (intro order_sorted_unique [of ord]) auto
  then have "it_drain i = it_drain j"
    by (rule pairs_unique [where f = "adapter_content s a"])
       (use i(4) j(4) assms(3) slice in fastforce)+
  with i(1) j(1) show ?thesis by simp
qed

lemma run_op_equiv:
  assumes "adapter_ok s" "adapter_ok t" "adapter_content s = adapter_content t" "no_empty_value (adapter_content s)" "op_ok op"
  shows "fst (run_op op s) = fst (run_op op t)"
    "adapter_ok (snd (run_op op s))" "adapter_ok (snd (run_op op t))"
    "adapter_content (snd (run_op op s)) = adapter_content (snd (run_op op t))"
    "no_empty_value (adapter_content (snd (run_op op s)))"
proof -
  have e: "adapter_content s a k \<noteq> Some []" "adapter_content t a k \<noteq> Some []" for a k
    using assms(3,4) by (auto simp: no_empty_value_def)
  note laws = adapter.get_state adapter.get_cases adapter.set_ok adapter.set_invar adapter.set_content
    adapter.del_ok adapter.del_invar adapter.del_content adapter.range_state
  show "fst (run_op op s) = fst (run_op op t)"
    using range_answer [OF assms(1-4)] assms e by (cases op) (simp_all add: laws)
  show "adapter_ok (snd (run_op op s))" "adapter_ok (snd (run_op op t))"
    "adapter_content (snd (run_op op s)) = adapter_content (snd (run_op op t))"
    "no_empty_value (adapter_content (snd (run_op op s)))"
    using assms by (cases op; simp add: laws no_empty_value_def op_ok_def)+
qed

text \<open>
  C21. The storage backends are interchangeable: two adapters, in memory or on a SQLite file that does not
  fail, that start with the same content answer every sequence of gets, sets, deletes and range scans in
  either direction with the same values in the same order, when no empty value is stored.
\<close>

theorem storage_backends_equivalent:
  assumes "adapter_ok s" "adapter_ok t" "adapter_content s = adapter_content t" "no_empty_value (adapter_content s)"
    and "list_all op_ok ops"
  shows "run_ops ops s = run_ops ops t"
  using assms
proof (induction ops arbitrary: s t)
  case (Cons op ops)
  note step = run_op_equiv [OF Cons.prems(1-4), of op]
  have "run_ops ops (snd (run_op op s)) = run_ops ops (snd (run_op op t))"
    using Cons.prems(5) step by (intro Cons.IH) auto
  then show ?case using step(1) Cons.prems(5) by (simp add: case_prod_unfold)
qed simp

definition demo_ops :: "kv_op list" where
  "demo_ops = [OpSet [1] [5] [9], OpSet [1] [3] [7], OpRange [1] None (Some [5]) Descending, OpDelete [1] [3],
     OpRange [1] None None Ascending, OpGet [1] [3]]"

theorem storage_backends_equivalent_witness:
  "run_ops demo_ops (MemoryAdapter mem_New) = run_ops demo_ops (SqliteAdapter \<lparr>sq_rows = [], sq_faults = []\<rparr>)
   \<and> run_ops demo_ops (MemoryAdapter mem_New) ! 2 = AnsRange (Inr [([3], Some [7])])"
proof
  show "run_ops demo_ops (MemoryAdapter mem_New) ! 2 = AnsRange (Inr [([3], Some [7])])" by code_simp
  show "run_ops demo_ops (MemoryAdapter mem_New) = run_ops demo_ops (SqliteAdapter \<lparr>sq_rows = [], sq_faults = []\<rparr>)"
    by (rule storage_backends_equivalent)
       (simp_all add: fun_eq_iff mem_content_def mem_New_def sql_content_def no_empty_value_def mem_wf_def sql_wf_def
         op_ok_def demo_ops_def)
qed

end
