(* ===== verification/Nitrolite.thy ===== *)
theory Nitrolite
  imports Node_Invariant
begin

text \<open>
  \<^verbatim>\<open>cmd/nitrolite\<close>: the daemon that puts a node together and serves requests, and what holds over the
  whole run of a node. The outcomes of opening the database and of creating the engine are arguments;
  signals and listening are not modelled. A fatal log message ends the program.
\<close>

definition nitrolite_main :: "engine \<Rightarrow> string option \<Rightarrow> string option \<Rightarrow> uint64 \<Rightarrow> uint64 \<Rightarrow> string \<Rightarrow> string \<Rightarrow> string
    \<Rightarrow> uint64 \<Rightarrow> meta_db \<Rightarrow> string option list \<Rightarrow> string + server" where
  "nitrolite_main eng open_err engine_err now1 now2 addr dataDir network minGasPrice db fs =
     (if network \<noteq> ''devnet'' \<and> network \<noteq> ''testnet'' \<and> network \<noteq> ''mainnet''
      then Inl (''invalid network: '' @ go_quote network @ '' (must be devnet, testnet, or mainnet)'')
      else (case open_err of
        Some e \<Rightarrow> Inl (''open db: '' @ e)
      | None \<Rightarrow> (case next_outcome fs of
          (Some e, _) \<Rightarrow> Inl (''create tables: '' @ e)
        | (None, fs1) \<Rightarrow>
            let fs2 = snd (next_outcome fs1) \<comment> \<open>the migration, whose outcome is ignored\<close> in
            (case vm_New engine_err now1 (DefaultConfig\<lparr>DataDir := dataDir, PrintDebug := False\<rparr>) (MemoryAdapter mem_New) of
              Inl e \<Rightarrow> Inl (''create vm: '' @ Error e)
            | Inr n \<Rightarrow>
                let s = server_New \<lparr>sc_Addr = addr, sc_DataDir = dataDir, sc_Network = network,
                                     sc_MinGasPrice = minGasPrice\<rparr> db fs2 n in
                (case server_Restore eng now2 s of
                  (Some e, _) \<Rightarrow> Inl (''restore state: '' @ Error e)
                | (None, s1) \<Rightarrow> Inr s1)))))"

text \<open>A run of the node: any requests, one after the other.\<close>

inductive node_run :: "engine \<Rightarrow> crypto_ext \<Rightarrow> server \<Rightarrow> server \<Rightarrow> bool" for eng ext where
  stop: "node_run eng ext s s"
| more: "node_run eng ext s s1 \<Longrightarrow> serve eng qf ext clk req s1 = Some (resp, s2) \<Longrightarrow> node_run eng ext s s2"

subsection \<open>The configuration is fixed\<close>

definition same_node :: "server \<Rightarrow> server \<Rightarrow> bool" where
  "same_node s t \<longleftrightarrow> chainID (srv_vm t) = chainID (srv_vm s) \<and> is_memory (storage (srv_vm t)) = is_memory (storage (srv_vm s))
     \<and> srv_network t = srv_network s \<and> srv_minGasPrice t = srv_minGasPrice s"

lemma same_node_trans: "same_node a b \<Longrightarrow> same_node b c \<Longrightarrow> same_node a c"
  by (simp add: same_node_def)

lemma same_node_setup: "same_setup s t \<Longrightarrow> same_node s t"
  by (simp add: same_setup_def same_node_def)

lemma same_node_vm:
  "chainID n = chainID (srv_vm s) \<Longrightarrow> is_memory (storage n) = is_memory (storage (srv_vm s)) \<Longrightarrow> same_node s (s\<lparr>srv_vm := n\<rparr>)"
  by (simp add: same_node_def)

lemma same_node_charge:
  assumes "vm_call eng qf (srv_vm s) a tx ok g n"
  shows "same_node s (charge_failed a g p n s)"
proof -
  let ?s1 = "s\<lparr>srv_vm := vm_Restore (vm_Snapshot (srv_vm s)) n\<rparr>"
  let ?s2 = "?s1\<lparr>srv_vm := snd (DeductGasFee (srv_vm ?s1) a g p)\<rparr>"
  have s1: "same_node s ?s1" using vm_call_setup [OF assms] by (simp add: same_node_def)
  have "same_setup ?s1 ?s2"
    using DeductGasFee_rest [of "srv_vm ?s1" a g p] by (simp add: same_setup_def same_rest_def same_registry_def)
  with stp.persistBalance [of ?s2 a] have s2: "same_node s ?s2" "same_node s (snd (persistBalance a ?s2))"
    using s1 by (blast intro: same_node_trans same_node_setup)+
  show ?thesis
    using s1 s2 by (cases "DeductGasFee (srv_vm ?s1) a g p") (auto simp: charge_failed_def Let_def split: option.splits)
qed

lemma same_node_ran:
  assumes "outcome_ran eng qf ext clk rq s resp s'"
  shows "same_node s s'"
proof -
  from assms obtain stx sender g n ts tch pre post r where "parseSigned ext s rq = Inr (stx, sender)"
    and o: "vm_call eng qf (srv_vm s) sender (stx_Tx stx) True g n" "db_steps pre" "db_steps post"
    and run: "run_tx s (handler_tx clk sender g (tx_GasPrice (stx_Tx stx)) pre tch post) r
         (s\<lparr>srv_vm := n\<lparr>touched := ts\<rparr>\<rparr>) = (resp, s')"
    unfolding outcome_ran_def by blast
  have s1: "same_node s (s\<lparr>srv_vm := n\<lparr>touched := ts\<rparr>\<rparr>)" using vm_call_setup [OF o(1)] by (simp add: same_node_def)
  note steps = stp.tx_steps_ok [OF handler_tx_setup [OF o(2,3)], THEN same_node_setup, THEN same_node_trans [OF s1]]
  from run show ?thesis
  proof (cases rule: run_txD)
    case (rolled_back s2)
    then have "same_node s s2" using steps by blast
    with rolled_back(2) show ?thesis by (simp add: same_node_def)
  next
    case committed
    with steps show ?thesis by (metis snd_conv)
  qed
qed

lemma serve_same_node:
  assumes "typed_rlp ext" "serve eng qf ext clk req s = Some (resp, s')"
  shows "same_node s s'"
proof (cases "signed_body req")
  case (Some rq)
  from assms(1) Some assms(2) show ?thesis
  proof (cases rule: signed_outcome)
    case failed
    then show ?thesis by (auto simp: outcome_failed_def intro: same_node_charge)
  next
    case ran
    then show ?thesis by (rule same_node_ran)
  qed (simp add: same_node_def)
next
  case None
  have query: "same_node s s'" if "handleQuery eng qf rq s = Some (resp, s')" for rq
  proof -
    have "same_node s (s\<lparr>srv_vm := n\<rparr>)" if "vm_Query eng qf (srv_vm s) c m gl = Some (res, g, n)" for c m gl res g n
      using config.query_stepD [OF config.vm_Query_step that]
      by (intro same_node_vm) (simp_all add: config_frame_def same_registry_def)
    with that show ?thesis
      by (auto simp: handleQuery_def Let_def same_node_def split: sum.splits option.splits prod.splits)
  qed
  have sim: "same_node s s'" if "handleSimulate eng qf rq s = Some (resp, s')" for rq
    using that
  proof (cases rule: handleSimulate_cases)
    case (2 sender ok gl g n)
    then show ?thesis
      using simulated_frames(3) [OF 2(1)] by (simp add: same_node_def config_frame_def same_registry_def)
  qed (simp add: same_node_def)
  have faucet: "same_node s s'" if "handleFaucet rq s = (resp, s')" for rq
  proof -
    have "same_node s (snd (put_account k b v (s\<lparr>srv_vm := SetBalance (srv_vm s) a x\<rparr>)))" for k b v a x
      using put_account_state [of k b v "s\<lparr>srv_vm := SetBalance (srv_vm s) a x\<rparr>"] assign_balance_rest [of "srv_vm s" a x]
      by (auto simp: same_node_def SetBalance_assign same_rest_def same_registry_def)
    with that show ?thesis
      by (auto simp: handleFaucet_def Let_def same_node_def split: sum.splits prod.splits option.splits)
         (metis snd_conv)+
  qed
  have refl: "same_node s s" by (simp add: same_node_def)
  have events: "same_node s s'" if "handleEvents q s = (resp, s')" for q
    using handleEvents_state [of q s] that by (auto simp: same_node_def)
  show ?thesis
    using assms(2) None query sim faucet events refl by (cases req) (auto simp: serve_def split: if_splits)
qed

subsection \<open>No new tokens outside the development network\<close>

lemma DeductGasFee_supply: "total_supply (snd (DeductGasFee n a g p)) \<le> total_supply n"
  using assign_balance_supply [of n a] by (simp add: DeductGasFee_cases)

lemma total_supply_other [simp]:
  "total_supply (n\<lparr>touched := ts\<rparr>) = total_supply n" "total_supply (TickOp t n) = total_supply n"
  by (simp_all add: total_supply_def TickOp_def)

lemma signed_supply:
  assumes "typed_rlp ext" "signed_body req = Some rq" "serve eng qf ext clk req s = Some (resp, s')"
  shows "total_supply (srv_vm s') \<le> total_supply (srv_vm s)"
  using assms
proof (cases rule: signed_outcome)
  case failed
  then obtain stx sender g n where "parseSigned ext s rq = Inr (stx, sender)"
    and "s' = charge_failed sender g (tx_GasPrice (stx_Tx stx)) n s"
    unfolding outcome_failed_def by blast
  then show ?thesis
    using DeductGasFee_supply [of "vm_Restore (vm_Snapshot (srv_vm s)) n" sender g "tx_GasPrice (stx_Tx stx)"]
    by (simp add: charge_failed_vm Let_def)
next
  case ran
  then show ?thesis
  proof (cases rule: ran_cases)
    case (committed stx sender g n ts tch m)
    then show ?thesis
      using DeductGasFee_supply [of "n\<lparr>touched := ts\<rparr>" sender g "tx_GasPrice (stx_Tx stx)"] vm_call_ledger(1) [OF committed(3)]
      by simp
  qed simp
qed simp

lemma serve_supply:
  assumes "typed_rlp ext" "srv_network s \<noteq> Devnet" "serve eng qf ext clk req s = Some (resp, s')"
  shows "total_supply (srv_vm s') \<le> total_supply (srv_vm s)"
proof (cases "signed_body req")
  case (Some rq)
  with assms show ?thesis by (intro signed_supply)
next
  case None
  have query: "total_supply (srv_vm s') = total_supply (srv_vm s)" if "handleQuery eng qf rq s = Some (resp, s')" for rq
  proof -
    have "total_supply n = total_supply (srv_vm s)" if "vm_Query eng qf (srv_vm s) c m gl = Some (res, g, n)" for c m gl res g n
      using ledger.query_stepD [OF ledger.vm_Query_step that] by (simp add: ledger_frame_def)
    with that show ?thesis by (auto simp: handleQuery_def Let_def split: sum.splits option.splits prod.splits)
  qed
  have sim: "total_supply (srv_vm s') = total_supply (srv_vm s)" if "handleSimulate eng qf rq s = Some (resp, s')" for rq
    using that by (cases rule: handleSimulate_cases) simp_all
  have events: "total_supply (srv_vm s') = total_supply (srv_vm s)" if "handleEvents q s = (resp, s')" for q
    using handleEvents_state [of q s] that by auto
  show ?thesis
    using assms(2,3) None query sim events
    by (cases req) (auto simp: serve_def server_Handler_def split: if_splits)
qed

lemma node_run_keeps:
  assumes "node_run eng ext s t" "typed_rlp ext"
  shows "same_node s t" "srv_network s \<noteq> Devnet \<Longrightarrow> total_supply (srv_vm t) \<le> total_supply (srv_vm s)"
proof -
  have "same_node s t \<and> (srv_network s \<noteq> Devnet \<longrightarrow> total_supply (srv_vm t) \<le> total_supply (srv_vm s))"
    using assms
  proof (induction rule: node_run.induct)
    case (more s s1 qf clk req resp s2)
    have "same_node s1 s2" by (rule serve_same_node [OF more.prems more.hyps(2)])
    moreover have "total_supply (srv_vm s2) \<le> total_supply (srv_vm s1)" if "srv_network s1 \<noteq> Devnet"
      by (rule serve_supply [OF more.prems that more.hyps(2)])
    ultimately show ?case using more.IH [OF more.prems] by (auto simp: same_node_def)
  qed (simp add: same_node_def)
  then show "same_node s t" "srv_network s \<noteq> Devnet \<Longrightarrow> total_supply (srv_vm t) \<le> total_supply (srv_vm s)" by simp_all
qed

subsection \<open>From the start of the daemon\<close>

lemma same_node_call: "same_node s (snd (db_call s))"
  by (simp add: same_node_def)

lemma scan_rows_same_node:
  assumes "\<And>row s. same_node s (snd (body row s))"
  shows "same_node s (snd (snd (scan_rows body rows s)))"
proof (induction rows arbitrary: s)
  case Nil
  obtain out s1 where "db_call s = (out, s1)" by fastforce
  with same_node_call [of s] show ?case by (cases out) simp_all
next
  case (Cons row rows)
  obtain o1 s1 where c1: "db_call s = (o1, s1)" by fastforce
  obtain o2 s2 where c2: "db_call s1 = (o2, s2)" by fastforce
  obtain o3 s3 where c3: "body row s2 = (o3, s3)" by fastforce
  have s2: "same_node s s1" "same_node s s2"
    using same_node_call [of s] same_node_call [of s1] c1 c2 by (auto intro: same_node_trans)
  moreover have "same_node s s3" using assms [of s2 row] c3 s2 by (auto intro: same_node_trans)
  ultimately show ?case
    using Cons [of s3] c1 c2 c3 by (cases o1; cases o2; cases o3) (auto intro: same_node_trans)
qed

lemma for_rows_same_node:
  assumes "\<And>row s. same_node s (snd (body row s))"
  shows "same_node s (snd (for_rows body rows s))" "same_node s (snd (for_rows_checked body rows s))"
proof -
  obtain out s1 where c: "db_call s = (out, s1)" by fastforce
  then have s1: "same_node s s1" using same_node_call [of s] by simp
  obtain e r s2 where sc: "scan_rows body rows s1 = (e, r, s2)" by (metis prod.collapse)
  then have "same_node s s2" using scan_rows_same_node [of body s1 rows, OF assms] s1 by (auto intro: same_node_trans)
  with s1 c sc show "same_node s (snd (for_rows body rows s))" "same_node s (snd (for_rows_checked body rows s))"
    by (cases out; cases e; simp add: for_rows_def for_rows_checked_def)+
qed

lemma same_node_rows:
  "same_node s (snd (restore_code eng row s))" "same_node s (snd (restore_contract crow s))"
  "same_node s (snd (restore_account arow s))" "same_node s (snd (restore_entry erow s))"
proof -
  have store: "chainID n' = chainID n \<and> storage n' = storage n" if "StoreCode eng n w None None = (r, g, n')" for n w r g n'
    using that by (cases rule: StoreCodeD) auto
  obtain h w where row: "row = (h, w)" by fastforce
  obtain r g n' where sc: "StoreCode eng (srv_vm s) w None None = (r, g, n')" by (metis prod.collapse)
  show "same_node s (snd (restore_code eng row s))"
    using store [OF sc] by (cases r) (simp_all add: row sc restore_code_def same_node_def)
  show "same_node s (snd (restore_contract crow s))"
    by (auto simp: same_node_def restore_contract_def RegisterContract_def split: prod.splits sum.splits)
  have "same_rest m (SetNonce m a k)" for m a k
    unfolding SetNonce_def case_prod_unfold
    by (rule same_rest_trans [OF same_rest_trans [OF getOrCreate_rest update_account_rest] markTouched_simps(6)])
  then have "same_rest n (SetNonce (SetBalance n a b) a k)" for n a b k
    unfolding SetBalance_assign using assign_balance_rest same_rest_trans by blast
  then show "same_node s (snd (restore_account arow s))"
    by (auto simp: same_node_def restore_account_def same_rest_def same_registry_def split: prod.splits sum.splits)
  show "same_node s (snd (restore_entry erow s))"
    by (auto simp: same_node_def restore_entry_def split: prod.splits) (metis adapter_kind(2) snd_conv)+
qed

lemma and_then_same_node:
  assumes "same_node s (snd m)" "\<And>s1. same_node s1 (snd (f s1))"
  shows "same_node s (snd (and_then m f))"
  using assms by (auto simp: and_then_def split: prod.splits option.splits intro: same_node_trans)

lemma query_meta_same_node: "same_node s (snd (query_meta k s))"
  using same_node_call [of s] by (cases "db_call s"; cases "fst (db_call s)") (simp_all add: query_meta_def)

lemma restore_counters_same_node:
  "same_node s (restore_instance_count s)" "same_node s (snd (restore_code_seq s))" "same_node s (restore_block_info now s)"
proof -
  obtain v s1 where q: "query_meta ''instance_count'' s = (v, s1)" by fastforce
  with query_meta_same_node [where k = "''instance_count''" and s = s] show "same_node s (restore_instance_count s)"
    by (auto simp: restore_instance_count_def same_node_def SetInstanceCount_def split: option.splits)
  obtain out s4 where "db_call s = (out, s4)" by fastforce
  with same_node_call [of s] show "same_node s (snd (restore_code_seq s))"
    by (cases out) (simp_all add: restore_code_seq_def same_node_def SetCodeSeq_def Let_def)
  obtain b s2 where q2: "query_meta ''op_seq'' s = (b, s2)" by fastforce
  obtain c s3 where q3: "query_meta ''block_time'' s2 = (c, s3)" by fastforce
  show "same_node s (restore_block_info now s)"
    using query_meta_same_node [where k = "''op_seq''" and s = s] query_meta_same_node [where k = "''block_time''" and s = s2] q2 q3
    by (auto simp: restore_block_info_def same_node_def SetBlockInfo_def Let_def split: option.splits)
qed

lemma restore_same_node: "same_node s (snd (restore eng now s))"
proof -
  have storage: "same_node s (snd (restoreStorage s))" for s
    using for_rows_same_node(2) [of restore_entry, OF same_node_rows(4)]
    by (auto simp: restoreStorage_def same_node_def split: adapter.splits)
  have wrap: "snd (wrap_err p m) = snd m" for p m
    by (auto simp: wrap_err_def split: prod.splits option.splits)
  have seq: "same_node s (snd (restore_code_seq (restore_instance_count s)))" for s
    by (rule same_node_trans [OF restore_counters_same_node(1,2)])
  have blk: "same_node s (snd (restoreStorage (restore_block_info now s)))" for s
    by (rule same_node_trans [OF restore_counters_same_node(3) storage])
  have fin: "same_node s (s\<lparr>srv_vm := snd (TouchedAddresses (srv_vm s))\<rparr>)" for s
    by (simp add: same_node_def TouchedAddresses_def)
  show ?thesis
    unfolding restore_def
    by (intro and_then_same_node for_rows_same_node same_node_rows) (simp_all add: wrap seq blk fin)
qed

lemma nitrolite_mainD:
  assumes "nitrolite_main eng oe ee now1 now2 addr dir net minp db fs = Inr s"
  shows "is_memory (storage (srv_vm s)) \<and> chainID (srv_vm s) = ''nitrovm-1'' \<and> srv_minGasPrice s = minp
    \<and> srv_network s = parse_network net \<and> (net = ''devnet'' \<or> net = ''testnet'' \<or> net = ''mainnet'')"
proof -
  from assms obtain fs2 n s0 where n: "vm_New ee now1 (DefaultConfig\<lparr>DataDir := dir, PrintDebug := False\<rparr>) (MemoryAdapter mem_New) = Inr n"
    and s0: "s0 = server_New \<lparr>sc_Addr = addr, sc_DataDir = dir, sc_Network = net, sc_MinGasPrice = minp\<rparr> db fs2 n"
    and r: "restore eng now2 s0 = (None, s)" and net: "net = ''devnet'' \<or> net = ''testnet'' \<or> net = ''mainnet''"
    by (auto simp: nitrolite_main_def server_Restore_def Let_def split: if_splits option.splits prod.splits sum.splits)
  have "chainID n = ''nitrovm-1''" "is_memory (storage n)"
    using n by (auto simp: vm_New_def DefaultConfig_def is_memory_def split: option.splits)
  with s0 net have "chainID (srv_vm s0) = ''nitrovm-1''" "is_memory (storage (srv_vm s0))" "srv_minGasPrice s0 = minp"
    "srv_network s0 = parse_network net"
    by (auto simp: server_New_def Let_def)
  with restore_same_node [of s0 eng now2] r net show ?thesis by (simp add: same_node_def)
qed

text \<open>
  C6. A node on the test or main network mints nothing. From the start of the daemon on such a network, over
  every sequence of requests, contract behaviours and database failures, the total token supply never
  grows, the contract storage stays the in-memory one, the chain ID and the minimal gas price stay those
  of the start, and a faucet request is refused without effect.
\<close>

theorem no_minting_outside_devnet:
  assumes "nitrolite_main eng oe ee now1 now2 addr dir net minp db fs = Inr s" "net \<noteq> ''devnet''"
    and "typed_rlp ext" "node_run eng ext s t"
  shows "total_supply (srv_vm t) \<le> total_supply (srv_vm s) \<and> is_memory (storage (srv_vm t))
    \<and> vm_ChainID (srv_vm t) = ''nitrovm-1'' \<and> srv_minGasPrice t = minp
    \<and> serve eng qf ext clk (FaucetReq rq) t = Some (WriteErr 404 ''404 page not found'', t)"
proof -
  note start = nitrolite_mainD [OF assms(1)]
  then have net: "srv_network s \<noteq> Devnet" using assms(2) by (auto simp: parse_network_def)
  with node_run_keeps [OF assms(4,3)] start show ?thesis
    by (simp add: same_node_def vm_ChainID_def serve_def server_Handler_def)
qed

theorem no_minting_outside_devnet_witness:
  "\<exists>s. nitrolite_main demo_engine None None 0 0 [] [] ''testnet'' 7 demo_db [] = Inr s \<and> total_supply (srv_vm s) = 5
     \<and> serve demo_engine 2 toy_crypto demo_clock faucet_request s = Some (WriteErr 404 ''404 page not found'', s)"
proof -
  let ?r = "nitrolite_main demo_engine None None 0 0 [] [] ''testnet'' 7 demo_db []"
  have "(case ?r of Inl _ \<Rightarrow> None | Inr s \<Rightarrow> Some (total_supply (srv_vm s))) = Some 5" by code_simp
  then obtain s where s: "?r = Inr s" "total_supply (srv_vm s) = 5" by (cases ?r) auto
  from no_minting_outside_devnet [OF s(1) _ toy_typed_rlp stop, where qf = 2 and clk = demo_clock] s show ?thesis
    unfolding faucet_request_def by simp
qed

end
