(* ===== verification/Nitroctl.thy ===== *)
theory Nitroctl
  imports Crypto
begin

text \<open>
  \<^verbatim>\<open>cmd/nitroctl\<close>: the command-line client. The operating system and the network are the record \<open>cli_env\<close>,
  over a state \<^typ>\<open>'w\<close> of the world: files, and the answers of the server to requests. The text of a JSON
  document is parsed by its field \<open>e_json\<close>; decoding the document into the structs the client declares is
  modelled here. A command prints a text, returns an error, or exits with a message. The global flag
  variables are the record \<open>cli_flags\<close>. \<^verbatim>\<open>strings.TrimSpace\<close> is modelled on ASCII text.
\<close>

subsection \<open>JSON documents and replies\<close>

datatype json = JNullV | JBool bool | JNum string | JStr string | JArr "json list" | JObj "(string \<times> json) list"

record http_reply =
  rp_status :: nat
  rp_body :: "string + string"

record 'w cli_env =
  e_crypto :: crypto_ext
  e_json :: "string \<Rightarrow> string + json"
  e_default_key :: string
  e_ReadFile :: "string \<Rightarrow> 'w \<Rightarrow> string + string"
  e_MkdirParent :: "string \<Rightarrow> 'w \<Rightarrow> string option \<times> 'w"
  e_WriteFile :: "string \<Rightarrow> string \<Rightarrow> 'w \<Rightarrow> string option \<times> 'w"
  e_Get :: "string \<Rightarrow> 'w \<Rightarrow> (string + http_reply) \<times> 'w"
  e_Post :: "string \<Rightarrow> json \<Rightarrow> 'w \<Rightarrow> (string + http_reply) \<times> 'w"

record cli_flags =
  serverURL :: string
  flagGasLimit :: uint64
  flagNonce :: "uint64 option"
  flagFunds :: string
  flagKeyfile :: string
  flagGasPrice :: uint64

datatype cli_result = CliOut string | CliErr go_error | CliExit string | CliUsage

text \<open>
  \<^verbatim>\<open>json.Unmarshal\<close> into a struct with one tagged field. Keys match up to the case of ASCII letters (no
  field here has a letter with another folding), a later key overrides an earlier one, \<^verbatim>\<open>null\<close> leaves the
  field as it is, and the first mismatch of types is the error.
\<close>

definition lower_char :: "char \<Rightarrow> char" where
  "lower_char c = (let n = (of_char c :: nat) in if 65 \<le> n \<and> n \<le> 90 then char_of (n + 32) else c)"

primrec json_kind :: "json \<Rightarrow> string" where
  "json_kind JNullV = ''null''"
| "json_kind (JBool _) = ''bool''"
| "json_kind (JNum _) = ''number''"
| "json_kind (JStr _) = ''string''"
| "json_kind (JArr _) = ''array''"
| "json_kind (JObj _) = ''object''"

definition field_error :: "string \<Rightarrow> string \<Rightarrow> string \<Rightarrow> go_error" where
  "field_error value field ty = PlainErr (''json: cannot unmarshal '' @ value @ '' into Go struct field .''
     @ field @ '' of type '' @ ty)"

definition decode_string :: "string \<Rightarrow> string \<Rightarrow> json \<Rightarrow> go_error + string" where
  "decode_string field cur v = (case v of
       JStr s \<Rightarrow> Inr s | JNullV \<Rightarrow> Inr cur | _ \<Rightarrow> Inl (field_error (json_kind v) field ''string''))"

definition decode_uint64 :: "string \<Rightarrow> uint64 \<Rightarrow> json \<Rightarrow> go_error + uint64" where
  "decode_uint64 field cur v = (case v of
       JNum lit \<Rightarrow> (case ParseUint64 lit of Some n \<Rightarrow> Inr n | None \<Rightarrow> Inl (field_error (''number '' @ lit) field ''uint64''))
     | JNullV \<Rightarrow> Inr cur | _ \<Rightarrow> Inl (field_error (json_kind v) field ''uint64''))"

fun decode_fields :: "(string \<Rightarrow> 'a \<Rightarrow> json \<Rightarrow> go_error + 'a) \<Rightarrow> string \<Rightarrow> (string \<times> json) list \<Rightarrow> 'a \<Rightarrow> go_error + 'a" where
  "decode_fields dec field [] cur = Inr cur"
| "decode_fields dec field ((k, v) # kvs) cur =
     (if map lower_char k = field
      then (case dec field cur v of
          Inl e \<Rightarrow> Inl e
        | Inr x \<Rightarrow> decode_fields dec field kvs x)
      else decode_fields dec field kvs cur)"

definition unmarshal :: "'w cli_env \<Rightarrow> (string \<Rightarrow> 'a \<Rightarrow> json \<Rightarrow> go_error + 'a) \<Rightarrow> 'a \<Rightarrow> string \<Rightarrow> string \<Rightarrow> string
    \<Rightarrow> go_error + 'a" where
  "unmarshal env dec zero structTy field raw = (case e_json env raw of
       Inl e \<Rightarrow> Inl (PlainErr e)
     | Inr doc \<Rightarrow> (case doc of
         JObj kvs \<Rightarrow> decode_fields dec field kvs zero
       | JNullV \<Rightarrow> Inr zero
       | _ \<Rightarrow> Inl (PlainErr (''json: cannot unmarshal '' @ json_kind doc @ '' into Go value of type '' @ structTy))))"

definition struct_type :: "string \<Rightarrow> string \<Rightarrow> string \<Rightarrow> string" where
  "struct_type goField ty field = ''struct { '' @ goField @ '' '' @ ty @ '' '' @ go_quote (''json:'' @ go_quote field) @ '' }''"

definition unmarshal_string :: "'w cli_env \<Rightarrow> string \<Rightarrow> string \<Rightarrow> string \<Rightarrow> go_error + string" where
  "unmarshal_string env goField field = unmarshal env decode_string [] (struct_type goField ''string'' field) field"

definition unmarshal_uint64 :: "'w cli_env \<Rightarrow> string \<Rightarrow> string \<Rightarrow> string \<Rightarrow> go_error + uint64" where
  "unmarshal_uint64 env goField field = unmarshal env decode_uint64 0 (struct_type goField ''uint64'' field) field"

definition is_space :: "char \<Rightarrow> bool" where
  "is_space c \<longleftrightarrow> (let n = (of_char c :: nat) in n = 32 \<or> 9 \<le> n \<and> n \<le> 13)"

definition TrimSpace :: "string \<Rightarrow> string" where
  "TrimSpace s = rev (dropWhile is_space (rev (dropWhile is_space s)))"

text \<open>\<^verbatim>\<open>readResponse\<close>\<close>

definition readResponse :: "'w cli_env \<Rightarrow> http_reply \<Rightarrow> go_error + string" where
  "readResponse env resp = (case rp_body resp of
       Inl e \<Rightarrow> Inl (WrapErr ''read response'' (PlainErr e))
     | Inr raw \<Rightarrow>
         let errField = unmarshal_string env ''Error'' ''error'' raw in
         if rp_status resp \<ge> 400 then
           (case errField of
             Inr e \<Rightarrow> if e \<noteq> [] then Inl (PlainErr (''server error (HTTP '' @ dec_nat (rp_status resp) @ ''): '' @ e))
                      else Inl (PlainErr (''server error: HTTP '' @ dec_nat (rp_status resp) @ '': '' @ TrimSpace raw))
           | Inl _ \<Rightarrow> Inl (PlainErr (''server error: HTTP '' @ dec_nat (rp_status resp) @ '': '' @ TrimSpace raw)))
         else (case errField of
             Inr e \<Rightarrow> if e \<noteq> [] then Inl (PlainErr e) else Inr raw
           | Inl _ \<Rightarrow> Inr raw))"

text \<open>A request and its \<^verbatim>\<open>readResponse\<close>.\<close>

definition do_Get :: "'w cli_env \<Rightarrow> string \<Rightarrow> 'w \<Rightarrow> (go_error + string) \<times> 'w" where
  "do_Get env url w = (case e_Get env url w of
       (Inl e, w1) \<Rightarrow> (Inl (PlainErr e), w1) | (Inr resp, w1) \<Rightarrow> (readResponse env resp, w1))"

definition do_Post :: "'w cli_env \<Rightarrow> string \<Rightarrow> json \<Rightarrow> 'w \<Rightarrow> (go_error + http_reply) \<times> 'w" where
  "do_Post env url body w = (case e_Post env url body w of
       (Inl e, w1) \<Rightarrow> (Inl (PlainErr e), w1) | (Inr resp, w1) \<Rightarrow> (Inr resp, w1))"

definition Println :: "string \<Rightarrow> cli_result" where
  "Println s = CliOut (s @ [CHR 0x0A])"

subsection \<open>Keys, nonces and funds\<close>

definition loadPrivateKey :: "'w cli_env \<Rightarrow> string \<Rightarrow> 'w \<Rightarrow> go_error + privkey" where
  "loadPrivateKey env path w = (case e_ReadFile env path w of
       Inl e \<Rightarrow> Inl (WrapErr (''read keyfile '' @ path) (PlainErr e))
     | Inr data \<Rightarrow> (case hex_DecodeString (TrimHexPrefix (TrimSpace data)) of
         Inl e \<Rightarrow> Inl (WrapErr ''bad hex in keyfile'' (PlainErr (hex_error_text e)))
       | Inr b \<Rightarrow> if length b \<noteq> 32
           then Inl (PlainErr (''keyfile must contain 32 bytes, got '' @ dec_nat (length b)))
           else Inr b))"

definition key_path :: "'w cli_env \<Rightarrow> cli_flags \<Rightarrow> string" where
  "key_path env fl = (if flagKeyfile fl = [] then e_default_key env else flagKeyfile fl)"

definition mustLoadKey :: "'w cli_env \<Rightarrow> cli_flags \<Rightarrow> 'w \<Rightarrow> cli_result + privkey" where
  "mustLoadKey env fl w = (case loadPrivateKey env (key_path env fl) w of
       Inl e \<Rightarrow> Inl (CliExit (''error: '' @ Error e @ [CHR 0x0A]
                  @ ''Run 'nitroctl keygen' to create a key, or use --keyfile'' @ [CHR 0x0A]))
     | Inr key \<Rightarrow> Inr key)"

definition fetchNonce :: "'w cli_env \<Rightarrow> cli_flags \<Rightarrow> address \<Rightarrow> 'w \<Rightarrow> (go_error + uint64) \<times> 'w" where
  "fetchNonce env fl addr w = (case do_Get env (serverURL fl @ ''/account/'' @ Hex addr) w of
       (Inl e, w1) \<Rightarrow> (Inl e, w1)
     | (Inr raw, w1) \<Rightarrow> (case unmarshal_uint64 env ''Nonce'' ''nonce'' raw of
         Inl e \<Rightarrow> (Inl (WrapErr ''parse nonce response'' e), w1)
       | Inr nonce \<Rightarrow> (Inr nonce, w1)))"

definition fetchChainID :: "'w cli_env \<Rightarrow> cli_flags \<Rightarrow> 'w \<Rightarrow> (go_error + string) \<times> 'w" where
  "fetchChainID env fl w = (case do_Get env (serverURL fl @ ''/status'') w of
       (Inl e, w1) \<Rightarrow> (Inl e, w1)
     | (Inr raw, w1) \<Rightarrow> (case unmarshal_string env ''ChainID'' ''chain_id'' raw of
         Inl e \<Rightarrow> (Inl (WrapErr ''parse status response'' e), w1)
       | Inr chain \<Rightarrow> (Inr chain, w1)))"

definition getNonce :: "'w cli_env \<Rightarrow> cli_flags \<Rightarrow> address \<Rightarrow> 'w \<Rightarrow> (go_error + uint64) \<times> 'w" where
  "getNonce env fl addr w = (case flagNonce fl of Some n \<Rightarrow> (Inr n, w) | None \<Rightarrow> fetchNonce env fl addr w)"

definition parseFundsRLP :: "cli_flags \<Rightarrow> cli_result + RLPCoin list" where
  "parseFundsRLP fl = (let s = flagFunds fl; i = length (takeWhile (\<lambda>c. digit_val c \<noteq> None) s) in
     if s = [] then Inr []
     else if i = 0 \<or> i = length s
       then Inl (CliExit (''bad --funds format '' @ go_quote s @ '', expected <amount><denom> e.g. 100YELLOW'' @ [CHR 0x0A]))
     else Inr [\<lparr>rlp_Denom = drop i s, rlp_Amount = take i s\<rparr>])"

definition signAndMarshal :: "'w cli_env \<Rightarrow> Transaction \<Rightarrow> privkey \<Rightarrow> go_error + json" where
  "signAndMarshal env tx key = (case SignTx (e_crypto env) tx key of
       Inl e \<Rightarrow> Inl (WrapErr ''sign tx'' e)
     | Inr stx \<Rightarrow> (case EncodeSignedTx (e_crypto env) stx of
         Inl e \<Rightarrow> Inl (WrapErr ''encode signed tx'' e)
       | Inr encoded \<Rightarrow> Inr (JObj [(''tx'', JStr (hex_EncodeToString encoded))])))"

definition go_bytes :: "string \<Rightarrow> bytes" where
  "go_bytes s = map byte_of_char s"

subsection \<open>Commands that need a key\<close>

text \<open>\<open>rnd\<close> is what \<^verbatim>\<open>rand.Read\<close> returned: an error or the 32 bytes.\<close>

definition cmdKeygen :: "'w cli_env \<Rightarrow> cli_flags \<Rightarrow> string + bytes \<Rightarrow> 'w \<Rightarrow> cli_result \<times> 'w" where
  "cmdKeygen env fl rnd w = (let path = key_path env fl in
     (case rnd of
       Inl e \<Rightarrow> (CliErr (WrapErr ''generate key'' (PlainErr e)), w)
     | Inr b \<Rightarrow>
         let addr = DeriveAddress (e_crypto env) b in
         (case e_MkdirParent env path w of
           (Some e, w1) \<Rightarrow> (CliErr (PlainErr e), w1)
         | (None, w1) \<Rightarrow> (case e_WriteFile env path (hex_EncodeToString b @ [CHR 0x0A]) w1 of
             (Some e, w2) \<Rightarrow> (CliErr (PlainErr e), w2)
           | (None, w2) \<Rightarrow> (CliOut (''Address: '' @ Hex addr @ [CHR 0x0A] @ ''Key saved to '' @ path @ [CHR 0x0A]), w2)))))"

definition cmdAddress :: "'w cli_env \<Rightarrow> cli_flags \<Rightarrow> 'w \<Rightarrow> cli_result \<times> 'w" where
  "cmdAddress env fl w = (case mustLoadKey env fl w of
       Inl r \<Rightarrow> (r, w) | Inr key \<Rightarrow> (Println (Hex (DeriveAddress (e_crypto env) key)), w))"

text \<open>The common beginning of the signed commands: the key, the chain ID and the nonce.\<close>

definition with_identity :: "'w cli_env \<Rightarrow> cli_flags \<Rightarrow> (privkey \<Rightarrow> string \<Rightarrow> uint64 \<Rightarrow> 'w \<Rightarrow> cli_result \<times> 'w)
    \<Rightarrow> 'w \<Rightarrow> cli_result \<times> 'w" where
  "with_identity env fl f w = (case mustLoadKey env fl w of
       Inl r \<Rightarrow> (r, w)
     | Inr key \<Rightarrow> (case fetchChainID env fl w of
         (Inl e, w1) \<Rightarrow> (CliErr (WrapErr ''fetch chain ID'' e), w1)
       | (Inr chainID, w1) \<Rightarrow> (case getNonce env fl (DeriveAddress (e_crypto env) key) w1 of
           (Inl e, w2) \<Rightarrow> (CliErr (WrapErr ''fetch nonce'' e), w2)
         | (Inr nonce, w2) \<Rightarrow> f key chainID nonce w2)))"

definition with_funds :: "cli_flags \<Rightarrow> (RLPCoin list \<Rightarrow> 'w \<Rightarrow> cli_result \<times> 'w) \<Rightarrow> 'w \<Rightarrow> cli_result \<times> 'w" where
  "with_funds fl f w = (case parseFundsRLP fl of Inl r \<Rightarrow> (r, w) | Inr funds \<Rightarrow> f funds w)"

text \<open>Signing, posting and reading the response; \<open>wrap\<close> is what the caller makes of a response error.\<close>

definition post_signed :: "'w cli_env \<Rightarrow> cli_flags \<Rightarrow> string \<Rightarrow> (go_error \<Rightarrow> go_error) \<Rightarrow> Transaction \<Rightarrow> privkey
    \<Rightarrow> (string \<Rightarrow> 'w \<Rightarrow> cli_result \<times> 'w) \<Rightarrow> 'w \<Rightarrow> cli_result \<times> 'w" where
  "post_signed env fl path wrap tx key f w = (case signAndMarshal env tx key of
       Inl e \<Rightarrow> (CliErr e, w)
     | Inr body \<Rightarrow> (case do_Post env (serverURL fl @ path) body w of
         (Inl e, w1) \<Rightarrow> (CliErr e, w1)
       | (Inr resp, w1) \<Rightarrow> (case readResponse env resp of
           Inl e \<Rightarrow> (CliErr (wrap e), w1) | Inr raw \<Rightarrow> f raw w1)))"

text \<open>The zero value of a transaction; an address that is not set is 20 zero bytes.\<close>

definition base_tx :: "cli_flags \<Rightarrow> string \<Rightarrow> uint64 \<Rightarrow> TxType \<Rightarrow> Transaction" where
  "base_tx fl chain nonce ty = \<lparr>tx_ChainID = chain, tx_Nonce = nonce, tx_GasLimit = flagGasLimit fl,
     tx_GasPrice = flagGasPrice fl, tx_Type = ty, tx_Code = [], tx_CodeID = [], tx_Label = [],
     tx_Contract = ZeroAddress, tx_Msg = [], tx_Funds = []\<rparr>"

definition print_field :: "'w cli_env \<Rightarrow> string \<Rightarrow> string \<Rightarrow> string \<Rightarrow> string \<Rightarrow> 'w \<Rightarrow> cli_result \<times> 'w" where
  "print_field env label goField field raw w = (case unmarshal_string env goField field raw of
       Inl e \<Rightarrow> (CliErr (WrapErr label e), w) | Inr v \<Rightarrow> (Println v, w))"

definition cmdStore :: "'w cli_env \<Rightarrow> cli_flags \<Rightarrow> string list \<Rightarrow> 'w \<Rightarrow> cli_result \<times> 'w" where
  "cmdStore env fl args w = (if length args < 1 then (CliErr (PlainErr ''usage: store <file.wasm>''), w)
     else (case e_ReadFile env (args ! 0) w of
       Inl e \<Rightarrow> (CliErr (PlainErr e), w)
     | Inr wasm \<Rightarrow> with_identity env fl (\<lambda>key chainID nonce.
         post_signed env fl ''/store'' id ((base_tx fl chainID nonce TxStore)\<lparr>tx_Code := go_bytes wasm\<rparr>) key
           (print_field env ''parse response'' ''CodeID'' ''code_id'')) w))"

definition arg_label :: "string list \<Rightarrow> string" where
  "arg_label args = (if length args \<ge> 3 then args ! 2 else ''default'')"

text \<open>\<open>usage_msg\<close> is a usage text that ends in the quoted argument \<^verbatim>\<open>'<msg>'\<close> and \<open>rest\<close>.\<close>

definition usage_msg :: "string \<Rightarrow> string \<Rightarrow> go_error" where
  "usage_msg cmd rest = PlainErr (''usage: '' @ cmd @ [CHR '' '', CHR 0x27] @ ''<msg>'' @ [CHR 0x27] @ rest)"

definition cmdInstantiate :: "'w cli_env \<Rightarrow> cli_flags \<Rightarrow> string list \<Rightarrow> 'w \<Rightarrow> cli_result \<times> 'w" where
  "cmdInstantiate env fl args w = (if length args < 2
     then (CliErr (usage_msg ''instantiate <code-id>'' '' [label]''), w)
     else (case hex_DecodeString (args ! 0) of
       Inl e \<Rightarrow> (CliErr (WrapErr ''bad code-id hex'' (PlainErr (hex_error_text e))), w)
     | Inr codeID \<Rightarrow> with_identity env fl (\<lambda>key chainID nonce. with_funds fl (\<lambda>funds.
         post_signed env fl ''/instantiate'' id
           ((base_tx fl chainID nonce TxInstantiate)\<lparr>tx_CodeID := codeID, tx_Label := arg_label args,
              tx_Msg := go_bytes (args ! 1), tx_Funds := funds\<rparr>) key
           (print_field env ''parse response'' ''Contract'' ''contract''))) w))"

definition cmdExecute :: "'w cli_env \<Rightarrow> cli_flags \<Rightarrow> string list \<Rightarrow> 'w \<Rightarrow> cli_result \<times> 'w" where
  "cmdExecute env fl args w = (if length args < 2
     then (CliErr (usage_msg ''execute <contract>'' []), w)
     else (case HexToAddress (args ! 0) of
       Inl e \<Rightarrow> (CliErr (WrapErr ''bad contract'' e), w)
     | Inr contract \<Rightarrow> with_identity env fl (\<lambda>key chainID nonce. with_funds fl (\<lambda>funds.
         post_signed env fl ''/execute'' id
           ((base_tx fl chainID nonce TxExecute)\<lparr>tx_Contract := contract, tx_Msg := go_bytes (args ! 1), tx_Funds := funds\<rparr>) key
           (\<lambda>raw w1. (Println (TrimSpace raw), w1)))) w))"

definition cmdDeploy :: "'w cli_env \<Rightarrow> cli_flags \<Rightarrow> string list \<Rightarrow> 'w \<Rightarrow> cli_result \<times> 'w" where
  "cmdDeploy env fl args w = (if length args < 2
     then (CliErr (usage_msg ''deploy <file.wasm>'' '' [label]''), w)
     else (case e_ReadFile env (args ! 0) w of
       Inl e \<Rightarrow> (CliErr (PlainErr e), w)
     | Inr wasm \<Rightarrow> with_identity env fl (\<lambda>key chainID nonce.
         post_signed env fl ''/store'' (WrapErr ''store'') ((base_tx fl chainID nonce TxStore)\<lparr>tx_Code := go_bytes wasm\<rparr>) key
           (\<lambda>raw w1. case unmarshal_string env ''CodeID'' ''code_id'' raw of
               Inl e \<Rightarrow> (CliErr (WrapErr ''parse store response'' e), w1)
             | Inr hexID \<Rightarrow> (case hex_DecodeString hexID of
                 Inl e \<Rightarrow> (CliErr (WrapErr ''bad code_id hex'' (PlainErr (hex_error_text e))), w1)
               | Inr codeID \<Rightarrow> with_funds fl (\<lambda>funds.
                   post_signed env fl ''/instantiate'' (WrapErr ''instantiate'')
                     ((base_tx fl chainID (nonce + 1) TxInstantiate)\<lparr>tx_CodeID := codeID, tx_Label := arg_label args,
                        tx_Msg := go_bytes (args ! 1), tx_Funds := funds\<rparr>) key
                     (print_field env ''parse instantiate response'' ''Contract'' ''contract'')) w1))) w))"

subsection \<open>Commands that read\<close>

definition get_print :: "'w cli_env \<Rightarrow> string \<Rightarrow> 'w \<Rightarrow> cli_result \<times> 'w" where
  "get_print env url w = (case do_Get env url w of
       (Inl e, w1) \<Rightarrow> (CliErr e, w1) | (Inr raw, w1) \<Rightarrow> (Println (TrimSpace raw), w1))"

definition post_read :: "'w cli_env \<Rightarrow> string \<Rightarrow> json \<Rightarrow> 'w \<Rightarrow> (go_error + string) \<times> 'w" where
  "post_read env url body w = (case do_Post env url body w of
       (Inl e, w1) \<Rightarrow> (Inl e, w1) | (Inr resp, w1) \<Rightarrow> (readResponse env resp, w1))"

text \<open>Marshalling a \<^verbatim>\<open>json.RawMessage\<close> fails if it is not a JSON document.\<close>

definition cmdQuery :: "'w cli_env \<Rightarrow> cli_flags \<Rightarrow> string list \<Rightarrow> 'w \<Rightarrow> cli_result \<times> 'w" where
  "cmdQuery env fl args w = (if length args < 2
     then (CliErr (usage_msg ''query <contract>'' []), w)
     else (case e_json env (args ! 1) of
       Inl e \<Rightarrow> (CliErr (WrapErr ''marshal request'' (PlainErr (''json: error calling MarshalJSON for type json.RawMessage: '' @ e))), w)
     | Inr msg \<Rightarrow>
         (case post_read env (serverURL fl @ ''/query'')
             (JObj ([(''contract'', JStr (args ! 0))]
                @ (if flagGasLimit fl \<noteq> 500000000000 then [(''gas_limit'', JNum (dec_nat (unat (flagGasLimit fl))))] else [])
                @ [(''msg'', msg)])) w of
           (Inl e, w1) \<Rightarrow> (CliErr e, w1)
         | (Inr raw, w1) \<Rightarrow> (Println (TrimSpace raw), w1))))"

definition cmdBalance :: "'w cli_env \<Rightarrow> cli_flags \<Rightarrow> string list \<Rightarrow> 'w \<Rightarrow> cli_result \<times> 'w" where
  "cmdBalance env fl args w = (if length args < 1 then (CliErr (PlainErr ''usage: balance <address>''), w)
     else (case do_Get env (serverURL fl @ ''/balance/'' @ args ! 0) w of
       (Inl e, w1) \<Rightarrow> (CliErr e, w1)
     | (Inr raw, w1) \<Rightarrow> print_field env ''parse response'' ''Balance'' ''balance'' raw w1))"

definition cmdFaucet :: "'w cli_env \<Rightarrow> cli_flags \<Rightarrow> string list \<Rightarrow> 'w \<Rightarrow> cli_result \<times> 'w" where
  "cmdFaucet env fl args w = (if length args < 2 then (CliErr (PlainErr ''usage: faucet <address> <amount>''), w)
     else if big_SetString (args ! 1) = None
       then (CliErr (PlainErr (''bad amount: '' @ go_quote (args ! 1) @ '' is not a valid integer'')), w)
     else (case post_read env (serverURL fl @ ''/faucet'')
              (JObj [(''address'', JStr (args ! 0)), (''amount'', JStr (args ! 1))]) w of
       (Inl e, w1) \<Rightarrow> (CliErr e, w1) | (Inr _, w1) \<Rightarrow> (CliOut [], w1)))"

fun event_params :: "string list \<Rightarrow> string list \<Rightarrow> go_error + string list" where
  "event_params (flag # v # args) params =
     (if flag = ''--contract'' then event_params args (params @ [''contract='' @ v])
      else if flag = ''--type'' then event_params args (params @ [''type='' @ v])
      else if flag = ''--sender'' then event_params args (params @ [''sender='' @ v])
      else if flag = ''--limit'' then event_params args (params @ [''limit='' @ v])
      else Inl (PlainErr (''unknown flag: '' @ flag)))"
| "event_params args params = Inr params"

fun strings_Join :: "string list \<Rightarrow> string \<Rightarrow> string" where
  "strings_Join [] sep = []"
| "strings_Join [x] sep = x"
| "strings_Join (x # y # xs) sep = x @ sep @ strings_Join (y # xs) sep"

definition cmdEvents :: "'w cli_env \<Rightarrow> cli_flags \<Rightarrow> string list \<Rightarrow> 'w \<Rightarrow> cli_result \<times> 'w" where
  "cmdEvents env fl args w = (case event_params args [] of
       Inl e \<Rightarrow> (CliErr e, w)
     | Inr params \<Rightarrow> get_print env (serverURL fl @ ''/events''
         @ (if length params > 0 then ''?'' @ strings_Join params ''&'' else [])) w)"

definition cmdListCodes :: "'w cli_env \<Rightarrow> cli_flags \<Rightarrow> 'w \<Rightarrow> cli_result \<times> 'w" where
  "cmdListCodes env fl = get_print env (serverURL fl @ ''/codes'')"

definition cmdListContracts :: "'w cli_env \<Rightarrow> cli_flags \<Rightarrow> 'w \<Rightarrow> cli_result \<times> 'w" where
  "cmdListContracts env fl = get_print env (serverURL fl @ ''/contracts'')"

definition cmdInfo :: "'w cli_env \<Rightarrow> cli_flags \<Rightarrow> string list \<Rightarrow> 'w \<Rightarrow> cli_result \<times> 'w" where
  "cmdInfo env fl args w = (if length args < 1 then (CliErr (PlainErr ''usage: info <address>''), w)
     else get_print env (serverURL fl @ ''/contract/'' @ args ! 0) w)"

definition cmdAccount :: "'w cli_env \<Rightarrow> cli_flags \<Rightarrow> string list \<Rightarrow> 'w \<Rightarrow> cli_result \<times> 'w" where
  "cmdAccount env fl args w = (if length args < 1 then (CliErr (PlainErr ''usage: account <address>''), w)
     else get_print env (serverURL fl @ ''/account/'' @ args ! 0) w)"

definition cmdStatus :: "'w cli_env \<Rightarrow> cli_flags \<Rightarrow> 'w \<Rightarrow> cli_result \<times> 'w" where
  "cmdStatus env fl = get_print env (serverURL fl @ ''/status'')"

subsection \<open>The main program\<close>

definition ParseUint_error :: "string \<Rightarrow> string" where
  "ParseUint_error s = ''strconv.ParseUint: parsing '' @ go_quote s @ '': ''
     @ (if parse_nat s = None then ''invalid syntax'' else ''value out of range'')"

definition bad_flag :: "string \<Rightarrow> string \<Rightarrow> cli_result" where
  "bad_flag name v = CliExit (''bad '' @ name @ '': '' @ ParseUint_error v @ [CHR 0x0A])"

text \<open>The loop over the global flags; it ends at the first argument that is none, or when one is left.\<close>

fun consume_flags :: "string list \<Rightarrow> cli_flags \<Rightarrow> cli_result + (cli_flags \<times> string list)" where
  "consume_flags (a # v # args) fl =
     (if a = ''--server'' then consume_flags args (fl\<lparr>serverURL := v\<rparr>)
      else if a = ''--gas-limit'' then (case ParseUint64 v of
          None \<Rightarrow> Inl (bad_flag a v) | Some n \<Rightarrow> consume_flags args (fl\<lparr>flagGasLimit := n\<rparr>))
      else if a = ''--funds'' then consume_flags args (fl\<lparr>flagFunds := v\<rparr>)
      else if a = ''--nonce'' then (case ParseUint64 v of
          None \<Rightarrow> Inl (bad_flag a v) | Some n \<Rightarrow> consume_flags args (fl\<lparr>flagNonce := Some n\<rparr>))
      else if a = ''--keyfile'' then consume_flags args (fl\<lparr>flagKeyfile := v\<rparr>)
      else if a = ''--gas-price'' then (case ParseUint64 v of
          None \<Rightarrow> Inl (bad_flag a v) | Some n \<Rightarrow> consume_flags args (fl\<lparr>flagGasPrice := n\<rparr>))
      else Inr (fl, a # v # args))"
| "consume_flags args fl = Inr (fl, args)"

definition default_flags :: cli_flags where
  "default_flags = \<lparr>serverURL = ''http://localhost:26657'', flagGasLimit = 500000000000, flagNonce = None,
     flagFunds = [], flagKeyfile = [], flagGasPrice = 1\<rparr>"

definition env_flags :: "string \<Rightarrow> string \<Rightarrow> cli_flags" where
  "env_flags nitro_server nitro_keyfile = default_flags
     \<lparr>serverURL := (if nitro_server \<noteq> [] then nitro_server else serverURL default_flags),
      flagKeyfile := nitro_keyfile\<rparr>"

definition run_command :: "'w cli_env \<Rightarrow> string + bytes \<Rightarrow> cli_flags \<Rightarrow> string list \<Rightarrow> 'w \<Rightarrow> cli_result \<times> 'w" where
  "run_command env rnd fl args w = (case args of
       [] \<Rightarrow> (CliUsage, w)
     | cmd # rest \<Rightarrow>
         if cmd = ''keygen'' then cmdKeygen env fl rnd w
         else if cmd = ''address'' then cmdAddress env fl w
         else if cmd = ''store'' then cmdStore env fl rest w
         else if cmd = ''instantiate'' then cmdInstantiate env fl rest w
         else if cmd = ''execute'' then cmdExecute env fl rest w
         else if cmd = ''query'' then cmdQuery env fl rest w
         else if cmd = ''balance'' then cmdBalance env fl rest w
         else if cmd = ''faucet'' then cmdFaucet env fl rest w
         else if cmd = ''events'' then cmdEvents env fl rest w
         else if cmd = ''list-codes'' then cmdListCodes env fl w
         else if cmd = ''list-contracts'' then cmdListContracts env fl w
         else if cmd = ''info'' then cmdInfo env fl rest w
         else if cmd = ''deploy'' then cmdDeploy env fl rest w
         else if cmd = ''account'' then cmdAccount env fl rest w
         else if cmd = ''status'' then cmdStatus env fl w
         else (CliUsage, w))"

definition nitroctl_main :: "'w cli_env \<Rightarrow> string \<Rightarrow> string \<Rightarrow> string + bytes \<Rightarrow> string list \<Rightarrow> 'w \<Rightarrow> cli_result \<times> 'w" where
  "nitroctl_main env nitro_server nitro_keyfile rnd args w =
     (case consume_flags args (env_flags nitro_server nitro_keyfile) of
       Inl r \<Rightarrow> (r, w)
     | Inr (fl, rest) \<Rightarrow> (case run_command env rnd fl rest w of
         (CliErr e, w1) \<Rightarrow> (CliExit (''error: '' @ Error e @ [CHR 0x0A]), w1)
       | (r, w1) \<Rightarrow> (r, w1)))"

end
