(* ===== verification/Nitroctl_Theorems.thy ===== *)
theory Nitroctl_Theorems
  imports Nitroctl Node_Theorems
begin

text \<open>
  Theorems about the client, and about the client and the node together.
\<close>

subsection \<open>Signed requests reach the node\<close>

lemma TrimPrefix_hex: "TrimPrefix (hex_EncodeToString bs) ''0x'' = hex_EncodeToString bs"
proof -
  have "hex_EncodeToString bs ! 1 \<noteq> CHR ''x''" if "bs \<noteq> []"
    using that hex_digit_not_x by (cases bs) (auto simp: Let_def)
  moreover have "take 2 (hex_EncodeToString bs) ! 1 = hex_EncodeToString bs ! 1" by simp
  ultimately have "take 2 (hex_EncodeToString bs) \<noteq> ''0x''"
    by (cases "bs = []") fastforce+
  then show ?thesis by (simp add: TrimPrefix_def numeral_2_eq_2)
qed

text \<open>
  C20. What the client signs the node accepts as the client meant it: the request body made from a
  transaction and a key authenticates, at every node with the chain ID of the transaction and a minimal gas
  price not above its own, as exactly that transaction, sent by the address the client derives from the key.
\<close>

theorem client_request_authenticates:
  assumes "rlp_laws (e_crypto env)" "\<forall>hash. HashTx (e_crypto env) tx = Inr hash \<longrightarrow> ecdsa_laws (e_crypto env) key hash"
    and "signAndMarshal env tx key = Inr body"
    and "tx_ChainID tx = vm_ChainID (srv_vm s)" "srv_minGasPrice s \<le> tx_GasPrice tx"
  shows "\<exists>h stx. body = JObj [(''tx'', JStr h)] \<and> stx_Tx stx = tx
    \<and> parseSigned (e_crypto env) s \<lparr>rq_read_err = None, rq_tx = Some h\<rparr> = Inr (stx, DeriveAddress (e_crypto env) key)"
proof -
  from assms(3) obtain stx encoded where sig: "SignTx (e_crypto env) tx key = Inr stx"
    and enc: "EncodeSignedTx (e_crypto env) stx = Inr encoded" and body: "body = JObj [(''tx'', JStr (hex_EncodeToString encoded))]"
    by (auto simp: signAndMarshal_def split: sum.splits)
  note rec = SignTx_recovers [OF sig assms(2)]
  then have "stx_V stx \<le> 1" by (auto simp: RecoverSender_def not_less split: if_splits)
  with rec enc have dec: "DecodeSignedTx (e_crypto env) encoded = Inr stx"
    by (intro Decode_EncodeSignedTx [OF assms(1)]) simp
  have "encoded \<noteq> []" using enc by (auto simp: EncodeSignedTx_def split: sum.splits)
  then have "hex_EncodeToString encoded \<noteq> []" using length_hex_Encode [of encoded] by fastforce
  then have "parseSigned (e_crypto env) s \<lparr>rq_read_err = None, rq_tx = Some (hex_EncodeToString encoded)\<rparr>
      = Inr (stx, DeriveAddress (e_crypto env) key)"
    using rec dec assms(4,5) by (simp add: parseSigned_def TrimPrefix_hex not_less)
  with body rec show ?thesis by blast
qed

definition toy_env :: "(string \<rightharpoonup> string) cli_env" where
  "toy_env = \<lparr>e_crypto = toy_crypto, e_json = (\<lambda>_. Inl ''no''), e_default_key = ''key'',
     e_ReadFile = (\<lambda>p w. case w p of Some d \<Rightarrow> Inr d | None \<Rightarrow> Inl ''no such file''),
     e_MkdirParent = (\<lambda>p w. (None, w)), e_WriteFile = (\<lambda>p d w. (None, w(p \<mapsto> d))),
     e_Get = (\<lambda>u w. (Inl ''refused'', w)), e_Post = (\<lambda>u b w. (Inl ''refused'', w))\<rparr>"

theorem client_request_authenticates_witness:
  "\<exists>h stx. signAndMarshal toy_env (toy_tx 3) [9] = Inr (JObj [(''tx'', JStr h)])
    \<and> parseSigned toy_crypto (demo_server []) \<lparr>rq_read_err = None, rq_tx = Some h\<rparr> = Inr (stx, DeriveAddress toy_crypto [9])"
proof -
  obtain body where b: "signAndMarshal toy_env (toy_tx 3) [9] = Inr body"
    by (auto simp: signAndMarshal_def SignTx_def HashTx_def EncodeTx_def EncodeSignedTx_def toy_crypto_def toy_env_def Let_def)
  have "tx_ChainID (toy_tx 3) = vm_ChainID demo_vm" "srv_minGasPrice (demo_server []) \<le> tx_GasPrice (toy_tx 3)"
    by (simp_all add: toy_tx_def vm_ChainID_def demo_vm_def demo_server_def)
  with client_request_authenticates [OF _ _ b, of "demo_server []"] b toy_rlp_laws toy_ecdsa_laws show ?thesis
    by (auto simp: toy_env_def)
qed

subsection \<open>The funds flag\<close>

text \<open>
  C36. The flag \<^verbatim>\<open>--funds\<close> is read as an amount and a denomination exactly when it is a decimal number
  followed by a non-empty rest that does not start with a digit; the coin carries the two parts, and its
  amount is one the node parses. Every other non-empty value ends the program with a message.
\<close>

theorem funds_flag_spec:
  "(parseFundsRLP fl = Inr [c] \<longleftrightarrow> (flagFunds fl = rlp_Amount c @ rlp_Denom c \<and> rlp_Amount c \<noteq> [] \<and> rlp_Denom c \<noteq> []
       \<and> list_all (\<lambda>d. digit_val d \<noteq> None) (rlp_Amount c) \<and> digit_val (hd (rlp_Denom c)) = None))
   \<and> (parseFundsRLP fl = Inr [c] \<longrightarrow> (\<exists>a. NewAmountFromString (rlp_Amount c) = Inr a))
   \<and> (parseFundsRLP fl = Inr [] \<longleftrightarrow> flagFunds fl = [])"
proof -
  let ?d = "\<lambda>ch. digit_val ch \<noteq> None"
  have split: "(takeWhile ?d s = a \<and> dropWhile ?d s = b \<and> a \<noteq> [] \<and> b \<noteq> [])
      \<longleftrightarrow> s = a @ b \<and> a \<noteq> [] \<and> b \<noteq> [] \<and> list_all ?d a \<and> digit_val (hd b) = None" for s a b
  proof
    assume "takeWhile ?d s = a \<and> dropWhile ?d s = b \<and> a \<noteq> [] \<and> b \<noteq> []"
    moreover have "list_all ?d (takeWhile ?d s)" by (auto simp: list_all_iff dest: set_takeWhileD)
    moreover have "takeWhile ?d s @ dropWhile ?d s = s" by simp
    ultimately show "s = a @ b \<and> a \<noteq> [] \<and> b \<noteq> [] \<and> list_all ?d a \<and> digit_val (hd b) = None"
      using hd_dropWhile [of ?d s] by metis
  next
    assume r: "s = a @ b \<and> a \<noteq> [] \<and> b \<noteq> [] \<and> list_all ?d a \<and> digit_val (hd b) = None"
    then have "takeWhile ?d b = []" "dropWhile ?d b = b" by (cases b; simp)+
    with r show "takeWhile ?d s = a \<and> dropWhile ?d s = b \<and> a \<noteq> [] \<and> b \<noteq> []"
      by (auto simp: list_all_iff)
  qed
  have len: "length (takeWhile ?d s) = length s \<longleftrightarrow> dropWhile ?d s = []" for s
    by (metis append.right_neutral append_eq_append_conv takeWhile_dropWhile_id)
  have parse: "parseFundsRLP fl = Inr [c] \<longleftrightarrow> takeWhile ?d (flagFunds fl) = rlp_Amount c
      \<and> dropWhile ?d (flagFunds fl) = rlp_Denom c \<and> rlp_Amount c \<noteq> [] \<and> rlp_Denom c \<noteq> []"
    by (cases c)
       (auto simp: parseFundsRLP_def Let_def len takeWhile_eq_take [symmetric] dropWhile_eq_drop [symmetric]
         simp del: dropWhile_eq_Nil_conv not_None_eq)
  have digits: "scan_digits acc s \<noteq> None" if "list_all ?d s" for acc s
    using that by (induction s arbitrary: acc) (auto split: option.splits)
  have "\<exists>a. NewAmountFromString s = Inr a" if s: "list_all ?d s" "s \<noteq> []" for s
  proof -
    have "hd s \<noteq> CHR ''-''" "hd s \<noteq> CHR ''+''" using s by (cases s; auto simp: digit_val_def)+
    moreover obtain n where "parse_nat s = Some n" using digits [OF s(1), of 0] s(2) by (auto simp: parse_nat_def)
    ultimately show ?thesis using s(2) by (cases s) (auto simp: NewAmountFromString_Inr big_SetString_def)
  qed
  then show ?thesis unfolding parse split by (auto simp: parseFundsRLP_def Let_def)
qed

theorem funds_flag_spec_witness:
  "\<exists>a. parseFundsRLP (default_flags\<lparr>flagFunds := ''100YELLOW''\<rparr>) = Inr [\<lparr>rlp_Denom = ''YELLOW'', rlp_Amount = ''100''\<rparr>]
     \<and> NewAmountFromString ''100'' = Inr a"
proof -
  have "parseFundsRLP (default_flags\<lparr>flagFunds := ''100YELLOW''\<rparr>) = Inr [\<lparr>rlp_Denom = ''YELLOW'', rlp_Amount = ''100''\<rparr>]"
    by code_simp
  with funds_flag_spec [of "default_flags\<lparr>flagFunds := ''100YELLOW''\<rparr>" "\<lparr>rlp_Denom = ''YELLOW'', rlp_Amount = ''100''\<rparr>"]
  show ?thesis by auto
qed

subsection \<open>The key file\<close>

lemma TrimSpace_hex:
  assumes "bs \<noteq> []"
  shows "TrimSpace (hex_EncodeToString bs @ [CHR 0x0A]) = hex_EncodeToString bs"
proof -
  have "list_all (\<lambda>n. \<not> is_space (hex_digit n)) [0..<16]" by code_simp
  then have "\<not> is_space (hex_digit n)" if "n < 16" for n using that by (simp add: list_all_iff)
  then have sp: "\<not> is_space c" if "c \<in> set (hex_EncodeToString bs)" for c
  proof -
    have "unat a div 16 < 16" for a :: byte using unsigned_less [of a] by (simp add: div_less_iff_less_mult)
    with that \<open>\<And>n. n < 16 \<Longrightarrow> \<not> is_space (hex_digit n)\<close> show ?thesis by (induction bs) auto
  qed
  let ?h = "hex_EncodeToString bs"
  have "?h \<noteq> []" using assms by (cases bs) (auto simp: Let_def)
  then have hl: "\<not> is_space (hd ?h)" "\<not> is_space (last ?h)" using sp by auto
  then have "dropWhile is_space (?h @ [CHR 0x0A]) = ?h @ [CHR 0x0A]" "dropWhile is_space (rev ?h) = rev ?h"
    using \<open>?h \<noteq> []\<close> dropWhile_eq_self_iff [of is_space "?h @ [CHR 0x0A]"] dropWhile_eq_self_iff [of is_space "rev ?h"]
    by (simp_all add: hd_rev)
  then show ?thesis by (simp add: TrimSpace_def is_space_def)
qed

text \<open>
  C35. A key that \<^verbatim>\<open>keygen\<close> has saved is the key the other commands load: on a file system that returns what
  was written, \<^verbatim>\<open>address\<close> after a successful \<^verbatim>\<open>keygen\<close> with the same flags prints the address that
  \<^verbatim>\<open>keygen\<close> printed.
\<close>

theorem keygen_then_address:
  assumes "\<forall>p d w w'. e_WriteFile env p d w = (None, w') \<longrightarrow> e_ReadFile env p w' = Inr d"
    and "length b = 32" "cmdKeygen env fl (Inr b) w = (CliOut out, w')"
  shows "cmdAddress env fl w' = (Println (Hex (DeriveAddress (e_crypto env) b)), w')
    \<and> out = ''Address: '' @ Hex (DeriveAddress (e_crypto env) b) @ [CHR 0x0A] @ ''Key saved to '' @ key_path env fl @ [CHR 0x0A]"
proof -
  from assms(3) obtain w1 where "e_WriteFile env (key_path env fl) (hex_EncodeToString b @ [CHR 0x0A]) w1 = (None, w')"
    and out: "out = ''Address: '' @ Hex (DeriveAddress (e_crypto env) b) @ [CHR 0x0A] @ ''Key saved to '' @ key_path env fl @ [CHR 0x0A]"
    by (auto simp: cmdKeygen_def Let_def split: prod.splits option.splits)
  then have "e_ReadFile env (key_path env fl) w' = Inr (hex_EncodeToString b @ [CHR 0x0A])" using assms(1) by blast
  moreover have "b \<noteq> []" using assms(2) by auto
  ultimately show ?thesis
    using out assms(2)
    by (simp add: cmdAddress_def mustLoadKey_def loadPrivateKey_def TrimSpace_hex TrimHexPrefix_digits)
qed

theorem keygen_then_address_witness:
  "\<exists>out w'. cmdKeygen toy_env default_flags (Inr (replicate 32 5)) Map.empty = (CliOut out, w')
     \<and> cmdAddress toy_env default_flags w' = (Println (Hex (DeriveAddress toy_crypto (replicate 32 5))), w')"
proof -
  obtain out w' where k: "cmdKeygen toy_env default_flags (Inr (replicate 32 5)) Map.empty = (CliOut out, w')"
    by (auto simp: cmdKeygen_def toy_env_def Let_def)
  have "\<forall>p d w w'. e_WriteFile toy_env p d w = (None, w') \<longrightarrow> e_ReadFile toy_env p w' = Inr d"
    by (auto simp: toy_env_def)
  with keygen_then_address [OF this _ k] k show ?thesis by (auto simp: toy_env_def)
qed

end
