(* ===== verification/Spec2Isabelle.thy ===== *)
theory Spec2Isabelle
  imports Runtime_Theorems Runtime_Queries Runtime_Termination Runtime_Codes Runtime_Rollback
    Node_Restart Node_Events Node_Faults Storage_Equiv Nitrolite Nitroctl_Theorems
begin

text \<open>
  A verification development of NitroVM, a node that runs CosmWasm contracts without a blockchain.

  \<^bold>\<open>The program.\<close> \<^verbatim>\<open>core/\<close> has the data: addresses, amounts, accounts, errors, results. \<^verbatim>\<open>storage/\<close> is the
  key-value store of the contracts, an interface with an in-memory and an SQLite backend. \<^verbatim>\<open>runtime/\<close> is
  the virtual machine \<^verbatim>\<open>NitroVM\<close>: it keeps accounts, registries of codes and contracts and a storage
  adapter, runs entry points of contracts through the wasm engine, serves their host calls, and dispatches
  the messages they return, with replies and rollback. \<^verbatim>\<open>crypto/\<close> has the signed transaction envelope.
  \<^verbatim>\<open>node/\<close> is the server: it authenticates a request, runs it on the VM between a snapshot and a database
  transaction, charges gas and writes the tables from which it restores the VM when it starts.
  \<^verbatim>\<open>cmd/nitrolite\<close> starts a server, \<^verbatim>\<open>cmd/nitroctl\<close> is the client that signs and sends requests.

  \<^bold>\<open>The model, theory by theory.\<close>
  \<^item> \<open>Nitro_Prelude\<close>: machine types, Go maps as association lists, shared lemmas. \<open>Go_Std\<close> and
    \<open>Go_Sha256\<close>: the parts of Go's library that the sources compute with, executable.
  \<^item> \<open>Core_Errors\<close>, \<open>Core_Address\<close>, \<open>Core_Amount\<close>, \<open>Core_Types\<close>: \<^verbatim>\<open>core/*.go\<close>. Addresses and amounts are
    shown to round-trip through their text; the parsers' accepted inputs are characterised.
  \<^item> \<open>Storage_Iface\<close>: \<^verbatim>\<open>storage/storage.go\<close>. The interfaces are the locales \<open>storage_adapter\<close> (laws
    over the abstract content of a store) and \<open>snapshotable\<close>. \<open>Storage_Memory\<close> and \<open>Storage_Sqlite\<close> model
    and interpret the two backends, \<open>Storage_Equiv\<close> shows them equal to a client, failures of the
    database and empty values apart.
  \<^item> \<open>Runtime_Gas\<close>: \<^verbatim>\<open>runtime/gas.go\<close> on 64-bit words. \<open>Runtime_State\<close>: the fields of \<^verbatim>\<open>NitroVM\<close> as the
    record \<open>nitrovm\<close> and the operations that run no contract. \<open>Runtime_Host\<close>: \<^verbatim>\<open>runtime/host.go\<close> and
    \<^verbatim>\<open>Query\<close>. \<open>Runtime_VM\<close>: \<^verbatim>\<open>StoreCode\<close>, \<^verbatim>\<open>Instantiate\<close>, \<^verbatim>\<open>Execute\<close> and the dispatcher.
  \<^item> \<open>Runtime_Ledger\<close>: what the state operations do to balances, nonces and the total supply.
    \<open>Runtime_Steps\<close>: the locale \<open>vm_step_relation\<close>, which says that whatever contracts do the state
    changes by four kinds of primitive step; \<open>Runtime_Invariant\<close> interprets it on well-formedness, the
    ledger, the configuration and the touched set. \<open>Runtime_Theorems\<close>, \<open>Runtime_Queries\<close>,
    \<open>Runtime_Termination\<close>, \<open>Runtime_Codes\<close>, \<open>Runtime_Rollback\<close> state the results for the public calls:
    invariants, conservation of the supply, replay protection, isolation of contracts, read-only queries,
    termination, the gas bound, the code registry, rollback. \<open>Runtime_Demo\<close> is a concrete engine and
    VM on which their hypotheses hold.
  \<^item> \<open>Crypto\<close>: \<^verbatim>\<open>crypto/crypto.go\<close>; signing and recovery, the wire format, refusal of malleable signatures.
  \<^item> \<open>Node_Persist\<close>: \<^verbatim>\<open>node/persist.go\<close> over a model of the tables. \<open>Node_Handlers\<close>: \<^verbatim>\<open>node/server.go\<close> and
    \<^verbatim>\<open>node/handler.go\<close>, all handlers and the routing; \<open>serve\<close> is one request. \<open>Node_Steps\<close> is the
    locale \<open>db_write_relation\<close> for the persistence steps, \<open>Node_Outcome\<close> interprets it and gives
    the three signed handlers one shape. \<open>Node_Theorems\<close>: atomicity of failed requests, what an accepted one
    has done. \<open>Node_Invariant\<close>: the server as a state machine and the invariant of its reachable states.
    \<open>Node_Restart\<close>: what a restart recovers and what it does not. \<open>Node_Events\<close>: paging of events.
    \<open>Node_Faults\<close>: storage errors and interleavings the code does not handle.
  \<^item> \<open>Nitrolite\<close>: \<^verbatim>\<open>cmd/nitrolite\<close>, and safety over the whole run of a node. \<open>Nitroctl\<close> and
    \<open>Nitroctl_Theorems\<close>: \<^verbatim>\<open>cmd/nitroctl\<close>, and the client together with the node.

  \<^bold>\<open>Parameters.\<close> Code outside the repository is an argument: the wasm engine is the record \<open>engine\<close>, whose
  entry points are finite trees of host calls; RLP, Keccak and ECDSA are the record \<open>crypto_ext\<close>;
  files, network and JSON parser of the client are \<open>cli_env\<close>. What the database may do besides its
  normal work is a script of outcomes (\<open>sq_faults\<close>, \<open>srv_faults\<close>), and theorems quantify over it. Readings
  of the clock are arguments. Conditions on parameters are hypotheses of the theorems that need them,
  with a witness on a concrete instance.

  \<^bold>\<open>Bounds and fuel.\<close> The dispatcher recurses up to \<open>maxDispatchDepth\<close>, the limit of the source, and
  terminates by it. The only fuel is \<open>qf\<close>, the depth of contracts querying contracts, which the code bounds by gas
  alone; \<open>None\<close> is running out of it. \<open>Runtime_Termination\<close> shows that fuel equal to the gas limit is enough when every
  query costs gas, and that more changes nothing. Gas, nonces and sequence numbers are 64-bit words.

  \<^bold>\<open>Not modelled.\<close> HTTP transport and the text of JSON documents on the server (requests are modelled from their decoded
  fields, responses up to them); \<^verbatim>\<open>Start\<close>, \<^verbatim>\<open>Close\<close>, signals and logging; the usage text and the default path of
  the client's key file: all are input and output. Locks: an operation that holds its lock for
  its body is one step, and requests are taken one at a time. \<^verbatim>\<open>interfaces.go\<close> declares an
  interface with one implementation and no behaviour.
\<close>

end
